(* ===== verification/Prelude.thy ===== *)
theory Prelude
  imports Main "HOL-Library.AList"
begin

text \<open>
  What every component of the model shares: JavaScript strings as lists of UTF-16 code
  units, the character classes the client's regular expressions name, insertion-ordered
  JavaScript sets and maps, the stable \<open>Array.prototype.sort\<close>, and the interface
  (a locale) of a comparison function.

  Free text that the code scans is a \<open>jstr\<close>, a list of code units; identifiers, tokens
  and URLs, which the code only compares and concatenates, are \<open>string\<close>s.
\<close>

named_theorems js_simps \<open>rewrite rules for the JavaScript string operations\<close>
named_theorems jset_simps \<open>rewrite rules for JavaScript sets and maps\<close>

section \<open>Strings\<close>

type_synonym uuid = string
type_synonym timestamp = string
type_synonym jstr = "nat list"

text \<open>A literal of the source as code units.\<close>

definition js :: "string \<Rightarrow> jstr" where
  "js s = map of_char s"

lemma js_Nil [simp]: "js [] = []"
  by (simp add: js_def)

lemma js_Cons [js_simps]: "js (c # s) = of_char c # js s"
  by (simp add: js_def)

lemma js_append: "js (s @ t) = js s @ js t"
  by (simp add: js_def)

lemma length_js [simp]: "length (js s) = length s"
  by (simp add: js_def)

text \<open>\<open>text[i]\<close>: the code unit, or \<open>undefined\<close> out of range.\<close>

definition js_at :: "'a list \<Rightarrow> nat \<Rightarrow> 'a option" where
  "js_at s i = (if i < length s then Some (s ! i) else None)"

text \<open>\<open>text.slice(from, to)\<close> and \<open>text.slice(from)\<close> for indices that are not negative.\<close>

definition js_slice :: "'a list \<Rightarrow> nat \<Rightarrow> nat \<Rightarrow> 'a list" where
  "js_slice s from to = take (to - from) (drop from s)"

definition js_slice_from :: "'a list \<Rightarrow> nat \<Rightarrow> 'a list" where
  "js_slice_from s from = drop from s"

definition starts_with :: "'a list \<Rightarrow> 'a list \<Rightarrow> bool" where
  "starts_with s p \<longleftrightarrow> take (length p) s = p"

definition ends_with :: "'a list \<Rightarrow> 'a list \<Rightarrow> bool" where
  "ends_with s p \<longleftrightarrow> starts_with (rev s) (rev p)"

fun js_includes :: "'a list \<Rightarrow> 'a list \<Rightarrow> bool" where
  "js_includes [] p = (p = [])"
| "js_includes (c # s) p = (starts_with (c # s) p \<or> js_includes s p)"

lemma js_at_Cons_0 [simp]: "js_at (x # xs) 0 = Some x"
  by (simp add: js_at_def)

lemma js_at_Cons_Suc [simp]: "js_at (x # xs) (Suc i) = js_at xs i"
  by (simp add: js_at_def)

lemma js_at_Nil [simp]: "js_at [] i = None"
  by (simp add: js_at_def)

lemma js_at_append_length [simp]: "js_at (xs @ ys) (length xs) = js_at ys 0"
  by (simp add: js_at_def nth_append)

lemma js_at_length_append [simp]: "js_at (xs @ ys) (length xs + i) = js_at ys i"
  by (simp add: js_at_def nth_append)

lemma starts_with_iff: "starts_with s p \<longleftrightarrow> (\<exists>t. s = p @ t)"
  unfolding starts_with_def by (metis append_eq_conv_conj append_take_drop_id)

lemma ends_with_iff: "ends_with s p \<longleftrightarrow> (\<exists>t. s = t @ p)"
proof -
  have "ends_with s p \<longleftrightarrow> (\<exists>t. rev s = rev p @ t)"
    by (simp add: ends_with_def starts_with_iff)
  also have "\<dots> \<longleftrightarrow> (\<exists>t. s = rev t @ p)"
    by (metis rev_append rev_rev_ident)
  also have "\<dots> \<longleftrightarrow> (\<exists>t. s = t @ p)"
    by (metis rev_rev_ident)
  finally show ?thesis .
qed

lemma starts_with_Nil [simp]: "starts_with s []"
  by (simp add: starts_with_def)

lemma includes_iff: "js_includes s p \<longleftrightarrow> (\<exists>a b. s = a @ p @ b)"
proof (induction s)
  case Nil
  then show ?case by auto
next
  case (Cons c s)
  show ?case
  proof
    assume "js_includes (c # s) p"
    then consider "starts_with (c # s) p" | "js_includes s p" by auto
    then show "\<exists>a b. c # s = a @ p @ b"
    proof cases
      case 1
      then show ?thesis unfolding starts_with_iff by (metis append_Nil)
    next
      case 2
      with Cons.IH show ?thesis by (metis append_Cons)
    qed
  next
    assume "\<exists>a b. c # s = a @ p @ b"
    then obtain a b where ab: "c # s = a @ p @ b" by blast
    show "js_includes (c # s) p"
    proof (cases a)
      case Nil
      with ab have "starts_with (c # s) p" by (simp add: starts_with_iff)
      then show ?thesis by simp
    next
      case (Cons x a')
      with ab have "s = a' @ p @ b" by simp
      with Cons.IH show ?thesis by auto
    qed
  qed
qed

section \<open>Character classes\<close>

definition is_digit :: "nat \<Rightarrow> bool" where
  "is_digit c \<longleftrightarrow> 48 \<le> c \<and> c \<le> 57"

definition is_upper :: "nat \<Rightarrow> bool" where
  "is_upper c \<longleftrightarrow> 65 \<le> c \<and> c \<le> 90"

definition is_lower :: "nat \<Rightarrow> bool" where
  "is_lower c \<longleftrightarrow> 97 \<le> c \<and> c \<le> 122"

text \<open>The regular-expression class \<open>\w\<close>, without the \<open>u\<close> flag: \<open>[A-Za-z0-9_]\<close>.\<close>

definition is_word :: "nat \<Rightarrow> bool" where
  "is_word c \<longleftrightarrow> is_digit c \<or> is_upper c \<or> is_lower c \<or> c = 95"

text \<open>The class \<open>\s\<close>, which is also what \<open>trim\<close> removes: white space and line ends.\<close>

definition is_space :: "nat \<Rightarrow> bool" where
  "is_space c \<longleftrightarrow> (9 \<le> c \<and> c \<le> 13) \<or> c = 32 \<or> c = 160 \<or> c = 5760 \<or> (8192 \<le> c \<and> c \<le> 8202)
     \<or> c = 8232 \<or> c = 8233 \<or> c = 8239 \<or> c = 8287 \<or> c = 12288 \<or> c = 65279"

text \<open>
  Lower case of a code unit in the ASCII range. For the strings this is used on, a
  \<open>toLowerCase\<close> is decided by its ASCII letters alone: no code unit outside ASCII lowers
  to one of the letters of \<open>https\<close>, and the other uses are on ASCII runs.
\<close>

definition lower_unit :: "nat \<Rightarrow> nat" where
  "lower_unit c = (if is_upper c then c + 32 else c)"

definition ascii_lower :: "jstr \<Rightarrow> jstr" where
  "ascii_lower s = map lower_unit s"

definition js_trim :: "jstr \<Rightarrow> jstr" where
  "js_trim s = rev (dropWhile is_space (rev (dropWhile is_space s)))"

lemmas char_class_defs = is_digit_def is_upper_def is_lower_def is_word_def

lemma lower_unit_idem [simp]: "lower_unit (lower_unit c) = lower_unit c"
  by (auto simp: lower_unit_def is_upper_def)

lemma ascii_lower_idem [simp]: "ascii_lower (ascii_lower s) = ascii_lower s"
  by (simp add: ascii_lower_def)

lemma length_ascii_lower [simp]: "length (ascii_lower s) = length s"
  by (simp add: ascii_lower_def)

lemma is_word_lower_unit [simp]: "is_word (lower_unit c) = is_word c"
  by (auto simp: lower_unit_def char_class_defs)

lemma not_space_word: "is_word c \<Longrightarrow> \<not> is_space c"
  by (auto simp: char_class_defs is_space_def)

text \<open>\<open>s.split(/\s+/)\<close>: the pieces between runs of white space, empty ones at the ends included.\<close>

function split_spaces :: "jstr \<Rightarrow> jstr list" where
  "split_spaces s =
     (let w = takeWhile (\<lambda>c. \<not> is_space c) s; r = dropWhile (\<lambda>c. \<not> is_space c) s
      in if r = [] then [w] else w # split_spaces (dropWhile is_space r))"
  by pat_completeness auto
termination
proof (relation "measure length")
  fix s w r :: jstr
  assume r: "r = dropWhile (\<lambda>c. \<not> is_space c) s" and "r \<noteq> []"
  then obtain c t where ct: "r = c # t" and "is_space c"
    by (metis hd_Cons_tl hd_dropWhile)
  have "length r \<le> length s"
    using r by (simp add: length_dropWhile_le)
  moreover have "length (dropWhile is_space r) \<le> length t"
    using ct \<open>is_space c\<close> by (simp add: length_dropWhile_le)
  ultimately show "(dropWhile is_space r, s) \<in> measure length"
    using ct by simp
qed simp

declare split_spaces.simps [simp del]

section \<open>Template literals\<close>

text \<open>\<open>\${n}\<close> of a number that is a natural number.\<close>

fun decimal :: "nat \<Rightarrow> jstr" where
  "decimal n = (if n < 10 then [48 + n] else decimal (n div 10) @ [48 + n mod 10])"

declare decimal.simps [simp del]

section \<open>Sets and maps that remember insertion order\<close>

definition jset_add :: "'a \<Rightarrow> 'a list \<Rightarrow> 'a list" where
  "jset_add x xs = (if x \<in> set xs then xs else xs @ [x])"

definition jset_delete :: "'a \<Rightarrow> 'a list \<Rightarrow> 'a list" where
  "jset_delete x xs = removeAll x xs"

definition jset_of :: "'a list \<Rightarrow> 'a list" where
  "jset_of xs = fold jset_add xs []"

lemma set_jset_add [jset_simps, simp]: "set (jset_add x xs) = insert x (set xs)"
  by (auto simp: jset_add_def)

lemma distinct_jset_add [jset_simps, simp]: "distinct (jset_add x xs) = distinct xs"
  by (simp add: jset_add_def)

lemma set_jset_delete [jset_simps, simp]: "set (jset_delete x xs) = set xs - {x}"
  by (auto simp: jset_delete_def)

lemma distinct_jset_delete [simp]: "distinct xs \<Longrightarrow> distinct (jset_delete x xs)"
  by (simp add: jset_delete_def distinct_removeAll)

lemma set_fold_jset_add: "set (fold jset_add xs ys) = set ys \<union> set xs"
  by (induction xs arbitrary: ys) auto

lemma distinct_fold_jset_add: "distinct (fold jset_add xs ys) = distinct ys"
  by (induction xs arbitrary: ys) auto

lemma set_jset_of [simp]: "set (jset_of xs) = set xs"
  by (simp add: jset_of_def set_fold_jset_add)

lemma distinct_jset_of [simp]: "distinct (jset_of xs)"
  by (simp add: jset_of_def distinct_fold_jset_add)

text \<open>
  A JavaScript \<open>Map\<close> is an association list: \<open>set\<close> rewrites an entry where it stands or
  appends a new one (\<open>AList.update\<close>), \<open>get\<close> is \<open>map_of\<close>. \<open>jmap_of\<close> is \<open>new Map(entries)\<close>.
\<close>

definition jmap_of :: "('k \<times> 'v) list \<Rightarrow> ('k \<times> 'v) list" where
  "jmap_of kvs = fold (\<lambda>(k, v) m. AList.update k v m) kvs []"

lemma dom_map_of_update: "fst ` set (AList.update k v m) = insert k (fst ` set m)"
  by (simp add: dom_update)

text \<open>A list updated by index, whatever the index.\<close>

lemma nth_update: "xs[i := y] ! j = (if i = j \<and> i < length xs then y else xs ! j)"
  by (cases "i < length xs") (auto simp: nth_list_update not_less list_update_beyond)

lemma distinct_jmap_of: "distinct (map fst (jmap_of kvs))"
proof -
  have "distinct (map fst m) \<Longrightarrow> distinct (map fst (fold (\<lambda>(k, v) m. AList.update k v m) kvs m))" for m
    by (induction kvs arbitrary: m) (auto simp: distinct_update)
  then show ?thesis by (simp add: jmap_of_def)
qed

end
