(* ===== verification/Ordering.thy ===== *)
theory Ordering
  imports Prelude "HOL-Library.Multiset"
begin

text \<open>
  \<open>Array.prototype.sort\<close> with a comparison callback. The callback's interface is the
  locale \<open>comparator\<close>: what a comparison has to promise for \<open>sort\<close> to order anything.
  The client builds its comparisons from \<open>localeCompare\<close>, which is data of the host
  (a collation table) and so an argument of the definitions that use it; comparisons are
  chained with "the first one that is not zero".
\<close>

section \<open>Sorting with a comparison callback\<close>

fun insort_cmp :: "('a \<Rightarrow> 'a \<Rightarrow> int) \<Rightarrow> 'a \<Rightarrow> 'a list \<Rightarrow> 'a list" where
  "insort_cmp cmp x [] = [x]"
| "insort_cmp cmp x (y # ys) = (if cmp x y \<le> 0 then x # y # ys else y # insort_cmp cmp x ys)"

text \<open>The sort of the language is stable, so its result is determined by the comparison.\<close>

definition js_sort :: "('a \<Rightarrow> 'a \<Rightarrow> int) \<Rightarrow> 'a list \<Rightarrow> 'a list" where
  "js_sort cmp xs = foldr (insort_cmp cmp) xs []"

definition cmp_then :: "int \<Rightarrow> int \<Rightarrow> int" where
  "cmp_then a b = (if a \<noteq> 0 then a else b)"

lemma js_sort_Nil [simp]: "js_sort cmp [] = []"
  by (simp add: js_sort_def)

lemma js_sort_Cons [simp]: "js_sort cmp (x # xs) = insort_cmp cmp x (js_sort cmp xs)"
  by (simp add: js_sort_def)

lemma mset_insort_cmp: "mset (insort_cmp cmp x xs) = add_mset x (mset xs)"
  by (induction xs) auto

lemma mset_js_sort [simp]: "mset (js_sort cmp xs) = mset xs"
  by (induction xs) (auto simp: mset_insort_cmp)

lemma set_js_sort [simp]: "set (js_sort cmp xs) = set xs"
  by (metis mset_js_sort set_mset_mset)

lemma length_js_sort [simp]: "length (js_sort cmp xs) = length xs"
  by (metis mset_js_sort size_mset)

lemma distinct_map_js_sort: "distinct (map f (js_sort cmp xs)) = distinct (map f xs)"
  by (metis mset_js_sort mset_map mset_eq_imp_distinct_iff)

lemma set_insort_cmp: "set (insort_cmp cmp x xs) = insert x (set xs)"
  by (induction xs) auto

lemma insort_cmp_below: "\<forall>y \<in> set xs. cmp x y \<le> 0 \<Longrightarrow> insort_cmp cmp x xs = x # xs"
  by (cases xs) auto

section \<open>The interface of a comparison\<close>

locale comparator =
  fixes cmp :: "'a \<Rightarrow> 'a \<Rightarrow> int"
  assumes swap: "sgn (cmp b a) = - sgn (cmp a b)"
    and le_trans: "cmp a b \<le> 0 \<Longrightarrow> cmp b c \<le> 0 \<Longrightarrow> cmp a c \<le> 0"
begin

lemma cmp_refl [simp]: "cmp a a = 0"
  using swap [of a a] by (simp add: sgn_if split: if_splits)

lemma total: "\<not> cmp a b \<le> 0 \<Longrightarrow> cmp b a \<le> 0"
  using swap [of a b] by (auto simp: sgn_if split: if_splits)

lemma eq_swap: "cmp a b = 0 \<longleftrightarrow> cmp b a = 0"
  using swap [of a b] by (auto simp: sgn_if split: if_splits)

lemma eq_iff: "cmp a b = 0 \<longleftrightarrow> cmp a b \<le> 0 \<and> cmp b a \<le> 0"
  using swap [of a b] by (auto simp: sgn_if split: if_splits)

lemma sorted_insort:
  "sorted_wrt (\<lambda>a b. cmp a b \<le> 0) xs \<Longrightarrow> sorted_wrt (\<lambda>a b. cmp a b \<le> 0) (insort_cmp cmp x xs)"
  by (induction xs) (auto simp: set_insort_cmp dest: total intro: le_trans)

lemma sorted_sort: "sorted_wrt (\<lambda>a b. cmp a b \<le> 0) (js_sort cmp xs)"
  by (induction xs) (auto intro: sorted_insort)

lemma sort_sorted:
  "sorted_wrt (\<lambda>a b. cmp a b \<le> 0) xs \<Longrightarrow> js_sort cmp xs = xs"
  by (induction xs) (auto simp: insort_cmp_below)

lemma filter_insort:
  "sorted_wrt (\<lambda>a b. cmp a b \<le> 0) xs \<Longrightarrow>
     filter (\<lambda>y. cmp z y = 0) (insort_cmp cmp x xs) =
       (if cmp z x = 0 then x # filter (\<lambda>y. cmp z y = 0) xs else filter (\<lambda>y. cmp z y = 0) xs)"
proof (induction xs)
  case Nil
  then show ?case by simp
next
  case (Cons y ys)
  show ?case
  proof (cases "cmp x y \<le> 0")
    case True
    then show ?thesis by simp
  next
    case False
    have "\<not> (cmp z x = 0 \<and> cmp z y = 0)"
      using False le_trans [of x z y] eq_swap [of z x] by auto
    with Cons False show ?thesis by auto
  qed
qed

lemma sort_stable:
  "filter (\<lambda>y. cmp z y = 0) (js_sort cmp xs) = filter (\<lambda>y. cmp z y = 0) xs"
  by (induction xs) (auto simp: filter_insort sorted_sort)

text \<open>Where the comparison separates the elements, the order is determined by the set.\<close>

lemma sorted_unique:
  assumes "mset xs = mset ys"
    and "sorted_wrt (\<lambda>a b. cmp a b \<le> 0) xs" and "sorted_wrt (\<lambda>a b. cmp a b \<le> 0) ys"
    and "\<And>a b. a \<in> set xs \<Longrightarrow> b \<in> set xs \<Longrightarrow> cmp a b = 0 \<Longrightarrow> a = b"
  shows "xs = ys"
  using assms
proof (induction xs arbitrary: ys)
  case Nil
  then show ?case by simp
next
  case (Cons x xs)
  then obtain y ys' where ys: "ys = y # ys'"
    by (cases ys) auto
  have sets: "set (x # xs) = set (y # ys')"
    using Cons.prems(1) ys by (metis mset_eq_setD)
  have "cmp x y \<le> 0"
  proof (cases "y = x")
    case False
    with sets have "y \<in> set xs" by auto
    with Cons.prems(2) show ?thesis by simp
  qed simp
  moreover have "cmp y x \<le> 0"
  proof (cases "y = x")
    case False
    with sets have "x \<in> set ys'" by auto
    with Cons.prems(3) ys show ?thesis by simp
  qed simp
  moreover have "y \<in> set (x # xs)"
    using sets by simp
  ultimately have "x = y"
    using Cons.prems(4) [of x y] eq_iff by simp
  have "xs = ys'"
  proof (rule Cons.IH)
    show "mset xs = mset ys'" using Cons.prems(1) ys \<open>x = y\<close> by simp
    show "sorted_wrt (\<lambda>a b. cmp a b \<le> 0) xs" using Cons.prems(2) by simp
    show "sorted_wrt (\<lambda>a b. cmp a b \<le> 0) ys'" using Cons.prems(3) ys by simp
    show "a = b" if "a \<in> set xs" "b \<in> set xs" "cmp a b = 0" for a b
      using Cons.prems(4) [of a b] that by simp
  qed
  then show ?case unfolding ys \<open>x = y\<close> by (rule arg_cong)
qed

end

lemma comparator_key:
  assumes "comparator cmp"
  shows "comparator (\<lambda>a b. cmp (k a) (k b))"
  by (unfold_locales; metis assms comparator.swap comparator.le_trans)

lemma comparator_then:
  assumes f: "comparator f" and g: "comparator g"
  shows "comparator (\<lambda>a b. cmp_then (f a b) (g a b))"
proof
  show "sgn (cmp_then (f b a) (g b a)) = - sgn (cmp_then (f a b) (g a b))" for a b
    using comparator.swap [OF f, of b a] comparator.swap [OF g, of b a]
    by (auto simp: cmp_then_def sgn_if split: if_splits)
next
  fix a b c
  assume ab: "cmp_then (f a b) (g a b) \<le> 0" and bc: "cmp_then (f b c) (g b c) \<le> 0"
  have fab: "f a b \<le> 0" and fbc: "f b c \<le> 0"
    using ab bc by (auto simp: cmp_then_def split: if_splits)
  then have fac: "f a c \<le> 0" by (rule comparator.le_trans [OF f])
  show "cmp_then (f a c) (g a c) \<le> 0"
  proof (cases "f a c = 0")
    case False
    with fac show ?thesis by (simp add: cmp_then_def)
  next
    case True
    then have ca: "f c a \<le> 0" by (simp add: comparator.eq_swap [OF f, of a c])
    have "f a b = 0" and "f b c = 0"
      using fab fbc ca comparator.le_trans [OF f] comparator.eq_iff [OF f] by blast+
    with ab bc True comparator.le_trans [OF g] show ?thesis
      by (auto simp: cmp_then_def)
  qed
qed

text \<open>The difference of two numbers, as in \<open>a.score - b.score\<close>.\<close>

interpretation difference: comparator "\<lambda>a b :: int. a - b"
  by unfold_locales (auto simp: sgn_if)

section \<open>Comparison by code units\<close>

text \<open>
  The order of the "C" collation, which is also \<open>Array.prototype.sort\<close> without a callback.
  It is the concrete collation the examples use; on the timestamps and identifiers the
  server sends (digits, lower-case letters and a few marks at fixed places) every
  collation agrees with it.
\<close>

fun unit_compare :: "nat list \<Rightarrow> nat list \<Rightarrow> int" where
  "unit_compare [] [] = 0"
| "unit_compare [] (_ # _) = -1"
| "unit_compare (_ # _) [] = 1"
| "unit_compare (a # s) (b # t) = (if a < b then -1 else if b < a then 1 else unit_compare s t)"

lemma unit_compare_swap: "unit_compare t s = - unit_compare s t"
  by (induction s t rule: unit_compare.induct) auto

lemma unit_compare_trans:
  "unit_compare a b \<le> 0 \<Longrightarrow> unit_compare b c \<le> 0 \<Longrightarrow> unit_compare a c \<le> 0"
proof (induction a arbitrary: b c)
  case Nil
  then show ?case by (cases c) auto
next
  case (Cons x s)
  then show ?case by (cases b; cases c) (auto split: if_splits)
qed

lemma unit_compare_eq_0: "unit_compare s t = 0 \<longleftrightarrow> s = t"
  by (induction s t rule: unit_compare.induct) auto

definition str_compare :: "string \<Rightarrow> string \<Rightarrow> int" where
  "str_compare s t = unit_compare (js s) (js t)"

interpretation units: comparator unit_compare
proof
  show "sgn (unit_compare b a) = - sgn (unit_compare a b)" for a b
    by (simp add: unit_compare_swap [of b a] sgn_minus)
qed (rule unit_compare_trans)

interpretation strs: comparator str_compare
  unfolding str_compare_def by (rule comparator_key) (rule units.comparator_axioms)

lemma str_compare_eq_0: "str_compare s t = 0 \<longleftrightarrow> s = t"
proof -
  have "inj (of_char :: char \<Rightarrow> nat)" by (rule inj_of_char)
  then show ?thesis
    by (auto simp: str_compare_def unit_compare_eq_0 js_def inj_map_eq_map)
qed

end
