(* ===== verification/Mentions.thy ===== *)
theory Mentions
  imports Ordering
begin

text \<open>
  The \<open>@mention\<close> grammar of \<open>packages/shared/src/chat/mentions.ts\<close>: the parser the
  composer counts with, the query under the caret, completion of that query, and the
  ranking of the people it offers. Beside it, the server's parser
  (\<open>crates/domain/src/mention.rs\<close>), which decides who is notified and which the client's
  readings must agree with.
\<close>

section \<open>The client's parser\<close>

text \<open>\<open>HANDLE_CHAR\<close>: \<open>[a-z0-9_.]\<close>, ignoring case.\<close>

definition handle_char :: "nat \<Rightarrow> bool" where
  "handle_char c \<longleftrightarrow> is_word c \<or> c = 46"

text \<open>
  \<open>[a-z0-9_.]*[a-z0-9_]\<close> on a run of handle characters: the star takes the whole run and
  gives back characters until the last one is not a dot.
\<close>

definition strip_dots :: "jstr \<Rightarrow> jstr" where
  "strip_dots run = rev (dropWhile (\<lambda>c. c = 46) (rev run))"

text \<open>\<open>@([a-z0-9_.]*[a-z0-9_])\<close> at the head of the text: the handle and what follows it.\<close>

definition match_at_sign :: "jstr \<Rightarrow> (jstr \<times> jstr) option" where
  "match_at_sign s =
     (case s of
        [] \<Rightarrow> None
      | c # t \<Rightarrow>
          if c = 64
          then (let h = strip_dots (takeWhile handle_char t)
                in if h = [] then None else Some (h, drop (length h) t))
          else None)"

text \<open>
  \<open>MENTION\<close> at one position: \<open>^\<close> first, which holds only at the start of the text, then
  \<open>[^\w.]\<close>, which consumes one character.
\<close>

definition match_mention :: "bool \<Rightarrow> jstr \<Rightarrow> (jstr \<times> jstr) option" where
  "match_mention at_start s =
     (case (if at_start then match_at_sign s else None) of
        Some m \<Rightarrow> Some m
      | None \<Rightarrow>
          (case s of
             [] \<Rightarrow> None
           | c # t \<Rightarrow> if handle_char c then None else match_at_sign t))"

lemma length_strip_dots: "length (strip_dots r) \<le> length r"
  by (metis length_dropWhile_le length_rev strip_dots_def)

lemma match_at_sign_shorter:
  "match_at_sign s = Some (h, rest) \<Longrightarrow> length rest < length s"
  by (auto simp: match_at_sign_def Let_def split: list.splits if_splits)

lemma match_mention_shorter:
  "match_mention st s = Some (h, rest) \<Longrightarrow> length rest < length s"
  by (auto simp: match_mention_def split: list.splits if_splits option.splits
      dest: match_at_sign_shorter)

text \<open>\<open>content.matchAll(MENTION)\<close>, the second group of each match, in order.\<close>

function match_all :: "bool \<Rightarrow> jstr \<Rightarrow> jstr list" where
  "match_all at_start s =
     (case match_mention at_start s of
        Some (h, rest) \<Rightarrow> h # match_all False rest
      | None \<Rightarrow> (case s of [] \<Rightarrow> [] | c # t \<Rightarrow> match_all False t))"
  by pat_completeness auto
termination
  by (relation "measure (\<lambda>(st, s). length s)") (auto dest: match_mention_shorter)

declare match_all.simps [simp del]

definition parseMentions :: "jstr \<Rightarrow> jstr list" where
  "parseMentions content = jset_of (map ascii_lower (match_all True content))"

section \<open>The server's parser\<close>

text \<open>
  \<open>parse_mentions\<close>: every \<open>@\<close> that does not follow a handle character, with the handle
  characters after it less their trailing dots. A byte of a character outside ASCII is
  never a handle character, nor is its code unit, so the model reads code units where
  the server reads bytes.
\<close>

definition server_handle :: "jstr \<Rightarrow> jstr" where
  "server_handle rest = ascii_lower (strip_dots (takeWhile handle_char rest))"

fun server_parse :: "nat option \<Rightarrow> jstr \<Rightarrow> jstr list" where
  "server_parse prev [] = []"
| "server_parse prev (c # t) =
     (if c = 64 \<and> (case prev of None \<Rightarrow> True | Some p \<Rightarrow> \<not> handle_char p)
         \<and> server_handle t \<noteq> []
      then server_handle t # server_parse (Some c) t
      else server_parse (Some c) t)"

section \<open>The query under the caret\<close>

definition MAX_QUERY :: nat where
  "MAX_QUERY = 32"

record mention_query =
  q_start :: nat
  q_end :: nat
  q_text :: jstr

text \<open>
  The loop of \<open>findMentionQuery\<close>, from \<open>index\<close> down. A read out of range is \<open>''\<close>, which is
  no handle character.
\<close>

fun find_from :: "jstr \<Rightarrow> nat \<Rightarrow> nat \<Rightarrow> mention_query option" where
  "find_from text caret 0 = None"
| "find_from text caret (Suc i) =
     (if caret - Suc i > MAX_QUERY then None
      else case js_at text i of
             None \<Rightarrow> None
           | Some c \<Rightarrow>
               if c = 64
               then (if (case (if 1 \<le> i then js_at text (i - 1) else None) of
                           Some prev \<Rightarrow> handle_char prev | None \<Rightarrow> False)
                     then None
                     else Some \<lparr>q_start = i, q_end = caret, q_text = js_slice text (Suc i) caret\<rparr>)
               else if handle_char c then find_from text caret i
               else None)"

definition findMentionQuery :: "jstr \<Rightarrow> nat \<Rightarrow> mention_query option" where
  "findMentionQuery text caret = find_from text caret caret"

text \<open>\<open>applyMention\<close>: the new text and the caret.\<close>

definition applyMention :: "jstr \<Rightarrow> mention_query \<Rightarrow> jstr \<Rightarrow> jstr \<times> nat" where
  "applyMention text query handle =
     (let spaced = (js_at text (q_end query) = Some 32);
          inserted = js ''@'' @ handle @ (if spaced then [] else js '' '')
      in (js_slice text 0 (q_start query) @ inserted @ js_slice_from text (q_end query),
          q_start query + length inserted + (if spaced then 1 else 0)))"

section \<open>Candidates and their ranking\<close>

definition EVERYONE :: jstr where
  "EVERYONE = js ''everyone''"

record mention_candidate =
  cand_key :: string
  cand_handle :: jstr
  cand_name :: jstr
  cand_detail :: "jstr option"
  cand_avatarUrl :: "string option"
  cand_accent :: "string option"
  cand_online :: "bool option"
  cand_everyone :: "bool option"

text \<open>
  \<open>lower\<close> is \<open>String.prototype.toLowerCase\<close> on arbitrary text, a table of the host.
  Lower scores are better; \<open>None\<close> is no match.
\<close>

definition scoreCandidate :: "(jstr \<Rightarrow> jstr) \<Rightarrow> mention_candidate \<Rightarrow> jstr \<Rightarrow> int option" where
  "scoreCandidate lower candidate needle =
     (if needle = [] then (if cand_everyone candidate = Some True then Some 0 else Some 1)
      else let handle = lower (cand_handle candidate); name = lower (cand_name candidate)
           in if starts_with handle needle then Some 0
              else if \<exists>word \<in> set (split_spaces name). starts_with word needle then Some 1
              else if js_includes handle needle then Some 2
              else if js_includes name needle then Some 3
              else None)"

definition presence_number :: "mention_candidate \<Rightarrow> int" where
  "presence_number c = (if cand_online c = Some True then 1 else 0)"

text \<open>The comparison callback of \<open>rankCandidates\<close>, over \<open>{candidate, score}\<close> pairs.\<close>

definition rank_cmp ::
  "(jstr \<Rightarrow> jstr \<Rightarrow> int) \<Rightarrow> mention_candidate \<times> int \<Rightarrow> mention_candidate \<times> int \<Rightarrow> int" where
  "rank_cmp localeCompare a b =
     cmp_then (snd a - snd b)
       (cmp_then (presence_number (fst b) - presence_number (fst a))
          (localeCompare (cand_name (fst a)) (cand_name (fst b))))"

definition scored_candidates ::
  "(jstr \<Rightarrow> jstr) \<Rightarrow> mention_candidate list \<Rightarrow> jstr \<Rightarrow> (mention_candidate \<times> int) list" where
  "scored_candidates lower candidates needle =
     List.map_filter (\<lambda>c. map_option (Pair c) (scoreCandidate lower c needle)) candidates"

definition rankCandidates ::
  "(jstr \<Rightarrow> jstr) \<Rightarrow> (jstr \<Rightarrow> jstr \<Rightarrow> int) \<Rightarrow> mention_candidate list \<Rightarrow> jstr \<Rightarrow> nat
     \<Rightarrow> mention_candidate list" where
  "rankCandidates lower localeCompare candidates query limit =
     map fst (take limit (js_sort (rank_cmp localeCompare)
       (scored_candidates lower candidates (lower query))))"

record mention_member =
  member_userId :: uuid
  member_nickname :: "jstr option"

record public_profile =
  pp_id :: uuid
  pp_handle :: jstr
  pp_display_name :: jstr
  pp_bio :: "jstr option"
  pp_avatar_url :: "string option"
  pp_avatar_effect :: "string option"
  pp_accent_color :: "string option"

definition toCandidate ::
  "mention_member \<Rightarrow> public_profile option \<Rightarrow> bool \<Rightarrow> mention_candidate option" where
  "toCandidate member profile online =
     (case profile of
        None \<Rightarrow> None
      | Some p \<Rightarrow>
          let name = (case member_nickname member of Some n \<Rightarrow> n | None \<Rightarrow> pp_display_name p)
          in Some \<lparr>cand_key = pp_id p, cand_handle = pp_handle p, cand_name = name,
                   cand_detail = (if name = pp_display_name p then None else Some (pp_display_name p)),
                   cand_avatarUrl = pp_avatar_url p, cand_accent = pp_accent_color p,
                   cand_online = Some online, cand_everyone = None\<rparr>)"

definition EVERYONE_CANDIDATE :: mention_candidate where
  "EVERYONE_CANDIDATE =
     \<lparr>cand_key = ''everyone'', cand_handle = EVERYONE, cand_name = js ''everyone'',
      cand_detail = Some (js ''Notify everyone in this room''), cand_avatarUrl = None,
      cand_accent = None, cand_online = None, cand_everyone = Some True\<rparr>"

section \<open>The two parsers read the same handles\<close>

lemma handle_char_not_at [simp]: "handle_char c \<Longrightarrow> c \<noteq> 64"
  by (auto simp: handle_char_def char_class_defs)

lemma handle_char_class [simp]:
  "\<not> handle_char 64" "\<not> handle_char 32" "handle_char 97" "handle_char 46"
  by (simp_all add: handle_char_def char_class_defs)

lemma handle_char_lower [simp]: "handle_char (lower_unit c) = handle_char c"
  by (auto simp: handle_char_def lower_unit_def char_class_defs)

lemma strip_dots_append:
  "\<exists>dots. r = strip_dots r @ dots \<and> set dots \<subseteq> {46}"
proof -
  have "r = rev (dropWhile (\<lambda>c. c = 46) (rev r)) @ rev (takeWhile (\<lambda>c. c = 46) (rev r))"
    by (metis rev_append rev_rev_ident takeWhile_dropWhile_id)
  moreover have "set (rev (takeWhile (\<lambda>c. c = 46) (rev r))) \<subseteq> {46 :: nat}"
    by (auto dest: set_takeWhileD)
  ultimately show ?thesis unfolding strip_dots_def by blast
qed

lemma strip_dots_id: "r = [] \<or> last r \<noteq> 46 \<Longrightarrow> strip_dots r = r"
  by (cases r rule: rev_cases) (auto simp: strip_dots_def)

lemma strip_dots_Nil [simp]: "strip_dots [] = []"
  by (simp add: strip_dots_def)

lemma match_at_sign_Some:
  assumes "match_at_sign s = Some (h, rest)"
  shows "s = 64 # h @ rest" and "h \<noteq> []" and "\<forall>c \<in> set h. handle_char c"
    and "server_handle (h @ rest) = ascii_lower h"
proof -
  from assms obtain t where s: "s = 64 # t" and h: "h = strip_dots (takeWhile handle_char t)"
    and "h \<noteq> []" and rest: "rest = drop (length h) t"
    by (auto simp: match_at_sign_def Let_def split: list.splits if_splits)
  obtain dots where "takeWhile handle_char t = h @ dots"
    using strip_dots_append h by blast
  then have t: "t = h @ dots @ dropWhile handle_char t"
    by (metis append.assoc takeWhile_dropWhile_id)
  then have "rest = dots @ dropWhile handle_char t"
    using rest by (metis append_eq_conv_conj)
  with t have th: "t = h @ rest" by simp
  with s show "s = 64 # h @ rest" by simp
  show "h \<noteq> []" by fact
  show "\<forall>c \<in> set h. handle_char c"
    using \<open>takeWhile handle_char t = h @ dots\<close> by (metis Un_iff set_append set_takeWhileD)
  show "server_handle (h @ rest) = ascii_lower h"
    using th h by (simp add: server_handle_def)
qed

lemma match_at_sign_None: "match_at_sign (64 # t) = None \<Longrightarrow> server_handle t = []"
  by (auto simp: match_at_sign_def server_handle_def ascii_lower_def Let_def split: if_splits)

lemma server_handle_at [simp]: "server_handle (64 # t) = []"
  by (simp add: server_handle_def ascii_lower_def)

lemma server_parse_prev:
  "handle_char p = handle_char q \<Longrightarrow> server_parse (Some p) s = server_parse (Some q) s"
  by (cases s) auto

lemma server_parse_run:
  "\<forall>c \<in> set h. handle_char c \<Longrightarrow> h \<noteq> [] \<Longrightarrow>
     server_parse p (h @ rest) = server_parse (Some 97) rest"
proof (induction h arbitrary: p)
  case Nil
  then show ?case by simp
next
  case (Cons c h)
  then have "server_parse p ((c # h) @ rest) = server_parse (Some c) (h @ rest)"
    by auto
  also have "\<dots> = server_parse (Some 97) rest"
    using Cons server_parse_prev [of c 97] by (cases h) auto
  finally show ?case .
qed

lemma server_parse_match:
  assumes "match_at_sign s = Some (h, rest)" and "p = None \<or> (\<exists>c. p = Some c \<and> \<not> handle_char c)"
  shows "server_parse p s = ascii_lower h # server_parse (Some 97) rest"
  using assms(2) match_at_sign_Some [OF assms(1)] server_parse_run [of h "Some 64" rest]
  by (auto simp: ascii_lower_def)

lemma match_all_server:
  "map ascii_lower (match_all st s) = server_parse (if st then None else Some 97) s"
proof (induction st s rule: match_all.induct)
  case (1 st s)
  show ?case
  proof (cases "match_mention st s")
    case (Some m)
    obtain h rest where m: "m = (h, rest)" by (cases m)
    have ih: "map ascii_lower (match_all False rest) = server_parse (Some 97) rest"
      using "1.IH"(2) [OF Some m [symmetric]] m by simp
    consider "st" "match_at_sign s = Some (h, rest)"
      | c t where "s = c # t" "\<not> handle_char c" "match_at_sign t = Some (h, rest)"
      using Some m
      by (auto simp: match_mention_def split: option.splits list.splits if_splits)
    then have "server_parse (if st then None else Some 97) s
        = ascii_lower h # server_parse (Some 97) rest"
    proof cases
      case 1
      then show ?thesis using server_parse_match by simp
    next
      case (2 c t)
      then have "server_parse p s = server_parse (Some c) t" for p
        using match_at_sign_Some(1) [OF 2(3)] by simp
      then show ?thesis using server_parse_match [OF 2(3)] 2(2) by auto
    qed
    with Some m ih show ?thesis by (simp add: match_all.simps [of st s])
  next
    case None
    show ?thesis
    proof (cases s)
      case Nil
      with None show ?thesis by (simp add: match_all.simps [of st "[]"])
    next
      case (Cons c t)
      have head: "server_parse (if st then None else Some 97) (c # t) = server_parse (Some c) t"
        using None Cons match_at_sign_None [of t]
        by (auto simp: match_mention_def split: option.splits if_splits)
      have "server_parse (Some c) t = server_parse (Some 97) t"
      proof (cases "handle_char c")
        case True
        then show ?thesis by (intro server_parse_prev) simp
      next
        case False
        then have "match_at_sign t = None"
          using None Cons by (auto simp: match_mention_def split: option.splits if_splits)
        then show ?thesis using match_at_sign_None by (cases t) auto
      qed
      with None Cons head "1.IH"(1) [OF None Cons] show ?thesis
        by (simp add: match_all.simps [of st "c # t"])
    qed
  qed
qed

lemma set_parseMentions: "set (parseMentions content) = set (server_parse None content)"
  using match_all_server [of True content] by (simp add: parseMentions_def del: set_map)

section \<open>The query and its completion\<close>

lemma find_from_range:
  "find_from text caret i = Some q \<Longrightarrow> i \<le> caret \<Longrightarrow>
     \<exists>j < i. q = \<lparr>q_start = j, q_end = caret, q_text = js_slice text (Suc j) caret\<rparr>
       \<and> i \<le> length text \<and> text ! j = 64 \<and> (\<forall>k. j < k \<and> k < i \<longrightarrow> handle_char (text ! k))
       \<and> caret - Suc j \<le> MAX_QUERY \<and> (j = 0 \<or> \<not> handle_char (text ! (j - 1)))"
proof (induction i)
  case 0
  then show ?case by simp
next
  case (Suc i)
  from Suc.prems have near: "caret - Suc i \<le> MAX_QUERY" and i: "i < length text"
    by (auto simp: js_at_def split: if_splits)
  show ?case
  proof (cases "text ! i = 64")
    case True
    with Suc.prems near i show ?thesis
      by (intro exI [of _ i]) (auto simp: js_at_def split: if_splits)
  next
    case False
    with Suc.prems near i have "find_from text caret i = Some q" and c: "handle_char (text ! i)"
      by (auto simp: js_at_def split: if_splits)
    with Suc.IH Suc.prems(2) obtain j where j: "j < i"
      "q = \<lparr>q_start = j, q_end = caret, q_text = js_slice text (Suc j) caret\<rparr>"
      "text ! j = 64" "\<forall>k. j < k \<and> k < i \<longrightarrow> handle_char (text ! k)"
      "caret - Suc j \<le> MAX_QUERY" "j = 0 \<or> \<not> handle_char (text ! (j - 1))"
      by auto
    with i c show ?thesis by (intro exI [of _ j]) (auto simp: less_Suc_eq)
  qed
qed

lemma find_from_complete:
  "j < i \<Longrightarrow> i \<le> caret \<Longrightarrow> i \<le> length text \<Longrightarrow> text ! j = 64 \<Longrightarrow>
     \<forall>k. j < k \<and> k < i \<longrightarrow> handle_char (text ! k) \<Longrightarrow> caret - Suc j \<le> MAX_QUERY \<Longrightarrow>
     j = 0 \<or> \<not> handle_char (text ! (j - 1)) \<Longrightarrow>
     find_from text caret i
       = Some \<lparr>q_start = j, q_end = caret, q_text = js_slice text (Suc j) caret\<rparr>"
proof (induction i)
  case 0
  then show ?case by simp
next
  case (Suc i)
  show ?case
  proof (cases "i = j")
    case True
    with Suc.prems show ?thesis by (auto simp: js_at_def)
  next
    case False
    with Suc.prems have "j < i" and c: "handle_char (text ! i)" by auto
    with Suc have "find_from text caret i
        = Some \<lparr>q_start = j, q_end = caret, q_text = js_slice text (Suc j) caret\<rparr>"
      by simp
    moreover have "text ! i \<noteq> 64" using handle_char_not_at [OF c] .
    ultimately show ?thesis using Suc.prems c \<open>j < i\<close> by (auto simp: js_at_def)
  qed
qed

lemma findMentionQuery_split:
  assumes "findMentionQuery text caret = Some q"
  obtains pre run rest where "text = pre @ 64 # run @ rest" and "\<forall>c \<in> set run. handle_char c"
    and "length run \<le> MAX_QUERY" and "pre = [] \<or> \<not> handle_char (last pre)"
    and "caret = Suc (length pre + length run)"
    and "q = \<lparr>q_start = length pre, q_end = caret, q_text = run\<rparr>"
proof -
  from find_from_range [of "text" caret caret q] assms obtain j where
    j: "j < caret" "q = \<lparr>q_start = j, q_end = caret, q_text = js_slice text (Suc j) caret\<rparr>"
      "caret \<le> length text" "text ! j = 64" "\<forall>k. j < k \<and> k < caret \<longrightarrow> handle_char (text ! k)"
      "caret - Suc j \<le> MAX_QUERY" "j = 0 \<or> \<not> handle_char (text ! (j - 1))"
    by (auto simp: findMentionQuery_def)
  define run where "run = js_slice text (Suc j) caret"
  have tail: "drop (Suc j) text = run @ drop caret text"
    unfolding run_def js_slice_def using j(1)
    by (metis Suc_leI append_take_drop_id drop_drop le_add_diff_inverse2)
  have len: "length run = caret - Suc j"
    unfolding run_def js_slice_def using j(1,3) by simp
  have "text = take j text @ 64 # run @ drop caret text"
    using id_take_nth_drop [of j "text"] j(1,3,4) tail by simp
  moreover have "\<forall>c \<in> set run. handle_char c"
  proof
    fix c assume "c \<in> set run"
    then obtain k where "k < length run" "c = run ! k" by (metis in_set_conv_nth)
    then show "handle_char c"
      using j(1,3,5) len by (auto simp: run_def js_slice_def)
  qed
  moreover have "take j text = [] \<or> \<not> handle_char (last (take j text))"
    using j(1,3,7) by (cases "j = 0") (auto simp: last_conv_nth)
  ultimately show ?thesis
    using j(1,2,3,6) len
    by (intro that [of "take j text" run "drop caret text"]) (simp_all add: run_def [symmetric])
qed

lemma findMentionQuery_join:
  assumes "\<forall>c \<in> set run. handle_char c" and "length run \<le> MAX_QUERY"
    and "pre = [] \<or> \<not> handle_char (last pre)"
  shows "findMentionQuery (pre @ 64 # run @ rest) (Suc (length pre + length run))
    = Some \<lparr>q_start = length pre, q_end = Suc (length pre + length run), q_text = run\<rparr>"
proof -
  let ?text = "pre @ 64 # run @ rest" and ?caret = "Suc (length pre + length run)"
  have "find_from ?text ?caret ?caret
    = Some \<lparr>q_start = length pre, q_end = ?caret, q_text = js_slice ?text (Suc (length pre)) ?caret\<rparr>"
  proof (rule find_from_complete)
    show "\<forall>k. length pre < k \<and> k < ?caret \<longrightarrow> handle_char (?text ! k)"
    proof (intro allI impI)
      fix k assume k: "length pre < k \<and> k < ?caret"
      then obtain d where "k = Suc (length pre + d)" "d < length run"
        by (metis add_Suc_right add_less_cancel_left less_iff_Suc_add not_less_eq)
      then have "?text ! k = run ! d"
        by (simp add: nth_append)
      with assms(1) \<open>d < length run\<close> show "handle_char (?text ! k)" by simp
    qed
    show "length pre = 0 \<or> \<not> handle_char (?text ! (length pre - 1))"
      using assms(3) by (cases pre rule: rev_cases) (auto simp: nth_append)
  qed (use assms(2) in auto)
  then show ?thesis by (simp add: findMentionQuery_def js_slice_def)
qed

lemma applyMention_split:
  assumes "text = pre @ 64 # run @ rest"
    and "q = \<lparr>q_start = length pre, q_end = Suc (length pre + length run), q_text = run\<rparr>"
  shows "applyMention text q handle =
    (pre @ 64 # handle @ 32 # (case rest of [] \<Rightarrow> [] | c # t \<Rightarrow> if c = 32 then t else rest),
     length pre + length handle + 2)"
proof -
  have "js_at text (q_end q) = js_at rest 0"
    using assms js_at_length_append [of "pre @ 64 # run" rest 0] by simp
  moreover have "js_slice_from text (q_end q) = rest"
    using assms by (simp add: js_slice_from_def)
  moreover have "js_slice text 0 (q_start q) = pre"
    using assms by (simp add: js_slice_def)
  moreover have "js ''@'' = [64]" "js '' '' = [32]"
    by (simp_all add: js_simps)
  ultimately show ?thesis
    using assms(2) by (cases rest) (auto simp: applyMention_def Let_def)
qed

lemma server_parse_finds:
  assumes "pre = [] \<or> \<not> handle_char (last pre)" and "server_handle t \<noteq> []"
  shows "(pre \<noteq> [] \<or> p = None) \<Longrightarrow> server_handle t \<in> set (server_parse p (pre @ 64 # t))"
  using assms(1)
proof (induction pre arbitrary: p)
  case Nil
  with assms(2) show ?case by simp
next
  case (Cons c pre)
  show ?case
  proof (cases pre)
    case Nil
    with Cons.prems assms(2) show ?thesis by auto
  next
    case (Cons d pre')
    with Cons.IH [of "Some c"] Cons.prems show ?thesis by auto
  qed
qed

lemma server_handle_terminated:
  assumes "\<forall>c \<in> set h. handle_char c" and "h \<noteq> []" and "last h \<noteq> 46"
  shows "server_handle (h @ 32 # t) = ascii_lower h"
proof -
  have "takeWhile handle_char (h @ 32 # t) = h"
    using assms(1) by (simp add: takeWhile_append2)
  then show ?thesis
    using assms(3) by (simp add: server_handle_def strip_dots_id)
qed

section \<open>The ranking is a sort\<close>

lemma rank_cmp_comparator:
  assumes "comparator localeCompare"
  shows "comparator (rank_cmp localeCompare)"
proof -
  have "comparator (\<lambda>a b. (snd a :: int) - snd b)"
    by (rule comparator_key) (rule difference.comparator_axioms)
  moreover have "comparator (\<lambda>a b. presence_number (fst b) - presence_number (fst a))"
    by unfold_locales (auto simp: sgn_if)
  moreover have "comparator (\<lambda>a b. localeCompare (cand_name (fst a)) (cand_name (fst b)))"
    by (rule comparator_key) (rule assms)
  ultimately show ?thesis
    unfolding rank_cmp_def by (intro comparator_then)
qed

interpretation rank: comparator "rank_cmp unit_compare"
  by (rule rank_cmp_comparator) (rule units.comparator_axioms)

lemma scored_candidates_score:
  "(c, n) \<in> set (scored_candidates lower cs needle) \<Longrightarrow> scoreCandidate lower c needle = Some n"
  by (auto simp: scored_candidates_def List.map_filter_def)

lemma map_fst_scored:
  "map fst (scored_candidates lower cs needle) = filter (\<lambda>c. scoreCandidate lower c needle \<noteq> None) cs"
  by (induction cs) (auto simp: scored_candidates_def List.map_filter_simps split: option.splits)

section \<open>Properties\<close>

text \<open>
  C14. The composer's parser and the server's parser name the same handles in every text, and
  the composer names each once: what the client counts, highlights and completes is exactly
  what the server notifies.
\<close>

theorem mentions_agree_with_server:
  "set (parseMentions content) = set (server_parse None content)
     \<and> distinct (parseMentions content)"
  by (simp add: set_parseMentions) (simp add: parseMentions_def)

text \<open>
  C15. The picker opens exactly when the text up to the caret ends in an \<open>@\<close> that begins a word
  followed by at most \<open>MAX_QUERY\<close> handle characters, and then the query it returns is that run:
  it never opens inside an address, and never misses a mention being typed.
\<close>

theorem findMentionQuery_iff:
  "findMentionQuery text caret = Some q \<longleftrightarrow>
     (\<exists>pre run rest. text = pre @ 64 # run @ rest \<and> caret = Suc (length pre + length run)
        \<and> list_all handle_char run \<and> length run \<le> MAX_QUERY
        \<and> (pre = [] \<or> \<not> handle_char (last pre))
        \<and> q = \<lparr>q_start = length pre, q_end = caret, q_text = run\<rparr>)"
  (is "?found = ?typed")
proof
  assume ?found
  then show ?typed
    by (rule findMentionQuery_split) (auto simp: list_all_iff)
next
  assume ?typed
  then show ?found
    using findMentionQuery_join by (auto simp: list_all_iff)
qed

theorem findMentionQuery_iff_witness:
  "findMentionQuery (js ''hi @an'') 6 = Some \<lparr>q_start = 3, q_end = 6, q_text = js ''an''\<rparr>"
  unfolding findMentionQuery_iff
  by (rule exI [of _ "js ''hi ''"], rule exI [of _ "js ''an''"], rule exI [of _ "[]"])
    (simp add: js_simps MAX_QUERY_def handle_char_def char_class_defs)

text \<open>
  C16. Completing the query under the caret with a handle (of handle characters, not ending in a
  dot) leaves a text in which the parser, and so the server, finds that handle, and puts the
  caret after the space that ends it: the picker never inserts a mention that notifies nobody.
\<close>

theorem completion_is_recognised:
  assumes "findMentionQuery text caret = Some q"
    and "handle \<noteq> []" and "list_all handle_char handle" and "last handle \<noteq> 46"
  shows "ascii_lower handle \<in> set (parseMentions (fst (applyMention text q handle)))
     \<and> take (snd (applyMention text q handle)) (fst (applyMention text q handle))
         = js_slice text 0 (q_start q) @ js ''@'' @ handle @ js '' ''"
proof -
  obtain pre run rest where parts: "text = pre @ 64 # run @ rest"
    and pre: "pre = [] \<or> \<not> handle_char (last pre)"
    and q: "q = \<lparr>q_start = length pre, q_end = Suc (length pre + length run), q_text = run\<rparr>"
    using findMentionQuery_split [OF assms(1)] by metis
  obtain t where app: "applyMention text q handle
      = (pre @ 64 # handle @ 32 # t, length pre + length handle + 2)"
    using applyMention_split [OF parts q] by blast
  have named: "server_handle (handle @ 32 # t) = ascii_lower handle"
    using assms(2-4) by (intro server_handle_terminated) (auto simp: list_all_iff)
  moreover have "ascii_lower handle \<noteq> []"
    using assms(2) by (simp add: ascii_lower_def)
  ultimately have "ascii_lower handle \<in> set (server_parse None (pre @ 64 # handle @ 32 # t))"
    using server_parse_finds [OF pre, of "handle @ 32 # t" None] by simp
  moreover have "take (length pre + length handle + 2) (pre @ 64 # handle @ 32 # t)
      = pre @ 64 # handle @ [32]"
    by simp
  ultimately show ?thesis
    using parts q app by (simp add: set_parseMentions js_slice_def js_simps)
qed

theorem completion_is_recognised_witness:
  "js ''ana'' \<in> set (parseMentions (fst (applyMention (js ''hi @an, ok'')
     \<lparr>q_start = 3, q_end = 6, q_text = js ''an''\<rparr> (js ''Ana''))))"
proof -
  let ?q = "\<lparr>q_start = 3, q_end = 6, q_text = js ''an''\<rparr>"
  have "findMentionQuery (js ''hi @an, ok'') 6 = Some ?q" by code_simp
  moreover have "js ''Ana'' \<noteq> []" and "list_all handle_char (js ''Ana'')" and "last (js ''Ana'') \<noteq> 46"
    by code_simp+
  ultimately have "ascii_lower (js ''Ana'') \<in> set (parseMentions (fst (applyMention (js ''hi @an, ok'') ?q (js ''Ana''))))"
    using completion_is_recognised by blast
  moreover have "ascii_lower (js ''Ana'') = js ''ana''" by code_simp
  ultimately show ?thesis by simp
qed

text \<open>
  \<open>rankCandidates\<close> returns the first \<open>limit\<close> of all the matching candidates put in order:
  a lower score first, then people who are online, then by name. No match is dropped, none is
  invented, and none that is left out comes before one that is offered.
\<close>

theorem rankCandidates_best:
  assumes "comparator localeCompare"
  shows "\<exists>ranked. rankCandidates lower localeCompare candidates query limit = take limit ranked
     \<and> mset ranked = mset (filter (\<lambda>c. scoreCandidate lower c (lower query) \<noteq> None) candidates)
     \<and> sorted_wrt (\<lambda>a b. rank_cmp localeCompare
          (a, the (scoreCandidate lower a (lower query)))
          (b, the (scoreCandidate lower b (lower query))) \<le> 0) ranked"
proof -
  let ?scored = "scored_candidates lower candidates (lower query)"
  let ?sorted = "js_sort (rank_cmp localeCompare) ?scored"
  let ?with = "\<lambda>c. (c, the (scoreCandidate lower c (lower query)))"
  have paired: "p = ?with (fst p)" if "p \<in> set ?sorted" for p
  proof -
    have "p \<in> set ?scored" using that by simp
    then have "scoreCandidate lower (fst p) (lower query) = Some (snd p)"
      by (intro scored_candidates_score) simp
    then show ?thesis by simp
  qed
  have "sorted_wrt (\<lambda>a b. rank_cmp localeCompare a b \<le> 0) ?sorted"
    by (rule comparator.sorted_sort [OF rank_cmp_comparator [OF assms]])
  then have "sorted_wrt (\<lambda>a b. rank_cmp localeCompare (?with (fst a)) (?with (fst b)) \<le> 0) ?sorted"
    by (rule sorted_wrt_mono_rel [rotated]) (metis paired)
  then have "sorted_wrt (\<lambda>a b. rank_cmp localeCompare (?with a) (?with b) \<le> 0) (map fst ?sorted)"
    by (simp add: sorted_wrt_map)
  moreover have "mset (map fst ?sorted) = mset (map fst ?scored)"
    by simp
  ultimately show ?thesis
    by (intro exI [of _ "map fst ?sorted"]) (simp only: rankCandidates_def take_map map_fst_scored)
qed

theorem rankCandidates_best_witness:
  "\<exists>ranked. rankCandidates ascii_lower unit_compare [EVERYONE_CANDIDATE] (js ''ev'') 8 = take 8 ranked
     \<and> mset ranked = {#EVERYONE_CANDIDATE#}"
proof -
  have "scoreCandidate ascii_lower EVERYONE_CANDIDATE (ascii_lower (js ''ev'')) = Some 0"
    by code_simp
  then show ?thesis
    using rankCandidates_best [OF units.comparator_axioms, of ascii_lower "[EVERYONE_CANDIDATE]" "js ''ev''" 8]
    by auto
qed

end
