(* ===== verification/CustomEmoji.thy ===== *)
theory CustomEmoji
  imports Ordering
begin

text \<open>
  Custom emoji in message text, \<open>packages/shared/src/chat/customEmoji.ts\<close>: the lookup a
  renderer builds, the scan for \<open>:shortcode:\<close>s, the split of a message into text and
  glyphs; and the server's scan (\<open>crates/domain/src/emoji.rs\<close>), which decides what names
  can be stored.
\<close>

section \<open>The scans\<close>

definition EMOJI_NAME_MIN_LEN :: nat where
  "EMOJI_NAME_MIN_LEN = 2"

definition EMOJI_NAME_MAX_LEN :: nat where
  "EMOJI_NAME_MAX_LEN = 32"

record custom_emoji =
  ce_id :: uuid
  ce_community_id :: uuid
  ce_name :: jstr
  ce_image_url :: string
  ce_is_animated :: bool
  ce_created_by :: "uuid option"
  ce_created_at :: timestamp

type_synonym emoji_index = "(jstr \<times> custom_emoji) list"

definition indexEmoji :: "custom_emoji list \<Rightarrow> emoji_index" where
  "indexEmoji emoji = jmap_of (map (\<lambda>entry. (ce_name entry, entry)) emoji)"

datatype emoji_segment =
    TextSegment jstr
  | EmojiSegment custom_emoji jstr

definition isNameChar :: "nat \<Rightarrow> bool" where
  "isNameChar c \<longleftrightarrow> is_word c"

text \<open>The inner \<open>while\<close> of both scans: the end of the name that starts at \<open>start\<close>.\<close>

function name_end :: "jstr \<Rightarrow> nat \<Rightarrow> nat \<Rightarrow> nat" where
  "name_end content start stop =
     (if stop < length content \<and> isNameChar (content ! stop) \<and> stop - start < EMOJI_NAME_MAX_LEN
      then name_end content start (Suc stop) else stop)"
  by pat_completeness auto
termination
  by (relation "measure (\<lambda>(content, start, stop). length content - stop)") auto

declare name_end.simps [simp del]

text \<open>\<open>/^\d+$/\<close>.\<close>

definition all_digits :: "jstr \<Rightarrow> bool" where
  "all_digits s \<longleftrightarrow> s \<noteq> [] \<and> list_all is_digit s"

lemma name_end_ge: "stop \<le> name_end content start stop"
proof (induction content start stop rule: name_end.induct)
  case (1 content start stop)
  then show ?case by (auto simp: name_end.simps [of content start stop])
qed

text \<open>\<open>parseShortcodes\<close>: the loop from \<open>index\<close> on, with what has been found.\<close>

function parse_shortcodes_from :: "jstr \<Rightarrow> jstr list \<Rightarrow> nat \<Rightarrow> jstr list" where
  "parse_shortcodes_from content found index =
     (if index < length content
      then if content ! index \<noteq> 58 then parse_shortcodes_from content found (Suc index)
           else let start = Suc index; stop = name_end content start start;
                    candidate = js_slice content start stop
                in if js_at content stop = Some 58 \<and> length candidate \<ge> EMOJI_NAME_MIN_LEN
                      \<and> \<not> all_digits candidate
                   then parse_shortcodes_from content (jset_add (ascii_lower candidate) found) stop
                   else parse_shortcodes_from content found (Suc index)
      else found)"
  by pat_completeness auto
termination
proof (relation "measure (\<lambda>(content, found, index). length content - index)", goal_cases)
  case (3 content found index start stop candidate)
  then show ?case using name_end_ge [of start content start] by auto
qed auto

declare parse_shortcodes_from.simps [simp del]

definition parseShortcodes :: "jstr \<Rightarrow> jstr list" where
  "parseShortcodes content = parse_shortcodes_from content [] 0"

text \<open>\<open>pushText\<close>: an empty piece adds nothing, a piece after text is merged into it.\<close>

definition pushText :: "jstr \<Rightarrow> emoji_segment list \<Rightarrow> emoji_segment list" where
  "pushText t segments =
     (if t = [] then segments
      else case rev segments of
             TextSegment u # before_it \<Rightarrow> rev before_it @ [TextSegment (u @ t)]
           | _ \<Rightarrow> segments @ [TextSegment t])"

function split_from ::
  "jstr \<Rightarrow> emoji_index \<Rightarrow> emoji_segment list \<Rightarrow> nat \<Rightarrow> nat \<Rightarrow> emoji_segment list" where
  "split_from content index segments cursor position =
     (if position < length content
      then if content ! position \<noteq> 58 then split_from content index segments cursor (Suc position)
           else let start = Suc position; stop = name_end content start start;
                    candidate = js_slice content start stop
                in if js_at content stop \<noteq> Some 58 \<or> length candidate < EMOJI_NAME_MIN_LEN
                      \<or> all_digits candidate
                   then split_from content index segments cursor (Suc position)
                   else case map_of index (ascii_lower candidate) of
                          None \<Rightarrow> split_from content index segments cursor (Suc position)
                        | Some emoji \<Rightarrow>
                            split_from content index
                              (pushText (js_slice content cursor position) segments
                                 @ [EmojiSegment emoji (js_slice content position (Suc stop))])
                              (Suc stop) stop
      else pushText (js_slice_from content cursor) segments)"
  by pat_completeness auto
termination
proof (relation "measure (\<lambda>(content, index, segments, cursor, position). length content - position)",
    goal_cases)
  case (5 content index segments cursor position start stop candidate emoji)
  then show ?case using name_end_ge [of start content start] by auto
qed auto

declare split_from.simps [simp del]

definition splitEmoji :: "jstr \<Rightarrow> emoji_index \<Rightarrow> emoji_segment list" where
  "splitEmoji content index =
     (if index = [] then (if content \<noteq> [] then [TextSegment content] else [])
      else split_from content index [] 0 0)"

definition isEmojiOnly :: "emoji_segment list \<Rightarrow> bool" where
  "isEmojiOnly segments \<longleftrightarrow>
     segments \<noteq> []
     \<and> (\<exists>s \<in> set segments. case s of EmojiSegment _ _ \<Rightarrow> True | TextSegment _ \<Rightarrow> False)
     \<and> (\<forall>s \<in> set segments. case s of EmojiSegment _ _ \<Rightarrow> True | TextSegment t \<Rightarrow> js_trim t = [])"

section \<open>The server's scan\<close>

text \<open>
  \<open>parse_shortcodes\<close> of the server. It reads Unicode scalar values, the client code units;
  no character outside the basic plane is a colon or a name character, so the two readings
  of a text differ only inside runs that neither of them looks at.
\<close>

function server_shortcodes_from :: "jstr \<Rightarrow> jstr list \<Rightarrow> nat \<Rightarrow> jstr list" where
  "server_shortcodes_from chars found index =
     (if index < length chars
      then if chars ! index \<noteq> 58 then server_shortcodes_from chars found (index + 1)
           else let start = index + 1; stop = name_end chars start start;
                    candidate = take (stop - start) (drop start chars);
                    digits_only = list_all is_digit candidate
                in if stop < length chars \<and> chars ! stop = 58
                      \<and> stop - start \<ge> EMOJI_NAME_MIN_LEN \<and> \<not> digits_only
                   then let name = ascii_lower candidate
                        in server_shortcodes_from chars
                             (if name \<in> set found then found else found @ [name]) stop
                   else server_shortcodes_from chars found (index + 1)
      else found)"
  by pat_completeness auto
termination
proof (relation "measure (\<lambda>(chars, found, index). length chars - index)", goal_cases)
  case (3 chars found index start stop candidate digits_only name)
  then show ?case using name_end_ge [of start chars start] by auto
qed auto

declare server_shortcodes_from.simps [simp del]

definition server_shortcodes :: "jstr \<Rightarrow> jstr list" where
  "server_shortcodes content = server_shortcodes_from content [] 0"

section \<open>What the scans see\<close>

lemma isNameChar_not_colon [simp]: "isNameChar c \<Longrightarrow> c \<noteq> 58"
  by (auto simp: isNameChar_def char_class_defs)

lemma name_end_le: "stop \<le> length content \<Longrightarrow> name_end content start stop \<le> length content"
proof (induction content start stop rule: name_end.induct)
  case (1 content start stop)
  then show ?case by (auto simp: name_end.simps [of content start stop])
qed

lemma name_end_chars:
  "stop \<le> k \<Longrightarrow> k < name_end content start stop \<Longrightarrow> isNameChar (content ! k)"
proof (induction content start stop rule: name_end.induct)
  case (1 content start stop)
  then show ?case
    by (cases "k = stop") (auto simp: name_end.simps [of content start stop] split: if_splits)
qed

lemma name_end_bound:
  "stop \<le> start + EMOJI_NAME_MAX_LEN \<Longrightarrow> name_end content start stop \<le> start + EMOJI_NAME_MAX_LEN"
proof (induction content start stop rule: name_end.induct)
  case (1 content start stop)
  then show ?case by (auto simp: name_end.simps [of content start stop])
qed

text \<open>The name a colon at \<open>p\<close> opens, and whether it is a shortcode.\<close>

definition candidate_end :: "jstr \<Rightarrow> nat \<Rightarrow> nat" where
  "candidate_end content p = name_end content (Suc p) (Suc p)"

definition candidate_at :: "jstr \<Rightarrow> nat \<Rightarrow> jstr" where
  "candidate_at content p = js_slice content (Suc p) (candidate_end content p)"

definition shortcode_at :: "jstr \<Rightarrow> nat \<Rightarrow> bool" where
  "shortcode_at content p \<longleftrightarrow> js_at content (candidate_end content p) = Some 58
     \<and> length (candidate_at content p) \<ge> EMOJI_NAME_MIN_LEN \<and> \<not> all_digits (candidate_at content p)"

lemma candidate_end_ge [simp]: "p < candidate_end content p"
  using name_end_ge [of "Suc p" content "Suc p"] by (simp add: candidate_end_def)

lemma candidate_end_le: "p < length content \<Longrightarrow> candidate_end content p \<le> length content"
  using name_end_le [of "Suc p" content "Suc p"] by (simp add: candidate_end_def)

lemma candidate_no_colon:
  "Suc p \<le> k \<Longrightarrow> k < candidate_end content p \<Longrightarrow> content ! k \<noteq> 58"
  using name_end_chars [of "Suc p" k content "Suc p"] by (simp add: candidate_end_def)

lemma length_candidate:
  "p < length content \<Longrightarrow> length (candidate_at content p) = candidate_end content p - Suc p"
  using candidate_end_le [of p content] by (simp add: candidate_at_def js_slice_def)

lemma shortcode_end:
  assumes "shortcode_at content p"
  shows "candidate_end content p < length content" and "content ! candidate_end content p = 58"
  using assms by (auto simp: shortcode_at_def js_at_def split: if_splits)

lemma shortcode_slice:
  assumes "p < length content" and "content ! p = 58" and "shortcode_at content p"
  shows "js_slice content p (Suc (candidate_end content p)) = 58 # candidate_at content p @ [58]"
proof -
  let ?e = "candidate_end content p"
  note e = shortcode_end [OF assms(3)]
  define k where "k = ?e - Suc p"
  have k: "k < length (drop (Suc p) content)" "?e = Suc p + k"
    using e(1) candidate_end_ge [of p content] unfolding k_def length_drop by linarith+
  have "js_slice content p (Suc ?e) = take (Suc (Suc k)) (drop p content)"
    using k(2) by (simp add: js_slice_def)
  also have "drop p content = 58 # drop (Suc p) content"
    using assms(1,2) Cons_nth_drop_Suc [of p content] by simp
  also have "take (Suc (Suc k)) (58 # drop (Suc p) content)
      = 58 # take k (drop (Suc p) content) @ [drop (Suc p) content ! k]"
    using k(1) by (simp only: take_Suc_Cons take_Suc_conv_app_nth)
  also have "drop (Suc p) content ! k = 58"
    using k e by simp
  also have "take k (drop (Suc p) content) = candidate_at content p"
    by (simp add: candidate_at_def js_slice_def k_def)
  finally show ?thesis .
qed

lemma parse_step:
  "p < length content \<Longrightarrow> parse_shortcodes_from content found p =
     (if content ! p = 58 \<and> shortcode_at content p
      then parse_shortcodes_from content (jset_add (ascii_lower (candidate_at content p)) found)
             (candidate_end content p)
      else parse_shortcodes_from content found (Suc p))"
  by (subst parse_shortcodes_from.simps)
    (auto simp: Let_def shortcode_at_def candidate_at_def candidate_end_def)

lemma parse_stop: "length content \<le> p \<Longrightarrow> parse_shortcodes_from content found p = found"
  by (simp add: parse_shortcodes_from.simps [of content found p])

lemma split_step:
  "p < length content \<Longrightarrow> split_from content idx segs cursor p =
     (if content ! p = 58 \<and> shortcode_at content p
      then case map_of idx (ascii_lower (candidate_at content p)) of
             None \<Rightarrow> split_from content idx segs cursor (Suc p)
           | Some emoji \<Rightarrow>
               split_from content idx
                 (pushText (js_slice content cursor p) segs
                    @ [EmojiSegment emoji (58 # candidate_at content p @ [58])])
                 (Suc (candidate_end content p)) (candidate_end content p)
      else split_from content idx segs cursor (Suc p))"
  using shortcode_slice [of p content]
  by (subst split_from.simps)
    (auto simp: Let_def shortcode_at_def candidate_at_def candidate_end_def not_le split: option.splits)

lemma split_stop:
  "length content \<le> p \<Longrightarrow>
     split_from content idx segs cursor p = pushText (js_slice_from content cursor) segs"
  by (simp add: split_from.simps [of content idx segs cursor p])

lemma parse_skip:
  "p \<le> q \<Longrightarrow> q \<le> length content \<Longrightarrow> \<forall>k. p \<le> k \<and> k < q \<longrightarrow> content ! k \<noteq> 58 \<Longrightarrow>
     parse_shortcodes_from content found p = parse_shortcodes_from content found q"
proof (induction "q - p" arbitrary: p)
  case 0
  then show ?case by simp
next
  case (Suc d)
  then have "p < length content" and "content ! p \<noteq> 58" by auto
  then have "parse_shortcodes_from content found p = parse_shortcodes_from content found (Suc p)"
    by (simp add: parse_step)
  also have "\<dots> = parse_shortcodes_from content found q"
    using Suc by (intro Suc.hyps(1)) auto
  finally show ?case .
qed

lemma set_parse_from:
  "set (parse_shortcodes_from content found p)
     = set found \<union> set (parse_shortcodes_from content [] p)"
proof (induction "length content - p" arbitrary: p found rule: less_induct)
  case less
  show ?case
  proof (cases "p < length content")
    case False
    then show ?thesis by (simp add: parse_stop)
  next
    case True
    show ?thesis
    proof (cases "content ! p = 58 \<and> shortcode_at content p")
      case hit: True
      have "length content - candidate_end content p < length content - p"
        using True by (simp add: diff_less_mono2)
      note ih = less [OF this]
      let ?n = "ascii_lower (candidate_at content p)"
      show ?thesis
        using True hit ih [of "jset_add ?n found"] ih [of "[?n]"]
        by (simp add: parse_step jset_add_def [of _ "[]"])
    next
      case False
      have "length content - Suc p < length content - p" using True by simp
      from less [OF this, of found] show ?thesis
        unfolding parse_step [OF True] if_not_P [OF False] .
    qed
  qed
qed

lemma distinct_parse_from:
  "distinct found \<Longrightarrow> distinct (parse_shortcodes_from content found p)"
proof (induction "length content - p" arbitrary: p found rule: less_induct)
  case less
  show ?case
  proof (cases "p < length content")
    case False
    with less.prems show ?thesis by (simp add: parse_stop)
  next
    case True
    then have "length content - candidate_end content p < length content - p"
      and "length content - Suc p < length content - p"
      by (simp_all add: diff_less_mono2)
    with less True show ?thesis by (simp add: parse_step)
  qed
qed

section \<open>What a split draws\<close>

definition drawn :: "emoji_segment list \<Rightarrow> jstr set" where
  "drawn segs = {ascii_lower (butlast (tl sc)) | e sc. EmojiSegment e sc \<in> set segs}"

lemma drawn_pushText [simp]: "drawn (pushText t segs) = drawn segs"
proof (cases "rev segs")
  case Nil
  then show ?thesis by (auto simp: pushText_def drawn_def)
next
  case (Cons s r)
  then have "segs = rev r @ [s]" by (metis rev.simps(2) rev_rev_ident)
  then show ?thesis by (cases s) (auto simp: pushText_def drawn_def)
qed

lemma drawn_snoc:
  "drawn (segs @ [EmojiSegment e (58 # n @ [58])]) = insert (ascii_lower n) (drawn segs)"
proof -
  have "ascii_lower n = ascii_lower (butlast (tl (58 # n @ [58])))" by simp
  then show ?thesis unfolding drawn_def by fastforce
qed

lemma drawn_split_from:
  "drawn (split_from content idx segs cursor p)
     = drawn segs \<union> {n \<in> set (parse_shortcodes_from content [] p). map_of idx n \<noteq> None}"
proof (induction "length content - p" arbitrary: p segs cursor rule: less_induct)
  case less
  show ?case
  proof (cases "p < length content")
    case False
    then show ?thesis by (simp add: parse_stop split_stop)
  next
    case True
    let ?e = "candidate_end content p" and ?n = "ascii_lower (candidate_at content p)"
    have dec: "length content - ?e < length content - p" "length content - Suc p < length content - p"
      using True by (simp_all add: diff_less_mono2)
    show ?thesis
    proof (cases "content ! p = 58 \<and> shortcode_at content p")
      case hit: True
      have found: "set (parse_shortcodes_from content [] p)
          = insert ?n (set (parse_shortcodes_from content [] ?e))"
        using True hit set_parse_from [of content "[?n]" ?e] by (simp add: parse_step jset_add_def)
      show ?thesis
      proof (cases "map_of idx ?n")
        case (Some emoji)
        then show ?thesis
          using True hit found less [OF dec(1)] by (auto simp: split_step drawn_snoc)
      next
        case None
        have "parse_shortcodes_from content [] (Suc p) = parse_shortcodes_from content [] ?e"
          using True candidate_end_le [OF True] candidate_no_colon
          by (intro parse_skip) (auto simp: Suc_le_eq)
        with None show ?thesis
          using True hit found less [OF dec(2)] by (auto simp: split_step)
      qed
    next
      case False
      with True less [OF dec(2)] show ?thesis
        by (auto simp: split_step parse_step)
    qed
  qed
qed

text \<open>
  The text a list of segments stands for. Two neighbouring glyphs may share a colon: the one
  that closes the first opens the second.
\<close>

inductive covers :: "emoji_segment list \<Rightarrow> jstr \<Rightarrow> bool" where
  covers_Nil: "covers [] []"
| covers_text: "covers segs c \<Longrightarrow> covers (segs @ [TextSegment t]) (c @ t)"
| covers_glyph: "covers segs c \<Longrightarrow> covers (segs @ [EmojiSegment e sc]) (c @ sc)"
| covers_shared: "covers (segs @ [EmojiSegment e1 sc]) (c @ [58]) \<Longrightarrow>
     covers (segs @ [EmojiSegment e1 sc, EmojiSegment e2 (58 # n)]) (c @ 58 # n)"

fun is_glyph :: "emoji_segment \<Rightarrow> bool" where
  "is_glyph (EmojiSegment _ _) = True"
| "is_glyph (TextSegment _) = False"

text \<open>No empty text, no two neighbouring texts, and every glyph is its own shortcode resolved.\<close>

definition well_split :: "emoji_index \<Rightarrow> emoji_segment list \<Rightarrow> bool" where
  "well_split idx segs \<longleftrightarrow>
     successively (\<lambda>a b. is_glyph a \<or> is_glyph b) segs
     \<and> TextSegment [] \<notin> set segs
     \<and> (\<forall>e sc. EmojiSegment e sc \<in> set segs \<longrightarrow>
          (\<exists>n. sc = 58 # n @ [58] \<and> map_of idx (ascii_lower n) = Some e))"

lemma pushText_glyph:
  "segs = [] \<or> is_glyph (last segs) \<Longrightarrow>
     pushText t segs = (if t = [] then segs else segs @ [TextSegment t])"
  by (cases segs rule: rev_cases) (auto simp: pushText_def split: emoji_segment.splits)

lemma covers_pushText:
  "covers segs c \<Longrightarrow> segs = [] \<or> is_glyph (last segs) \<Longrightarrow> covers (pushText t segs) (c @ t)"
  by (auto simp: pushText_glyph intro: covers_text)

lemma well_split_pushText:
  "well_split idx segs \<Longrightarrow> segs = [] \<or> is_glyph (last segs) \<Longrightarrow> well_split idx (pushText t segs)"
  by (auto simp: pushText_glyph well_split_def successively_append_iff)

lemma well_split_glyph:
  "well_split idx segs \<Longrightarrow> map_of idx (ascii_lower n) = Some e \<Longrightarrow>
     well_split idx (segs @ [EmojiSegment e (58 # n @ [58])])"
  by (auto simp: well_split_def successively_append_iff)

lemma take_js_slice:
  "a \<le> b \<Longrightarrow> b \<le> length s \<Longrightarrow> take a s @ js_slice s a b = take b s"
  by (metis js_slice_def le_add_diff_inverse take_add)

lemma split_from_covers:
  assumes "covers segs (take cursor content)" and "well_split idx segs"
    and "segs = [] \<or> is_glyph (last segs)" and "cursor \<le> length content"
    and "cursor \<le> p \<or> (cursor = Suc p \<and> content ! p = 58 \<and> segs \<noteq> [])"
  shows "covers (split_from content idx segs cursor p) content
    \<and> well_split idx (split_from content idx segs cursor p)"
  using assms
proof (induction "length content - p" arbitrary: p segs cursor rule: less_induct)
  case less
  let ?e = "candidate_end content p" and ?n = "candidate_at content p"
  show ?case
  proof (cases "p < length content")
    case False
    have "covers (pushText (drop cursor content) segs) (take cursor content @ drop cursor content)"
      using less.prems(1,3) by (rule covers_pushText)
    with False less.prems(2,3) show ?thesis
      by (simp add: split_stop js_slice_from_def well_split_pushText)
  next
    case True
    have dec: "length content - ?e < length content - p" "length content - Suc p < length content - p"
      using True by (simp_all add: diff_less_mono2)
    have skip: ?thesis if "split_from content idx segs cursor p = split_from content idx segs cursor (Suc p)"
      using less.hyps [OF dec(2), of segs cursor] less.prems that by auto
    show ?thesis
    proof (cases "content ! p = 58 \<and> shortcode_at content p \<and> map_of idx (ascii_lower ?n) \<noteq> None")
      case False
      with True skip show ?thesis by (auto simp: split_step split: option.splits)
    next
      case hit: True
      then obtain emoji where emoji: "map_of idx (ascii_lower ?n) = Some emoji" by blast
      let ?push = "pushText (js_slice content cursor p) segs"
      let ?segs = "?push @ [EmojiSegment emoji (58 # ?n @ [58])]"
      have e: "?e < length content" "content ! ?e = 58"
        using hit shortcode_end by blast+
      have upto: "take p content @ 58 # ?n @ [58] = take (Suc ?e) content"
        using take_js_slice [of p "Suc ?e" content] shortcode_slice [OF True] hit e
          candidate_end_ge [of p content] by (simp add: less_imp_le)
      have "covers ?segs (take (Suc ?e) content)"
      proof (cases "cursor \<le> p")
        case True
        then have "covers ?push (take p content)"
          using covers_pushText [OF less.prems(1,3), of "js_slice content cursor p"]
            take_js_slice [of cursor p content] \<open>p < length content\<close> by simp
        from covers_glyph [OF this] upto show ?thesis by metis
      next
        case False
        with less.prems(5) have cur: "cursor = Suc p" and "segs \<noteq> []" by auto
        then obtain pre e1 sc where segs: "segs = pre @ [EmojiSegment e1 sc]"
          using less.prems(3) by (metis append_butlast_last_id is_glyph.elims(2))
        have "take cursor content = take p content @ [58]"
          using cur hit True by (simp add: take_Suc_conv_app_nth)
        then have "covers (segs @ [EmojiSegment emoji (58 # ?n @ [58])]) (take p content @ 58 # ?n @ [58])"
          using covers_shared [of pre e1 sc "take p content" emoji "?n @ [58]"] less.prems(1) segs
          by simp
        moreover have "?push = segs"
          using cur by (simp add: pushText_def js_slice_def)
        ultimately show ?thesis using upto by simp
      qed
      moreover have "well_split idx ?segs"
        using less.prems(2,3) emoji by (intro well_split_glyph well_split_pushText)
      ultimately have "covers (split_from content idx ?segs (Suc ?e) ?e) content
          \<and> well_split idx (split_from content idx ?segs (Suc ?e) ?e)"
        using e by (intro less.hyps [OF dec(1)]) auto
      then show ?thesis using True hit emoji by (simp add: split_step)
    qed
  qed
qed

lemma covers_subseq: "covers segs c \<Longrightarrow> length c \<le> (\<Sum>s \<leftarrow> segs. case s of TextSegment t \<Rightarrow> length t | EmojiSegment _ sc \<Rightarrow> length sc)"
  by (induction rule: covers.induct) auto

section \<open>The server's scan is the client's\<close>

lemma server_shortcodes_from_eq:
  "server_shortcodes_from content found p = parse_shortcodes_from content found p"
proof (induction "length content - p" arbitrary: p found rule: less_induct)
  case less
  let ?e = "candidate_end content p" and ?n = "candidate_at content p"
  show ?case
  proof (cases "p < length content")
    case False
    then show ?thesis by (simp add: parse_stop server_shortcodes_from.simps [of content found p])
  next
    case True
    have len: "length ?n = ?e - Suc p" using True by (rule length_candidate)
    have "?n \<noteq> [] \<Longrightarrow> all_digits ?n = list_all is_digit ?n"
      by (simp add: all_digits_def)
    then have valid: "shortcode_at content p \<longleftrightarrow> ?e < length content \<and> content ! ?e = 58
        \<and> ?e - Suc p \<ge> EMOJI_NAME_MIN_LEN \<and> \<not> list_all is_digit ?n"
      using len by (cases "?n = []")
        (auto simp: shortcode_at_def js_at_def EMOJI_NAME_MIN_LEN_def split: if_splits)
    have server: "server_shortcodes_from content found p =
        (if content ! p = 58 \<and> shortcode_at content p
         then server_shortcodes_from content (jset_add (ascii_lower ?n) found) ?e
         else server_shortcodes_from content found (Suc p))"
      using True unfolding valid
      by (subst server_shortcodes_from.simps)
        (simp add: Let_def candidate_end_def candidate_at_def js_slice_def jset_add_def)
    have "length content - ?e < length content - p" and "length content - Suc p < length content - p"
      using True by (simp_all add: diff_less_mono2)
    with less show ?thesis
      unfolding server parse_step [OF True] by simp
  qed
qed


section \<open>The lookup\<close>

lemma map_of_fold_update:
  "map_of (fold (\<lambda>(k, v) m. AList.update k v m) kvs m) = map_of m ++ map_of (rev kvs)"
proof (induction kvs arbitrary: m)
  case Nil
  then show ?case by simp
next
  case (Cons kv kvs)
  obtain k v where "kv = (k, v)" by (cases kv)
  with Cons show ?case by (simp add: update_conv' map_add_def fun_eq_iff split: option.splits)
qed

text \<open>Where a community has two entries of one name, the later one is drawn.\<close>

lemma indexEmoji_lookup:
  "map_of (indexEmoji emoji) n = List.find (\<lambda>e. ce_name e = n) (rev emoji)"
proof -
  have "map_of (indexEmoji emoji) n = map_of (map (\<lambda>e. (ce_name e, e)) (rev emoji)) n"
    by (simp add: indexEmoji_def jmap_of_def map_of_fold_update rev_map)
  also have "map_of (map (\<lambda>e. (ce_name e, e)) es) n = List.find (\<lambda>e. ce_name e = n) es" for es
    by (induction es) auto
  finally show ?thesis .
qed

section \<open>Properties\<close>


text \<open>
  The renderer draws exactly what the parser names: the shortcodes that become glyphs
  are those \<open>parseShortcodes\<close> reports for which the community has an emoji, neither more
  (a time or a run of digits is never drawn) nor fewer (a colon shared by two neighbouring
  shortcodes serves both).
\<close>

theorem splitEmoji_draws_shortcodes:
  "drawn (splitEmoji content idx) = {n \<in> set (parseShortcodes content). map_of idx n \<noteq> None}"
  using drawn_split_from [of content idx "[]" 0 0]
  by (auto simp: splitEmoji_def parseShortcodes_def drawn_def)


text \<open>
  The comment above the scan calls \<open>:a::b:\<close> two shortcodes. One letter is below the minimum
  length, so it is none; two letters each is what the shared colon makes two.
\<close>

lemma doc_example_is_none: "parseShortcodes (js '':a::b:'') = []"
  by code_simp

lemma shared_colon_is_two: "parseShortcodes (js '':aa::bb:'') = [js ''aa'', js ''bb'']"
  by code_simp

end
