(* ===== verification/ChatRules.thy ===== *)
theory ChatRules
  imports Mentions
begin

text \<open>
  The rules a message body is held to before it is sent and when it is drawn:
  \<open>packages/shared/src/chat/limits.ts\<close> with the server rules it mirrors
  (\<open>crates/domain/src/spam.rs\<close>, \<open>crates/domain/src/message.rs\<close>), and the recognition of
  a message that is a GIF, \<open>packages/shared/src/chat/gif.ts\<close>.
\<close>

section \<open>The caps of the composer\<close>

definition MAX_MENTIONS :: nat where
  "MAX_MENTIONS = 10"

definition MAX_LINKS :: nat where
  "MAX_LINKS = 5"

definition MAX_LENGTH :: nat where
  "MAX_LENGTH = 4000"

text \<open>The matches of \<open>/https?:\/\//g\<close>: one left-to-right pass over the lower-cased text.\<close>

function scheme_matches :: "jstr \<Rightarrow> nat" where
  "scheme_matches s =
     (if starts_with s (js ''https://'') then Suc (scheme_matches (drop 8 s))
      else if starts_with s (js ''http://'') then Suc (scheme_matches (drop 7 s))
      else case s of [] \<Rightarrow> 0 | _ # t \<Rightarrow> scheme_matches t)"
  by pat_completeness auto
termination
  by (relation "measure length") (auto simp: starts_with_iff js_def)

declare scheme_matches.simps [simp del]

definition countLinks :: "jstr \<Rightarrow> nat" where
  "countLinks content = scheme_matches (ascii_lower content)"

definition contentProblem :: "jstr \<Rightarrow> jstr option" where
  "contentProblem content =
     (let mentions = length (parseMentions content)
      in if mentions > MAX_MENTIONS
         then Some (js ''That is '' @ decimal mentions @ js '' mentions '' @ [8212] @ js '' at most ''
                    @ decimal MAX_MENTIONS @ js '' people can be named in one message.'')
         else let links = countLinks content
              in if links > MAX_LINKS
                 then Some (js ''That is '' @ decimal links @ js '' links '' @ [8212] @ js '' at most ''
                            @ decimal MAX_LINKS @ js '' fit in one message.'')
                 else None)"

section \<open>The rules of the server\<close>

datatype content_error = TooManyMentions | TooManyLinks

text \<open>\<open>haystack.match_indices(needle).count()\<close>: occurrences that do not overlap.\<close>

function occurrences :: "jstr \<Rightarrow> jstr \<Rightarrow> nat" where
  "occurrences p s =
     (if p \<noteq> [] \<and> starts_with s p then Suc (occurrences p (drop (length p) s))
      else case s of [] \<Rightarrow> 0 | _ # t \<Rightarrow> occurrences p t)"
  by pat_completeness auto
termination
  by (relation "measure (\<lambda>(p, s). length s)") (auto simp: starts_with_iff)

declare occurrences.simps [simp del]

definition count_links :: "jstr \<Rightarrow> nat" where
  "count_links content =
     occurrences (js ''http://'') (ascii_lower content) + occurrences (js ''https://'') (ascii_lower content)"

definition check_content :: "jstr \<Rightarrow> content_error + unit" where
  "check_content content =
     (if card (set (server_parse None content)) > 10 then Inl TooManyMentions
      else if count_links content > 5 then Inl TooManyLinks
      else Inr ())"

text \<open>The number of Unicode scalar values of a text: a surrogate pair is one.\<close>

fun scalar_count :: "jstr \<Rightarrow> nat" where
  "scalar_count [] = 0"
| "scalar_count [c] = 1"
| "scalar_count (c # d # s) =
     (if 55296 \<le> c \<and> c \<le> 56319 \<and> 56320 \<le> d \<and> d \<le> 57343 then Suc (scalar_count s)
      else Suc (scalar_count (d # s)))"

section \<open>Messages that are a GIF\<close>

definition GIF_HOSTS :: "jstr list" where
  "GIF_HOSTS = [js ''giphy.com'', js ''tenor.com'', js ''gfycat.com'']"

record gif_embed =
  ge_url :: jstr
  ge_host :: jstr

definition hostMatches :: "jstr \<Rightarrow> jstr \<Rightarrow> bool" where
  "hostMatches host allowed \<longleftrightarrow> host = allowed \<or> ends_with host (46 # allowed)"

text \<open>
  \<open>url_hostname\<close> is \<open>new URL(text).hostname\<close>, \<open>None\<close> where the constructor throws: the URL
  parser of the host.
\<close>

definition gifEmbedOf :: "(jstr \<Rightarrow> jstr option) \<Rightarrow> jstr \<Rightarrow> gif_embed option" where
  "gifEmbedOf url_hostname content =
     (let trimmed = js_trim content
      in if trimmed = [] \<or> list_ex is_space trimmed then None
         else if \<not> starts_with (ascii_lower trimmed) (js ''https://'') then None
         else case url_hostname trimmed of
                None \<Rightarrow> None
              | Some hostname \<Rightarrow>
                  let host = ascii_lower hostname
                  in case List.find (\<lambda>candidate. hostMatches host candidate) GIF_HOSTS of
                       None \<Rightarrow> None
                     | Some allowed \<Rightarrow> Some \<lparr>ge_url = trimmed, ge_host = host\<rparr>)"

definition isGifMessage :: "(jstr \<Rightarrow> jstr option) \<Rightarrow> jstr \<Rightarrow> bool" where
  "isGifMessage url_hostname content \<longleftrightarrow> gifEmbedOf url_hostname content \<noteq> None"

section \<open>Lemmas\<close>

lemma occurrences_Nil [simp]: "occurrences p [] = 0"
  by (subst occurrences.simps, cases p) (auto simp: starts_with_def)

lemma occurrences_skip: "\<not> starts_with (c # s) p \<Longrightarrow> occurrences p (c # s) = occurrences p s"
  by (simp add: occurrences.simps [of p "c # s"])

lemma http_in_https: "occurrences (js ''http://'') (js ''https://'' @ t) = occurrences (js ''http://'') t"
  by (simp add: js_def occurrences_skip starts_with_def)

lemma https_in_http: "occurrences (js ''https://'') (js ''http://'' @ t) = occurrences (js ''https://'') t"
  by (simp add: js_def occurrences_skip starts_with_def)

lemma occurrences_hit: "p \<noteq> [] \<Longrightarrow> occurrences p (p @ t) = Suc (occurrences p t)"
  by (subst occurrences.simps) (simp add: starts_with_def)

lemma scheme_matches_eq:
  "scheme_matches s = occurrences (js ''http://'') s + occurrences (js ''https://'') s"
proof (induction s rule: scheme_matches.induct)
  case (1 s)
  have ne: "js ''http://'' \<noteq> []" "js ''https://'' \<noteq> []" by (simp_all add: js_def)
  consider (https) "starts_with s (js ''https://'')"
    | (http) "\<not> starts_with s (js ''https://'')" "starts_with s (js ''http://'')"
    | (none) "\<not> starts_with s (js ''https://'')" "\<not> starts_with s (js ''http://'')" by blast
  then show ?case
  proof cases
    case https
    then obtain t where t: "s = js ''https://'' @ t" by (auto simp: starts_with_iff)
    have "drop 8 s = t" by (simp add: t)
    with 1(1) https have "scheme_matches t = occurrences (js ''http://'') t + occurrences (js ''https://'') t"
      by simp
    with https \<open>drop 8 s = t\<close> show ?thesis
      by (simp add: scheme_matches.simps [of s]) (simp add: t http_in_https occurrences_hit ne)
  next
    case http
    then obtain t where t: "s = js ''http://'' @ t" by (auto simp: starts_with_iff)
    have "drop 7 s = t" by (simp add: t)
    with 1(2) http have "scheme_matches t = occurrences (js ''http://'') t + occurrences (js ''https://'') t"
      by simp
    with http \<open>drop 7 s = t\<close> show ?thesis
      by (simp add: scheme_matches.simps [of s]) (simp add: t https_in_http occurrences_hit ne)
  next
    case none
    then have "scheme_matches s = (case s of [] \<Rightarrow> 0 | _ # t \<Rightarrow> scheme_matches t)"
      by (simp add: scheme_matches.simps [of s])
    with none 1(3) [OF none] show ?thesis
      by (cases s) (simp_all add: occurrences_skip)
  qed
qed

lemma scalar_count_le: "scalar_count s \<le> length s"
  by (induction s rule: scalar_count.induct) auto

lemma find_case:
  "(case List.find P xs of None \<Rightarrow> None | Some _ \<Rightarrow> Some r) = (if \<exists>x \<in> set xs. P x then Some r else None)"
  by (induction xs) auto

section \<open>Properties\<close>


text \<open>
  A message is drawn as an image only if the whole body is one token, an \<open>https\<close> URL
  whose parsed host is an allowed GIF host or ends in a dot and one; and every such message
  is. No other host is ever contacted by drawing a message.
\<close>

theorem gifEmbedOf_iff:
  "gifEmbedOf url_hostname content = Some g \<longleftrightarrow>
     ge_url g = js_trim content \<and> gif_embed.more g = ()
     \<and> js_trim content \<noteq> [] \<and> (\<forall>c \<in> set (js_trim content). \<not> is_space c)
     \<and> (\<exists>path. ascii_lower (js_trim content) = js ''https://'' @ path)
     \<and> (\<exists>hostname. url_hostname (js_trim content) = Some hostname \<and> ge_host g = ascii_lower hostname)
     \<and> (\<exists>a \<in> set GIF_HOSTS. ge_host g = a \<or> (\<exists>sub. ge_host g = sub @ js ''.'' @ a))"
proof -
  have dot: "js ''.'' = [46]" by (simp add: js_def)
  have embed: "gifEmbedOf url_hostname content =
      (let t = js_trim content in
       if t = [] \<or> (\<exists>c \<in> set t. is_space c) \<or> \<not> starts_with (ascii_lower t) (js ''https://'') then None
       else case url_hostname t of None \<Rightarrow> None
            | Some h \<Rightarrow> if \<exists>a \<in> set GIF_HOSTS. hostMatches (ascii_lower h) a
                       then Some \<lparr>ge_url = t, ge_host = ascii_lower h\<rparr> else None)"
    by (auto simp: gifEmbedOf_def Let_def list_ex_iff find_case split: option.splits)
  show ?thesis
    unfolding embed
    by (cases g; cases "url_hostname (js_trim content)")
      (auto simp: Let_def starts_with_iff hostMatches_def ends_with_iff dot)
qed

theorem gifEmbedOf_iff_witness:
  "\<exists>a \<in> set GIF_HOSTS. js ''i.giphy.com'' = a \<or> (\<exists>sub. js ''i.giphy.com'' = sub @ js ''.'' @ a)"
proof -
  let ?body = "js ''https://i.giphy.com/x.gif''" and ?host = "\<lambda>_ :: jstr. Some (js ''i.giphy.com'')"
  have "gifEmbedOf ?host ?body = Some \<lparr>ge_url = ?body, ge_host = js ''i.giphy.com''\<rparr>"
    by (simp add: gifEmbedOf_def js_def js_trim_def is_space_def ascii_lower_def lower_unit_def
        is_upper_def starts_with_def ends_with_def hostMatches_def GIF_HOSTS_def)
  then show ?thesis
    using gifEmbedOf_iff [of ?host ?body "\<lparr>ge_url = ?body, ge_host = js ''i.giphy.com''\<rparr>"] by simp
qed

end
