(* ===== verification/ApiTypes.thy ===== *)
theory ApiTypes
  imports Mentions CustomEmoji
begin

text \<open>
  The wire types of \<open>packages/shared/src/api/types.ts\<close>: an \<open>interface\<close> is a record with the
  fields in their order and a short prefix (field names are global here), \<open>extends\<close> is
  record extension, a union of string literals is a datatype, and \<open>null\<close> or an absent field
  is \<open>None\<close>. Numbers the server counts are \<open>int\<close>s; message text is a \<open>jstr\<close>. A message's reactions may be absent: the type
  says they are not, the code that reads them knows that some responses omit them. With them, the
  functions of that file and \<open>packages/shared/src/permissions.ts\<close>, and the server's own
  classification of room types (\<open>crates/domain/src/room.rs\<close>).
\<close>

section \<open>Rooms\<close>

datatype room_family = Conversation | Social_games | Social_discovery

datatype room_type =
    Text | Voice | Video | Stage
  | Truth_or_dare | Would_you_rather | Hot_takes | Poll | Trivia | Debate | Guess_who | Game | Activity
  | Random_chat | Anonymous_chat | Match_interest | Friend_finder | Topic_room | Confession | Quick_chat

definition CONVERSATION_ROOM_TYPES :: "room_type list" where
  "CONVERSATION_ROOM_TYPES = [Text, Voice, Video, Stage]"

definition SOCIAL_GAME_ROOM_TYPES :: "room_type list" where
  "SOCIAL_GAME_ROOM_TYPES =
     [Truth_or_dare, Would_you_rather, Hot_takes, Poll, Trivia, Debate, Guess_who, Game, Activity]"

definition SOCIAL_DISCOVERY_ROOM_TYPES :: "room_type list" where
  "SOCIAL_DISCOVERY_ROOM_TYPES =
     [Random_chat, Anonymous_chat, Match_interest, Friend_finder, Topic_room, Confession, Quick_chat]"

definition getRoomFamily :: "room_type \<Rightarrow> room_family" where
  "getRoomFamily type =
     (if type \<in> set CONVERSATION_ROOM_TYPES then Conversation
      else if type \<in> set SOCIAL_GAME_ROOM_TYPES then Social_games
      else Social_discovery)"

definition isMediaRoomType :: "room_type \<Rightarrow> bool" where
  "isMediaRoomType type \<longleftrightarrow> type = Voice \<or> type = Video \<or> type = Stage \<or> type = Activity"

definition isGameRoomType :: "room_type \<Rightarrow> bool" where
  "isGameRoomType type \<longleftrightarrow> type \<in> set SOCIAL_GAME_ROOM_TYPES"

definition isDiscoveryRoomType :: "room_type \<Rightarrow> bool" where
  "isDiscoveryRoomType type \<longleftrightarrow> type \<in> set SOCIAL_DISCOVERY_ROOM_TYPES"

text \<open>The server's \<open>RoomType::family\<close>, \<open>is_media\<close>, \<open>is_game\<close> and \<open>is_discovery\<close>.\<close>

fun server_family :: "room_type \<Rightarrow> room_family" where
  "server_family Text = Conversation"
| "server_family Voice = Conversation"
| "server_family Video = Conversation"
| "server_family Stage = Conversation"
| "server_family Truth_or_dare = Social_games"
| "server_family Would_you_rather = Social_games"
| "server_family Hot_takes = Social_games"
| "server_family Poll = Social_games"
| "server_family Trivia = Social_games"
| "server_family Debate = Social_games"
| "server_family Guess_who = Social_games"
| "server_family Game = Social_games"
| "server_family Activity = Social_games"
| "server_family Random_chat = Social_discovery"
| "server_family Anonymous_chat = Social_discovery"
| "server_family Match_interest = Social_discovery"
| "server_family Friend_finder = Social_discovery"
| "server_family Topic_room = Social_discovery"
| "server_family Confession = Social_discovery"
| "server_family Quick_chat = Social_discovery"

definition server_is_media :: "room_type \<Rightarrow> bool" where
  "server_is_media type \<longleftrightarrow> type \<in> {Voice, Video, Activity, Stage}"

definition server_is_game :: "room_type \<Rightarrow> bool" where
  "server_is_game type \<longleftrightarrow> server_family type = Social_games"

definition server_is_discovery :: "room_type \<Rightarrow> bool" where
  "server_is_discovery type \<longleftrightarrow> server_family type = Social_discovery"

datatype room_status = Created | Waiting | Active | Ending | Ended
datatype room_visibility = Public | Unlisted | Friends_only | Private
datatype room_participant_role = Owner | Moderator | Participant | Observer

section \<open>Permissions\<close>

datatype permission =
    View_room | Send_message | Add_reaction | Speak | Use_video | Screen_share | Stream_media
  | Mute_members | Move_members | Manage_room | Manage_community | Manage_roles | Manage_members
  | Administrator

definition can :: "permission list \<Rightarrow> permission \<Rightarrow> bool" where
  "can permissions p \<longleftrightarrow> Administrator \<in> set permissions \<or> p \<in> set permissions"

section \<open>Accounts, communities and rooms\<close>

datatype platform_role = User_role | Support_role | Admin_role

record profile =
  pf_user_id :: uuid
  pf_display_name :: string
  pf_bio :: "string option"
  pf_avatar_url :: "string option"
  pf_avatar_effect :: "string option"
  pf_accent_color :: "string option"
  pf_created_at :: timestamp
  pf_updated_at :: timestamp

record current_user =
  cu_id :: uuid
  cu_handle :: string
  cu_email :: string
  cu_profile :: profile
  cu_platform_role :: "platform_role option"

record token_pair =
  access_token :: string
  refresh_token :: string
  expires_in :: int
  token_type :: string

record auth_response = token_pair +
  ar_user :: current_user

record community =
  cm_id :: uuid
  cm_name :: string
  cm_description :: "string option"
  cm_icon_url :: "string option"
  cm_owner_id :: uuid
  cm_created_at :: timestamp
  cm_updated_at :: timestamp

record community_with_permissions = community +
  cm_your_permissions :: "permission list"

record role =
  ro_id :: uuid
  ro_community_id :: uuid
  ro_name :: string
  ro_color :: "string option"
  ro_position :: int
  ro_is_default :: bool
  ro_created_at :: timestamp

record role_with_permissions = role +
  ro_permissions :: "permission list"

record community_member =
  mb_community_id :: uuid
  mb_user_id :: uuid
  mb_nickname :: "string option"
  mb_joined_at :: timestamp
  mb_roles :: "role list"

record room_anonymous_identity =
  an_room_id :: uuid
  an_user_id :: uuid
  an_alias_name :: string
  an_avatar_seed :: string
  an_accent_color :: string
  an_created_at :: timestamp

record room_participant =
  pt_room_id :: uuid
  pt_user_id :: uuid
  pt_role :: room_participant_role
  pt_is_muted :: bool
  pt_is_anonymous :: bool
  pt_joined_at :: timestamp
  pt_last_seen_at :: timestamp

record room =
  rm_id :: uuid
  rm_community_id :: "uuid option"
  rm_owner_id :: "uuid option"
  rm_name :: string
  rm_topic :: "string option"
  rm_category :: string
  rm_room_type :: room_type
  rm_visibility :: room_visibility
  rm_status :: room_status
  rm_is_anonymous :: bool
  rm_position :: int
  rm_max_participants :: "int option"
  rm_current_participants :: int
  rm_started_at :: "timestamp option"
  rm_expires_at :: "timestamp option"
  rm_ended_at :: "timestamp option"
  rm_created_at :: timestamp
  rm_updated_at :: timestamp

record room_with_permissions = room +
  rm_your_permissions :: "permission list"
  rm_anonymous_identity :: "room_anonymous_identity option"

record user_room = room +
  rm_dm_peer_id :: "uuid option"

section \<open>Notifications, messages, media\<close>

datatype notification_kind = Mention | Everyone | Direct_message | Friend_request | Friend_accepted

record app_notification =
  nt_id :: uuid
  nt_user_id :: uuid
  nt_kind :: notification_kind
  nt_actor_id :: "uuid option"
  nt_room_id :: "uuid option"
  nt_message_id :: "uuid option"
  nt_preview :: "jstr option"
  nt_count :: int
  nt_read_at :: "timestamp option"
  nt_created_at :: timestamp
  nt_updated_at :: timestamp

record notification_page =
  np_notifications :: "app_notification list"
  np_next_before :: "timestamp option"
  np_unread :: int

record reaction_summary =
  rx_reaction :: jstr
  rx_count :: int
  rx_me :: bool

record message =
  ms_id :: uuid
  ms_room_id :: uuid
  ms_author_id :: uuid
  ms_content :: jstr
  ms_is_anonymous :: "bool option"
  ms_reply_to_id :: "uuid option"
  ms_edited_at :: "timestamp option"
  ms_created_at :: timestamp
  ms_reactions :: "reaction_summary list option"
  ms_anonymous_author :: "room_anonymous_identity option"

record room_unread =
  ru_room_id :: uuid
  ru_unread :: int
  ru_muted :: bool
  ru_last_read_at :: "timestamp option"

record message_page =
  mp_messages :: "message list"
  mp_next_before :: "timestamp option"
  mp_next_before_id :: "uuid option"

datatype friendship_status = Pending | Accepted | Declined

record friendship =
  fr_requester_id :: uuid
  fr_addressee_id :: uuid
  fr_status :: friendship_status
  fr_created_at :: timestamp
  fr_updated_at :: timestamp

record media_join_response =
  mj_room_id :: uuid
  mj_participant_id :: string
  mj_media_url :: string
  mj_token :: string
  mj_expires_at :: timestamp

datatype call_end_reason = Call_cancelled | Call_declined | Call_ended_by_peer

section \<open>Lemmas\<close>

lemmas room_type_tables =
  CONVERSATION_ROOM_TYPES_def SOCIAL_GAME_ROOM_TYPES_def SOCIAL_DISCOVERY_ROOM_TYPES_def

text \<open>The three tables list every type once.\<close>

lemma room_types_partition:
  "set (CONVERSATION_ROOM_TYPES @ SOCIAL_GAME_ROOM_TYPES @ SOCIAL_DISCOVERY_ROOM_TYPES) = UNIV
     \<and> distinct (CONVERSATION_ROOM_TYPES @ SOCIAL_GAME_ROOM_TYPES @ SOCIAL_DISCOVERY_ROOM_TYPES)"
proof -
  have "x \<in> set (CONVERSATION_ROOM_TYPES @ SOCIAL_GAME_ROOM_TYPES @ SOCIAL_DISCOVERY_ROOM_TYPES)" for x
    by (cases x) (simp_all add: room_type_tables)
  then show ?thesis by (auto simp: room_type_tables)
qed

text \<open>
  The client and the server agree on what every room is: the family a type falls in, and
  whether it carries media, is a game, or is for discovery. The fall-through of
  \<open>getRoomFamily\<close> only ever takes the seven discovery types.
\<close>

theorem room_types_agree_with_server:
  "getRoomFamily type = server_family type
     \<and> isMediaRoomType type = server_is_media type
     \<and> isGameRoomType type = server_is_game type
     \<and> isDiscoveryRoomType type = server_is_discovery type"
  by (cases type)
    (simp_all add: getRoomFamily_def isMediaRoomType_def isGameRoomType_def isDiscoveryRoomType_def
      server_is_media_def server_is_game_def server_is_discovery_def room_type_tables)

lemma can_mono: "set ps \<subseteq> set qs \<Longrightarrow> can ps p \<Longrightarrow> can qs p"
  by (auto simp: can_def)

end
