(* ===== verification/Permissions.thy ===== *)
theory Permissions
  imports ApiTypes "HOL-Library.Word"
begin

text \<open>
  Who may do what. The client's check \<open>can\<close> (\<open>packages/shared/src/permissions.ts\<close>) against
  the bit mask the server decides with (\<open>crates/domain/src/permission.rs\<close>, a signed 64-bit
  integer), and the community settings built on it
  (\<open>apps/web/src/features/community-settings/permissions.ts\<close>, \<open>tabs.ts\<close>).
\<close>

unbundle bit_operations_syntax

section \<open>The server's permission sets\<close>

type_synonym permission_set = "64 word"

definition PERMISSION_ALL :: "permission list" where
  "PERMISSION_ALL = [View_room, Send_message, Add_reaction, Speak, Use_video, Screen_share, Stream_media,
          Mute_members, Move_members, Manage_room, Manage_community, Manage_roles, Manage_members,
          Administrator]"

text \<open>The position of a permission's bit.\<close>

fun shift :: "permission \<Rightarrow> nat" where
  "shift View_room = 0"
| "shift Send_message = 1"
| "shift Add_reaction = 2"
| "shift Speak = 3"
| "shift Use_video = 4"
| "shift Screen_share = 5"
| "shift Stream_media = 6"
| "shift Mute_members = 7"
| "shift Move_members = 8"
| "shift Manage_room = 9"
| "shift Manage_community = 10"
| "shift Manage_roles = 11"
| "shift Manage_members = 12"
| "shift Administrator = 13"

definition perm_bit :: "permission \<Rightarrow> permission_set" where
  "perm_bit p = push_bit (shift p) 1"

text \<open>\<open>self.contains(other)\<close> of a bit-flags type.\<close>

definition contains :: "permission_set \<Rightarrow> permission_set \<Rightarrow> bool" where
  "contains self other \<longleftrightarrow> self AND other = other"

definition allows :: "permission_set \<Rightarrow> permission \<Rightarrow> bool" where
  "allows self p \<longleftrightarrow> contains self (perm_bit Administrator) \<or> contains self (perm_bit p)"

definition to_permissions :: "permission_set \<Rightarrow> permission list" where
  "to_permissions self = filter (\<lambda>p. contains self (perm_bit p)) PERMISSION_ALL"

definition from_permissions :: "permission list \<Rightarrow> permission_set" where
  "from_permissions ps = fold (\<lambda>p acc. acc OR perm_bit p) ps 0"

definition with_overrides :: "permission_set \<Rightarrow> permission_set \<Rightarrow> permission_set \<Rightarrow> permission_set" where
  "with_overrides self allow deny = (self AND NOT deny) OR allow"

definition default_member :: permission_set where
  "default_member = from_permissions [View_room, Send_message, Add_reaction, Speak, Use_video]"

section \<open>Community settings\<close>

record permission_entry =
  pe_id :: permission
  pe_label :: jstr
  pe_description :: jstr

definition perm_row :: "permission \<Rightarrow> string \<Rightarrow> jstr \<Rightarrow> permission_entry" where
  "perm_row p label description = \<lparr>pe_id = p, pe_label = js label, pe_description = description\<rparr>"

definition ALL_PERMISSIONS :: "permission_entry list" where
  "ALL_PERMISSIONS =
     [perm_row View_room ''View rooms'' (js ''See channels in this server by default.''),
      perm_row Send_message ''Send messages'' (js ''Post in text channels.''),
      perm_row Add_reaction ''Add reactions'' (js ''React to other people'' @ [8217] @ js ''s messages.''),
      perm_row Speak ''Speak'' (js ''Talk in voice channels.''),
      perm_row Use_video ''Video'' (js ''Turn on a camera.''),
      perm_row Screen_share ''Screen share'' (js ''Share a screen.''),
      perm_row Stream_media ''Stream activity'' (js ''Broadcast high-bitrate media.''),
      perm_row Mute_members ''Mute members'' (js ''Mute other people in voice channels.''),
      perm_row Move_members ''Move members'' (js ''Disconnect or move people between channels.''),
      perm_row Manage_room ''Manage channels'' (js ''Create, edit and delete channels.''),
      perm_row Manage_community ''Manage server'' (js ''Edit the name, icon and description.''),
      perm_row Manage_roles ''Manage roles'' (js ''Create roles and assign them.''),
      perm_row Manage_members ''Manage members'' (js ''Invite and remove people.''),
      perm_row Administrator ''Administrator'' (js ''Grants everything above, and bypasses every check.'')]"

definition summarisePermissions :: "permission list \<Rightarrow> jstr" where
  "summarisePermissions permissions =
     (if Administrator \<in> set permissions then js ''Administrator '' @ [8212] @ js '' everything''
      else if length permissions = 0 then js ''No permissions''
      else decimal (length permissions) @ js '' permission''
             @ (if length permissions = 1 then [] else js ''s''))"

definition DEFAULT_NEW_ROLE_PERMISSIONS :: "permission list" where
  "DEFAULT_NEW_ROLE_PERMISSIONS = [View_room, Send_message, Add_reaction, Speak, Use_video]"

record community_abilities =
  isOwner :: bool
  ab_community :: bool
  ab_roles :: bool
  ab_members :: bool
  ab_rooms :: bool

definition abilitiesFor :: "community_with_permissions \<Rightarrow> uuid option \<Rightarrow> community_abilities" where
  "abilitiesFor community userId =
     (let owner = (userId \<noteq> None \<and> userId = Some (cm_owner_id community));
          granted = (\<lambda>p. owner \<or> can (cm_your_permissions community) p)
      in \<lparr>isOwner = owner, ab_community = granted Manage_community, ab_roles = granted Manage_roles,
          ab_members = granted Manage_members, ab_rooms = granted Manage_room\<rparr>)"

definition canOpenSettings :: "community_abilities \<Rightarrow> bool" where
  "canOpenSettings abilities \<longleftrightarrow>
     isOwner abilities \<or> ab_community abilities \<or> ab_roles abilities \<or> ab_members abilities
     \<or> ab_rooms abilities"

section \<open>Lemmas on the bits\<close>

lemma shift_inj [simp]: "shift p = shift q \<longleftrightarrow> p = q"
  by (cases p; cases q) simp_all

lemma shift_less [simp]: "shift p < 64"
  by (cases p) simp_all

lemma in_ALL [simp]: "p \<in> set PERMISSION_ALL"
  by (cases p) (simp_all add: PERMISSION_ALL_def)

lemma bit_perm_bit [simp]: "bit (perm_bit p) n \<longleftrightarrow> n = shift p"
  by (auto simp: perm_bit_def bit_simps)

lemma contains_iff: "contains s (perm_bit p) \<longleftrightarrow> bit s (shift p)"
proof
  assume "contains s (perm_bit p)"
  then have "bit (s AND perm_bit p) (shift p) = bit (perm_bit p) (shift p)"
    by (simp add: contains_def)
  then show "bit s (shift p)" by (simp only: bit_and_iff bit_perm_bit) simp
next
  assume "bit s (shift p)"
  then have "bit (s AND perm_bit p) n = bit (perm_bit p) n" for n
    by (auto simp only: bit_and_iff bit_perm_bit)
  then show "contains s (perm_bit p)" by (simp add: contains_def bit_eq_iff)
qed

lemma set_to_permissions [simp]: "set (to_permissions s) = {p. bit s (shift p)}"
  by (auto simp: to_permissions_def contains_iff)

lemma bit_fold_or:
  "bit (fold (\<lambda>p acc. acc OR perm_bit p) ps s) n \<longleftrightarrow> bit s n \<or> (\<exists>p \<in> set ps. n = shift p)"
  by (induction ps arbitrary: s) (auto simp: bit_simps)

lemma bit_from_permissions [simp]:
  "bit (from_permissions ps) (shift p) \<longleftrightarrow> p \<in> set ps"
  by (auto simp: from_permissions_def bit_fold_or)

section \<open>Properties\<close>

text \<open>
  C20. The client's check decides as the server does: asked about the permission list the
  server expands from a mask, \<open>can\<close> answers what \<open>allows\<close> answers on the mask itself, and
  folding a list the server receives back into a mask loses nothing.
\<close>

theorem can_agrees_with_server:
  "can (to_permissions s) p = allows s p
   \<and> set (to_permissions (from_permissions ps)) = set ps
   \<and> allows (from_permissions ps) p = can ps p"
proof -
  have "allows m p \<longleftrightarrow> bit m (shift Administrator) \<or> bit m (shift p)" for m
    by (simp only: allows_def contains_iff)
  then show ?thesis
    by (auto simp only: can_def set_to_permissions bit_from_permissions mem_Collect_eq)
qed

text \<open>
  Room overrides: an allow wins over a deny of the same permission, a deny without an
  allow removes it, and what neither names is inherited. The client then
  decides on the overridden mask as the server does.
\<close>

theorem overrides_allow_beats_deny:
  "set (to_permissions (with_overrides base allow deny))
     = set (to_permissions allow) \<union> (set (to_permissions base) - set (to_permissions deny))
   \<and> (can (to_permissions (with_overrides base allow deny)) p \<longleftrightarrow>
        allows allow p \<or> allows (base AND NOT deny) p)"
  by (auto simp: with_overrides_def can_def allows_def contains_iff bit_simps)

text \<open>
  The settings of a community open exactly for its owner and for whoever holds one of the
  four management permissions or \<open>administrator\<close>; nobody else, and never a visitor who is
  not signed in on the strength of ownership.
\<close>

theorem canOpenSettings_iff:
  "canOpenSettings (abilitiesFor community userId) \<longleftrightarrow>
     userId = Some (cm_owner_id community)
     \<or> Administrator \<in> set (cm_your_permissions community)
     \<or> (\<exists>p \<in> {Manage_community, Manage_roles, Manage_members, Manage_room}.
           p \<in> set (cm_your_permissions community))"
  by (auto simp: canOpenSettings_def abilitiesFor_def can_def Let_def)

text \<open>The catalogue shows every permission once, in the server's order.\<close>

lemma ALL_PERMISSIONS_catalogue: "map pe_id ALL_PERMISSIONS = PERMISSION_ALL"
  by (simp add: ALL_PERMISSIONS_def PERMISSION_ALL_def perm_row_def)

lemma new_role_is_default_member:
  "from_permissions DEFAULT_NEW_ROLE_PERMISSIONS = default_member"
  by (simp add: DEFAULT_NEW_ROLE_PERMISSIONS_def default_member_def)

end
