(* ===== verification/ServerSession.thy ===== *)
theory ServerSession
  imports Prelude
begin

text \<open>
  The other end of the socket, as far as the client's bookkeeping mirrors it: what one
  connection remembers (\<open>apps/api/src/routes/ws/session.rs\<close>) and what the client's frames do
  to it (\<open>commands.rs\<close>). The presence count, the typing throttle and the broadcast itself
  are other parts of the server and not in this model.
\<close>

datatype frame =
    Subscribe_frame uuid
  | Unsubscribe_frame uuid
  | Focus_frame "uuid option"
  | Typing_frame uuid bool
  | Send_message_frame uuid jstr "bool option"
  | React_frame uuid uuid jstr
  | Unreact_frame uuid uuid jstr
  | Ping_frame
  | Other_frame string

record session =
  current_user_id :: "uuid option"
  subscribed_rooms :: "uuid list"
  focused_room :: "uuid option"
  pending_focus :: "uuid option"

definition new_session :: "uuid \<Rightarrow> session" where
  "new_session user =
     \<lparr>current_user_id = Some user, subscribed_rooms = [], focused_room = None, pending_focus = None\<rparr>"

text \<open>\<open>Option::filter\<close>.\<close>

definition option_filter :: "('a \<Rightarrow> bool) \<Rightarrow> 'a option \<Rightarrow> 'a option" where
  "option_filter P x = (case x of None \<Rightarrow> None | Some y \<Rightarrow> if P y then Some y else None)"

definition is_subscribed :: "session \<Rightarrow> uuid \<Rightarrow> bool" where
  "is_subscribed s r \<longleftrightarrow> r \<in> set (subscribed_rooms s)"

definition attend :: "uuid option \<Rightarrow> session \<Rightarrow> session" where
  "attend room s =
     (case current_user_id s of
        None \<Rightarrow> s
      | Some user \<Rightarrow>
          s\<lparr>pending_focus := option_filter (\<lambda>r. \<not> is_subscribed s r) room,
            focused_room := option_filter (is_subscribed s) room\<rparr>)"

definition session_subscribe :: "uuid \<Rightarrow> session \<Rightarrow> session" where
  "session_subscribe room s =
     (let s' = s\<lparr>subscribed_rooms := jset_add room (subscribed_rooms s)\<rparr>
      in if pending_focus s' = Some room then attend (Some room) s' else s')"

definition session_unsubscribe :: "uuid \<Rightarrow> session \<Rightarrow> session" where
  "session_unsubscribe room s = s\<lparr>subscribed_rooms := jset_delete room (subscribed_rooms s)\<rparr>"

text \<open>\<open>visible\<close>: which rooms \<open>visible_access\<close> grants the session's user.\<close>

fun handle_command :: "(uuid \<Rightarrow> bool) \<Rightarrow> frame \<Rightarrow> session \<Rightarrow> session" where
  "handle_command visible Ping_frame s = s"
| "handle_command visible (Subscribe_frame room) s =
     (if current_user_id s \<noteq> None \<and> visible room then session_subscribe room s else s)"
| "handle_command visible (Unsubscribe_frame room) s = attend None (session_unsubscribe room s)"
| "handle_command visible (Focus_frame room) s = attend room s"
| "handle_command visible (Typing_frame room is_typing) s =
     (if current_user_id s \<noteq> None \<and> is_subscribed s room then attend (Some room) s else s)"
| "handle_command visible (Send_message_frame room content is_anonymous) s =
     (if current_user_id s \<noteq> None \<and> is_subscribed s room then attend (Some room) s else s)"
| "handle_command visible (React_frame room message reaction) s = s"
| "handle_command visible (Unreact_frame room message reaction) s = s"
| "handle_command visible (Other_frame data) s = s"

text \<open>What the server has made of all the frames of a connection.\<close>

definition replay :: "(uuid \<Rightarrow> bool) \<Rightarrow> frame list \<Rightarrow> session \<Rightarrow> session" where
  "replay visible frames s = fold (handle_command visible) frames s"

section \<open>Lemmas\<close>

lemma replay_Nil [simp]: "replay v [] s = s"
  by (simp add: replay_def)

lemma replay_append: "replay v (xs @ ys) s = replay v ys (replay v xs s)"
  by (simp add: replay_def)

lemma replay_Cons: "replay v (f # fs) s = replay v fs (handle_command v f s)"
  by (simp add: replay_def)

lemma current_user_attend [simp]: "current_user_id (attend r s) = current_user_id s"
  by (simp add: attend_def split: option.splits)

lemma subscribed_attend [simp]: "subscribed_rooms (attend r s) = subscribed_rooms s"
  by (simp add: attend_def split: option.splits)

lemma current_user_subscribe [simp]: "current_user_id (session_subscribe r s) = current_user_id s"
  by (simp add: session_subscribe_def Let_def)

lemma subscribed_subscribe [simp]:
  "subscribed_rooms (session_subscribe r s) = jset_add r (subscribed_rooms s)"
  by (simp add: session_subscribe_def Let_def)

lemma current_user_handle [simp]: "current_user_id (handle_command v f s) = current_user_id s"
  by (cases f) (simp_all add: session_unsubscribe_def)

lemma current_user_replay [simp]: "current_user_id (replay v fs s) = current_user_id s"
  by (induction fs arbitrary: s) (simp_all add: replay_Cons)

subsection \<open>Subscriptions\<close>

text \<open>The rooms a list of frames leaves subscribed, of those the user may see.\<close>

fun sub_step :: "frame \<Rightarrow> uuid set \<Rightarrow> uuid set" where
  "sub_step (Subscribe_frame r) S = insert r S"
| "sub_step (Unsubscribe_frame r) S = S - {r}"
| "sub_step _ S = S"

lemma subscribed_handle:
  "current_user_id s \<noteq> None \<Longrightarrow>
     set (subscribed_rooms s) = {r \<in> S. v r} \<Longrightarrow>
     set (subscribed_rooms (handle_command v f s)) = {r \<in> sub_step f S. v r}"
  by (cases f) (auto simp: session_unsubscribe_def)

lemma subscribed_replay:
  "current_user_id s \<noteq> None \<Longrightarrow> set (subscribed_rooms s) = {r \<in> S. v r} \<Longrightarrow>
     set (subscribed_rooms (replay v fs s)) = {r \<in> fold sub_step fs S. v r}"
proof (induction fs arbitrary: s S)
  case Nil
  then show ?case by simp
next
  case (Cons f fs)
  show ?case
    using Cons.IH [of "handle_command v f s" "sub_step f S"] Cons.prems subscribed_handle [of s S v f]
    by (simp add: replay_Cons)
qed

text \<open>The last word a list of frames has on a room.\<close>

fun last_word :: "frame list \<Rightarrow> uuid \<Rightarrow> bool option" where
  "last_word [] r = None"
| "last_word (f # fs) r =
     (case last_word fs r of
        Some b \<Rightarrow> Some b
      | None \<Rightarrow> if f = Subscribe_frame r then Some True
                else if f = Unsubscribe_frame r then Some False else None)"

lemma fold_sub_step:
  "r \<in> fold sub_step fs S \<longleftrightarrow> (case last_word fs r of Some b \<Rightarrow> b | None \<Rightarrow> r \<in> S)"
proof (induction fs arbitrary: S)
  case Nil
  then show ?case by simp
next
  case (Cons f fs)
  then show ?case by (cases f) (auto split: option.splits)
qed

lemma last_word_append:
  "last_word (xs @ ys) r = (case last_word ys r of Some b \<Rightarrow> Some b | None \<Rightarrow> last_word xs r)"
  by (induction xs) (auto split: option.splits)

subsection \<open>Attention\<close>

text \<open>The rooms a session claims to be reading, now or once it is subscribed.\<close>

definition claims :: "session \<Rightarrow> uuid set" where
  "claims s = set_option (focused_room s) \<union> set_option (pending_focus s)"

fun typed_in :: "frame \<Rightarrow> uuid set" where
  "typed_in (Typing_frame r _) = {r}"
| "typed_in (Send_message_frame r _ _) = {r}"
| "typed_in _ = {}"

definition well_focused :: "session \<Rightarrow> bool" where
  "well_focused s \<longleftrightarrow> set_option (focused_room s) \<subseteq> set (subscribed_rooms s)
     \<and> set_option (pending_focus s) \<inter> set (subscribed_rooms s) = {}
     \<and> (focused_room s = None \<or> pending_focus s = None)"

lemma claims_attend: "current_user_id s \<noteq> None \<Longrightarrow> claims (attend r s) = set_option r"
  by (cases r) (auto simp: claims_def attend_def option_filter_def split: if_splits)

lemma claims_subscribe: "current_user_id s \<noteq> None \<Longrightarrow> claims (session_subscribe r s) \<subseteq> claims s"
  by (auto simp: session_subscribe_def Let_def claims_attend) (auto simp: claims_def)

lemma claims_handle:
  "current_user_id s \<noteq> None \<Longrightarrow> claims (handle_command v f s) \<subseteq>
     (case f of Focus_frame x \<Rightarrow> set_option x | Unsubscribe_frame _ \<Rightarrow> {}
      | _ \<Rightarrow> claims s \<union> typed_in f)"
  using claims_subscribe [of s]
  by (cases f) (auto simp: claims_attend session_unsubscribe_def claims_attend)

lemma well_focused_attend: "current_user_id s \<noteq> None \<Longrightarrow> well_focused (attend r s)"
  by (cases r) (auto simp: well_focused_def attend_def option_filter_def is_subscribed_def split: if_splits)

lemma well_focused_handle:
  "current_user_id s \<noteq> None \<Longrightarrow> well_focused s \<Longrightarrow> well_focused (handle_command v f s)"
proof (cases f)
  case (Subscribe_frame r)
  assume a: "current_user_id s \<noteq> None" "well_focused s"
  then have "well_focused (session_subscribe r s)"
    by (cases "pending_focus s = Some r")
      (simp add: session_subscribe_def Let_def well_focused_attend,
       auto simp: session_subscribe_def Let_def well_focused_def)
  with a Subscribe_frame show ?thesis by simp
qed (auto simp: well_focused_attend session_unsubscribe_def)

lemma well_focused_replay:
  "current_user_id s \<noteq> None \<Longrightarrow> well_focused s \<Longrightarrow> well_focused (replay v fs s)"
  by (induction fs arbitrary: s) (auto simp: replay_Cons well_focused_handle)

text \<open>Frames that neither take attention away nor claim it by typing or posting.\<close>

fun keeps_attention :: "frame \<Rightarrow> bool" where
  "keeps_attention (Unsubscribe_frame _) = False"
| "keeps_attention (Typing_frame _ _) = False"
| "keeps_attention (Send_message_frame _ _ _) = False"
| "keeps_attention _ = True"

lemma claims_subscribe_exact:
  assumes "current_user_id s \<noteq> None" and "claims s = set_option x"
  shows "claims (session_subscribe r s) = set_option x"
proof (cases "pending_focus s = Some r")
  case True
  with assms(2) have "r \<in> set_option x" by (auto simp: claims_def)
  then have "x = Some r" by (simp add: elem_set)
  with True assms(1) show ?thesis
    by (simp add: session_subscribe_def Let_def claims_attend)
next
  case False
  with assms(2) show ?thesis
    by (simp add: session_subscribe_def Let_def claims_def)
qed

lemma claims_exact:
  "current_user_id s \<noteq> None \<Longrightarrow> keeps_attention f \<Longrightarrow> claims s = set_option x \<Longrightarrow>
     claims (handle_command v f s) = (case f of Focus_frame y \<Rightarrow> set_option y | _ \<Rightarrow> set_option x)"
  by (cases f) (simp_all add: claims_attend claims_subscribe_exact)

end
