(* ===== verification/ChatSocket.thy ===== *)
theory ChatSocket
  imports ServerSession ApiTypes
begin

text \<open>
  The client of the real-time connection, \<open>packages/shared/src/ws/ChatSocket.ts\<close>. The object
  is a record of its fields together with the part of the host it acts on: the sockets it
  has created (by number, with what was sent on each), the timers that are running, and a
  log of what its listeners were called with. A listener is a number; whether calling it
  throws, what the URL constructor accepts and where the API lives are the environment
  \<open>env\<close>. Listeners do not call back into the socket.
\<close>

section \<open>Events\<close>

datatype server_event =
    Authenticated uuid
  | Subscribed uuid
  | Unsubscribed uuid
  | Message_created uuid message "reaction_summary list" "room_anonymous_identity option"
  | Message_updated uuid message "reaction_summary list" "room_anonymous_identity option"
  | Message_deleted uuid uuid
  | Reactions_updated uuid uuid "reaction_summary list"
  | Notification_created uuid app_notification bool
  | Call_ringing uuid uuid uuid string bool
  | Call_ended uuid uuid uuid call_end_reason
  | Presence_changed uuid bool
  | Direct_room_opened uuid uuid
  | Typing uuid uuid string bool
  | Console_changed string
  | Pong
  | Error_event string

fun event_type :: "server_event \<Rightarrow> string" where
  "event_type (Authenticated _) = ''authenticated''"
| "event_type (Subscribed _) = ''subscribed''"
| "event_type (Unsubscribed _) = ''unsubscribed''"
| "event_type (Message_created _ _ _ _) = ''message_created''"
| "event_type (Message_updated _ _ _ _) = ''message_updated''"
| "event_type (Message_deleted _ _) = ''message_deleted''"
| "event_type (Reactions_updated _ _ _) = ''reactions_updated''"
| "event_type (Notification_created _ _ _) = ''notification_created''"
| "event_type (Call_ringing _ _ _ _ _) = ''call_ringing''"
| "event_type (Call_ended _ _ _ _) = ''call_ended''"
| "event_type (Presence_changed _ _) = ''presence_changed''"
| "event_type (Direct_room_opened _ _) = ''direct_room_opened''"
| "event_type (Typing _ _ _ _) = ''typing''"
| "event_type (Console_changed _) = ''console_changed''"
| "event_type Pong = ''pong''"
| "event_type (Error_event _) = ''error''"

datatype emission = Status string | Event server_event
datatype completion = Returned | Threw

type_synonym callback = nat

section \<open>State\<close>

datatype ready_state = CONNECTING | OPEN | CLOSING | CLOSED

text \<open>A \<open>WebSocket\<close>: the four handlers are set together and cleared together.\<close>

record web_socket =
  ws_url :: string
  readyState :: ready_state
  ws_handlers :: bool
  ws_sent :: "frame list"

record env =
  getApiBaseUrl :: string
  window_origin :: "string option"
  encodeURIComponent :: "string \<Rightarrow> string"
  url_ok :: "string \<Rightarrow> bool"
  throws :: "callback \<Rightarrow> bool"

record chat_socket =
  socket :: "nat option"
  token :: "string option"
  baseUrl :: "string option"
  listeners :: "(string \<times> callback list) list"
  subscribedRooms :: "uuid list"
  focusedRoom :: "uuid option"
  messageQueue :: "frame list"
  reconnectTimer :: "nat option"
  pingTimer :: "nat option"
  isExplicitlyClosed :: bool
  retryCount :: nat
  sockets :: "web_socket list"
  timeouts :: "(nat \<times> nat) list"
  intervals :: "nat list"
  next_timer :: nat
  delivered :: "(callback \<times> emission) list"

definition new_chat_socket :: "string option \<Rightarrow> chat_socket" where
  "new_chat_socket url =
     \<lparr>socket = None, token = None,
      baseUrl = (case url of None \<Rightarrow> None | Some u \<Rightarrow> if u \<noteq> [] then Some u else None),
      listeners = [], subscribedRooms = [], focusedRoom = None, messageQueue = [],
      reconnectTimer = None, pingTimer = None, isExplicitlyClosed = False, retryCount = 0,
      sockets = [], timeouts = [], intervals = [], next_timer = 0, delivered = []\<rparr>"

text \<open>\<open>this.socket?.readyState\<close>.\<close>

definition ready :: "chat_socket \<Rightarrow> ready_state option" where
  "ready s = (case socket s of None \<Rightarrow> None | Some i \<Rightarrow> Some (readyState (sockets s ! i)))"

definition set_ready :: "nat \<Rightarrow> ready_state \<Rightarrow> chat_socket \<Rightarrow> chat_socket" where
  "set_ready i r s = s\<lparr>sockets := (sockets s)[i := (sockets s ! i)\<lparr>readyState := r\<rparr>]\<rparr>"

section \<open>Operations\<close>

definition setBaseUrl :: "string \<Rightarrow> chat_socket \<Rightarrow> chat_socket" where
  "setBaseUrl url s = s\<lparr>baseUrl := Some url\<rparr>"

fun deliver :: "env \<Rightarrow> callback list \<Rightarrow> emission \<Rightarrow> chat_socket \<Rightarrow> chat_socket \<times> completion" where
  "deliver e [] data s = (s, Returned)"
| "deliver e (handler # hs) data s =
     (let s' = s\<lparr>delivered := delivered s @ [(handler, data)]\<rparr>
      in if throws e handler then (s', Threw) else deliver e hs data s')"

definition emit :: "env \<Rightarrow> string \<Rightarrow> emission \<Rightarrow> chat_socket \<Rightarrow> chat_socket \<times> completion" where
  "emit e event data s =
     (case map_of (listeners s) event of
        None \<Rightarrow> (s, Returned)
      | Some hs \<Rightarrow> deliver e hs data s)"

definition scheduleReconnect :: "chat_socket \<Rightarrow> chat_socket" where
  "scheduleReconnect s =
     (if reconnectTimer s \<noteq> None then s
      else let delay = min (1000 * 2 ^ retryCount s) 10000; timer = next_timer s
           in s\<lparr>retryCount := retryCount s + 1, reconnectTimer := Some timer,
                timeouts := timeouts s @ [(timer, delay)], next_timer := Suc timer\<rparr>)"

definition ws_endpoint :: "env \<Rightarrow> chat_socket \<Rightarrow> string" where
  "ws_endpoint e s =
     (let base = (case baseUrl s of Some b \<Rightarrow> if b \<noteq> [] then b else getApiBaseUrl e
                  | None \<Rightarrow> getApiBaseUrl e);
          base = (if base = [] then (case window_origin e of Some w \<Rightarrow> w | None \<Rightarrow> base) else base);
          ws_base = (if starts_with base ''http'' then ''ws'' @ drop 4 base else base)
      in ws_base @ ''/api/v1/ws''
           @ (case token s of
                Some t \<Rightarrow> if t \<noteq> [] then ''?token='' @ encodeURIComponent e t else []
              | None \<Rightarrow> []))"

definition connect :: "env \<Rightarrow> chat_socket \<Rightarrow> chat_socket" where
  "connect e s =
     (if ready s = Some OPEN \<or> ready s = Some CONNECTING then s
      else let s = s\<lparr>isExplicitlyClosed := False\<rparr>; url = ws_endpoint e s
           in if \<not> url_ok e url then scheduleReconnect s
              else let s = s\<lparr>socket := Some (length (sockets s)),
                             sockets := sockets s @ [\<lparr>ws_url = url, readyState = CONNECTING,
                                                       ws_handlers = True, ws_sent = []\<rparr>]\<rparr>
                   in case emit e ''status'' (Status ''connecting'') s of
                        (s, Returned) \<Rightarrow> s
                      | (s, Threw) \<Rightarrow> scheduleReconnect s)"

definition send :: "frame \<Rightarrow> chat_socket \<Rightarrow> chat_socket" where
  "send data s =
     (if ready s = Some OPEN
      then let i = the (socket s); w = sockets s ! i
           in s\<lparr>sockets := (sockets s)[i := w\<lparr>ws_sent := ws_sent w @ [data]\<rparr>]\<rparr>
      else s\<lparr>messageQueue := messageQueue s @ [data]\<rparr>)"

definition stopPing :: "chat_socket \<Rightarrow> chat_socket" where
  "stopPing s =
     (case pingTimer s of
        None \<Rightarrow> s
      | Some t \<Rightarrow> s\<lparr>intervals := removeAll t (intervals s), pingTimer := None\<rparr>)"

definition startPing :: "chat_socket \<Rightarrow> chat_socket" where
  "startPing s =
     (let s = stopPing s; timer = next_timer s
      in s\<lparr>pingTimer := Some timer, intervals := intervals s @ [timer], next_timer := Suc timer\<rparr>)"

text \<open>
  The \<open>while\<close> loop that empties the queue. It would not return for a socket that is not open:
  each frame it takes out, \<open>send\<close> puts back.
\<close>

partial_function (option) flush :: "chat_socket \<Rightarrow> chat_socket option" where
  "flush s =
     (case messageQueue s of
        [] \<Rightarrow> Some s
      | msg # queue \<Rightarrow> flush (send msg (s\<lparr>messageQueue := queue\<rparr>)))"

declare flush.simps [code]

definition handleOpen :: "env \<Rightarrow> chat_socket \<Rightarrow> chat_socket option" where
  "handleOpen e s =
     (case emit e ''status'' (Status ''connected'') (s\<lparr>retryCount := 0\<rparr>) of
        (s, Threw) \<Rightarrow> Some s
      | (s, Returned) \<Rightarrow>
          let s = fold (\<lambda>room. send (Subscribe_frame room)) (subscribedRooms s) s;
              s = (case focusedRoom s of None \<Rightarrow> s | Some room \<Rightarrow> send (Focus_frame (Some room)) s)
          in case flush s of None \<Rightarrow> None | Some s \<Rightarrow> Some (startPing s))"

text \<open>\<open>data\<close> is \<open>None\<close> where \<open>JSON.parse\<close> throws.\<close>

definition handleMessage :: "env \<Rightarrow> server_event option \<Rightarrow> chat_socket \<Rightarrow> chat_socket" where
  "handleMessage e data s =
     (case data of
        None \<Rightarrow> s
      | Some ev \<Rightarrow>
          if ev = Pong then s
          else case emit e (event_type ev) (Event ev) s of
                 (s, Threw) \<Rightarrow> s
               | (s, Returned) \<Rightarrow> fst (emit e ''*'' (Event ev) s))"

definition handleClose :: "env \<Rightarrow> chat_socket \<Rightarrow> chat_socket" where
  "handleClose e s =
     (case emit e ''status'' (Status ''disconnected'') s of
        (s, Threw) \<Rightarrow> s
      | (s, Returned) \<Rightarrow>
          let s = stopPing s in if \<not> isExplicitlyClosed s then scheduleReconnect s else s)"

definition handleError :: "env \<Rightarrow> chat_socket \<Rightarrow> chat_socket" where
  "handleError e s = fst (emit e ''status'' (Status ''error'') s)"

definition subscribe :: "uuid \<Rightarrow> chat_socket \<Rightarrow> chat_socket" where
  "subscribe room s =
     send (Subscribe_frame room) (s\<lparr>subscribedRooms := jset_add room (subscribedRooms s)\<rparr>)"

definition unsubscribe :: "uuid \<Rightarrow> chat_socket \<Rightarrow> chat_socket" where
  "unsubscribe room s =
     (let s = s\<lparr>subscribedRooms := jset_delete room (subscribedRooms s)\<rparr>;
          s = (if focusedRoom s = Some room then s\<lparr>focusedRoom := None\<rparr> else s)
      in send (Unsubscribe_frame room) s)"

definition focus :: "uuid option \<Rightarrow> chat_socket \<Rightarrow> chat_socket" where
  "focus room s =
     (if focusedRoom s = room then s
      else send (Focus_frame room) (s\<lparr>focusedRoom := room\<rparr>))"

definition blur :: "uuid \<Rightarrow> chat_socket \<Rightarrow> chat_socket" where
  "blur room s = (if focusedRoom s \<noteq> Some room then s else focus None s)"

definition sendTyping :: "uuid \<Rightarrow> bool \<Rightarrow> chat_socket \<Rightarrow> chat_socket" where
  "sendTyping room isTyping s = send (Typing_frame room isTyping) s"

definition add_listener :: "string \<Rightarrow> callback \<Rightarrow> chat_socket \<Rightarrow> chat_socket" where
  "add_listener event cb s =
     (let s = (if map_of (listeners s) event = None
               then s\<lparr>listeners := AList.update event [] (listeners s)\<rparr> else s)
      in s\<lparr>listeners :=
             AList.update event (jset_add cb (the (map_of (listeners s) event))) (listeners s)\<rparr>)"

text \<open>The function that \<open>on\<close> returns.\<close>

definition remove_listener :: "string \<Rightarrow> callback \<Rightarrow> chat_socket \<Rightarrow> chat_socket" where
  "remove_listener event cb s =
     (case map_of (listeners s) event of
        None \<Rightarrow> s
      | Some hs \<Rightarrow> s\<lparr>listeners := AList.update event (jset_delete cb hs) (listeners s)\<rparr>)"

text \<open>\<open>socket.close()\<close>.\<close>

definition close_socket :: "web_socket \<Rightarrow> web_socket" where
  "close_socket w =
     (if readyState w = CONNECTING \<or> readyState w = OPEN then w\<lparr>readyState := CLOSING\<rparr> else w)"

definition disconnect :: "chat_socket \<Rightarrow> chat_socket" where
  "disconnect s =
     (let s = s\<lparr>isExplicitlyClosed := True\<rparr>;
          s = (case reconnectTimer s of
                 None \<Rightarrow> s
               | Some t \<Rightarrow> s\<lparr>timeouts := filter (\<lambda>(i, _). i \<noteq> t) (timeouts s), reconnectTimer := None\<rparr>);
          s = stopPing s
      in case socket s of
           None \<Rightarrow> s
         | Some i \<Rightarrow> s\<lparr>sockets := (sockets s)[i := close_socket ((sockets s ! i)\<lparr>ws_handlers := False\<rparr>)],
                        socket := None\<rparr>)"

definition setToken :: "env \<Rightarrow> string \<Rightarrow> chat_socket \<Rightarrow> chat_socket" where
  "setToken e t s =
     (let live = (ready s = Some OPEN \<or> ready s = Some CONNECTING)
      in if token s = Some t \<and> live then s
         else let s = s\<lparr>token := Some t\<rparr>;
                  s = (if socket s \<noteq> None then disconnect s else s)
              in connect e s)"

section \<open>Steps\<close>

datatype api_call =
    SetBaseUrl string | SetToken string | Subscribe uuid | Unsubscribe uuid | Focus "uuid option"
  | Blur uuid | SendTyping uuid bool | SendOther string | On string callback | Off string callback
  | Disconnect

fun call :: "env \<Rightarrow> api_call \<Rightarrow> chat_socket \<Rightarrow> chat_socket" where
  "call e (SetBaseUrl url) s = setBaseUrl url s"
| "call e (SetToken t) s = setToken e t s"
| "call e (Subscribe room) s = subscribe room s"
| "call e (Unsubscribe room) s = unsubscribe room s"
| "call e (Focus room) s = focus room s"
| "call e (Blur room) s = blur room s"
| "call e (SendTyping room b) s = sendTyping room b s"
| "call e (SendOther data) s = send (Other_frame data) s"
| "call e (On event cb) s = add_listener event cb s"
| "call e (Off event cb) s = remove_listener event cb s"
| "call e Disconnect s = disconnect s"

datatype label =
    Call api_call
  | Opened nat | Received nat "server_event option" | Closing nat | Closed nat | Errored nat
  | Timed_out nat | Ticked nat

text \<open>
  One step: the application makes a call, or the host runs an event. An event of a socket
  whose handlers were cleared changes only that socket. A socket fires its \<open>error\<close> in the
  task that closes it, before its \<open>close\<close>.
\<close>

inductive step :: "env \<Rightarrow> chat_socket \<Rightarrow> label \<Rightarrow> chat_socket \<Rightarrow> bool" for e where
  step_call: "step e s (Call c) (call e c s)"
| step_open: "i < length (sockets s) \<Longrightarrow> readyState (sockets s ! i) = CONNECTING \<Longrightarrow>
     (if ws_handlers (sockets s ! i) then handleOpen e (set_ready i OPEN s) else Some (set_ready i OPEN s))
       = Some s' \<Longrightarrow>
     step e s (Opened i) s'"
| step_message: "i < length (sockets s) \<Longrightarrow> readyState (sockets s ! i) = OPEN \<Longrightarrow>
     step e s (Received i data) (if ws_handlers (sockets s ! i) then handleMessage e data s else s)"
| step_closing: "i < length (sockets s) \<Longrightarrow> readyState (sockets s ! i) \<in> {CONNECTING, OPEN} \<Longrightarrow>
     step e s (Closing i) (set_ready i CLOSING s)"
| step_close: "i < length (sockets s) \<Longrightarrow> readyState (sockets s ! i) \<noteq> CLOSED \<Longrightarrow>
     step e s (Closed i)
       (if ws_handlers (sockets s ! i) then handleClose e (set_ready i CLOSED s) else set_ready i CLOSED s)"
| step_error: "i < length (sockets s) \<Longrightarrow> readyState (sockets s ! i) \<noteq> CLOSED \<Longrightarrow>
     step e s (Errored i) (if ws_handlers (sockets s ! i) then handleError e s else s)"
| step_timeout: "(t, d) \<in> set (timeouts s) \<Longrightarrow>
     step e s (Timed_out t)
       (connect e (s\<lparr>timeouts := filter (\<lambda>(i, _). i \<noteq> t) (timeouts s), reconnectTimer := None\<rparr>))"
| step_tick: "t \<in> set (intervals s) \<Longrightarrow> step e s (Ticked t) (send Ping_frame s)"

inductive_cases stepE: "step e s l s'"

inductive reachable :: "env \<Rightarrow> string option \<Rightarrow> chat_socket \<Rightarrow> bool" for e url where
  reachable_init: "reachable e url (new_chat_socket url)"
| reachable_step: "reachable e url s \<Longrightarrow> step e s l s' \<Longrightarrow> reachable e url s'"

end
