(* ===== verification/ChatSocketInv.thy ===== *)
theory ChatSocketInv
  imports ChatSocket
begin

text \<open>
  What holds of a \<open>ChatSocket\<close> in every state it can reach: which sockets and timers exist,
  where queued frames are, and that the server at the other end has made of the frames it
  was sent what the client believes. Everything is proved for an environment whose
  listeners do not throw and whose URLs the constructor accepts (\<open>sound\<close>).
\<close>

section \<open>The invariant\<close>

definition sound :: "env \<Rightarrow> bool" where
  "sound e \<longleftrightarrow> (\<forall>cb. \<not> throws e cb) \<and> (\<forall>u. url_ok e u)"

definition opt_list :: "'a option \<Rightarrow> 'a list" where
  "opt_list x = (case x of None \<Rightarrow> [] | Some y \<Rightarrow> [y])"

lemma opt_list_simps [simp]: "opt_list None = []" "opt_list (Some y) = [y]"
  by (simp_all add: opt_list_def)

text \<open>What was sent on the current socket.\<close>

definition sent :: "chat_socket \<Rightarrow> frame list" where
  "sent s = (case socket s of None \<Rightarrow> [] | Some i \<Rightarrow> ws_sent (sockets s ! i))"

text \<open>The client's own bookkeeping for a frame it announces.\<close>

fun client_focus :: "frame \<Rightarrow> uuid option \<Rightarrow> uuid option" where
  "client_focus (Focus_frame y) x = y"
| "client_focus (Unsubscribe_frame r) x = (if x = Some r then None else x)"
| "client_focus _ x = x"

definition typed :: "frame list \<Rightarrow> uuid set" where
  "typed fs = (\<Union>f \<in> set fs. typed_in f)"

text \<open>
  A queue is consistent with the client when replaying it, from whatever state, ends with
  the client's subscriptions, claims nothing but what the client reads or types in, and,
  unless it takes attention away, ends with exactly what the client reads.
\<close>

definition queue_subs :: "uuid set \<Rightarrow> frame list \<Rightarrow> bool" where
  "queue_subs S q \<longleftrightarrow> (\<forall>r. last_word q r = None \<or> last_word q r = Some (r \<in> S))"

definition queue_claims :: "uuid option \<Rightarrow> frame list \<Rightarrow> bool" where
  "queue_claims x q \<longleftrightarrow> (\<forall>v ss T. current_user_id ss \<noteq> None \<longrightarrow> claims ss \<subseteq> set_option x \<union> T \<longrightarrow>
     claims (replay v q ss) \<subseteq> set_option x \<union> T \<union> typed q)"

definition queue_exact :: "uuid option \<Rightarrow> frame list \<Rightarrow> bool" where
  "queue_exact x q \<longleftrightarrow> (list_all keeps_attention q \<longrightarrow>
     (\<forall>v ss. current_user_id ss \<noteq> None \<longrightarrow> claims ss = set_option x \<longrightarrow>
        claims (replay v q ss) = set_option x))"

definition socket_ok :: "chat_socket \<Rightarrow> bool" where
  "socket_ok s \<longleftrightarrow>
     (\<forall>i. socket s = Some i \<longrightarrow> i < length (sockets s) \<and> ws_handlers (sockets s ! i))
     \<and> (\<forall>j < length (sockets s). ws_handlers (sockets s ! j) \<longrightarrow>
          socket s = Some j \<or> readyState (sockets s ! j) = CLOSED)"

definition timers_ok :: "chat_socket \<Rightarrow> bool" where
  "timers_ok s \<longleftrightarrow> map fst (timeouts s) = opt_list (reconnectTimer s)
     \<and> intervals s = opt_list (pingTimer s)
     \<and> (\<forall>d \<in> snd ` set (timeouts s). 1000 \<le> d \<and> d \<le> 10000)"

definition phase_ok :: "chat_socket \<Rightarrow> bool" where
  "phase_ok s \<longleftrightarrow>
     (case ready s of
        None \<Rightarrow> pingTimer s = None \<and> reconnectTimer s = None \<and> (isExplicitlyClosed s \<or> token s = None)
      | Some CONNECTING \<Rightarrow> pingTimer s = None \<and> reconnectTimer s = None \<and> \<not> isExplicitlyClosed s
          \<and> sent s = []
      | Some OPEN \<Rightarrow> pingTimer s \<noteq> None \<and> reconnectTimer s = None \<and> \<not> isExplicitlyClosed s
          \<and> messageQueue s = []
      | Some CLOSING \<Rightarrow> reconnectTimer s = None \<and> \<not> isExplicitlyClosed s
      | Some CLOSED \<Rightarrow> pingTimer s = None \<and> reconnectTimer s \<noteq> None \<and> \<not> isExplicitlyClosed s)"

definition subs_ok :: "chat_socket \<Rightarrow> bool" where
  "subs_ok s \<longleftrightarrow> distinct (subscribedRooms s) \<and> queue_subs (set (subscribedRooms s)) (messageQueue s)
     \<and> (ready s = Some OPEN \<longrightarrow> fold sub_step (sent s) {} = set (subscribedRooms s))"

definition focus_ok :: "chat_socket \<Rightarrow> bool" where
  "focus_ok s \<longleftrightarrow> queue_claims (focusedRoom s) (messageQueue s) \<and> queue_exact (focusedRoom s) (messageQueue s)
     \<and> (ready s = Some OPEN \<longrightarrow> (\<forall>v u.
          claims (replay v (sent s) (new_session u)) \<subseteq> set_option (focusedRoom s) \<union> typed (sent s)
          \<and> (list_all keeps_attention (sent s) \<longrightarrow>
               claims (replay v (sent s) (new_session u)) = set_option (focusedRoom s))))"

definition chat_inv :: "chat_socket \<Rightarrow> bool" where
  "chat_inv s \<longleftrightarrow> socket_ok s \<and> timers_ok s \<and> phase_ok s \<and> subs_ok s \<and> focus_ok s"

lemmas inv_defs = chat_inv_def socket_ok_def timers_ok_def phase_ok_def subs_ok_def focus_ok_def

section \<open>Queues\<close>

lemma typed_append [simp]: "typed (xs @ ys) = typed xs \<union> typed ys"
  by (auto simp: typed_def)

lemma typed_single [simp]: "typed [f] = typed_in f"
  by (simp add: typed_def)

lemma typed_Nil [simp]: "typed [] = {}"
  by (simp add: typed_def)

lemma queue_Nil [simp]: "queue_subs S []" "queue_claims x []" "queue_exact x []"
  by (auto simp: queue_subs_def queue_claims_def queue_exact_def)

lemma queue_subs_snoc: "queue_subs S q \<Longrightarrow> queue_subs (sub_step f S) (q @ [f])"
  unfolding queue_subs_def last_word_append by (cases f) (auto split: option.splits)

lemma claims_step:
  assumes "current_user_id s \<noteq> None" and "claims s \<subseteq> set_option x \<union> T"
  shows "claims (handle_command v f s) \<subseteq> set_option (client_focus f x) \<union> T \<union> typed_in f"
  using claims_handle [OF assms(1), of v f] assms(2) by (cases f) auto

lemma claims_step_exact:
  assumes "current_user_id s \<noteq> None" and "keeps_attention f" and "claims s = set_option x"
  shows "claims (handle_command v f s) = set_option (client_focus f x)"
  using claims_exact [OF assms, of v] assms(2) by (cases f) auto

lemma typed_snoc: "typed (q @ [f]) = typed q \<union> typed_in f"
  by (auto simp: typed_def)

lemma claims_settled:
  "current_user_id s \<noteq> None \<Longrightarrow> client_focus f x \<noteq> x \<Longrightarrow>
     claims (handle_command v f s) = set_option (client_focus f x)"
  by (cases f) (auto simp: claims_attend session_unsubscribe_def split: if_splits)

lemma queue_claims_snoc:
  assumes q: "queue_claims x q"
  shows "queue_claims (client_focus f x) (q @ [f])"
  unfolding queue_claims_def
proof (intro allI impI)
  fix v ss T
  assume u: "current_user_id ss \<noteq> None" and c: "claims ss \<subseteq> set_option (client_focus f x) \<union> T"
  let ?ss = "replay v q ss"
  have u': "current_user_id ?ss \<noteq> None" using u by simp
  have "claims (handle_command v f ?ss) \<subseteq> set_option (client_focus f x) \<union> T \<union> typed (q @ [f])"
  proof (cases "client_focus f x = x")
    case True
    with q u c have "claims ?ss \<subseteq> set_option x \<union> (T \<union> typed q)"
      unfolding queue_claims_def by (metis Un_assoc)
    from claims_step [OF u' this, of v f] show ?thesis
      unfolding typed_snoc by blast
  next
    case False
    from claims_settled [OF u' this, of v] show ?thesis by blast
  qed
  then show "claims (replay v (q @ [f]) ss)
      \<subseteq> set_option (client_focus f x) \<union> T \<union> typed (q @ [f])"
    by (simp add: replay_append replay_Cons)
qed

lemma queue_exact_snoc:
  assumes q: "queue_exact x q"
  shows "queue_exact (client_focus f x) (q @ [f])"
  unfolding queue_exact_def
proof (intro allI impI)
  fix v ss
  assume keep: "list_all keeps_attention (q @ [f])" and u: "current_user_id ss \<noteq> None"
    and c: "claims ss = set_option (client_focus f x)"
  let ?ss = "replay v q ss"
  have u': "current_user_id ?ss \<noteq> None" using u by simp
  have "claims (handle_command v f ?ss) = set_option (client_focus f x)"
  proof (cases "client_focus f x = x")
    case True
    with q u c keep have "claims ?ss = set_option x"
      unfolding queue_exact_def by simp
    with u' keep show ?thesis by (intro claims_step_exact) simp_all
  next
    case False
    with u' show ?thesis by (rule claims_settled)
  qed
  then show "claims (replay v (q @ [f]) ss) = set_option (client_focus f x)"
    by (simp add: replay_append replay_Cons)
qed

section \<open>Frames the client announces\<close>

lemma ready_simps [simp]:
  "ready (s\<lparr>subscribedRooms := a\<rparr>) = ready s" "ready (s\<lparr>focusedRoom := b\<rparr>) = ready s"
  "ready (s\<lparr>messageQueue := q\<rparr>) = ready s" "ready (s\<lparr>delivered := d\<rparr>) = ready s"
  "ready (s\<lparr>retryCount := n\<rparr>) = ready s" "ready (s\<lparr>listeners := l\<rparr>) = ready s"
  "ready (s\<lparr>baseUrl := u\<rparr>) = ready s" "ready (s\<lparr>pingTimer := p\<rparr>) = ready s"
  "ready (s\<lparr>token := t\<rparr>) = ready s" "ready (s\<lparr>isExplicitlyClosed := c\<rparr>) = ready s"
  "ready (s\<lparr>intervals := iv\<rparr>) = ready s" "ready (s\<lparr>next_timer := nt\<rparr>) = ready s"
  "ready (s\<lparr>timeouts := ts\<rparr>) = ready s" "ready (s\<lparr>reconnectTimer := r\<rparr>) = ready s"
  by (simp_all add: ready_def split: option.split)

lemma sent_simps [simp]:
  "sent (s\<lparr>subscribedRooms := a\<rparr>) = sent s" "sent (s\<lparr>focusedRoom := b\<rparr>) = sent s"
  "sent (s\<lparr>messageQueue := q\<rparr>) = sent s" "sent (s\<lparr>delivered := d\<rparr>) = sent s"
  "sent (s\<lparr>retryCount := n\<rparr>) = sent s" "sent (s\<lparr>listeners := l\<rparr>) = sent s"
  "sent (s\<lparr>baseUrl := u\<rparr>) = sent s" "sent (s\<lparr>pingTimer := p\<rparr>) = sent s"
  "sent (s\<lparr>token := t\<rparr>) = sent s" "sent (s\<lparr>isExplicitlyClosed := c\<rparr>) = sent s"
  "sent (s\<lparr>intervals := iv\<rparr>) = sent s" "sent (s\<lparr>next_timer := nt\<rparr>) = sent s"
  "sent (s\<lparr>timeouts := ts\<rparr>) = sent s" "sent (s\<lparr>reconnectTimer := r\<rparr>) = sent s"
  by (simp_all add: sent_def split: option.split)

text \<open>\<open>transmit fs s\<close>: \<open>fs\<close> written to the current socket.\<close>

definition transmit :: "frame list \<Rightarrow> chat_socket \<Rightarrow> chat_socket" where
  "transmit fs s =
     (case socket s of
        None \<Rightarrow> s
      | Some i \<Rightarrow> s\<lparr>sockets := (sockets s)[i := (sockets s ! i)\<lparr>ws_sent := ws_sent (sockets s ! i) @ fs\<rparr>]\<rparr>)"

lemma send_open: "ready s = Some OPEN \<Longrightarrow> send f s = transmit [f] s"
  by (auto simp: send_def transmit_def ready_def Let_def split: option.splits)

lemma send_queue: "ready s \<noteq> Some OPEN \<Longrightarrow> send f s = s\<lparr>messageQueue := messageQueue s @ [f]\<rparr>"
  by (simp add: send_def)

lemma transmit_fields [simp]:
  "socket (transmit fs s) = socket s" "token (transmit fs s) = token s"
  "baseUrl (transmit fs s) = baseUrl s" "listeners (transmit fs s) = listeners s"
  "subscribedRooms (transmit fs s) = subscribedRooms s" "focusedRoom (transmit fs s) = focusedRoom s"
  "messageQueue (transmit fs s) = messageQueue s" "reconnectTimer (transmit fs s) = reconnectTimer s"
  "pingTimer (transmit fs s) = pingTimer s" "isExplicitlyClosed (transmit fs s) = isExplicitlyClosed s"
  "retryCount (transmit fs s) = retryCount s" "timeouts (transmit fs s) = timeouts s"
  "intervals (transmit fs s) = intervals s" "next_timer (transmit fs s) = next_timer s"
  "delivered (transmit fs s) = delivered s" "length (sockets (transmit fs s)) = length (sockets s)"
  by (simp_all add: transmit_def split: option.splits)

definition current_ok :: "chat_socket \<Rightarrow> bool" where
  "current_ok s \<longleftrightarrow> (\<forall>i. socket s = Some i \<longrightarrow> i < length (sockets s))"

lemma transmit_nth:
  "j < length (sockets s) \<Longrightarrow>
     ws_handlers (sockets (transmit fs s) ! j) = ws_handlers (sockets s ! j)
     \<and> readyState (sockets (transmit fs s) ! j) = readyState (sockets s ! j)
     \<and> ws_url (sockets (transmit fs s) ! j) = ws_url (sockets s ! j)"
  by (auto simp: transmit_def nth_update split: option.split)

lemma ready_transmit [simp]: "ready (transmit fs s) = ready s"
proof (cases "socket s")
  case (Some i)
  then show ?thesis
    by (cases "i < length (sockets s)") (auto simp: ready_def transmit_def nth_update)
qed (simp add: ready_def transmit_def)

lemma sent_transmit: "current_ok s \<Longrightarrow> socket s \<noteq> None \<Longrightarrow> sent (transmit fs s) = sent s @ fs"
  by (auto simp: sent_def transmit_def current_ok_def)

lemma transmit_transmit: "current_ok s \<Longrightarrow> transmit ys (transmit xs s) = transmit (xs @ ys) s"
  by (auto simp: transmit_def current_ok_def split: option.splits)

lemma transmit_Nil [simp]: "transmit [] s = s"
  by (simp add: transmit_def split: option.splits)

lemma current_ok_transmit [simp]: "current_ok (transmit fs s) = current_ok s"
  by (simp add: current_ok_def)

lemma socket_ok_transmit: "socket_ok s \<Longrightarrow> socket_ok (transmit fs s)"
  using transmit_nth [of _ s fs] by (auto simp: socket_ok_def)

lemma socket_ok_current: "socket_ok s \<Longrightarrow> current_ok s"
  by (simp add: socket_ok_def current_ok_def)

lemma ready_Some: "ready s = Some r \<Longrightarrow> socket s \<noteq> None"
  by (auto simp: ready_def split: option.splits)

lemma socket_ok_cong:
  "socket s' = socket s \<Longrightarrow> sockets s' = sockets s \<Longrightarrow> socket_ok s' = socket_ok s"
  by (simp add: socket_ok_def)

lemma replay_snoc: "replay v (fs @ [f]) s = handle_command v f (replay v fs s)"
  by (simp add: replay_append replay_Cons)

lemma current_user_new [simp]: "current_user_id (new_session u) = Some u"
  by (simp add: new_session_def)

text \<open>
  Every call that sends a frame first does its own bookkeeping for it: this is the one lemma
  behind them all.
\<close>

lemma announce_inv:
  assumes inv: "chat_inv s"
    and subs: "set rooms = sub_step f (set (subscribedRooms s))" "distinct rooms"
    and x: "x = client_focus f (focusedRoom s)"
  shows "chat_inv (send f (s\<lparr>subscribedRooms := rooms, focusedRoom := x\<rparr>))"
proof (cases "ready s = Some OPEN")
  case True
  let ?s = "s\<lparr>subscribedRooms := rooms, focusedRoom := x\<rparr>"
  let ?t = "transmit [f] ?s"
  have so: "socket_ok ?s" using inv by (simp add: inv_defs)
  have sock: "socket s \<noteq> None" using True by (rule ready_Some)
  have sent: "sent ?t = sent s @ [f]"
    using sent_transmit [OF socket_ok_current [OF so]] sock by simp
  have q: "messageQueue s = []" using inv True by (simp add: inv_defs)
  have "timers_ok ?t" using inv by (simp add: chat_inv_def timers_ok_def)
  moreover have "phase_ok ?t" using inv True by (simp add: chat_inv_def phase_ok_def)
  moreover have "subs_ok ?t"
    using inv True q subs by (simp add: chat_inv_def subs_ok_def sent)
  moreover have "focus_ok ?t"
    unfolding focus_ok_def sent transmit_fields
  proof (intro conjI impI allI)
    fix v u
    let ?r = "replay v (sent s) (new_session u)"
    have u: "current_user_id ?r \<noteq> None" by simp
    have c: "claims ?r \<subseteq> set_option (focusedRoom s) \<union> typed (sent s)"
      and ex: "list_all keeps_attention (sent s) \<Longrightarrow> claims ?r = set_option (focusedRoom s)"
      using inv True by (simp_all add: inv_defs)
    show "claims (replay v (sent s @ [f]) (new_session u))
        \<subseteq> set_option (focusedRoom ?s) \<union> typed (sent s @ [f])"
      using claims_step [OF u c, of v f] by (auto simp: replay_snoc x typed_snoc)
    assume keep: "list_all keeps_attention (sent s @ [f])"
    show "claims (replay v (sent s @ [f]) (new_session u)) = set_option (focusedRoom ?s)"
      using claims_step_exact [OF u _ ex, of f v] keep by (simp add: replay_snoc x)
  qed (use q in simp_all)
  ultimately show ?thesis
    using True so by (simp add: send_open chat_inv_def socket_ok_transmit)
next
  case False
  let ?s = "s\<lparr>subscribedRooms := rooms, focusedRoom := x\<rparr>"
  let ?t = "?s\<lparr>messageQueue := messageQueue s @ [f]\<rparr>"
  have "queue_subs (set rooms) (messageQueue s @ [f])"
    using inv subs by (simp add: inv_defs queue_subs_snoc)
  moreover have "queue_claims x (messageQueue s @ [f])" "queue_exact x (messageQueue s @ [f])"
    using inv unfolding x by (simp_all add: inv_defs queue_claims_snoc queue_exact_snoc)
  moreover have "phase_ok ?t"
    using inv False by (auto simp: chat_inv_def phase_ok_def split: option.splits ready_state.splits)
  ultimately have "chat_inv ?t"
    using inv subs(2) False by (simp add: chat_inv_def socket_ok_def timers_ok_def subs_ok_def focus_ok_def)
  with False show ?thesis by (simp add: send_queue)
qed

lemma focus_same [simp]:
  "s\<lparr>subscribedRooms := a, focusedRoom := focusedRoom s\<rparr> = s\<lparr>subscribedRooms := a\<rparr>"
  "s\<lparr>focusedRoom := focusedRoom s\<rparr> = s" "s\<lparr>subscribedRooms := subscribedRooms s\<rparr> = s"
  by (cases s, simp)+

lemma chat_inv_distinct: "chat_inv s \<Longrightarrow> distinct (subscribedRooms s)"
  by (simp add: inv_defs)

lemma subscribe_inv: "chat_inv s \<Longrightarrow> chat_inv (subscribe r s)"
  using announce_inv [of s "jset_add r (subscribedRooms s)" "Subscribe_frame r" "focusedRoom s"]
    chat_inv_distinct [of s]
  by (simp add: subscribe_def)

lemma unsubscribe_eq:
  "unsubscribe r s = send (Unsubscribe_frame r)
     (s\<lparr>subscribedRooms := jset_delete r (subscribedRooms s),
       focusedRoom := client_focus (Unsubscribe_frame r) (focusedRoom s)\<rparr>)"
  by (cases "focusedRoom s = Some r") (simp_all add: unsubscribe_def Let_def)

lemma unsubscribe_inv: "chat_inv s \<Longrightarrow> chat_inv (unsubscribe r s)"
  unfolding unsubscribe_eq
  by (rule announce_inv) (auto dest: chat_inv_distinct)

lemma send_inv:
  "chat_inv s \<Longrightarrow> \<forall>r x. f \<noteq> Subscribe_frame r \<and> f \<noteq> Unsubscribe_frame r \<and> f \<noteq> Focus_frame x \<Longrightarrow>
     chat_inv (send f s)"
  using announce_inv [of s "subscribedRooms s" f "focusedRoom s"] chat_inv_distinct [of s]
  by (cases f) simp_all

lemma focus_inv: "chat_inv s \<Longrightarrow> chat_inv (focus x s)"
  using announce_inv [of s "subscribedRooms s" "Focus_frame x" x] chat_inv_distinct [of s]
  by (simp add: focus_def)

lemma blur_inv: "chat_inv s \<Longrightarrow> chat_inv (blur r s)"
  by (simp add: blur_def focus_inv)

section \<open>Listeners\<close>

definition heard :: "chat_socket \<Rightarrow> string \<Rightarrow> emission \<Rightarrow> (callback \<times> emission) list" where
  "heard s event data =
     (case map_of (listeners s) event of None \<Rightarrow> [] | Some hs \<Rightarrow> map (\<lambda>h. (h, data)) hs)"

lemma deliver_sound:
  "sound e \<Longrightarrow> deliver e hs data s = (s\<lparr>delivered := delivered s @ map (\<lambda>h. (h, data)) hs\<rparr>, Returned)"
  by (induction hs arbitrary: s) (simp_all add: sound_def)

lemma emit_sound:
  "sound e \<Longrightarrow> emit e event data s = (s\<lparr>delivered := delivered s @ heard s event data\<rparr>, Returned)"
  by (simp add: emit_def heard_def deliver_sound split: option.split)

text \<open>What the invariant does not look at.\<close>

lemma inv_irrelevant [simp]:
  "chat_inv (s\<lparr>delivered := d\<rparr>) = chat_inv s" "chat_inv (s\<lparr>listeners := l\<rparr>) = chat_inv s"
  "chat_inv (s\<lparr>baseUrl := u\<rparr>) = chat_inv s" "chat_inv (s\<lparr>retryCount := n\<rparr>) = chat_inv s"
  by (simp_all add: inv_defs cong: option.case_cong ready_state.case_cong)

lemma handleMessage_inv: "sound e \<Longrightarrow> chat_inv s \<Longrightarrow> chat_inv (handleMessage e data s)"
  by (auto simp: handleMessage_def emit_sound split: option.split)

lemma handleError_inv: "sound e \<Longrightarrow> chat_inv s \<Longrightarrow> chat_inv (handleError e s)"
  by (simp add: handleError_def emit_sound)

lemma add_listener_inv: "chat_inv s \<Longrightarrow> chat_inv (add_listener ev cb s)"
  by (simp add: add_listener_def Let_def)

lemma remove_listener_inv: "chat_inv s \<Longrightarrow> chat_inv (remove_listener ev cb s)"
  by (simp add: remove_listener_def split: option.split)

section \<open>Opening and closing\<close>

text \<open>A client that is between connections.\<close>

definition idle :: "chat_socket \<Rightarrow> bool" where
  "idle s \<longleftrightarrow> socket_ok s \<and> timers_ok s \<and> subs_ok s \<and> focus_ok s
     \<and> (ready s = None \<or> ready s = Some CLOSED) \<and> pingTimer s = None \<and> reconnectTimer s = None"

definition fresh_socket :: "env \<Rightarrow> chat_socket \<Rightarrow> web_socket" where
  "fresh_socket e s =
     \<lparr>ws_url = ws_endpoint e s, readyState = CONNECTING, ws_handlers = True, ws_sent = []\<rparr>"

lemma ws_endpoint_flag [simp]: "ws_endpoint e (s\<lparr>isExplicitlyClosed := c\<rparr>) = ws_endpoint e s"
  by (simp add: ws_endpoint_def cong: option.case_cong)

lemma connect_eq:
  assumes e: "sound e" and "ready s = None \<or> ready s = Some CLOSED"
  shows "connect e s = s\<lparr>isExplicitlyClosed := False, socket := Some (length (sockets s)),
      sockets := sockets s @ [fresh_socket e s],
      delivered := delivered s @ heard s ''status'' (Status ''connecting'')\<rparr>"
proof -
  have "url_ok e u" for u using e by (simp add: sound_def)
  then show ?thesis
    using assms(2)
    by (auto simp: connect_def emit_sound [OF e] Let_def heard_def fresh_socket_def
        split: option.split)
qed

text \<open>A client that was between connections has opened the socket \<open>w\<close>.\<close>

lemma opened_inv:
  assumes s: "idle s" and w: "readyState w = CONNECTING" "ws_handlers w" "ws_sent w = []"
  shows "chat_inv (s\<lparr>isExplicitlyClosed := False, socket := Some (length (sockets s)),
      sockets := sockets s @ [w], delivered := d\<rparr>)"
proof -
  define t where "t = s\<lparr>isExplicitlyClosed := False, socket := Some (length (sockets s)),
      sockets := sockets s @ [w], delivered := d\<rparr>"
  have ready: "ready t = Some CONNECTING" by (simp add: t_def w ready_def)
  have sent: "sent t = []" by (simp add: t_def w sent_def)
  have old: "readyState (sockets s ! j) = CLOSED" if "j < length (sockets s)" "ws_handlers (sockets s ! j)" for j
    using s that by (auto simp: idle_def socket_ok_def ready_def split: option.splits)
  have "socket_ok t" using old w by (auto simp: t_def socket_ok_def nth_append less_Suc_eq)
  moreover have "timers_ok t" using s by (simp add: t_def idle_def timers_ok_def)
  moreover have "phase_ok t" using s by (simp add: phase_ok_def ready sent) (simp add: t_def idle_def)
  moreover have "subs_ok t" using s by (simp add: subs_ok_def ready) (simp add: t_def idle_def subs_ok_def)
  moreover have "focus_ok t" using s by (simp add: focus_ok_def ready) (simp add: t_def idle_def focus_ok_def)
  ultimately show ?thesis by (simp add: chat_inv_def t_def)
qed

lemma connect_inv:
  assumes e: "sound e" and s: "idle s"
  shows "chat_inv (connect e s)"
proof -
  have "ready s = None \<or> ready s = Some CLOSED" using s by (simp add: idle_def)
  from connect_eq [OF e this] show ?thesis
    using opened_inv [OF s, of "fresh_socket e s"] by (simp add: fresh_socket_def)
qed

lemma stopPing_eq:
  "timers_ok s \<Longrightarrow> stopPing s = s\<lparr>pingTimer := None, intervals := []\<rparr>"
  by (cases "pingTimer s"; cases s) (auto simp: stopPing_def timers_ok_def)

lemma startPing_eq:
  "timers_ok s \<Longrightarrow> startPing s =
     s\<lparr>pingTimer := Some (next_timer s), intervals := [next_timer s], next_timer := Suc (next_timer s)\<rparr>"
  by (simp add: startPing_def stopPing_eq Let_def)

lemma disconnect_eq:
  assumes "timers_ok s"
  shows "disconnect s =
    (let s = s\<lparr>isExplicitlyClosed := True, timeouts := [], reconnectTimer := None,
               pingTimer := None, intervals := []\<rparr>
     in case socket s of
          None \<Rightarrow> s
        | Some i \<Rightarrow> s\<lparr>sockets := (sockets s)[i := close_socket ((sockets s ! i)\<lparr>ws_handlers := False\<rparr>)],
                       socket := None\<rparr>)"
proof (cases "reconnectTimer s")
  case None
  with assms have t: "timeouts s = []" by (simp add: timers_ok_def)
  have "timers_ok (s\<lparr>isExplicitlyClosed := True\<rparr>)" using assms by (simp add: timers_ok_def)
  note ping = stopPing_eq [OF this]
  have "s\<lparr>isExplicitlyClosed := True, pingTimer := None, intervals := []\<rparr>
      = s\<lparr>isExplicitlyClosed := True, timeouts := [], reconnectTimer := None,
          pingTimer := None, intervals := []\<rparr>"
    using None t by (cases s) simp
  with None ping show ?thesis
    by (simp add: disconnect_def Let_def cong: option.case_cong)
next
  case (Some r)
  with assms obtain d where t: "timeouts s = [(r, d)]"
    by (auto simp: timers_ok_def map_eq_Cons_conv)
  have "timers_ok (s\<lparr>isExplicitlyClosed := True, timeouts := [], reconnectTimer := None\<rparr>)"
    using assms by (simp add: timers_ok_def)
  from stopPing_eq [OF this] Some t show ?thesis
    by (simp add: disconnect_def Let_def split: option.split)
qed

lemma close_socket_handlers [simp]: "ws_handlers (close_socket w) = ws_handlers w"
  by (simp add: close_socket_def)

lemma disconnect_idle:
  assumes "chat_inv s"
  shows "idle (disconnect s) \<and> socket (disconnect s) = None \<and> isExplicitlyClosed (disconnect s)
    \<and> token (disconnect s) = token s"
proof -
  have t: "timers_ok s" using assms by (simp add: chat_inv_def)
  have none: "socket (disconnect s) = None" "isExplicitlyClosed (disconnect s)"
    "token (disconnect s) = token s" "pingTimer (disconnect s) = None" "reconnectTimer (disconnect s) = None"
    "timeouts (disconnect s) = []" "intervals (disconnect s) = []"
    "subscribedRooms (disconnect s) = subscribedRooms s" "focusedRoom (disconnect s) = focusedRoom s"
    "messageQueue (disconnect s) = messageQueue s"
    by (simp_all add: disconnect_eq [OF t] Let_def split: option.split)
  then have ready: "ready (disconnect s) = None" by (simp add: ready_def)
  have so: "socket_ok (disconnect s)"
  proof (cases "socket s")
    case None
    then show ?thesis
      using assms by (simp add: disconnect_eq [OF t] Let_def chat_inv_def socket_ok_def)
  next
    case (Some i)
    then show ?thesis
      using assms by (auto simp: disconnect_eq [OF t] Let_def chat_inv_def socket_ok_def nth_update)
  qed
  have "timers_ok (disconnect s)" by (simp add: timers_ok_def none)
  moreover have "subs_ok (disconnect s)" using assms by (simp add: chat_inv_def subs_ok_def none ready)
  moreover have "focus_ok (disconnect s)" using assms by (simp add: chat_inv_def focus_ok_def none ready)
  ultimately show ?thesis using so none ready by (simp add: idle_def)
qed

lemma disconnect_inv: "chat_inv s \<Longrightarrow> chat_inv (disconnect s)"
  using disconnect_idle [of s] by (simp add: idle_def chat_inv_def phase_ok_def ready_def)

text \<open>A new token on a client that has no live socket, or has just let go of it.\<close>

lemma retoken_idle:
  assumes s: "chat_inv s"
  shows "idle (if socket s \<noteq> None then disconnect (s\<lparr>token := Some t\<rparr>) else s\<lparr>token := Some t\<rparr>)"
proof (cases "socket s")
  case None
  then have "ready s = None" by (simp add: ready_def)
  with None show ?thesis
    using s by (simp add: chat_inv_def idle_def socket_ok_def timers_ok_def phase_ok_def subs_ok_def focus_ok_def)
next
  case (Some i)
  have "timers_ok s" "timers_ok (s\<lparr>token := Some t\<rparr>)" using s by (simp_all add: chat_inv_def timers_ok_def)
  then have "disconnect (s\<lparr>token := Some t\<rparr>) = (disconnect s)\<lparr>token := Some t\<rparr>"
    using Some by (simp add: disconnect_eq Let_def)
  moreover have "idle (s'\<lparr>token := Some t\<rparr>) = idle s'" for s'
    by (simp add: idle_def socket_ok_def timers_ok_def subs_ok_def focus_ok_def)
  ultimately show ?thesis using Some disconnect_idle [OF s] by simp
qed

lemma setToken_inv: "sound e \<Longrightarrow> chat_inv s \<Longrightarrow> chat_inv (setToken e t s)"
  using connect_inv [OF _ retoken_idle [of s t], of e] by (cases "socket s") (auto simp: setToken_def Let_def)

lemma set_ready_fields [simp]:
  "socket (set_ready i r s) = socket s" "token (set_ready i r s) = token s"
  "listeners (set_ready i r s) = listeners s"
  "subscribedRooms (set_ready i r s) = subscribedRooms s" "focusedRoom (set_ready i r s) = focusedRoom s"
  "messageQueue (set_ready i r s) = messageQueue s" "reconnectTimer (set_ready i r s) = reconnectTimer s"
  "pingTimer (set_ready i r s) = pingTimer s" "isExplicitlyClosed (set_ready i r s) = isExplicitlyClosed s"
  "retryCount (set_ready i r s) = retryCount s" "timeouts (set_ready i r s) = timeouts s"
  "intervals (set_ready i r s) = intervals s" "next_timer (set_ready i r s) = next_timer s"
  "delivered (set_ready i r s) = delivered s" "length (sockets (set_ready i r s)) = length (sockets s)"
  by (simp_all add: set_ready_def)

lemma set_ready_nth:
  "sockets (set_ready i r s) ! j =
     (if i = j \<and> i < length (sockets s) then (sockets s ! j)\<lparr>readyState := r\<rparr> else sockets s ! j)"
  by (simp add: set_ready_def nth_update)

lemma ready_set_ready:
  "current_ok s \<Longrightarrow> ready (set_ready i r s) = (if socket s = Some i then Some r else ready s)"
  by (auto simp: ready_def set_ready_nth current_ok_def split: option.split)

lemma sent_set_ready [simp]: "sent (set_ready i r s) = sent s"
  by (auto simp: sent_def set_ready_nth split: option.split)

lemma set_ready_ok:
  assumes "chat_inv s"
  shows "socket_ok (set_ready i r s) \<or> (ws_handlers (sockets s ! i) \<and> socket s \<noteq> Some i)"
    and "timers_ok (set_ready i r s)"
    and "r = OPEN \<or> subs_ok (set_ready i r s)" and "r = OPEN \<or> focus_ok (set_ready i r s)"
proof -
  have c: "current_ok s" using assms by (simp add: chat_inv_def socket_ok_current)
  show "socket_ok (set_ready i r s) \<or> (ws_handlers (sockets s ! i) \<and> socket s \<noteq> Some i)"
    using assms by (auto simp: chat_inv_def socket_ok_def set_ready_nth)
  show "timers_ok (set_ready i r s)" using assms by (simp add: chat_inv_def timers_ok_def)
  show "r = OPEN \<or> subs_ok (set_ready i r s)" "r = OPEN \<or> focus_ok (set_ready i r s)"
    using assms by (auto simp: chat_inv_def subs_ok_def focus_ok_def ready_set_ready [OF c])
qed

text \<open>An event of a socket that is not the current one.\<close>

lemma stray_event_inv:
  assumes s: "chat_inv s" and i: "socket s \<noteq> Some i"
    and old: "\<not> ws_handlers (sockets s ! i) \<or> r = CLOSED"
  shows "chat_inv (set_ready i r s)"
proof -
  have c: "current_ok s" using s by (simp add: chat_inv_def socket_ok_current)
  have ready: "ready (set_ready i r s) = ready s" using i by (simp add: ready_set_ready [OF c])
  have "socket_ok (set_ready i r s)"
    using s i old by (auto simp: chat_inv_def socket_ok_def set_ready_nth)
  then show ?thesis
    using s by (simp add: chat_inv_def timers_ok_def phase_ok_def subs_ok_def focus_ok_def ready
        cong: option.case_cong ready_state.case_cong)
qed

lemma live_is_current:
  "chat_inv s \<Longrightarrow> i < length (sockets s) \<Longrightarrow> ws_handlers (sockets s ! i) \<Longrightarrow>
     readyState (sockets s ! i) \<noteq> CLOSED \<Longrightarrow> socket s = Some i"
  by (auto simp: chat_inv_def socket_ok_def)

lemma closing_inv:
  assumes s: "chat_inv s" and i: "i < length (sockets s)"
    and r: "readyState (sockets s ! i) \<in> {CONNECTING, OPEN}"
  shows "chat_inv (set_ready i CLOSING s)"
proof (cases "socket s = Some i")
  case False
  then have "\<not> ws_handlers (sockets s ! i)" using live_is_current [OF s i] r by auto
  with False show ?thesis by (intro stray_event_inv [OF s]) auto
next
  case True
  have c: "current_ok s" using s by (simp add: chat_inv_def socket_ok_current)
  have "ready s = Some (readyState (sockets s ! i))" using True by (simp add: ready_def)
  then have "phase_ok (set_ready i CLOSING s)"
    using s r True by (auto simp: chat_inv_def phase_ok_def ready_set_ready [OF c])
  with set_ready_ok [OF s, where i = i and r = CLOSING] True show ?thesis by (simp add: chat_inv_def)
qed

section \<open>\<open>handleClose\<close>\<close>

lemma scheduleReconnect_eq:
  "reconnectTimer s = None \<Longrightarrow> scheduleReconnect s =
     s\<lparr>retryCount := retryCount s + 1, reconnectTimer := Some (next_timer s),
       timeouts := timeouts s @ [(next_timer s, min (1000 * 2 ^ retryCount s) 10000)],
       next_timer := Suc (next_timer s)\<rparr>"
  by (simp add: scheduleReconnect_def Let_def)

lemma handleClose_inv:
  assumes e: "sound e" and s: "chat_inv s" and i: "socket s = Some i"
    and r: "readyState (sockets s ! i) \<noteq> CLOSED"
  shows "chat_inv (handleClose e (set_ready i CLOSED s))"
proof -
  let ?t = "set_ready i CLOSED s"
  let ?d = "delivered s @ heard ?t ''status'' (Status ''disconnected'')"
  have c: "current_ok s" using s by (simp add: chat_inv_def socket_ok_current)
  have ready: "ready s = Some (readyState (sockets s ! i))" using i by (simp add: ready_def)
  then have off: "reconnectTimer s = None" "\<not> isExplicitlyClosed s"
    using s r by (auto simp: chat_inv_def phase_ok_def split: ready_state.splits)
  have t: "timers_ok (?t\<lparr>delivered := ?d\<rparr>)"
    using s by (simp add: chat_inv_def timers_ok_def)
  have ts: "timeouts s = []" using s off by (simp add: chat_inv_def timers_ok_def)
  have eq: "handleClose e ?t = scheduleReconnect (?t\<lparr>delivered := ?d, pingTimer := None, intervals := []\<rparr>)"
    using off by (simp add: handleClose_def emit_sound [OF e] stopPing_eq [OF t])
  also have "\<dots> = ?t\<lparr>delivered := ?d, pingTimer := None, intervals := [],
      retryCount := retryCount s + 1, reconnectTimer := Some (next_timer s),
      timeouts := [(next_timer s, min (1000 * 2 ^ retryCount s) 10000)],
      next_timer := Suc (next_timer s)\<rparr>" (is "_ = ?u")
    using off ts by (simp add: scheduleReconnect_eq)
  finally have eq: "handleClose e ?t = ?u" .
  have "(1000::nat) \<le> 1000 * 2 ^ retryCount s" by simp
  then have "timers_ok ?u" by (simp add: timers_ok_def)
  moreover have "phase_ok ?u"
    using off i by (simp add: phase_ok_def ready_set_ready [OF c])
  moreover have "socket_ok ?u"
    using set_ready_ok(1) [OF s, where i = i and r = CLOSED] i by (simp add: socket_ok_def)
  moreover have "subs_ok ?u" "focus_ok ?u"
    using set_ready_ok(3,4) [OF s, where i = i and r = CLOSED] i
    by (simp_all add: subs_ok_def focus_ok_def ready_set_ready [OF c])
  ultimately show ?thesis unfolding eq by (simp add: chat_inv_def)
qed

section \<open>\<open>handleOpen\<close>\<close>

definition preamble :: "chat_socket \<Rightarrow> frame list" where
  "preamble s = map Subscribe_frame (subscribedRooms s)
     @ map (\<lambda>r. Focus_frame (Some r)) (opt_list (focusedRoom s))"

lemma fold_send_open:
  "ready s = Some OPEN \<Longrightarrow> current_ok s \<Longrightarrow>
     fold (\<lambda>r. send (Subscribe_frame r)) rs s = transmit (map Subscribe_frame rs) s"
  by (induction rs arbitrary: s) (simp_all add: send_open transmit_transmit)

lemma transmit_queue:
  "(transmit fs s)\<lparr>messageQueue := q\<rparr> = transmit fs (s\<lparr>messageQueue := q\<rparr>)"
  by (simp add: transmit_def split: option.split)

lemma queue_same [simp]: "s\<lparr>messageQueue := messageQueue s\<rparr> = s"
  by simp

text \<open>On an open socket the loop ends, and what was queued has gone out in order.\<close>

lemma flush_open:
  "ready s = Some OPEN \<Longrightarrow> current_ok s \<Longrightarrow>
     flush s = Some (transmit (messageQueue s) (s\<lparr>messageQueue := []\<rparr>))"
proof (induction "messageQueue s" arbitrary: s)
  case Nil
  then have "s\<lparr>messageQueue := []\<rparr> = s" by (cases s) simp
  with Nil show ?case by (simp add: flush.simps [of s])
next
  case (Cons f q)
  let ?s = "transmit [f] (s\<lparr>messageQueue := q\<rparr>)"
  have c: "current_ok (s\<lparr>messageQueue := x\<rparr>)" for x using Cons.prems(2) by (simp add: current_ok_def)
  have "flush s = flush (send f (s\<lparr>messageQueue := q\<rparr>))"
    by (subst flush.simps) (simp add: Cons.hyps(2) [symmetric])
  also have "\<dots> = flush ?s" using Cons.prems by (simp add: send_open)
  also have "\<dots> = Some (transmit (messageQueue ?s) (?s\<lparr>messageQueue := []\<rparr>))"
    using Cons.prems c by (intro Cons.hyps(1)) simp_all
  also have "\<dots> = Some (transmit (f # q) (s\<lparr>messageQueue := []\<rparr>))"
    using c by (simp add: transmit_queue transmit_transmit)
  finally show ?case by (simp add: Cons.hyps(2) [symmetric])
qed

lemma handleOpen_eq:
  assumes e: "sound e" and r: "ready s = Some OPEN" and c: "current_ok s" and t: "timers_ok s"
  shows "handleOpen e s = Some ((transmit (preamble s @ messageQueue s)
      (s\<lparr>retryCount := 0, delivered := delivered s @ heard s ''status'' (Status ''connected''),
         messageQueue := []\<rparr>))
      \<lparr>pingTimer := Some (next_timer s), intervals := [next_timer s], next_timer := Suc (next_timer s)\<rparr>)"
proof -
  let ?s = "s\<lparr>retryCount := 0, delivered := delivered s @ heard s ''status'' (Status ''connected'')\<rparr>"
  have c': "current_ok (?s\<lparr>messageQueue := q\<rparr>)" "current_ok ?s" for q
    using c by (simp_all add: current_ok_def)
  have h: "heard (s\<lparr>retryCount := 0\<rparr>) ev d = heard s ev d" for ev d by (simp add: heard_def)
  have subs: "fold (\<lambda>r. send (Subscribe_frame r)) (subscribedRooms s) ?s
      = transmit (map Subscribe_frame (subscribedRooms s)) ?s"
    using r c' by (intro fold_send_open) simp_all
  have foc: "(case focusedRoom s of None \<Rightarrow> transmit xs ?s | Some room \<Rightarrow> send (Focus_frame (Some room)) (transmit xs ?s))
      = transmit (xs @ map (\<lambda>r. Focus_frame (Some r)) (opt_list (focusedRoom s))) ?s" for xs
    using r c' by (cases "focusedRoom s") (simp_all add: send_open transmit_transmit)
  have fl: "flush (transmit xs ?s) = Some (transmit (xs @ messageQueue s) (?s\<lparr>messageQueue := []\<rparr>))" for xs
    using r c' by (subst flush_open) (simp_all add: transmit_queue transmit_transmit)
  have "timers_ok (transmit xs (?s\<lparr>messageQueue := []\<rparr>))" for xs
    using t by (simp add: timers_ok_def)
  note ping = startPing_eq [OF this]
  show ?thesis
    by (simp add: handleOpen_def emit_sound [OF e] h subs foc fl ping preamble_def)
qed

lemma fold_subscribes: "fold sub_step (map Subscribe_frame rs) S = S \<union> set rs"
  by (induction rs arbitrary: S) auto

lemma queue_subs_fold: "queue_subs S q \<Longrightarrow> fold sub_step q S = S"
  unfolding queue_subs_def set_eq_iff fold_sub_step
  by (metis (no_types, lifting) option.case_eq_if option.sel option.simps(3))

lemma claims_subscribes:
  assumes "current_user_id ss \<noteq> None" and "claims ss = {}"
  shows "claims (replay v (map Subscribe_frame rs) ss) = {}"
  using assms
proof (induction rs arbitrary: ss)
  case (Cons r rs)
  have "claims (handle_command v (Subscribe_frame r) ss) \<subseteq> {}"
    using claims_handle [of ss v "Subscribe_frame r"] Cons.prems by simp
  with Cons show ?case by (simp only: list.map replay_Cons) simp
qed simp

lemma claims_preamble:
  "claims (replay v (preamble s) (new_session u)) = set_option (focusedRoom s)"
proof -
  let ?ss = "replay v (map Subscribe_frame (subscribedRooms s)) (new_session u)"
  have "claims ?ss = {}" by (rule claims_subscribes) (simp_all add: new_session_def claims_def)
  then show ?thesis
    by (cases "focusedRoom s")
      (simp_all add: preamble_def replay_append replay_Cons claims_attend)
qed

lemma typed_preamble [simp]: "typed (preamble s) = {}"
  by (auto simp: typed_def preamble_def opt_list_def split: option.splits)

lemma handleOpen_inv:
  assumes e: "sound e" and s: "chat_inv s" and i: "socket s = Some i"
    and r: "readyState (sockets s ! i) = CONNECTING" and o: "handleOpen e (set_ready i OPEN s) = Some s'"
  shows "chat_inv s'"
proof -
  let ?t = "set_ready i OPEN s"
  have c: "current_ok s" using s by (simp add: chat_inv_def socket_ok_current)
  then have c': "current_ok ?t" by (simp add: current_ok_def)
  have ready: "ready s = Some CONNECTING" using i r by (simp add: ready_def)
  have ready': "ready ?t = Some OPEN" using i by (simp add: ready_set_ready [OF c])
  have t: "timers_ok ?t" using set_ready_ok(2) [OF s] .
  have off: "reconnectTimer s = None" "\<not> isExplicitlyClosed s" "sent s = []"
    using s ready by (simp_all add: chat_inv_def phase_ok_def)
  have ts: "timeouts s = []" using s off(1) by (auto simp: chat_inv_def timers_ok_def)
  let ?base = "?t\<lparr>retryCount := 0, delivered := delivered ?t @ heard ?t ''status'' (Status ''connected''),
      messageQueue := []\<rparr>"
  let ?fs = "preamble ?t @ messageQueue ?t"
  have s': "s' = (transmit ?fs ?base)
      \<lparr>pingTimer := Some (next_timer ?t), intervals := [next_timer ?t], next_timer := Suc (next_timer ?t)\<rparr>"
    using handleOpen_eq [OF e ready' c' t] o by (metis option.inject)
  have so: "socket_ok ?base"
    using set_ready_ok(1) [OF s, where i = i and r = OPEN] i by (auto simp: socket_ok_def)
  have sent: "sent s' = ?fs"
    using sent_transmit [OF socket_ok_current [OF so], of ?fs] i off by (simp add: s')
  have rd: "ready s' = Some OPEN" using ready' by (simp add: s')
  have pre: "preamble ?t = preamble s" by (simp add: preamble_def)
  have "socket_ok s'" using socket_ok_transmit [OF so, of ?fs] by (simp add: s' socket_ok_def)
  moreover have "timers_ok s'" using off ts by (simp add: s' timers_ok_def)
  moreover have "phase_ok s'" using off by (simp add: phase_ok_def rd) (simp add: s')
  moreover have "subs_ok s'"
  proof -
    have "fold sub_step ?fs {} = set (subscribedRooms s)"
      using s queue_subs_fold [of "set (subscribedRooms s)" "messageQueue s"]
      by (cases "focusedRoom s") (simp_all add: chat_inv_def subs_ok_def pre preamble_def fold_subscribes)
    then show ?thesis using s by (simp add: subs_ok_def sent rd) (simp add: s' chat_inv_def subs_ok_def)
  qed
  moreover have "focus_ok s'"
  proof -
    have fr: "focusedRoom s' = focusedRoom s" "messageQueue s' = []" by (simp_all add: s')
    have q: "queue_claims (focusedRoom s) (messageQueue s)" "queue_exact (focusedRoom s) (messageQueue s)"
      using s by (simp_all add: chat_inv_def focus_ok_def)
    let ?ss = "\<lambda>v u. replay v (preamble s) (new_session u)"
    have u: "current_user_id (?ss v u) \<noteq> None" for v u by simp
    have sub: "claims (replay v (messageQueue s) (?ss v u)) \<subseteq> set_option (focusedRoom s) \<union> {} \<union> typed (messageQueue s)"
      for v u
      using q(1) u [of v u] claims_preamble [of v s u] unfolding queue_claims_def by blast
    have ex: "list_all keeps_attention (messageQueue s) \<Longrightarrow>
        claims (replay v (messageQueue s) (?ss v u)) = set_option (focusedRoom s)" for v u
      using q(2) u [of v u] claims_preamble [of v s u] unfolding queue_exact_def by blast
    show ?thesis
      unfolding focus_ok_def sent fr pre replay_append set_ready_fields
      using sub ex by simp
  qed
  ultimately show ?thesis by (simp add: chat_inv_def)
qed

section \<open>Every step\<close>

lemma call_inv: "sound e \<Longrightarrow> chat_inv s \<Longrightarrow> chat_inv (call e c s)"
  by (cases c)
    (simp_all add: setBaseUrl_def setToken_inv subscribe_inv unsubscribe_inv focus_inv blur_inv
      sendTyping_def send_inv add_listener_inv remove_listener_inv disconnect_inv)

lemma timeout_idle:
  assumes s: "chat_inv s" and t: "(t, d) \<in> set (timeouts s)"
  shows "idle (s\<lparr>timeouts := filter (\<lambda>(i, _). i \<noteq> t) (timeouts s), reconnectTimer := None\<rparr>)"
proof -
  from s have fst: "map fst (timeouts s) = opt_list (reconnectTimer s)"
    by (simp add: chat_inv_def timers_ok_def)
  with t obtain r where r: "reconnectTimer s = Some r" by (cases "reconnectTimer s") auto
  with fst t have "timeouts s = [(t, d)]" by (auto simp: map_eq_Cons_conv)
  then have none: "filter (\<lambda>(i, _). i \<noteq> t) (timeouts s) = []" by simp
  have "ready s = Some CLOSED \<and> pingTimer s = None"
    using s r by (auto simp: chat_inv_def phase_ok_def split: option.splits ready_state.splits)
  then show ?thesis
    using s by (simp add: none idle_def chat_inv_def socket_ok_def timers_ok_def subs_ok_def focus_ok_def)
qed

lemma timeout_inv:
  "sound e \<Longrightarrow> chat_inv s \<Longrightarrow> (t, d) \<in> set (timeouts s) \<Longrightarrow>
     chat_inv (connect e (s\<lparr>timeouts := filter (\<lambda>(i, _). i \<noteq> t) (timeouts s), reconnectTimer := None\<rparr>))"
  by (rule connect_inv, assumption, rule timeout_idle)

lemma step_inv:
  assumes e: "sound e" and st: "step e s l s'" and s: "chat_inv s"
  shows "chat_inv s'"
  using st
proof cases
  case (step_call c)
  then show ?thesis using call_inv [OF e s] by simp
next
  case (step_open i)
  show ?thesis
  proof (cases "ws_handlers (sockets s ! i)")
    case True
    with step_open live_is_current [OF s] have "socket s = Some i" by simp
    with step_open True show ?thesis by (intro handleOpen_inv [OF e s]) auto
  next
    case False
    then have "socket s \<noteq> Some i" using s by (auto simp: chat_inv_def socket_ok_def)
    with False step_open stray_event_inv [OF s, of i OPEN] show ?thesis by auto
  qed
next
  case (step_message i data)
  then show ?thesis using handleMessage_inv [OF e s] s by simp
next
  case (step_closing i)
  then show ?thesis using closing_inv [OF s] by simp
next
  case (step_close i)
  show ?thesis
  proof (cases "ws_handlers (sockets s ! i)")
    case True
    with step_close live_is_current [OF s] have "socket s = Some i" by simp
    with step_close True show ?thesis by (simp add: handleClose_inv [OF e s])
  next
    case False
    then have "socket s \<noteq> Some i" using s by (auto simp: chat_inv_def socket_ok_def)
    with False step_close stray_event_inv [OF s] show ?thesis by simp
  qed
next
  case (step_error i)
  then show ?thesis using handleError_inv [OF e s] s by simp
next
  case (step_timeout t d)
  then show ?thesis using timeout_inv [OF e s] by simp
next
  case (step_tick t)
  then show ?thesis using send_inv [OF s] by simp
qed

lemma init_inv: "chat_inv (new_chat_socket url)"
  by (simp add: new_chat_socket_def inv_defs ready_def sent_def)

theorem reachable_inv:
  assumes "sound e" and "reachable e url s"
  shows "chat_inv s"
  using assms(2)
  by (induction rule: reachable.induct) (auto intro: init_inv step_inv [OF assms(1)])

text \<open>What the invariant says of the server at the other end of an open socket.\<close>

lemma inv_subscriptions:
  assumes "chat_inv s" and "ready s = Some OPEN"
  shows "set (subscribed_rooms (replay visible (sent s) (new_session user)))
    = {r \<in> set (subscribedRooms s). visible r}"
proof -
  have "fold sub_step (sent s) {} = set (subscribedRooms s)"
    using assms by (simp add: chat_inv_def subs_ok_def)
  moreover have "set (subscribed_rooms (new_session user)) = {r \<in> {}. visible r}"
    by (simp add: new_session_def)
  ultimately show ?thesis
    using subscribed_replay [of "new_session user" "{}" visible "sent s"] by simp
qed

lemma inv_attention:
  assumes "chat_inv s" and "ready s = Some OPEN"
    and "focused_room (replay visible (sent s) (new_session user)) = Some r"
  shows "focusedRoom s = Some r \<or> (\<exists>f. f \<in> set (sent s) \<and> r \<in> typed_in f)"
proof -
  have "claims (replay visible (sent s) (new_session user))
      \<subseteq> set_option (focusedRoom s) \<union> typed (sent s)"
    using assms(1,2) by (simp add: chat_inv_def focus_ok_def)
  moreover have "r \<in> claims (replay visible (sent s) (new_session user))"
    using assms(3) by (simp add: claims_def)
  ultimately show ?thesis by (cases "focusedRoom s") (auto simp: typed_def)
qed

end
