(* ===== verification/ChatSocketProps.thy ===== *)
theory ChatSocketProps
  imports ChatSocketInv
begin

text \<open>
  The properties of the real-time client, and one concrete run they are shown on. The run
  also shows where the client's idea of what is being read and the server's part.
\<close>

section \<open>A concrete run\<close>

definition demo_env :: env where
  "demo_env = \<lparr>getApiBaseUrl = ''http://api'', window_origin = None, encodeURIComponent = id,
     url_ok = (\<lambda>_. True), throws = (\<lambda>_. False)\<rparr>"

lemma demo_sound: "sound demo_env"
  by (simp add: sound_def demo_env_def)

text \<open>Two rooms are subscribed and one of them is focused before the socket opens.\<close>

definition demo_connecting :: chat_socket where
  "demo_connecting =
     call demo_env (SetToken ''t'')
       (call demo_env (Focus (Some ''b''))
         (call demo_env (Subscribe ''b'')
           (call demo_env (Subscribe ''a'') (new_chat_socket None))))"

definition demo_open :: chat_socket where
  "demo_open = the (handleOpen demo_env (set_ready 0 OPEN demo_connecting))"

lemma reachable_call: "reachable e url s \<Longrightarrow> reachable e url (call e c s)"
  by (rule reachable_step [OF _ step_call])

lemma demo_connecting_reachable: "reachable demo_env None demo_connecting"
  unfolding demo_connecting_def by (intro reachable_call reachable_init)

lemma demo_connecting_facts:
  "socket demo_connecting = Some 0 \<and> ready demo_connecting = Some CONNECTING
   \<and> length (sockets demo_connecting) = 1 \<and> ws_handlers (sockets demo_connecting ! 0)
   \<and> readyState (sockets demo_connecting ! 0) = CONNECTING
   \<and> subscribedRooms demo_connecting = [''a'', ''b''] \<and> focusedRoom demo_connecting = Some ''b''
   \<and> messageQueue demo_connecting = [Subscribe_frame ''a'', Subscribe_frame ''b'', Focus_frame (Some ''b'')]
   \<and> token demo_connecting = Some ''t'' \<and> \<not> isExplicitlyClosed demo_connecting"
  by code_simp

lemma demo_open_step: "step demo_env demo_connecting (Opened 0) demo_open"
proof -
  have s: "chat_inv demo_connecting"
    by (rule reachable_inv [OF demo_sound demo_connecting_reachable])
  then have c: "current_ok demo_connecting" by (simp add: chat_inv_def socket_ok_current)
  then have "current_ok (set_ready 0 OPEN demo_connecting)" by (simp add: current_ok_def)
  moreover have "ready (set_ready 0 OPEN demo_connecting) = Some OPEN"
    using demo_connecting_facts by (simp add: ready_set_ready [OF c])
  moreover have "timers_ok (set_ready 0 OPEN demo_connecting)" by (rule set_ready_ok(2) [OF s])
  ultimately have "handleOpen demo_env (set_ready 0 OPEN demo_connecting) = Some demo_open"
    using handleOpen_eq [OF demo_sound] unfolding demo_open_def by (metis option.sel)
  then show ?thesis using demo_connecting_facts by (intro step_open) simp_all
qed

lemma demo_open_reachable: "reachable demo_env None demo_open"
  by (rule reachable_step [OF demo_connecting_reachable demo_open_step])

lemma demo_open_length: "length (sockets demo_open) = 1"
  by code_simp

lemma demo_open_facts:
  "ready demo_open = Some OPEN \<and> subscribedRooms demo_open = [''a'', ''b'']
   \<and> focusedRoom demo_open = Some ''b''
   \<and> sent demo_open = [Subscribe_frame ''a'', Subscribe_frame ''b'', Focus_frame (Some ''b''),
       Subscribe_frame ''a'', Subscribe_frame ''b'', Focus_frame (Some ''b'')]"
  by code_simp

section \<open>Sockets and timers\<close>



section \<open>What the server knows\<close>

lemma replay_subscriptions:
  "sound e \<Longrightarrow> reachable e url s \<Longrightarrow> ready s = Some OPEN \<Longrightarrow>
     set (subscribed_rooms (replay visible (sent s) (new_session user)))
       = {r \<in> set (subscribedRooms s). visible r}"
  by (rule inv_subscriptions [OF reachable_inv])

text \<open>
  C1. Subscriptions survive anything: whenever the socket is open, the frames sent on it,
  carried out by the server from a fresh session, leave exactly the rooms the client thinks
  it is subscribed to (of those its user may see), whatever was subscribed, unsubscribed
  and queued before it opened.
\<close>

theorem subscriptions_match_server:
  assumes "sound e" and "reachable e url s" and "ready s = Some OPEN"
  shows "set (subscribed_rooms (replay visible (sent s) (new_session user)))
    = {r \<in> set (subscribedRooms s). visible r}"
  using assms by (rule replay_subscriptions)

theorem subscriptions_match_server_witness:
  "set (subscribed_rooms (replay (\<lambda>r. r = ''a'') (sent demo_open) (new_session ''u''))) = {''a''}"
proof -
  have "{r \<in> set (subscribedRooms demo_open). r = ''a''} = {''a''}"
    using demo_open_facts by auto
  then show ?thesis
    using subscriptions_match_server [OF demo_sound demo_open_reachable, of "\<lambda>r. r = ''a''" "''u''"]
      demo_open_facts by simp
qed

lemma well_focused_new [simp]: "well_focused (new_session u)"
  by (simp add: well_focused_def new_session_def)

text \<open>
  C5. The server never suppresses notifications for a room the person is not in: on an open
  socket, the room it takes to be read is the room the client has focused, or one the
  person has typed or posted in on this connection.
\<close>

theorem server_reads_no_more_than_client:
  assumes "sound e" and "reachable e url s" and "ready s = Some OPEN"
    and "focused_room (replay visible (sent s) (new_session user)) = Some r"
  shows "focusedRoom s = Some r \<or> (\<exists>f. f \<in> set (sent s) \<and> r \<in> typed_in f)"
  by (rule inv_attention [OF reachable_inv [OF assms(1,2)] assms(3,4)])

theorem server_reads_no_more_than_client_witness:
  "focusedRoom demo_open = Some ''b'' \<or> (\<exists>f. f \<in> set (sent demo_open) \<and> ''b'' \<in> typed_in f)"
proof -
  have "focused_room (replay (\<lambda>_. True) (sent demo_open) (new_session ''u'')) = Some ''b''"
    using demo_open_facts by (simp only:) code_simp
  from server_reads_no_more_than_client [OF demo_sound demo_open_reachable _ this]
  show ?thesis using demo_open_facts by blast
qed

text \<open>
  C6. And it knows what is being read: while nothing has been unsubscribed and nobody has
  typed or posted on this connection, the room the client has focused is the room the server takes to
  be read, as soon as the client is subscribed to it and may see it, in whichever order the
  two were announced.
\<close>

theorem server_learns_focus:
  assumes "sound e" and "reachable e url s" and "ready s = Some OPEN"
    and "list_all keeps_attention (sent s)"
    and "focusedRoom s = Some r" and "r \<in> set (subscribedRooms s)" and "visible r"
  shows "focused_room (replay visible (sent s) (new_session user)) = Some r"
proof -
  let ?ss = "replay visible (sent s) (new_session user)"
  have "chat_inv s" using assms reachable_inv by blast
  then have "claims ?ss = {r}"
    using assms(3-5) by (simp add: chat_inv_def focus_ok_def)
  moreover have "r \<in> set (subscribed_rooms ?ss)"
    using replay_subscriptions [OF assms(1-3), of visible user] assms(6,7) by simp
  moreover have "well_focused ?ss" by (rule well_focused_replay) simp_all
  ultimately show ?thesis
    by (cases "focused_room ?ss"; cases "pending_focus ?ss") (auto simp: claims_def well_focused_def)
qed

theorem server_learns_focus_witness:
  "focused_room (replay (\<lambda>_. True) (sent demo_open) (new_session ''u'')) = Some ''b''"
  using demo_open_facts
  by (intro server_learns_focus [OF demo_sound demo_open_reachable]) simp_all

text \<open>
  Where the two part. Unsubscribing from any room takes the server's attention away, but the
  client forgets what it reads only if it is the same room, and saying it again is then no
  call at all: the person goes on being notified of the conversation on the screen.
\<close>

theorem unsubscribe_loses_attention:
  "\<exists>s. reachable demo_env None s \<and> ready s = Some OPEN
     \<and> focusedRoom s = Some ''b'' \<and> ''b'' \<in> set (subscribedRooms s)
     \<and> focused_room (replay (\<lambda>_. True) (sent s) (new_session ''u'')) = None
     \<and> call demo_env (Focus (Some ''b'')) s = s"
proof (intro exI conjI)
  let ?s = "call demo_env (Unsubscribe ''a'') demo_open"
  show "reachable demo_env None ?s" by (rule reachable_call [OF demo_open_reachable])
  show "ready ?s = Some OPEN" by code_simp
  show foc: "focusedRoom ?s = Some ''b''" by code_simp
  show "''b'' \<in> set (subscribedRooms ?s)" by code_simp
  show "focused_room (replay (\<lambda>_. True) (sent ?s) (new_session ''u'')) = None" by code_simp
  show "call demo_env (Focus (Some ''b'')) ?s = ?s" using foc by (simp add: focus_def)
qed

section \<open>Reconnecting\<close>


text \<open>The run goes on: the server goes away.\<close>

definition demo_closed :: chat_socket where
  "demo_closed = handleClose demo_env (set_ready 0 CLOSED demo_open)"

lemma demo_closed_reachable: "reachable demo_env None demo_closed"
proof -
  have "0 < length (sockets demo_open)" "readyState (sockets demo_open ! 0) \<noteq> CLOSED"
    "ws_handlers (sockets demo_open ! 0)"
    by code_simp+
  then have "step demo_env demo_open (Closed 0) demo_closed"
    using step_close [of 0 demo_open demo_env] by (simp add: demo_closed_def)
  then show ?thesis by (rule reachable_step [OF demo_open_reachable])
qed


text \<open>
  C3. Opening always completes, and loses nothing: when the current socket opens, the loop
  that empties the queue ends, and what the socket has been sent is every subscription, the
  focused room, and then all that was queued, in the order it was queued.
\<close>

theorem open_flushes_queue:
  assumes "sound e" and "reachable e url s" and "socket s = Some i" and "ready s = Some CONNECTING"
  shows "\<exists>s'. step e s (Opened i) s' \<and> messageQueue s' = [] \<and> retryCount s' = 0
    \<and> sent s' = map Subscribe_frame (subscribedRooms s)
        @ (case focusedRoom s of None \<Rightarrow> [] | Some r \<Rightarrow> [Focus_frame (Some r)]) @ messageQueue s"
proof -
  have inv: "chat_inv s" using assms reachable_inv by blast
  then have c: "current_ok s" and i: "i < length (sockets s)" "ws_handlers (sockets s ! i)"
    and empty: "sent s = []"
    using assms(3,4) by (simp_all add: chat_inv_def socket_ok_current socket_ok_def phase_ok_def)
  let ?t = "set_ready i OPEN s"
  let ?fs = "preamble ?t @ messageQueue ?t"
  let ?u = "?t\<lparr>retryCount := 0, delivered := delivered ?t @ heard ?t ''status'' (Status ''connected''),
      messageQueue := []\<rparr>"
  let ?s' = "transmit ?fs ?u\<lparr>pingTimer := Some (next_timer ?t), intervals := [next_timer ?t],
      next_timer := Suc (next_timer ?t)\<rparr>"
  have "handleOpen e ?t = Some ?s'"
    using assms(3) c
    by (intro handleOpen_eq [OF assms(1)] set_ready_ok(2) [OF inv])
      (simp_all add: ready_set_ready [OF c] current_ok_def)
  moreover have "readyState (sockets s ! i) = CONNECTING"
    using assms(3,4) by (simp add: ready_def)
  ultimately have "step e s (Opened i) ?s'" using i by (intro step_open) simp_all
  moreover have "sent ?s' = ?fs"
    using c assms(3) empty by (simp add: sent_transmit current_ok_def)
  moreover have "?fs = map Subscribe_frame (subscribedRooms s)
        @ (case focusedRoom s of None \<Rightarrow> [] | Some r \<Rightarrow> [Focus_frame (Some r)]) @ messageQueue s"
    by (simp add: preamble_def split: option.split)
  ultimately show ?thesis by (intro exI [of _ ?s']) (simp add: transmit_queue)
qed

theorem open_flushes_queue_witness:
  "\<exists>s'. step demo_env demo_connecting (Opened 0) s' \<and> messageQueue s' = [] \<and> length (sent s') = 6"
proof -
  obtain s' where "step demo_env demo_connecting (Opened 0) s'" "messageQueue s' = []"
    "sent s' = map Subscribe_frame (subscribedRooms demo_connecting)
      @ (case focusedRoom demo_connecting of None \<Rightarrow> [] | Some r \<Rightarrow> [Focus_frame (Some r)])
      @ messageQueue demo_connecting"
    using open_flushes_queue [OF demo_sound demo_connecting_reachable, of 0] demo_connecting_facts by blast
  then show ?thesis using demo_connecting_facts by (intro exI [of _ s']) simp
qed

section \<open>Disconnecting\<close>

definition quiet :: "chat_socket \<Rightarrow> bool" where
  "quiet s \<longleftrightarrow> socket s = None \<and> timeouts s = [] \<and> intervals s = []
     \<and> (\<forall>j < length (sockets s). ws_handlers (sockets s ! j) \<longrightarrow> readyState (sockets s ! j) = CLOSED)"

lemma disconnect_quiet:
  assumes "chat_inv s"
  shows "quiet (disconnect s)"
proof -
  have i: "idle (disconnect s)" "socket (disconnect s) = None"
    using disconnect_idle [OF assms] by simp_all
  then have "timeouts (disconnect s) = [] \<and> intervals (disconnect s) = []"
    by (auto simp: idle_def timers_ok_def)
  moreover have "\<forall>j < length (sockets (disconnect s)). ws_handlers (sockets (disconnect s) ! j) \<longrightarrow>
      readyState (sockets (disconnect s) ! j) = CLOSED"
    using i by (auto simp: idle_def socket_ok_def)
  ultimately show ?thesis using i by (simp add: quiet_def)
qed

lemma quiet_step:
  assumes q: "quiet s" and st: "step e s l s'" and l: "\<forall>c. l \<noteq> Call c"
  shows "quiet s' \<and> (\<exists>x. s' = s\<lparr>sockets := x\<rparr>)"
proof -
  have off: "\<not> ws_handlers (sockets s ! i)" if "i < length (sockets s)" "readyState (sockets s ! i) \<noteq> CLOSED" for i
    using q that by (auto simp: quiet_def)
  have stray: "quiet (set_ready i r s)"
    if "i < length (sockets s)" "readyState (sockets s ! i) \<noteq> CLOSED" for i r
    using q off [OF that] that by (auto simp: quiet_def set_ready_nth)
  have same: "\<exists>x. s = s\<lparr>sockets := x\<rparr>" by (rule exI [of _ "sockets s"]) simp
  have set: "\<exists>x. set_ready i r s = s\<lparr>sockets := x\<rparr>" for i r by (auto simp: set_ready_def)
  from st show ?thesis
  proof cases
    case (step_open i)
    with off [of i] stray [of i] set show ?thesis by auto
  next
    case (step_close i)
    with off [of i] stray [of i] set show ?thesis by auto
  next
    case (step_closing i)
    with stray [of i] set show ?thesis by auto
  next
    case (step_call c)
    with l show ?thesis by simp
  next
    case (step_message i data)
    with off [of i] q same show ?thesis by simp
  next
    case (step_error i)
    with off [of i] q same show ?thesis by simp
  next
    case (step_timeout t d)
    with q show ?thesis by (simp add: quiet_def)
  next
    case (step_tick t)
    with q show ?thesis by (simp add: quiet_def)
  qed
qed

text \<open>
  C7. After \<open>disconnect\<close> nothing happens any more: whatever the sockets and timers of the
  past still do, no listener is called, no frame is sent, no reconnect or heartbeat runs,
  and no field of the client changes until the application calls it again.
\<close>

theorem disconnect_is_quiet:
  assumes "sound e" and "reachable e url s"
    and "(\<lambda>a b. \<exists>l. (\<forall>c. l \<noteq> Call c) \<and> step e a l b)\<^sup>*\<^sup>* (disconnect s) s'"
  shows "(\<exists>x. s' = (disconnect s)\<lparr>sockets := x\<rparr>) \<and> delivered s' = delivered s
    \<and> timeouts s' = [] \<and> intervals s' = []"
proof -
  have inv: "chat_inv s" using assms reachable_inv by blast
  have "quiet s' \<and> (\<exists>x. s' = (disconnect s)\<lparr>sockets := x\<rparr>)"
    using assms(3)
  proof (induction rule: rtranclp_induct)
    case base
    have "disconnect s = (disconnect s)\<lparr>sockets := sockets (disconnect s)\<rparr>" by simp
    then show ?case using disconnect_quiet [OF inv] by blast
  next
    case (step a b)
    then obtain l where "\<forall>c. l \<noteq> Call c" "ChatSocket.step e a l b" by blast
    with step.IH quiet_step obtain y where "quiet b" "b = a\<lparr>sockets := y\<rparr>" by blast
    moreover obtain x where "a = (disconnect s)\<lparr>sockets := x\<rparr>" using step.IH by blast
    ultimately have "quiet b" "b = (disconnect s)\<lparr>sockets := y\<rparr>" by simp_all
    then show ?case by blast
  qed
  moreover have "delivered (disconnect s) = delivered s"
    using inv by (simp add: chat_inv_def disconnect_eq Let_def split: option.split)
  ultimately show ?thesis by (auto simp: quiet_def)
qed

theorem disconnect_is_quiet_witness:
  "\<exists>s' :: chat_socket. ws_sent (sockets s' ! 0) = sent demo_open \<and> readyState (sockets s' ! 0) = CLOSED
     \<and> delivered s' = delivered demo_open \<and> timeouts s' = []"
proof -
  let ?s' = "set_ready 0 CLOSED (disconnect demo_open)"
  have "0 < length (sockets (disconnect demo_open))"
    "readyState (sockets (disconnect demo_open) ! 0) \<noteq> CLOSED"
    "\<not> ws_handlers (sockets (disconnect demo_open) ! 0)"
    by code_simp+
  then have "step demo_env (disconnect demo_open) (Closed 0) ?s'"
    using step_close [of 0 "disconnect demo_open" demo_env] by simp
  then have "(\<lambda>a b. \<exists>l. (\<forall>c. l \<noteq> Call c) \<and> step demo_env a l b)\<^sup>*\<^sup>* (disconnect demo_open) ?s'"
    by (intro r_into_rtranclp) blast
  from disconnect_is_quiet [OF demo_sound demo_open_reachable this]
  have "delivered ?s' = delivered demo_open \<and> timeouts ?s' = []" by simp
  moreover have "ws_sent (sockets ?s' ! 0) = sent demo_open" "readyState (sockets ?s' ! 0) = CLOSED"
    by code_simp+
  ultimately show ?thesis by (intro exI [of _ ?s'] conjI) simp_all
qed

end
