(* ===== verification/QueryClient.thy ===== *)
theory QueryClient
  imports Prelude
begin

text \<open>
  The query cache the web and mobile clients keep server state in. The cache itself is a
  package (TanStack Query) and so a parameter: the locale \<open>query_client\<close> states what the
  clients rely on, that \<open>setQueryData\<close> with an updater rewrites the entry of its key and no
  other, and leaves a missing entry missing when the updater answers \<open>undefined\<close>. The
  definitions that use the cache take its \<open>setQueryData\<close> as an argument.
\<close>

text \<open>
  The parts keys are made of: literals and ids, texts, numbers, \<open>undefined\<close>, \<open>null\<close>, and objects.
\<close>

datatype key_part =
    K string
  | Str jstr
  | Num int
  | Undefined
  | Null
  | Params "(string \<times> key_part) list"

type_synonym query_key = "key_part list"

text \<open>An argument that may be missing.\<close>

definition id_part :: "string option \<Rightarrow> key_part" where
  "id_part i = (case i of Some s \<Rightarrow> K s | None \<Rightarrow> Undefined)"

definition text_part :: "jstr option \<Rightarrow> key_part" where
  "text_part t = (case t of Some s \<Rightarrow> Str s | None \<Rightarrow> Undefined)"

lemma part_eq [simp]:
  "id_part i = id_part j \<longleftrightarrow> i = j"
  "text_part s = text_part t \<longleftrightarrow> s = t"
  by (auto simp: id_part_def text_part_def split: option.splits)

locale query_client =
  fixes getQueryData :: "'c \<Rightarrow> query_key \<Rightarrow> 'd option"
    and setQueryData :: "'c \<Rightarrow> query_key \<Rightarrow> ('d option \<Rightarrow> 'd option) \<Rightarrow> 'c"
  assumes get_set_same: "updater (getQueryData qc key) = Some data \<Longrightarrow>
      getQueryData (setQueryData qc key updater) key = Some data"
    and get_set_undefined: "updater (getQueryData qc key) = None \<Longrightarrow>
      getQueryData (setQueryData qc key updater) key = getQueryData qc key"
    and get_set_other: "key' \<noteq> key \<Longrightarrow>
      getQueryData (setQueryData qc key updater) key' = getQueryData qc key'"
begin

lemma get_set:
  "getQueryData (setQueryData qc key updater) key' =
     (if key' = key then (case updater (getQueryData qc key) of Some d \<Rightarrow> Some d | None \<Rightarrow> getQueryData qc key)
      else getQueryData qc key')"
  by (auto simp: get_set_other get_set_same get_set_undefined split: option.split)

text \<open>An updater that keeps a missing entry missing and answers whenever there is one.\<close>

lemma get_set_strict:
  assumes "updater None = None" and "\<And>d. updater (Some d) = Some (f d)"
  shows "getQueryData (setQueryData qc key updater) key = map_option f (getQueryData qc key)"
  by (cases "getQueryData qc key") (simp_all add: get_set assms)

lemma set_twice:
  assumes "u None = None" and "\<And>d. u (Some d) = Some (f d)"
    and "v None = None" and "\<And>d. v (Some d) = Some (g d)"
  shows "getQueryData (setQueryData (setQueryData qc key u) key v) key
    = map_option (g \<circ> f) (getQueryData qc key)"
  by (simp add: get_set_strict assms option.map_comp)

end

section \<open>A cache to run the model on\<close>

type_synonym 'd store = "(query_key \<times> 'd) list"

definition store_get :: "'d store \<Rightarrow> query_key \<Rightarrow> 'd option" where
  "store_get st key = map_of st key"

definition store_set :: "'d store \<Rightarrow> query_key \<Rightarrow> ('d option \<Rightarrow> 'd option) \<Rightarrow> 'd store" where
  "store_set st key updater =
     (case updater (map_of st key) of None \<Rightarrow> st | Some d \<Rightarrow> AList.update key d st)"

interpretation store: query_client store_get store_set
  by unfold_locales (auto simp: store_get_def store_set_def update_conv' split: option.split)

text \<open>
  A key stands for a query and for every query below it: \<open>invalidateQueries\<close> with a key marks
  the queries whose keys it begins.
\<close>

definition matches_key :: "query_key \<Rightarrow> query_key \<Rightarrow> bool" where
  "matches_key filter_key key \<longleftrightarrow> starts_with key filter_key"

end
