(* ===== verification/Transcript.thy ===== *)
theory Transcript
  imports QueryClient ApiTypes
begin

text \<open>
  A room's transcript in the cache: \<open>apps/web/src/features/chat/api/cache.ts\<close>, the keys it is
  under (\<open>useChatApi.ts\<close>), and the same merge on the phone
  (\<open>apps/mobile/src/features/chat/useMessageHistory.ts\<close>). \<open>localeCompare\<close> is the host's
  collation and an argument.
\<close>

section \<open>What the cache holds\<close>

text \<open>\<open>InfiniteData\<close>: the pages and what each was fetched with, which nothing here looks at.\<close>

record 'p infinite_data =
  pages :: "'p list"
  pageParams :: "string list"

type_synonym transcript = "message_page infinite_data"

datatype query_data =
    Transcript_data transcript
  | Feed_data "notification_page infinite_data"
  | Page_data notification_page
  | Unread_data "room_unread list"
  | Presence_data "uuid list"

type_synonym 'c setter = "'c \<Rightarrow> query_key \<Rightarrow> (query_data option \<Rightarrow> query_data option) \<Rightarrow> 'c"

definition chatKeys_all :: query_key where
  "chatKeys_all = [K ''chat'']"

definition chatKeys_room :: "uuid \<Rightarrow> query_key" where
  "chatKeys_room roomId = chatKeys_all @ [K ''room'', K roomId]"

definition chatKeys_messages :: "uuid \<Rightarrow> query_key" where
  "chatKeys_messages roomId = chatKeys_room roomId @ [K ''messages'']"

definition chatKeys_pins :: "uuid \<Rightarrow> query_key" where
  "chatKeys_pins roomId = chatKeys_room roomId @ [K ''pins'']"

definition chatKeys_search :: "jstr \<Rightarrow> uuid option \<Rightarrow> query_key" where
  "chatKeys_search query roomId =
     chatKeys_all @ [K ''search'', Params [(''query'', Str query), (''roomId'', id_part roomId)]]"

definition chatKeys_unread :: query_key where
  "chatKeys_unread = chatKeys_all @ [K ''unread'']"

section \<open>Merging\<close>

definition message_cmp :: "(string \<Rightarrow> string \<Rightarrow> int) \<Rightarrow> message \<Rightarrow> message \<Rightarrow> int" where
  "message_cmp localeCompare a b =
     (let byTime = localeCompare (ms_created_at a) (ms_created_at b)
      in if byTime \<noteq> 0 then byTime else localeCompare (ms_id a) (ms_id b))"

text \<open>\<open>message.reactions ?? previous?.reactions ?? []\<close>.\<close>

definition keep_reactions :: "message \<Rightarrow> message option \<Rightarrow> message" where
  "keep_reactions m previous =
     m\<lparr>ms_reactions := Some (case ms_reactions m of
         Some r \<Rightarrow> r
       | None \<Rightarrow> (case previous of
             None \<Rightarrow> []
           | Some p \<Rightarrow> (case ms_reactions p of Some r \<Rightarrow> r | None \<Rightarrow> [])))\<rparr>"

definition mergeMessages ::
  "(string \<Rightarrow> string \<Rightarrow> int) \<Rightarrow> message list \<Rightarrow> message list \<Rightarrow> message list" where
  "mergeMessages localeCompare existing incoming =
     (let byId = jmap_of (map (\<lambda>m. (ms_id m, m)) existing);
          byId = fold (\<lambda>m acc. AList.update (ms_id m) (keep_reactions m (map_of acc (ms_id m))) acc)
                   incoming byId
      in js_sort (message_cmp localeCompare) (map snd byId))"

section \<open>Edits\<close>

text \<open>The updater of \<open>editTranscript\<close>: page 0 is rewritten, nothing else.\<close>

definition edit_newest :: "(message list \<Rightarrow> message list) \<Rightarrow> transcript \<Rightarrow> transcript" where
  "edit_newest edit cached =
     (case pages cached of
        [] \<Rightarrow> cached
      | newest # older \<Rightarrow>
          cached\<lparr>pages := newest\<lparr>mp_messages := edit (mp_messages newest)\<rparr> # older\<rparr>)"

fun on_transcript :: "(transcript \<Rightarrow> transcript) \<Rightarrow> query_data option \<Rightarrow> query_data option" where
  "on_transcript f (Some (Transcript_data t)) = Some (Transcript_data (f t))"
| "on_transcript f other = other"

definition editTranscript ::
  "'c setter \<Rightarrow> 'c \<Rightarrow> uuid \<Rightarrow> (message list \<Rightarrow> message list) \<Rightarrow> 'c" where
  "editTranscript setQueryData queryClient roomId edit =
     setQueryData queryClient (chatKeys_messages roomId) (on_transcript (edit_newest edit))"

definition or_else :: "'a option \<Rightarrow> 'a option \<Rightarrow> 'a option" where
  "or_else a b = (case a of Some x \<Rightarrow> Some x | None \<Rightarrow> b)"

definition place_message ::
  "message \<Rightarrow> reaction_summary list \<Rightarrow> room_anonymous_identity option \<Rightarrow> message list \<Rightarrow> message list" where
  "place_message m reactions anonymousAuthor messages =
     m\<lparr>ms_reactions := or_else (ms_reactions m) (Some reactions),
       ms_anonymous_author := or_else (ms_anonymous_author m) anonymousAuthor\<rparr>
       # filter (\<lambda>existing. ms_id existing \<noteq> ms_id m) messages"

definition applyMessageCreated ::
  "'c setter \<Rightarrow> 'c \<Rightarrow> uuid \<Rightarrow> message \<Rightarrow> reaction_summary list \<Rightarrow> room_anonymous_identity option \<Rightarrow> 'c" where
  "applyMessageCreated setQueryData queryClient roomId m reactions anonymousAuthor =
     editTranscript setQueryData queryClient roomId (place_message m reactions anonymousAuthor)"

definition update_message ::
  "message \<Rightarrow> reaction_summary list \<Rightarrow> room_anonymous_identity option \<Rightarrow> message \<Rightarrow> message" where
  "update_message m reactions anonymousAuthor existing =
     (if ms_id existing = ms_id m
      then m\<lparr>ms_reactions := or_else (or_else (ms_reactions m) (Some reactions)) (ms_reactions existing),
             ms_anonymous_author :=
               or_else (or_else (ms_anonymous_author m) anonymousAuthor) (ms_anonymous_author existing)\<rparr>
      else existing)"

definition applyMessageUpdated ::
  "'c setter \<Rightarrow> 'c \<Rightarrow> uuid \<Rightarrow> message \<Rightarrow> reaction_summary list \<Rightarrow> room_anonymous_identity option \<Rightarrow> 'c" where
  "applyMessageUpdated setQueryData queryClient roomId m reactions anonymousAuthor =
     editTranscript setQueryData queryClient roomId (map (update_message m reactions anonymousAuthor))"

text \<open>An edit of every message on every page.\<close>

definition edit_pages :: "(message list \<Rightarrow> message list) \<Rightarrow> transcript \<Rightarrow> transcript" where
  "edit_pages edit cached =
     cached\<lparr>pages := map (\<lambda>page. page\<lparr>mp_messages := edit (mp_messages page)\<rparr>) (pages cached)\<rparr>"

definition transcript_messages :: "transcript \<Rightarrow> message list" where
  "transcript_messages t = concat (map mp_messages (pages t))"

text \<open>
  The rows dropped are seen in order; \<open>removed\<close> is the last of them. The updater runs when
  there is something cached, so what it returns is read off the entry it is given.
\<close>

definition applyMessageDeleted ::
  "('c \<Rightarrow> query_key \<Rightarrow> query_data option) \<Rightarrow> 'c setter \<Rightarrow> 'c \<Rightarrow> uuid \<Rightarrow> uuid \<Rightarrow> message option \<times> 'c" where
  "applyMessageDeleted getQueryData setQueryData queryClient roomId messageId =
     ((case getQueryData queryClient (chatKeys_messages roomId) of
         Some (Transcript_data t) \<Rightarrow>
           List.find (\<lambda>m. ms_id m = messageId) (rev (transcript_messages t))
       | _ \<Rightarrow> None),
      setQueryData queryClient (chatKeys_messages roomId)
        (on_transcript (edit_pages (filter (\<lambda>m. ms_id m \<noteq> messageId)))))"

text \<open>
  The tally of a broadcast with the viewer's own flags. \<open>message.reactions.filter\<close> throws
  where the message has none; the updater then leaves the cache as it is and the error
  reaches the caller.
\<close>

definition mark_mine :: "message \<Rightarrow> reaction_summary list \<Rightarrow> reaction_summary list" where
  "mark_mine m reactions =
     (let mine = map rx_reaction (filter rx_me (case ms_reactions m of Some r \<Rightarrow> r | None \<Rightarrow> []))
      in map (\<lambda>entry. entry\<lparr>rx_me := rx_reaction entry \<in> set mine\<rparr>) reactions)"

definition reactions_missing :: "uuid \<Rightarrow> transcript \<Rightarrow> bool" where
  "reactions_missing messageId t \<longleftrightarrow>
     (\<exists>m \<in> set (transcript_messages t). ms_id m = messageId \<and> ms_reactions m = None)"

datatype cache_error = TypeError

definition guarded ::
  "('c \<Rightarrow> query_key \<Rightarrow> query_data option) \<Rightarrow> 'c setter \<Rightarrow> 'c \<Rightarrow> uuid \<Rightarrow> uuid \<Rightarrow> (message \<Rightarrow> message)
     \<Rightarrow> cache_error + 'c" where
  "guarded getQueryData setQueryData queryClient roomId messageId change =
     (if (case getQueryData queryClient (chatKeys_messages roomId) of
            Some (Transcript_data t) \<Rightarrow> reactions_missing messageId t
          | _ \<Rightarrow> False)
      then Inl TypeError
      else Inr (setQueryData queryClient (chatKeys_messages roomId)
             (on_transcript (edit_pages (map (\<lambda>m. if ms_id m = messageId then change m else m))))))"

definition applyReactionsUpdated ::
  "('c \<Rightarrow> query_key \<Rightarrow> query_data option) \<Rightarrow> 'c setter \<Rightarrow> 'c \<Rightarrow> uuid \<Rightarrow> uuid \<Rightarrow> reaction_summary list
     \<Rightarrow> cache_error + 'c" where
  "applyReactionsUpdated getQueryData setQueryData queryClient roomId messageId reactions =
     guarded getQueryData setQueryData queryClient roomId messageId
       (\<lambda>m. m\<lparr>ms_reactions := Some (mark_mine m reactions)\<rparr>)"

definition toggleReaction :: "reaction_summary list \<Rightarrow> jstr \<Rightarrow> bool \<Rightarrow> reaction_summary list" where
  "toggleReaction reactions emoji add =
     (case List.find (\<lambda>r. rx_reaction r = emoji) reactions of
        None \<Rightarrow> if add then reactions @ [\<lparr>rx_reaction = emoji, rx_count = 1, rx_me = True\<rparr>] else reactions
      | Some existing \<Rightarrow>
          let count = rx_count existing + (if add then 1 else -1)
          in if count \<le> 0 then filter (\<lambda>r. rx_reaction r \<noteq> emoji) reactions
             else map (\<lambda>r. if rx_reaction r = emoji then r\<lparr>rx_count := count, rx_me := add\<rparr> else r) reactions)"

definition applyLocalReaction ::
  "('c \<Rightarrow> query_key \<Rightarrow> query_data option) \<Rightarrow> 'c setter \<Rightarrow> 'c \<Rightarrow> uuid \<Rightarrow> uuid \<Rightarrow> jstr \<Rightarrow> bool
     \<Rightarrow> cache_error + 'c" where
  "applyLocalReaction getQueryData setQueryData queryClient roomId messageId emoji add =
     guarded getQueryData setQueryData queryClient roomId messageId
       (\<lambda>m. m\<lparr>ms_reactions := Some (toggleReaction (the (ms_reactions m)) emoji add)\<rparr>)"

text \<open>\<open>select\<close> of \<open>useRoomMessagesInfinite\<close>: what the view shows.\<close>

definition transcript_items :: "(string \<Rightarrow> string \<Rightarrow> int) \<Rightarrow> transcript \<Rightarrow> message list" where
  "transcript_items localeCompare t = mergeMessages localeCompare [] (transcript_messages t)"

section \<open>Merging, by key\<close>

lemma message_cmp_comparator:
  assumes "comparator lc"
  shows "comparator (message_cmp lc)"
proof -
  have "comparator (\<lambda>a b. cmp_then (lc (ms_created_at a) (ms_created_at b)) (lc (ms_id a) (ms_id b)))"
    using comparator_key [OF assms, of ms_created_at] comparator_key [OF assms, of ms_id]
    by (rule comparator_then)
  then show ?thesis by (simp add: message_cmp_def [abs_def] cmp_then_def Let_def)
qed

definition keyed :: "(uuid \<times> message) list \<Rightarrow> bool" where
  "keyed acc \<longleftrightarrow> distinct (map fst acc) \<and> (\<forall>k m. map_of acc k = Some m \<longrightarrow> ms_id m = k)"

lemma keyed_update: "keyed acc \<Longrightarrow> ms_id m = k \<Longrightarrow> keyed (AList.update k m acc)"
  by (auto simp: keyed_def distinct_update update_conv' split: if_splits)

lemma keyed_ids: "keyed acc \<Longrightarrow> map ms_id (map snd acc) = map fst acc"
  by (auto simp: keyed_def)

lemma ms_id_keep_reactions [simp]: "ms_id (keep_reactions m p) = ms_id m"
  by (simp add: keep_reactions_def)

definition merge_step :: "message \<Rightarrow> (uuid \<times> message) list \<Rightarrow> (uuid \<times> message) list" where
  "merge_step m acc = AList.update (ms_id m) (keep_reactions m (map_of acc (ms_id m))) acc"

definition index_messages :: "message list \<Rightarrow> (uuid \<times> message) list" where
  "index_messages ms = jmap_of (map (\<lambda>m. (ms_id m, m)) ms)"

definition merge_map :: "message list \<Rightarrow> message list \<Rightarrow> (uuid \<times> message) list" where
  "merge_map existing incoming = fold merge_step incoming (index_messages existing)"

lemma mergeMessages_eq: "mergeMessages lc a b = js_sort (message_cmp lc) (map snd (merge_map a b))"
  by (simp add: mergeMessages_def merge_map_def index_messages_def merge_step_def [abs_def])

lemma map_of_index: "map_of (index_messages ms) = map_of (rev (map (\<lambda>m. (ms_id m, m)) ms))"
  by (simp add: index_messages_def jmap_of_def map_of_fold_update)

lemma keyed_index: "keyed (index_messages ms)"
proof -
  have "distinct (map fst (index_messages ms))"
    by (simp add: index_messages_def distinct_jmap_of)
  then show ?thesis
    by (auto simp: keyed_def map_of_index dest: map_of_SomeD)
qed

lemma keyed_merge: "keyed (merge_map a b)"
proof -
  have "keyed acc \<Longrightarrow> keyed (fold merge_step b acc)" for acc
    by (induction b arbitrary: acc) (simp_all add: merge_step_def keyed_update)
  then show ?thesis by (simp add: merge_map_def keyed_index)
qed

lemma map_of_merge_steps:
  "map_of (fold merge_step b acc) i =
     fold (\<lambda>m p. Some (keep_reactions m p)) (filter (\<lambda>m. ms_id m = i) b) (map_of acc i)"
  by (induction b arbitrary: acc) (auto simp: merge_step_def update_conv')

lemma fold_Some: "fold (\<lambda>m p. Some (f m p)) ms (Some x) = Some (fold (\<lambda>m p. f m (Some p)) ms x)"
  by (induction ms arbitrary: x) simp_all

lemma map_of_merge:
  "map_of (merge_map a b) i = fold (\<lambda>m p. Some (keep_reactions m p)) (filter (\<lambda>m. ms_id m = i) b)
     (map_of (index_messages a) i)"
  by (simp add: merge_map_def map_of_merge_steps)

lemma dom_index: "map_of (index_messages ms) i = None \<longleftrightarrow> i \<notin> ms_id ` set ms"
  by (simp add: map_of_index map_of_eq_None_iff image_image)

lemma dom_merge: "map_of (merge_map a b) i = None \<longleftrightarrow> i \<notin> ms_id ` set a \<union> ms_id ` set b"
proof (cases "filter (\<lambda>m. ms_id m = i) b")
  case Nil
  then show ?thesis by (auto simp: map_of_merge dom_index filter_empty_conv)
next
  case (Cons m ms)
  then have "m \<in> set (filter (\<lambda>m. ms_id m = i) b)" by simp
  then have "m \<in> set b \<and> ms_id m = i" by simp
  then show ?thesis using Cons by (auto simp: map_of_merge fold_Some)
qed

lemma keyed_value: "keyed acc \<Longrightarrow> m \<in> set (map snd acc) \<Longrightarrow> map_of acc (ms_id m) = Some m"
proof -
  assume k: "keyed acc" and "m \<in> set (map snd acc)"
  then obtain i where "(i, m) \<in> set acc" by auto
  then have i: "map_of acc i = Some m" using k by (simp add: keyed_def)
  then have "ms_id m = i" using k by (simp add: keyed_def)
  with i show ?thesis by simp
qed

lemma keyed_set_ids: "keyed acc \<Longrightarrow> ms_id ` set (map snd acc) = {i. map_of acc i \<noteq> None}"
proof -
  assume "keyed acc"
  then have "set (map ms_id (map snd acc)) = fst ` set acc" by (simp only: keyed_ids set_map)
  then show ?thesis by (auto simp: map_of_eq_None_iff)
qed

lemma sorted_values_eq:
  assumes lc: "comparator lc" and a: "keyed a" and b: "keyed b" and eq: "map_of a = map_of b"
    and sep: "\<And>i j. map_of a i \<noteq> None \<Longrightarrow> map_of a j \<noteq> None \<Longrightarrow> lc i j = 0 \<Longrightarrow> i = j"
  shows "js_sort (message_cmp lc) (map snd a) = js_sort (message_cmp lc) (map snd b)"
proof -
  have c: "comparator (message_cmp lc)" using lc by (rule message_cmp_comparator)
  have "set a = set b"
    using a b eq by (metis keyed_def map_of_inject_set)
  moreover have "distinct a" "distinct b" using a b by (auto simp: keyed_def distinct_map)
  ultimately have "mset a = mset b" by (simp add: set_eq_iff_mset_eq_distinct)
  then have ms: "mset (map snd a) = mset (map snd b)" by (metis mset_map)
  show ?thesis
  proof (rule comparator.sorted_unique [OF c])
    show "mset (js_sort (message_cmp lc) (map snd a)) = mset (js_sort (message_cmp lc) (map snd b))"
      using ms by simp
    fix x y
    assume "x \<in> set (js_sort (message_cmp lc) (map snd a))" "y \<in> set (js_sort (message_cmp lc) (map snd a))"
      and z: "message_cmp lc x y = 0"
    then have x: "map_of a (ms_id x) = Some x" and y: "map_of a (ms_id y) = Some y"
      using keyed_value [OF a] by simp_all
    have "lc (ms_id x) (ms_id y) = 0" using z by (simp add: message_cmp_def Let_def split: if_splits)
    then have same: "ms_id x = ms_id y" using sep [of "ms_id x" "ms_id y"] x y by blast
    show "x = y" using x y unfolding same by (metis option.inject)
  qed (rule comparator.sorted_sort [OF c])+
qed

lemma map_of_ext: "(\<And>i x. map_of a i = Some x \<longleftrightarrow> map_of b i = Some x) \<Longrightarrow> map_of a = map_of b"
  by (rule ext) (metis not_None_eq)

lemma map_of_index_distinct:
  assumes "distinct (map ms_id ms)"
  shows "map_of (index_messages ms) i = Some m \<longleftrightarrow> m \<in> set ms \<and> ms_id m = i"
proof -
  have "distinct (map fst (rev (map (\<lambda>m. (ms_id m, m)) ms)))"
    using assms by (simp add: comp_def rev_map [symmetric])
  then have "map_of (index_messages ms) i = Some m \<longleftrightarrow> (i, m) \<in> set (rev (map (\<lambda>m. (ms_id m, m)) ms))"
    unfolding map_of_index by (rule map_of_eq_Some_iff)
  then show ?thesis by auto
qed

lemma index_of_sorted:
  assumes k: "keyed acc"
  shows "map_of (index_messages (js_sort c (map snd acc))) = map_of acc"
proof (rule map_of_ext)
  fix i m
  have "distinct (map ms_id (map snd acc))"
    unfolding keyed_ids [OF k] using k by (simp add: keyed_def)
  then have "distinct (map ms_id (js_sort c (map snd acc)))"
    by (simp only: distinct_map_js_sort)
  then have "map_of (index_messages (js_sort c (map snd acc))) i = Some m
      \<longleftrightarrow> m \<in> set (map snd acc) \<and> ms_id m = i"
    by (simp add: map_of_index_distinct)
  also have "\<dots> \<longleftrightarrow> map_of acc i = Some m"
  proof
    assume "m \<in> set (map snd acc) \<and> ms_id m = i"
    then show "map_of acc i = Some m" using keyed_value [OF k, of m] by simp
  next
    assume i: "map_of acc i = Some m"
    then have "m \<in> set (map snd acc)" by (force dest: map_of_SomeD)
    moreover have "ms_id m = i" using k i by (simp add: keyed_def)
    ultimately show "m \<in> set (map snd acc) \<and> ms_id m = i" by blast
  qed
  finally show "map_of (index_messages (js_sort c (map snd acc))) i = Some m \<longleftrightarrow> map_of acc i = Some m" .
qed

subsection \<open>Re-delivery\<close>

definition rx :: "message option \<Rightarrow> reaction_summary list" where
  "rx p = (case p of None \<Rightarrow> [] | Some q \<Rightarrow> (case ms_reactions q of Some r \<Rightarrow> r | None \<Rightarrow> []))"

definition latest_rx :: "message list \<Rightarrow> reaction_summary list \<Rightarrow> reaction_summary list" where
  "latest_rx ms r = fold (\<lambda>m r. case ms_reactions m of Some x \<Rightarrow> x | None \<Rightarrow> r) ms r"

lemma rx_keep: "rx (Some (keep_reactions m p)) = (case ms_reactions m of Some x \<Rightarrow> x | None \<Rightarrow> rx p)"
  by (simp add: rx_def keep_reactions_def split: option.split)

lemma rx_fold: "rx (fold (\<lambda>m p. Some (keep_reactions m p)) ms p) = latest_rx ms (rx p)"
  by (induction ms arbitrary: p) (simp_all add: latest_rx_def rx_keep del: option.case)

lemma latest_rx_cases:
  "(\<forall>r. latest_rx ms r = r) \<or> (\<exists>c. \<forall>r. latest_rx ms r = c)"
proof (induction ms)
  case Nil
  then show ?case by (simp add: latest_rx_def)
next
  case (Cons m ms)
  then show ?case by (cases "ms_reactions m") (auto simp: latest_rx_def)
qed

lemma latest_rx_idem: "latest_rx ms (latest_rx ms r) = latest_rx ms r"
  using latest_rx_cases [of ms] by metis

lemma keep_reactions_eq: "keep_reactions m p = m\<lparr>ms_reactions := Some (rx (Some (keep_reactions m p)))\<rparr>"
  by (simp add: keep_reactions_def rx_def)

lemma merge_twice:
  "fold (\<lambda>m p. Some (keep_reactions m p)) ms (fold (\<lambda>m p. Some (keep_reactions m p)) ms p)
     = fold (\<lambda>m p. Some (keep_reactions m p)) ms p" (is "?F (?F p) = ?F p")
proof (cases ms rule: rev_cases)
  case Nil
  then show ?thesis by simp
next
  case (snoc ms' m)
  have last: "?F q = Some (m\<lparr>ms_reactions := Some (latest_rx ms (rx q))\<rparr>)" for q
  proof -
    let ?q = "fold (\<lambda>m p. Some (keep_reactions m p)) ms' q"
    have "?F q = Some (keep_reactions m ?q)" by (simp add: snoc)
    moreover have "rx (?F q) = latest_rx ms (rx q)" by (rule rx_fold)
    ultimately show ?thesis using keep_reactions_eq [of m ?q] by simp
  qed
  have "rx (?F p) = latest_rx ms (rx p)" by (rule rx_fold)
  then have "?F (?F p) = Some (m\<lparr>ms_reactions := Some (latest_rx ms (rx p))\<rparr>)"
    using last [of "?F p"] by (simp only: latest_rx_idem)
  then show ?thesis using last [of p] by simp
qed

section \<open>Properties of the merge\<close>

text \<open>
  C10. A merged transcript is in order and holds every message once: sorted by time and then
  id, no two entries of one id, and exactly the ids that were held or arrived.
\<close>

theorem mergeMessages_sorted:
  assumes "comparator localeCompare"
  shows "sorted_wrt (\<lambda>a b. message_cmp localeCompare a b \<le> 0) (mergeMessages localeCompare existing incoming)
    \<and> distinct (map ms_id (mergeMessages localeCompare existing incoming))
    \<and> ms_id ` set (mergeMessages localeCompare existing incoming)
        = ms_id ` set existing \<union> ms_id ` set incoming"
proof -
  let ?m = "merge_map existing incoming"
  have k: "keyed ?m" by (rule keyed_merge)
  then have "distinct (map ms_id (map snd ?m))" unfolding keyed_ids [OF k] by (simp add: keyed_def)
  moreover have "ms_id ` set (map snd ?m) = ms_id ` set existing \<union> ms_id ` set incoming"
    unfolding keyed_set_ids [OF k] by (auto simp: dom_merge)
  ultimately show ?thesis
    using comparator.sorted_sort [OF message_cmp_comparator [OF assms], of "map snd ?m"]
    by (simp add: mergeMessages_eq distinct_map_js_sort)
qed

definition demo_message :: "uuid \<Rightarrow> timestamp \<Rightarrow> reaction_summary list option \<Rightarrow> message" where
  "demo_message i at r = \<lparr>ms_id = i, ms_room_id = ''r'', ms_author_id = ''u'', ms_content = js ''hi'',
     ms_is_anonymous = None, ms_reply_to_id = None, ms_edited_at = None, ms_created_at = at,
     ms_reactions = r, ms_anonymous_author = None\<rparr>"

theorem mergeMessages_sorted_witness:
  "distinct (map ms_id (mergeMessages str_compare [demo_message ''b'' ''2'' None] [demo_message ''a'' ''2'' None]))
   \<and> map ms_id (mergeMessages str_compare [demo_message ''b'' ''2'' None] [demo_message ''a'' ''2'' None]) = [''a'', ''b'']"
  using mergeMessages_sorted [OF strs.comparator_axioms, of "[demo_message ''b'' ''2'' None]" "[demo_message ''a'' ''2'' None]"]
  by (intro conjI, blast, code_simp)

text \<open>
  Delivering again changes nothing: merging in messages that were just merged in, in any
  state of the transcript, leaves it exactly as it is, whether or not the second delivery
  carries reactions.
\<close>

theorem mergeMessages_idempotent:
  assumes "comparator localeCompare"
    and "\<And>i j. i \<in> ms_id ` set existing \<union> ms_id ` set incoming \<Longrightarrow>
      j \<in> ms_id ` set existing \<union> ms_id ` set incoming \<Longrightarrow> localeCompare i j = 0 \<Longrightarrow> i = j"
  shows "mergeMessages localeCompare (mergeMessages localeCompare existing incoming) incoming
    = mergeMessages localeCompare existing incoming"
proof -
  let ?r = "mergeMessages localeCompare existing incoming"
  have idx: "map_of (index_messages ?r) = map_of (merge_map existing incoming)"
    unfolding mergeMessages_eq by (rule index_of_sorted) (rule keyed_merge)
  have eq: "map_of (merge_map ?r incoming) = map_of (merge_map existing incoming)"
  proof
    fix i
    show "map_of (merge_map ?r incoming) i = map_of (merge_map existing incoming) i"
      unfolding map_of_merge [of ?r] idx unfolding map_of_merge merge_twice by (rule refl)
  qed
  have "js_sort (message_cmp localeCompare) (map snd (merge_map ?r incoming))
      = js_sort (message_cmp localeCompare) (map snd (merge_map existing incoming))"
  proof (rule sorted_values_eq [OF assms(1) keyed_merge keyed_merge eq])
    fix i j
    assume "map_of (merge_map ?r incoming) i \<noteq> None" "map_of (merge_map ?r incoming) j \<noteq> None"
      and z: "localeCompare i j = 0"
    then have "i \<in> ms_id ` set existing \<union> ms_id ` set incoming" "j \<in> ms_id ` set existing \<union> ms_id ` set incoming"
      unfolding eq dom_merge by blast+
    then show "i = j" using assms(2) z by blast
  qed
  then show ?thesis by (simp only: mergeMessages_eq)
qed

theorem mergeMessages_idempotent_witness:
  "mergeMessages str_compare
     (mergeMessages str_compare [demo_message ''a'' ''1'' (Some [])] [demo_message ''b'' ''2'' None, demo_message ''a'' ''1'' None])
     [demo_message ''b'' ''2'' None, demo_message ''a'' ''1'' None]
   = mergeMessages str_compare [demo_message ''a'' ''1'' (Some [])] [demo_message ''b'' ''2'' None, demo_message ''a'' ''1'' None]"
  by (rule mergeMessages_idempotent [OF strs.comparator_axioms]) (simp add: str_compare_eq_0)

text \<open>
  The view does not depend on how the pages arrived: the same messages in any order and any
  division into pages give the same list.
\<close>

lemma transcript_items_order:
  assumes lc: "comparator lc" and d: "distinct (map ms_id a)" and ms: "mset a = mset b"
    and sep: "\<And>i j. i \<in> ms_id ` set a \<Longrightarrow> j \<in> ms_id ` set a \<Longrightarrow> lc i j = 0 \<Longrightarrow> i = j"
  shows "mergeMessages lc [] a = mergeMessages lc [] b"
proof -
  have set: "set a = set b" using ms by (rule mset_eq_setD)
  have db: "distinct (map ms_id b)"
    using d ms by (metis mset_map mset_eq_imp_distinct_iff)
  have one: "filter (\<lambda>m. ms_id m = i) xs = (if \<exists>m \<in> set xs. ms_id m = i then [THE m. m \<in> set xs \<and> ms_id m = i] else [])"
    if "distinct (map ms_id xs)" for xs :: "message list" and i
    using that
  proof (induction xs)
    case (Cons x xs)
    show ?case
    proof (cases "ms_id x = i")
      case True
      then have "\<forall>m \<in> set xs. ms_id m \<noteq> i" using Cons.prems by (auto simp: image_iff)
      then have "filter (\<lambda>m. ms_id m = i) xs = []" and "(THE m. m \<in> set (x # xs) \<and> ms_id m = i) = x"
        using True by (auto simp: filter_empty_conv)
      then show ?thesis using True by simp
    next
      case False
      then have "m \<in> set (x # xs) \<and> ms_id m = i \<longleftrightarrow> m \<in> set xs \<and> ms_id m = i" for m by auto
      then show ?thesis using Cons False by simp
    qed
  qed simp
  have "map_of (merge_map [] a) i = map_of (merge_map [] b) i" for i
    by (simp add: map_of_merge one [OF d] one [OF db] set)
  then have eq: "map_of (merge_map [] a) = map_of (merge_map [] b)" by (rule ext)
  show ?thesis
    unfolding mergeMessages_eq
  proof (rule sorted_values_eq [OF lc keyed_merge keyed_merge eq])
    fix i j
    assume "map_of (merge_map [] a) i \<noteq> None" "map_of (merge_map [] a) j \<noteq> None" "lc i j = 0"
    then show "i = j" using sep unfolding dom_merge by auto
  qed
qed

section \<open>The cache of the chat\<close>

locale chat_cache = query_client getQueryData setQueryData
  for getQueryData :: "'c \<Rightarrow> query_key \<Rightarrow> query_data option"
    and setQueryData :: "'c \<Rightarrow> query_key \<Rightarrow> (query_data option \<Rightarrow> query_data option) \<Rightarrow> 'c"
begin

lemma get_on_transcript:
  "getQueryData (setQueryData qc key (on_transcript f)) key' =
     (if key' = key then on_transcript f (getQueryData qc key) else getQueryData qc key')"
proof (cases "getQueryData qc key")
  case None
  then show ?thesis by (simp add: get_set)
next
  case (Some d)
  then show ?thesis by (cases d) (simp_all add: get_set)
qed

lemma get_edit:
  "getQueryData (editTranscript setQueryData qc r edit) key' =
     (if key' = chatKeys_messages r then on_transcript (edit_newest edit) (getQueryData qc key')
      else getQueryData qc key')"
  by (simp add: editTranscript_def get_on_transcript)

lemma get_deleted:
  assumes "getQueryData qc (chatKeys_messages r) = Some (Transcript_data t)"
  shows "getQueryData (snd (applyMessageDeleted getQueryData setQueryData qc r i)) (chatKeys_messages r)
    = Some (Transcript_data (edit_pages (filter (\<lambda>m. ms_id m \<noteq> i)) t))"
  using assms by (simp add: applyMessageDeleted_def get_on_transcript)

lemma get_guarded:
  assumes "getQueryData qc (chatKeys_messages r) = Some (Transcript_data t)"
    and "guarded getQueryData setQueryData qc r i change = Inr qc'"
  shows "getQueryData qc' (chatKeys_messages r)
    = Some (Transcript_data (edit_pages (map (\<lambda>m. if ms_id m = i then change m else m)) t))"
  using assms by (auto simp: guarded_def get_on_transcript split: if_splits)

lemma guarded_Inr:
  assumes "getQueryData qc (chatKeys_messages r) = Some (Transcript_data t)"
    and "\<forall>m \<in> set (transcript_messages t). ms_reactions m \<noteq> None"
  shows "\<exists>qc'. guarded getQueryData setQueryData qc r i change = Inr qc'"
  using assms by (auto simp: guarded_def reactions_missing_def)

end

interpretation chat_store: chat_cache store_get store_set
  by unfold_locales

lemma edit_newest_pages:
  "pages t = newest # older \<Longrightarrow>
     edit_newest f t = t\<lparr>pages := newest\<lparr>mp_messages := f (mp_messages newest)\<rparr> # older\<rparr>"
  by (simp add: edit_newest_def)

lemma transcript_messages_edit:
  "transcript_messages (edit_pages f t) = concat (map (\<lambda>p. f (mp_messages p)) (pages t))"
  by (simp add: transcript_messages_def edit_pages_def comp_def)

lemma edit_pages_filter:
  "transcript_messages (edit_pages (filter P) t) = filter P (transcript_messages t)"
  by (simp add: transcript_messages_edit) (simp add: transcript_messages_def filter_concat comp_def)

lemma edit_pages_map: "transcript_messages (edit_pages (map f) t) = map f (transcript_messages t)"
  by (simp add: transcript_messages_edit) (simp add: transcript_messages_def map_concat comp_def)

section \<open>Properties of the edits\<close>

text \<open>
  C11. A message that arrives is on the newest page exactly once, at its front, however often
  it arrives; the rest of that page, the page's cursor, the older pages and every other
  query are as they were.
\<close>

theorem message_created_once:
  assumes "chat_cache getQueryData setQueryData"
    and "getQueryData qc (chatKeys_messages r) = Some (Transcript_data t)" and "pages t = newest # older"
  shows "\<exists>m'. ms_id m' = ms_id m
    \<and> getQueryData (applyMessageCreated setQueryData qc r m rs an) (chatKeys_messages r)
        = Some (Transcript_data (t\<lparr>pages := newest\<lparr>mp_messages :=
            m' # filter (\<lambda>x. ms_id x \<noteq> ms_id m) (mp_messages newest)\<rparr> # older\<rparr>))
    \<and> getQueryData (applyMessageCreated setQueryData (applyMessageCreated setQueryData qc r m rs an) r m rs an)
        (chatKeys_messages r)
      = getQueryData (applyMessageCreated setQueryData qc r m rs an) (chatKeys_messages r)
    \<and> (\<forall>key. key \<noteq> chatKeys_messages r \<longrightarrow>
         getQueryData (applyMessageCreated setQueryData qc r m rs an) key = getQueryData qc key)"
proof -
  note get = chat_cache.get_edit [OF assms(1)]
  let ?m = "m\<lparr>ms_reactions := or_else (ms_reactions m) (Some rs),
      ms_anonymous_author := or_else (ms_anonymous_author m) an\<rparr>"
  show ?thesis
    by (rule exI [of _ ?m])
      (simp add: applyMessageCreated_def get assms(2,3) edit_newest_pages place_message_def)
qed

definition demo_transcript :: transcript where
  "demo_transcript = \<lparr>pages =
     [\<lparr>mp_messages = [demo_message ''c'' ''3'' (Some []), demo_message ''b'' ''2'' (Some [])],
       mp_next_before = Some ''2'', mp_next_before_id = Some ''b''\<rparr>,
      \<lparr>mp_messages = [demo_message ''a'' ''1'' (Some [])], mp_next_before = None, mp_next_before_id = None\<rparr>],
     pageParams = []\<rparr>"

definition demo_store :: "query_data store" where
  "demo_store = [(chatKeys_messages ''r'', Transcript_data demo_transcript)]"

lemma demo_store_get: "store_get demo_store (chatKeys_messages ''r'') = Some (Transcript_data demo_transcript)"
  by (simp add: demo_store_def store_get_def)

theorem message_created_once_witness:
  "store_get (applyMessageCreated store_set (applyMessageCreated store_set demo_store ''r''
       (demo_message ''d'' ''4'' None) [] None) ''r'' (demo_message ''d'' ''4'' None) [] None)
     (chatKeys_messages ''r'')
   = store_get (applyMessageCreated store_set demo_store ''r'' (demo_message ''d'' ''4'' None) [] None)
       (chatKeys_messages ''r'')"
proof -
  obtain newest older where "pages demo_transcript = newest # older" by (simp add: demo_transcript_def)
  from message_created_once [OF chat_store.chat_cache_axioms demo_store_get this]
  show ?thesis by blast
qed

lemma find_SomeD: "List.find P xs = Some x \<Longrightarrow> x \<in> set xs \<and> P x"
  by (induction xs) (auto split: if_splits)

lemma find_rev_distinct:
  assumes "distinct (map ms_id ms)" and "m \<in> set ms"
  shows "List.find (\<lambda>x. ms_id x = ms_id m) (rev ms) = Some m"
proof -
  obtain m' where f: "List.find (\<lambda>x. ms_id x = ms_id m) (rev ms) = Some m'"
    using assms(2) by (cases "List.find (\<lambda>x. ms_id x = ms_id m) (rev ms)") (auto simp: find_None_iff)
  then have "m' \<in> set ms" "ms_id m' = ms_id m"
    using find_SomeD [OF f] by simp_all
  then have "m' = m" using assms by (metis distinct_map inj_onD)
  then show ?thesis using f by simp
qed

lemma mset_one_out:
  assumes "distinct (map ms_id ms)" and "m \<in> set ms"
  shows "mset ms = mset (m # filter (\<lambda>x. ms_id x \<noteq> ms_id m) ms)"
  using assms
proof (induction ms)
  case (Cons x xs)
  show ?case
  proof (cases "x = m")
    case True
    then have "filter (\<lambda>x. ms_id x \<noteq> ms_id m) xs = xs"
      using Cons.prems(1) by (simp add: filter_id_conv) (metis imageI)
    with True show ?thesis by simp
  next
    case False
    with Cons.prems have "m \<in> set xs" "ms_id x \<noteq> ms_id m" by auto
    with Cons show ?thesis by simp
  qed
qed simp

text \<open>
  C12. Undoing a delete undoes it: a message that was dropped before the server refused, and
  put back, is again where it was in what the reader sees, from whatever page it came.
\<close>

theorem delete_undo_restores_view:
  assumes "chat_cache getQueryData setQueryData" and "comparator localeCompare"
    and "getQueryData qc (chatKeys_messages r) = Some (Transcript_data t)" and "pages t \<noteq> []"
    and "distinct (map ms_id (transcript_messages t))"
    and "m \<in> set (transcript_messages t)" and "ms_reactions m \<noteq> None"
    and "\<And>i j. i \<in> ms_id ` set (transcript_messages t) \<Longrightarrow> j \<in> ms_id ` set (transcript_messages t) \<Longrightarrow>
      localeCompare i j = 0 \<Longrightarrow> i = j"
  shows "\<exists>qc1 t1 t2. applyMessageDeleted getQueryData setQueryData qc r (ms_id m) = (Some m, qc1)
    \<and> getQueryData qc1 (chatKeys_messages r) = Some (Transcript_data t1)
    \<and> m \<notin> set (transcript_messages t1)
    \<and> getQueryData (applyMessageCreated setQueryData qc1 r m [] None) (chatKeys_messages r)
        = Some (Transcript_data t2)
    \<and> transcript_items localeCompare t2 = transcript_items localeCompare t"
proof -
  let ?qc1 = "snd (applyMessageDeleted getQueryData setQueryData qc r (ms_id m))"
  let ?keep = "\<lambda>x. ms_id x \<noteq> ms_id m"
  let ?t1 = "edit_pages (filter ?keep) t"
  have del: "applyMessageDeleted getQueryData setQueryData qc r (ms_id m) = (Some m, ?qc1)"
    using find_rev_distinct [OF assms(5,6)] assms(3) by (simp add: applyMessageDeleted_def)
  have g1: "getQueryData ?qc1 (chatKeys_messages r) = Some (Transcript_data ?t1)"
    by (rule chat_cache.get_deleted [OF assms(1,3)])
  let ?t2 = "edit_newest (place_message m [] None) ?t1"
  have g2: "getQueryData (applyMessageCreated setQueryData ?qc1 r m [] None) (chatKeys_messages r)
      = Some (Transcript_data ?t2)"
    using g1 by (simp add: applyMessageCreated_def chat_cache.get_edit [OF assms(1)])
  have place: "place_message m [] None ms = m # filter ?keep ms" for ms
  proof -
    have "m\<lparr>ms_reactions := ms_reactions m, ms_anonymous_author := ms_anonymous_author m\<rparr> = m"
      by (cases m) simp
    then show ?thesis
      using assms(7) by (auto simp: place_message_def or_else_def split: option.splits)
  qed
  obtain p ps where pages: "pages t = p # ps" using assms(4) by (cases "pages t") auto
  have t2: "transcript_messages ?t2 = m # filter ?keep (transcript_messages t)"
    using pages by (simp add: edit_newest_def edit_pages_def transcript_messages_def place filter_concat comp_def)
  have "transcript_items localeCompare t = transcript_items localeCompare ?t2"
    unfolding transcript_items_def t2
    by (rule transcript_items_order [OF assms(2,5) mset_one_out [OF assms(5,6)]]) (rule assms(8))
  moreover have "m \<notin> set (transcript_messages ?t1)" by (simp add: edit_pages_filter)
  ultimately show ?thesis using del g1 g2 by metis
qed

theorem delete_undo_restores_view_witness:
  "\<exists>qc1 t2. applyMessageDeleted store_get store_set demo_store ''r'' ''a'' = (Some (demo_message ''a'' ''1'' (Some [])), qc1)
    \<and> store_get (applyMessageCreated store_set qc1 ''r'' (demo_message ''a'' ''1'' (Some [])) [] None)
        (chatKeys_messages ''r'') = Some (Transcript_data t2)
    \<and> transcript_items str_compare t2 = transcript_items str_compare demo_transcript"
proof -
  let ?m = "demo_message ''a'' ''1'' (Some [])"
  have ms: "transcript_messages demo_transcript
      = [demo_message ''c'' ''3'' (Some []), demo_message ''b'' ''2'' (Some []), ?m]"
    by (simp add: transcript_messages_def demo_transcript_def)
  have id: "ms_id ?m = ''a''" by (simp add: demo_message_def)
  have pre: "pages demo_transcript \<noteq> []" "distinct (map ms_id (transcript_messages demo_transcript))"
    "?m \<in> set (transcript_messages demo_transcript)" "ms_reactions ?m \<noteq> None"
    unfolding ms by (simp_all add: demo_transcript_def demo_message_def)
  have "\<exists>qc1 t1 t2. applyMessageDeleted store_get store_set demo_store ''r'' (ms_id ?m) = (Some ?m, qc1)
    \<and> store_get qc1 (chatKeys_messages ''r'') = Some (Transcript_data t1)
    \<and> ?m \<notin> set (transcript_messages t1)
    \<and> store_get (applyMessageCreated store_set qc1 ''r'' ?m [] None) (chatKeys_messages ''r'') = Some (Transcript_data t2)
    \<and> transcript_items str_compare t2 = transcript_items str_compare demo_transcript"
    using pre
    by (intro delete_undo_restores_view [OF chat_store.chat_cache_axioms strs.comparator_axioms demo_store_get])
      (simp_all add: str_compare_eq_0)
  then show ?thesis unfolding id by blast
qed

section \<open>Reactions\<close>

definition mine :: "message \<Rightarrow> jstr set" where
  "mine m = rx_reaction ` {e \<in> set (case ms_reactions m of Some r \<Rightarrow> r | None \<Rightarrow> []). rx_me e}"

lemma mark_mine_eq: "mark_mine m frame = map (\<lambda>e. e\<lparr>rx_me := rx_reaction e \<in> mine m\<rparr>) frame"
  by (simp add: mark_mine_def mine_def)

lemma find_reaction_None: "List.find (\<lambda>r. rx_reaction r = emoji) rs = None \<longleftrightarrow> emoji \<notin> rx_reaction ` set rs"
  unfolding find_None_iff by blast

lemma mine_toggle:
  assumes "\<forall>e \<in> set rs. 0 \<le> rx_count e"
  shows "rx_reaction ` {e \<in> set (toggleReaction rs emoji add). rx_me e}
    = (if add then insert emoji (rx_reaction ` {e \<in> set rs. rx_me e})
       else rx_reaction ` {e \<in> set rs. rx_me e} - {emoji})"
proof (cases "List.find (\<lambda>r. rx_reaction r = emoji) rs")
  case None
  then have "emoji \<notin> rx_reaction ` set rs" by (rule find_reaction_None [THEN iffD1])
  moreover have "{e \<in> set (rs @ [\<lparr>rx_reaction = emoji, rx_count = 1, rx_me = True\<rparr>]). rx_me e}
      = insert \<lparr>rx_reaction = emoji, rx_count = 1, rx_me = True\<rparr> {e \<in> set rs. rx_me e}" by auto
  ultimately show ?thesis using None by (auto simp: toggleReaction_def simp del: set_append)
next
  case (Some x)
  then have x: "x \<in> set rs" "rx_reaction x = emoji" using find_SomeD [OF Some] by simp_all
  have toggled: "rx_reaction ` {e \<in> set (map (\<lambda>r. if rx_reaction r = emoji then r\<lparr>rx_count := n, rx_me := b\<rparr> else r) rs). rx_me e}
      = (if b then insert emoji (rx_reaction ` {e \<in> set rs. rx_me e}) else rx_reaction ` {e \<in> set rs. rx_me e} - {emoji})"
    for n b
  proof -
    have "{e \<in> set (map (\<lambda>r. if rx_reaction r = emoji then r\<lparr>rx_count := n, rx_me := b\<rparr> else r) rs). rx_me e}
        = {e \<in> set rs. rx_me e \<and> rx_reaction e \<noteq> emoji}
          \<union> (\<lambda>r. r\<lparr>rx_count := n, rx_me := b\<rparr>) ` {e \<in> set rs. rx_reaction e = emoji \<and> b}"
      by (auto simp: image_iff)
    moreover have "rx_reaction ` {e \<in> set rs. rx_me e \<and> rx_reaction e \<noteq> emoji}
        = rx_reaction ` {e \<in> set rs. rx_me e} - {emoji}" by auto
    moreover have "rx_reaction ` (\<lambda>r. r\<lparr>rx_count := n, rx_me := b\<rparr>) ` {e \<in> set rs. rx_reaction e = emoji \<and> b}
        = (if b then {emoji} else {})"
      using x by (auto simp: image_image image_iff)
    ultimately show ?thesis by (auto simp: image_Un)
  qed
  have "rx_reaction ` {e \<in> set (filter (\<lambda>r. rx_reaction r \<noteq> emoji) rs). rx_me e}
      = rx_reaction ` {e \<in> set rs. rx_me e} - {emoji}" by auto
  then show ?thesis
    using Some assms x toggled
    by (cases add) (auto simp: toggleReaction_def Let_def simp del: set_map set_filter)
qed

lemma mine_local:
  assumes "ms_reactions m = Some rs" and "\<forall>e \<in> set rs. 0 \<le> rx_count e"
  shows "mine (m\<lparr>ms_reactions := Some (toggleReaction (the (ms_reactions m)) emoji add)\<rparr>)
    = (if add then insert emoji (mine m) else mine m - {emoji})"
  using mine_toggle [OF assms(2), of emoji add] assms(1) by (simp add: mine_def)



lemma find_skip: "\<forall>e \<in> set as. \<not> P e \<Longrightarrow> List.find P (as @ bs) = List.find P bs"
  by (induction as) auto

lemma toggle_absent:
  "emoji \<notin> rx_reaction ` set rs \<Longrightarrow> toggleReaction rs emoji add =
     (if add then rs @ [\<lparr>rx_reaction = emoji, rx_count = 1, rx_me = True\<rparr>] else rs)"
  using find_reaction_None [of emoji rs] by (simp add: toggleReaction_def)

lemma toggle_present:
  assumes "rx_reaction x = emoji" and "emoji \<notin> rx_reaction ` set as" and "emoji \<notin> rx_reaction ` set bs"
  shows "toggleReaction (as @ x # bs) emoji add =
    (let count = rx_count x + (if add then 1 else -1)
     in if count \<le> 0 then as @ bs else as @ x\<lparr>rx_count := count, rx_me := add\<rparr> # bs)"
proof -
  have out: "\<forall>e \<in> set as. rx_reaction e \<noteq> emoji" "\<forall>e \<in> set bs. rx_reaction e \<noteq> emoji"
    using assms(2,3) by blast+
  then have "List.find (\<lambda>r. rx_reaction r = emoji) (as @ x # bs) = Some x"
    using assms(1) by (simp add: find_skip)
  moreover have "filter (\<lambda>r. rx_reaction r \<noteq> emoji) (as @ x # bs) = as @ bs"
    using out assms(1) by (simp add: filter_id_conv)
  moreover have "map (\<lambda>r. if rx_reaction r = emoji then f r else r) (as @ x # bs) = as @ f x # bs" for f
    using out assms(1) by (simp add: map_idI)
  ultimately show ?thesis using assms(1) by (simp add: toggleReaction_def Let_def)
qed

text \<open>
  A reaction that fails leaves no trace: toggled and toggled back, the tally is what it
  was (an entry that was the last of its kind comes back at the end of the row).
\<close>

theorem toggle_rollback:
  assumes "distinct (map rx_reaction rs)" and "\<And>e. e \<in> set rs \<Longrightarrow> 1 \<le> rx_count e"
    and "active \<longleftrightarrow> (\<exists>e \<in> set rs. rx_reaction e = emoji \<and> rx_me e)"
  shows "mset (toggleReaction (toggleReaction rs emoji (\<not> active)) emoji active) = mset rs"
proof (cases "emoji \<in> rx_reaction ` set rs")
  case False
  then have "\<not> active" using assms(3) by auto
  let ?new = "\<lparr>rx_reaction = emoji, rx_count = 1, rx_me = True\<rparr>"
  have "toggleReaction (rs @ ?new # []) emoji False = rs"
    using toggle_present [of ?new emoji rs "[]" False] False by simp
  then show ?thesis using False \<open>\<not> active\<close> by (simp add: toggle_absent)
next
  case True
  then obtain x where x: "x \<in> set rs" "rx_reaction x = emoji" by auto
  then obtain as bs where rs: "rs = as @ x # bs" by (metis split_list)
  have out: "emoji \<notin> rx_reaction ` set as" "emoji \<notin> rx_reaction ` set bs"
    using assms(1) x(2) unfolding rs by auto
  have me: "rx_me x = active" using assms(3) out x(2) unfolding rs by (auto simp: image_iff)
  have count: "1 \<le> rx_count x" using assms(2) x(1) .
  note present = toggle_present [OF _ out]
  have same: "x\<lparr>rx_count := rx_count x, rx_me := active\<rparr> = x" using me by (cases x) simp
  show ?thesis
  proof (cases "active \<and> rx_count x = 1")
    case True
    then have "x = \<lparr>rx_reaction = emoji, rx_count = 1, rx_me = True\<rparr>" using me x(2) by (cases x) simp
    moreover have "emoji \<notin> rx_reaction ` set (as @ bs)" using out by (simp add: image_Un)
    ultimately show ?thesis
      using True present [of x False] x(2) by (simp add: rs toggle_absent)
  next
    case False
    then have "toggleReaction rs emoji (\<not> active)
        = as @ x\<lparr>rx_count := rx_count x + (if active then -1 else 1), rx_me := \<not> active\<rparr> # bs"
      using present [of x "\<not> active"] x(2) count by (auto simp: rs Let_def)
    then show ?thesis
      using present [of "x\<lparr>rx_count := rx_count x + (if active then -1 else 1), rx_me := \<not> active\<rparr>" active]
        x(2) count same by (auto simp: rs Let_def)
  qed
qed

theorem toggle_rollback_witness:
  "mset (toggleReaction (toggleReaction [\<lparr>rx_reaction = js ''x'', rx_count = 1, rx_me = True\<rparr>,
       \<lparr>rx_reaction = js ''y'', rx_count = 2, rx_me = False\<rparr>] (js ''x'') (\<not> True)) (js ''x'') True)
   = mset [\<lparr>rx_reaction = js ''x'', rx_count = 1, rx_me = True\<rparr>,
       \<lparr>rx_reaction = js ''y'', rx_count = 2, rx_me = False\<rparr>]"
  by (rule toggle_rollback) (auto simp: js_def)

section \<open>Where an edit loses reactions\<close>

text \<open>
  The caller that applies the response to an edit says the cache keeps the reactions on
  screen, the response having none of its own. The updater's parameter defaults to an empty
  list, which is not absent: the reactions are dropped, and \<open>existing.reactions\<close> is never
  reached.
\<close>

theorem edit_response_blanks_reactions:
  assumes "chat_cache getQueryData setQueryData"
    and "getQueryData qc (chatKeys_messages r) = Some (Transcript_data t)" and "pages t = newest # older"
    and "ms_reactions m = None" and "old \<in> set (mp_messages newest)" and "ms_id old = ms_id m"
  shows "\<exists>newest'. getQueryData (applyMessageUpdated setQueryData qc r m [] None) (chatKeys_messages r)
      = Some (Transcript_data (t\<lparr>pages := newest' # older\<rparr>))
    \<and> (\<forall>x \<in> set (mp_messages newest'). ms_id x = ms_id m \<longrightarrow> ms_reactions x = Some [])"
  by (rule exI [of _ "newest\<lparr>mp_messages := map (update_message m [] None) (mp_messages newest)\<rparr>"])
    (auto simp: applyMessageUpdated_def chat_cache.get_edit [OF assms(1)] assms(2,3) edit_newest_pages
      update_message_def or_else_def assms(4))

text \<open>
  And the broadcast of an edit carries the editor's own flags, which every reader takes as
  theirs: unlike a reaction frame, an edit frame does not keep the flags already cached.
\<close>

lemma edit_broadcast_replaces_flags:
  "ms_reactions m = None \<Longrightarrow> ms_id old = ms_id m \<Longrightarrow>
     mine (update_message m frame an old) = rx_reaction ` {e \<in> set frame. rx_me e}"
  by (simp add: update_message_def or_else_def mine_def)

end
