(* ===== verification/Notifications.thy ===== *)
theory Notifications
  imports Transcript
begin

text \<open>
  The notification inbox: the web's cached feed
  (\<open>apps/web/src/features/notifications/api/useNotificationsApi.ts\<close>), the phone's page
  (\<open>apps/mobile/src/lib/useNotifications.tsx\<close> with the mutations of
  \<open>packages/shared/src/queries/notifications.queries.ts\<close>), and the sentence a row is drawn
  with (\<open>packages/shared/src/chat/notifications.ts\<close>). The clock, \<open>new Date().toISOString()\<close>,
  is an argument.
\<close>

section \<open>The sentence of a row\<close>

definition describeNotification :: "notification_kind \<Rightarrow> jstr \<Rightarrow> nat \<Rightarrow> jstr" where
  "describeNotification kind actor cnt =
     (let many = cnt > 1 in
      case kind of
        Mention \<Rightarrow> if many then actor @ js '' mentioned you '' @ decimal cnt @ js '' times''
                   else actor @ js '' mentioned you''
      | Everyone \<Rightarrow> if many then actor @ js '' sent '' @ decimal cnt @ js '' messages to everyone''
                    else actor @ js '' notified everyone''
      | Direct_message \<Rightarrow> if many then actor @ js '' sent you '' @ decimal cnt @ js '' messages''
                          else actor @ js '' sent you a message''
      | Friend_request \<Rightarrow> actor @ js '' wants to be friends''
      | Friend_accepted \<Rightarrow> actor @ js '' accepted your friend request'')"

section \<open>The web's feed\<close>

type_synonym feed = "notification_page infinite_data"

definition notificationKeys_all :: query_key where
  "notificationKeys_all = [K ''notifications'']"

definition notificationKeys_feed :: query_key where
  "notificationKeys_feed = notificationKeys_all @ [K ''feed'']"

text \<open>What \<open>select\<close> of \<open>useNotificationsInfinite\<close> shows.\<close>

definition feed_items :: "feed \<Rightarrow> app_notification list" where
  "feed_items f = concat (map np_notifications (pages f))"

definition feed_unread :: "feed \<Rightarrow> int" where
  "feed_unread f = (case pages f of [] \<Rightarrow> 0 | page # _ \<Rightarrow> np_unread page)"

definition edit_page ::
  "(app_notification \<Rightarrow> app_notification) option \<Rightarrow> app_notification option \<Rightarrow> (int \<Rightarrow> int) \<Rightarrow> nat
     \<Rightarrow> notification_page \<Rightarrow> notification_page" where
  "edit_page patch prepend unread index page =
     (let items = (case patch of Some p \<Rightarrow> map p (np_notifications page) | None \<Rightarrow> np_notifications page);
          items = (case prepend of
                     None \<Rightarrow> items
                   | Some n \<Rightarrow>
                       (let items = filter (\<lambda>item. nt_id item \<noteq> nt_id n) items
                        in if index = 0 then n # items else items))
      in page\<lparr>np_notifications := items, np_unread := unread (np_unread page)\<rparr>)"

definition edit_feed ::
  "(app_notification \<Rightarrow> app_notification) option \<Rightarrow> app_notification option \<Rightarrow> (int \<Rightarrow> int)
     \<Rightarrow> feed \<Rightarrow> feed" where
  "edit_feed patch prepend unread cached =
     (if pages cached = [] then cached
      else cached\<lparr>pages := map (\<lambda>(index, page). edit_page patch prepend unread index page)
                            (enumerate 0 (pages cached))\<rparr>)"

fun on_feed :: "(feed \<Rightarrow> feed) \<Rightarrow> query_data option \<Rightarrow> query_data option" where
  "on_feed f (Some (Feed_data t)) = Some (Feed_data (f t))"
| "on_feed f other = other"

definition editFeed ::
  "'c setter \<Rightarrow> 'c \<Rightarrow> (app_notification \<Rightarrow> app_notification) option \<Rightarrow> app_notification option
     \<Rightarrow> (int \<Rightarrow> int) \<Rightarrow> 'c" where
  "editFeed setQueryData queryClient patch prepend unread =
     setQueryData queryClient notificationKeys_feed (on_feed (edit_feed patch prepend unread))"

definition cached_feed :: "('c \<Rightarrow> query_key \<Rightarrow> query_data option) \<Rightarrow> 'c \<Rightarrow> feed option" where
  "cached_feed getQueryData queryClient =
     (case getQueryData queryClient notificationKeys_feed of Some (Feed_data f) \<Rightarrow> Some f | _ \<Rightarrow> None)"

definition applyNotificationCreated ::
  "('c \<Rightarrow> query_key \<Rightarrow> query_data option) \<Rightarrow> 'c setter \<Rightarrow> 'c \<Rightarrow> app_notification \<Rightarrow> bool \<Rightarrow> 'c" where
  "applyNotificationCreated getQueryData setQueryData queryClient n isNew =
     (let alreadyHeld = (case cached_feed getQueryData queryClient of
              None \<Rightarrow> False
            | Some f \<Rightarrow> list_ex (\<lambda>page. list_ex (\<lambda>item. nt_id item = nt_id n) (np_notifications page)) (pages f));
          counts = (isNew \<and> \<not> alreadyHeld \<and> nt_read_at n = None)
      in editFeed setQueryData queryClient None (Some n) (\<lambda>count. if counts then count + 1 else count))"

text \<open>\<open>onMutate\<close> and \<open>onError\<close> of the two mutations. The context is the entry as it was.\<close>

definition mark_read_mutate ::
  "('c \<Rightarrow> query_key \<Rightarrow> query_data option) \<Rightarrow> 'c setter \<Rightarrow> timestamp \<Rightarrow> uuid \<Rightarrow> 'c \<Rightarrow> query_data option \<times> 'c" where
  "mark_read_mutate getQueryData setQueryData now i queryClient =
     (let previous = getQueryData queryClient notificationKeys_feed;
          wasUnread = (case cached_feed getQueryData queryClient of
              None \<Rightarrow> False
            | Some f \<Rightarrow> list_ex (\<lambda>page. list_ex (\<lambda>item. nt_id item = i \<and> nt_read_at item = None)
                                       (np_notifications page)) (pages f))
      in (previous,
          editFeed setQueryData queryClient
            (Some (\<lambda>item. if nt_id item = i \<and> nt_read_at item = None then item\<lparr>nt_read_at := Some now\<rparr> else item))
            None (\<lambda>count. if wasUnread then max 0 (count - 1) else count)))"

definition mark_all_read_mutate ::
  "('c \<Rightarrow> query_key \<Rightarrow> query_data option) \<Rightarrow> 'c setter \<Rightarrow> timestamp \<Rightarrow> 'c \<Rightarrow> query_data option \<times> 'c" where
  "mark_all_read_mutate getQueryData setQueryData readAt queryClient =
     (getQueryData queryClient notificationKeys_feed,
      editFeed setQueryData queryClient
        (Some (\<lambda>item. if nt_read_at item \<noteq> None then item else item\<lparr>nt_read_at := Some readAt\<rparr>))
        None (\<lambda>_. 0))"

definition mutation_error :: "'c setter \<Rightarrow> query_data option \<Rightarrow> 'c \<Rightarrow> 'c" where
  "mutation_error setQueryData previous queryClient =
     (case previous of
        None \<Rightarrow> queryClient
      | Some data \<Rightarrow> setQueryData queryClient notificationKeys_feed (\<lambda>_. Some data))"

section \<open>The phone's page\<close>

definition mobile_notification_created ::
  "app_notification \<Rightarrow> bool \<Rightarrow> notification_page \<Rightarrow> notification_page" where
  "mobile_notification_created n isNew page =
     (let held = list_ex (\<lambda>item. nt_id item = nt_id n) (np_notifications page);
          counts = (isNew \<and> \<not> held \<and> nt_read_at n = None)
      in page\<lparr>np_notifications := n # filter (\<lambda>item. nt_id item \<noteq> nt_id n) (np_notifications page),
              np_unread := (if counts then np_unread page + 1 else np_unread page)\<rparr>)"

definition mobile_mark_read :: "timestamp \<Rightarrow> uuid \<Rightarrow> notification_page \<Rightarrow> notification_page" where
  "mobile_mark_read readAt i page =
     (let wasUnread = list_ex (\<lambda>item. \<not> (nt_id item \<noteq> i \<or> nt_read_at item \<noteq> None)) (np_notifications page);
          next = map (\<lambda>item. if nt_id item \<noteq> i \<or> nt_read_at item \<noteq> None then item
                            else item\<lparr>nt_read_at := Some readAt\<rparr>) (np_notifications page)
      in page\<lparr>np_notifications := next,
              np_unread := (if wasUnread then max 0 (np_unread page - 1) else np_unread page)\<rparr>)"

definition mobile_mark_all_read :: "timestamp \<Rightarrow> notification_page \<Rightarrow> notification_page" where
  "mobile_mark_all_read readAt page =
     page\<lparr>np_notifications := map (\<lambda>item. if nt_read_at item \<noteq> None then item
                                       else item\<lparr>nt_read_at := Some readAt\<rparr>) (np_notifications page),
          np_unread := 0\<rparr>"

section \<open>The cache\<close>

locale feed_cache = query_client getQueryData setQueryData
  for getQueryData :: "'c \<Rightarrow> query_key \<Rightarrow> query_data option"
    and setQueryData :: "'c \<Rightarrow> query_key \<Rightarrow> (query_data option \<Rightarrow> query_data option) \<Rightarrow> 'c"
begin

lemma get_editFeed:
  assumes "getQueryData qc notificationKeys_feed = Some (Feed_data f)"
  shows "getQueryData (editFeed setQueryData qc patch prepend unread) notificationKeys_feed
    = Some (Feed_data (edit_feed patch prepend unread f))"
  using assms by (simp add: editFeed_def get_set)

lemma get_mutation_error:
  "getQueryData (mutation_error setQueryData (Some d) qc) notificationKeys_feed = Some d"
  by (simp add: mutation_error_def get_set_same)

lemma get_created:
  assumes "getQueryData qc notificationKeys_feed = Some (Feed_data f)"
  shows "getQueryData (applyNotificationCreated getQueryData setQueryData qc n isNew) notificationKeys_feed
    = Some (Feed_data (edit_feed None (Some n)
        (\<lambda>count. if isNew \<and> nt_id n \<notin> nt_id ` set (feed_items f) \<and> nt_read_at n = None then count + 1 else count) f))"
proof -
  have "list_ex (\<lambda>page. list_ex (\<lambda>item. nt_id item = nt_id n) (np_notifications page)) (pages f)
      \<longleftrightarrow> (\<exists>item \<in> set (feed_items f). nt_id item = nt_id n)"
    by (simp add: list_ex_iff feed_items_def)
  also have "\<dots> \<longleftrightarrow> nt_id n \<in> nt_id ` set (feed_items f)" by (metis imageE imageI)
  finally have "list_ex (\<lambda>page. list_ex (\<lambda>item. nt_id item = nt_id n) (np_notifications page)) (pages f)
      \<longleftrightarrow> nt_id n \<in> nt_id ` set (feed_items f)" .
  then show ?thesis
    using get_editFeed [OF assms] assms by (simp add: applyNotificationCreated_def cached_feed_def)
qed

lemma get_mark_read:
  assumes "getQueryData qc notificationKeys_feed = Some (Feed_data f)"
  shows "getQueryData (snd (mark_read_mutate getQueryData setQueryData now i qc)) notificationKeys_feed
    = Some (Feed_data (edit_feed
        (Some (\<lambda>item. if nt_id item = i \<and> nt_read_at item = None then item\<lparr>nt_read_at := Some now\<rparr> else item)) None
        (\<lambda>count. if \<exists>item \<in> set (feed_items f). nt_id item = i \<and> nt_read_at item = None
                 then max 0 (count - 1) else count) f))"
proof -
  have "list_ex (\<lambda>page. list_ex (\<lambda>item. nt_id item = i \<and> nt_read_at item = None) (np_notifications page)) (pages f)
      \<longleftrightarrow> (\<exists>item \<in> set (feed_items f). nt_id item = i \<and> nt_read_at item = None)"
    by (simp add: list_ex_iff feed_items_def)
  then show ?thesis
    using get_editFeed [OF assms] assms by (simp add: mark_read_mutate_def cached_feed_def)
qed

lemma get_mark_read_none:
  assumes "getQueryData qc notificationKeys_feed = Some (Feed_data f)"
    and "\<not> (\<exists>item \<in> set (feed_items f). nt_id item = i \<and> nt_read_at item = None)"
  shows "getQueryData (snd (mark_read_mutate getQueryData setQueryData now i qc)) notificationKeys_feed
    = Some (Feed_data (edit_feed
        (Some (\<lambda>item. if nt_id item = i \<and> nt_read_at item = None then item\<lparr>nt_read_at := Some now\<rparr> else item)) None
        (\<lambda>count. count) f))"
  unfolding get_mark_read [OF assms(1)] if_not_P [OF assms(2)] by (rule refl)

end

interpretation feed_store: feed_cache store_get store_set
  by unfold_locales

section \<open>Edits of a feed\<close>

lemma edit_page_patch [simp]:
  "edit_page (Some g) None u k q = q\<lparr>np_notifications := map g (np_notifications q), np_unread := u (np_unread q)\<rparr>"
  by (simp add: edit_page_def Let_def)

lemma edit_page_prepend [simp]:
  "edit_page None (Some n) u 0 q = q\<lparr>np_notifications := n # filter (\<lambda>x. nt_id x \<noteq> nt_id n) (np_notifications q),
     np_unread := u (np_unread q)\<rparr>"
  "edit_page None (Some n) u (Suc k) q = q\<lparr>np_notifications := filter (\<lambda>x. nt_id x \<noteq> nt_id n) (np_notifications q),
     np_unread := u (np_unread q)\<rparr>"
  by (simp_all add: edit_page_def Let_def)

lemma map_later:
  "map (\<lambda>(index, page). edit_page None (Some n) u index page) (enumerate (Suc k) ps)
     = map (edit_page None (Some n) u 1) ps"
  by (induction ps arbitrary: k) simp_all

lemma edit_feed_prepend:
  assumes "pages f = p # ps"
  shows "edit_feed None (Some n) u f =
    f\<lparr>pages := edit_page None (Some n) u 0 p # map (edit_page None (Some n) u 1) ps\<rparr>"
  using assms by (simp add: edit_feed_def map_later)

lemma map_patch:
  "map (\<lambda>(index, page). edit_page (Some g) None u index page) (enumerate k qs)
     = map (edit_page (Some g) None u 0) qs"
  by (induction qs arbitrary: k) simp_all

lemma edit_feed_patch: "edit_feed (Some g) None u f = f\<lparr>pages := map (edit_page (Some g) None u 0) (pages f)\<rparr>"
proof (cases "pages f")
  case Nil
  then show ?thesis by (cases f) (simp add: edit_feed_def)
next
  case (Cons p ps)
  then show ?thesis by (simp only: edit_feed_def map_patch) simp
qed

lemma feed_items_prepend:
  "pages f = p # ps \<Longrightarrow>
     feed_items (edit_feed None (Some n) u f) = n # filter (\<lambda>x. nt_id x \<noteq> nt_id n) (feed_items f)"
  by (simp add: edit_feed_prepend feed_items_def filter_concat comp_def One_nat_def)

lemma feed_items_patch: "feed_items (edit_feed (Some g) None u f) = map g (feed_items f)"
  by (simp add: edit_feed_patch feed_items_def map_concat comp_def)

lemma feed_unread_prepend: "pages f = p # ps \<Longrightarrow> feed_unread (edit_feed None (Some n) u f) = u (feed_unread f)"
  by (simp add: edit_feed_prepend feed_unread_def)

lemma feed_unread_patch: "pages f \<noteq> [] \<Longrightarrow> feed_unread (edit_feed (Some g) None u f) = u (feed_unread f)"
  by (cases "pages f") (simp_all add: edit_feed_patch feed_unread_def)

lemma edit_feed_prepend_again:
  assumes "pages f = p # ps"
  shows "edit_feed None (Some n) (\<lambda>c. c) (edit_feed None (Some n) u f) = edit_feed None (Some n) u f"
  using assms by (simp add: edit_feed_prepend comp_def One_nat_def)

lemma wf_page: "np_unread p = c \<Longrightarrow> p\<lparr>np_unread := c\<rparr> = p"
  by (cases p) simp

section \<open>Properties\<close>

text \<open>
  C21. A notification that arrives is in the inbox once, at the top, and raises the badge by
  one exactly when it is new, unread and not already held: a row the server folded into one
  the reader has is lifted to the top without being counted again, and a replayed delivery
  changes nothing.
\<close>

theorem notification_counted_once:
  assumes "feed_cache getQueryData setQueryData"
    and "getQueryData qc notificationKeys_feed = Some (Feed_data f)" and "pages f \<noteq> []"
  shows "\<exists>f'. getQueryData (applyNotificationCreated getQueryData setQueryData qc n isNew) notificationKeys_feed
        = Some (Feed_data f')
    \<and> feed_items f' = n # filter (\<lambda>x. nt_id x \<noteq> nt_id n) (feed_items f)
    \<and> feed_unread f' = feed_unread f
        + (if isNew \<and> nt_read_at n = None \<and> nt_id n \<notin> nt_id ` set (feed_items f) then 1 else 0)
    \<and> getQueryData (applyNotificationCreated getQueryData setQueryData
          (applyNotificationCreated getQueryData setQueryData qc n isNew) n isNew) notificationKeys_feed
        = Some (Feed_data f')"
proof -
  obtain p ps where pages: "pages f = p # ps" using assms(3) by (cases "pages f") auto
  let ?u = "\<lambda>c. if isNew \<and> nt_id n \<notin> nt_id ` set (feed_items f) \<and> nt_read_at n = None then c + 1 else c"
  let ?f' = "edit_feed None (Some n) ?u f"
  let ?qc' = "applyNotificationCreated getQueryData setQueryData qc n isNew"
  have g: "getQueryData ?qc' notificationKeys_feed = Some (Feed_data ?f')"
    by (rule feed_cache.get_created [OF assms(1,2)])
  have items: "feed_items ?f' = n # filter (\<lambda>x. nt_id x \<noteq> nt_id n) (feed_items f)"
    by (rule feed_items_prepend [OF pages])
  then have held: "nt_id n \<in> nt_id ` set (feed_items ?f')" by simp
  have "getQueryData (applyNotificationCreated getQueryData setQueryData ?qc' n isNew) notificationKeys_feed
      = Some (Feed_data (edit_feed None (Some n) (\<lambda>c. c) ?f'))"
    using feed_cache.get_created [OF assms(1) g, of n isNew] held by simp
  then show ?thesis
    using g items feed_unread_prepend [OF pages, of n ?u] edit_feed_prepend_again [OF pages, of n ?u]
    by (intro exI [of _ ?f']) simp
qed

definition demo_notification :: "uuid \<Rightarrow> timestamp option \<Rightarrow> app_notification" where
  "demo_notification i read = \<lparr>nt_id = i, nt_user_id = ''u'', nt_kind = Direct_message, nt_actor_id = None,
     nt_room_id = None, nt_message_id = None, nt_preview = None, nt_count = 1, nt_read_at = read,
     nt_created_at = ''1'', nt_updated_at = ''1''\<rparr>"

definition demo_feed :: feed where
  "demo_feed = \<lparr>pages = [\<lparr>np_notifications = [demo_notification ''a'' None, demo_notification ''b'' (Some ''2'')],
     np_next_before = None, np_unread = 1\<rparr>], pageParams = []\<rparr>"

definition demo_feed_store :: "query_data store" where
  "demo_feed_store = [(notificationKeys_feed, Feed_data demo_feed)]"

lemma demo_feed_get: "store_get demo_feed_store notificationKeys_feed = Some (Feed_data demo_feed)"
  by (simp add: demo_feed_store_def store_get_def)

theorem notification_counted_once_witness:
  "\<exists>f'. store_get (applyNotificationCreated store_get store_set demo_feed_store (demo_notification ''c'' None) True)
       notificationKeys_feed = Some (Feed_data f')
     \<and> map nt_id (feed_items f') = [''c'', ''a'', ''b''] \<and> feed_unread f' = 2"
  using notification_counted_once [OF feed_store.feed_cache_axioms demo_feed_get, of "demo_notification ''c'' None" True]
  by (auto simp: demo_feed_def feed_items_def feed_unread_def demo_notification_def)

text \<open>
  Reading a notification takes exactly one off the badge, and only if it was unread: the
  badge never goes below zero, no other row changes, and reading it again changes nothing.
\<close>

theorem mark_read_counts_once:
  assumes "feed_cache getQueryData setQueryData"
    and "getQueryData qc notificationKeys_feed = Some (Feed_data f)" and "pages f \<noteq> []"
  shows "\<exists>f'. getQueryData (snd (mark_read_mutate getQueryData setQueryData now i qc)) notificationKeys_feed
        = Some (Feed_data f')
    \<and> (\<forall>item \<in> set (feed_items f'). nt_id item = i \<longrightarrow> nt_read_at item \<noteq> None)
    \<and> filter (\<lambda>item. nt_id item \<noteq> i) (feed_items f') = filter (\<lambda>item. nt_id item \<noteq> i) (feed_items f)
    \<and> feed_unread f' = (if \<exists>item \<in> set (feed_items f). nt_id item = i \<and> nt_read_at item = None
                         then max 0 (feed_unread f - 1) else feed_unread f)
    \<and> getQueryData (snd (mark_read_mutate getQueryData setQueryData later i
          (snd (mark_read_mutate getQueryData setQueryData now i qc)))) notificationKeys_feed
        = Some (Feed_data f')"
proof -
  let ?g = "\<lambda>t item. if nt_id item = i \<and> nt_read_at item = None then item\<lparr>nt_read_at := Some t\<rparr> else item"
  let ?u = "\<lambda>c. if \<exists>item \<in> set (feed_items f). nt_id item = i \<and> nt_read_at item = None then max 0 (c - 1) else c"
  let ?f' = "edit_feed (Some (?g now)) None ?u f"
  let ?qc' = "snd (mark_read_mutate getQueryData setQueryData now i qc)"
  have g: "getQueryData ?qc' notificationKeys_feed = Some (Feed_data ?f')"
    by (rule feed_cache.get_mark_read [OF assms(1,2)])
  have items: "feed_items ?f' = map (?g now) (feed_items f)" by (rule feed_items_patch)
  have read: "\<forall>item \<in> set (feed_items ?f'). nt_id item = i \<longrightarrow> nt_read_at item \<noteq> None"
    unfolding items set_map by (intro ballI, elim imageE) simp
  have "filter (\<lambda>item. nt_id item \<noteq> i) (map (?g now) xs) = filter (\<lambda>item. nt_id item \<noteq> i) xs" for xs :: "app_notification list"
    by (induction xs) simp_all
  then have other: "filter (\<lambda>item. nt_id item \<noteq> i) (feed_items ?f') = filter (\<lambda>item. nt_id item \<noteq> i) (feed_items f)"
    unfolding items .
  have again: "?g later (?g now item) = ?g now item" for item :: app_notification by simp
  have "\<not> (\<exists>item \<in> set (feed_items ?f'). nt_id item = i \<and> nt_read_at item = None)" using read by blast
  then have "getQueryData (snd (mark_read_mutate getQueryData setQueryData later i ?qc')) notificationKeys_feed
      = Some (Feed_data (edit_feed (Some (?g later)) None (\<lambda>c. c) ?f'))"
    by (rule feed_cache.get_mark_read_none [OF assms(1) g])
  moreover have "edit_feed (Some (?g later)) None (\<lambda>c. c) ?f' = ?f'"
    by (simp add: edit_feed_patch comp_def again del: if_split)
  ultimately have twice: "getQueryData (snd (mark_read_mutate getQueryData setQueryData later i ?qc'))
      notificationKeys_feed = Some (Feed_data ?f')" by (simp only:)
  have "feed_unread ?f' = ?u (feed_unread f)" by (rule feed_unread_patch [OF assms(3)])
  with g read other twice show ?thesis by blast
qed

theorem mark_read_counts_once_witness:
  "\<exists>f'. store_get (snd (mark_read_mutate store_get store_set ''3'' ''a'' demo_feed_store)) notificationKeys_feed
       = Some (Feed_data f') \<and> feed_unread f' = 0"
  using mark_read_counts_once [OF feed_store.feed_cache_axioms demo_feed_get, of "''3''" "''a''" "''4''"]
  by (fastforce simp: demo_feed_def feed_items_def feed_unread_def demo_notification_def)

text \<open>
  The phone and the web keep the same inbox: on a feed of one page, every edit of the
  web's cache (an arrival, a row read, everything read) is the phone's edit of its page.
\<close>

theorem web_and_mobile_agree:
  assumes "feed_cache getQueryData setQueryData"
    and "getQueryData qc notificationKeys_feed = Some (Feed_data f)" and "pages f = [page]"
  shows "getQueryData (applyNotificationCreated getQueryData setQueryData qc n isNew) notificationKeys_feed
        = Some (Feed_data (f\<lparr>pages := [mobile_notification_created n isNew page]\<rparr>))
    \<and> getQueryData (snd (mark_read_mutate getQueryData setQueryData now i qc)) notificationKeys_feed
        = Some (Feed_data (f\<lparr>pages := [mobile_mark_read now i page]\<rparr>))
    \<and> getQueryData (snd (mark_all_read_mutate getQueryData setQueryData now qc)) notificationKeys_feed
        = Some (Feed_data (f\<lparr>pages := [mobile_mark_all_read now page]\<rparr>))"
proof -
  have items: "feed_items f = np_notifications page" by (simp add: feed_items_def assms(3))
  have held: "nt_id n \<in> nt_id ` set (np_notifications page)
      \<longleftrightarrow> list_ex (\<lambda>item. nt_id item = nt_id n) (np_notifications page)"
    unfolding list_ex_iff by (metis imageE imageI)
  have unread: "(\<exists>item \<in> set (np_notifications page). nt_id item = i \<and> nt_read_at item = None)
      \<longleftrightarrow> list_ex (\<lambda>item. \<not> (nt_id item \<noteq> i \<or> nt_read_at item \<noteq> None)) (np_notifications page)"
    by (simp add: list_ex_iff)
  have patch: "(\<lambda>item. if nt_id item = i \<and> nt_read_at item = None then item\<lparr>nt_read_at := Some now\<rparr> else item)
      = (\<lambda>item. if nt_id item \<noteq> i \<or> nt_read_at item \<noteq> None then item else item\<lparr>nt_read_at := Some now\<rparr>)"
    by auto
  show ?thesis
  proof (intro conjI)
    show "getQueryData (applyNotificationCreated getQueryData setQueryData qc n isNew) notificationKeys_feed
        = Some (Feed_data (f\<lparr>pages := [mobile_notification_created n isNew page]\<rparr>))"
      unfolding feed_cache.get_created [OF assms(1,2)] items held
      by (simp add: edit_feed_prepend [OF assms(3)] mobile_notification_created_def Let_def)
    show "getQueryData (snd (mark_read_mutate getQueryData setQueryData now i qc)) notificationKeys_feed
        = Some (Feed_data (f\<lparr>pages := [mobile_mark_read now i page]\<rparr>))"
      unfolding feed_cache.get_mark_read [OF assms(1,2)] items unread patch
      by (simp add: edit_feed_patch assms(3) mobile_mark_read_def Let_def)
    show "getQueryData (snd (mark_all_read_mutate getQueryData setQueryData now qc)) notificationKeys_feed
        = Some (Feed_data (f\<lparr>pages := [mobile_mark_all_read now page]\<rparr>))"
      by (simp add: mark_all_read_mutate_def feed_cache.get_editFeed [OF assms(1,2)] edit_feed_patch assms(3)
          mobile_mark_all_read_def)
  qed
qed

theorem web_and_mobile_agree_witness:
  "store_get (applyNotificationCreated store_get store_set demo_feed_store (demo_notification ''a'' None) False)
       notificationKeys_feed
     = Some (Feed_data (demo_feed\<lparr>pages :=
         [mobile_notification_created (demo_notification ''a'' None) False (hd (pages demo_feed))]\<rparr>))"
proof -
  have "pages demo_feed = [hd (pages demo_feed)]" by (simp add: demo_feed_def)
  from web_and_mobile_agree [OF feed_store.feed_cache_axioms demo_feed_get this]
  show ?thesis by blast
qed

section \<open>Where a failed read loses rows\<close>

text \<open>
  The rollback of a failed read restores the entry as it was before, whole. A notification
  that arrived while the request was under way is no longer in the inbox, nor in the badge;
  the web refetches nothing after a failure, though its comment says a failure costs only a
  stale count.
\<close>

theorem rollback_loses_arrival:
  assumes "feed_cache getQueryData setQueryData"
    and "getQueryData qc notificationKeys_feed = Some (Feed_data f)"
    and "nt_id n \<notin> nt_id ` set (feed_items f)"
    and "mark_read_mutate getQueryData setQueryData now i qc = (previous, qc1)"
  shows "getQueryData (mutation_error setQueryData previous
      (applyNotificationCreated getQueryData setQueryData qc1 n True)) notificationKeys_feed
    = Some (Feed_data f)"
proof -
  have "previous = Some (Feed_data f)" using assms(2,4) by (simp add: mark_read_mutate_def Let_def)
  then show ?thesis by (simp add: feed_cache.get_mutation_error [OF assms(1)])
qed

end
