(* ===== verification/AuthSession.thy ===== *)
theory AuthSession
  imports ApiTypes
begin

text \<open>
  The web client's session: what is kept in \<open>localStorage\<close>
  (\<open>apps/web/src/lib/auth/storage.ts\<close>) and the provider that hands out access tokens and
  refreshes them (\<open>apps/web/src/lib/auth/AuthProvider.tsx\<close>). The provider is a state machine:
  its steps are the calls of the application and the answers of the server, which arrive in
  any order. Times are epoch milliseconds.
\<close>

section \<open>Storage\<close>

record stored_session =
  accessToken :: string
  refreshToken :: string
  expiresAt :: int

text \<open>
  What is under the key: nothing, text that is not JSON, or an object of which each of the
  three fields may be missing or of another type.
\<close>

datatype raw_session = Absent | Garbage | Json "string option" "string option" "int option"

datatype storage = Storage raw_session | Storage_disabled

fun loadSession :: "storage \<Rightarrow> stored_session option" where
  "loadSession Storage_disabled = None"
| "loadSession (Storage Absent) = None"
| "loadSession (Storage Garbage) = None"
| "loadSession (Storage (Json (Some a) (Some r) (Some e))) =
     Some \<lparr>accessToken = a, refreshToken = r, expiresAt = e\<rparr>"
| "loadSession (Storage (Json _ _ _)) = None"

definition session_of :: "int \<Rightarrow> 'a token_pair_scheme \<Rightarrow> stored_session" where
  "session_of now tokens =
     \<lparr>accessToken = access_token tokens, refreshToken = refresh_token tokens,
      expiresAt = now + max 0 (expires_in tokens - 60) * 1000\<rparr>"

text \<open>\<open>saveSession\<close>: the session, and the storage after it. A disabled storage throws and is left.\<close>

definition saveSession :: "int \<Rightarrow> 'a token_pair_scheme \<Rightarrow> storage \<Rightarrow> stored_session \<times> storage" where
  "saveSession now tokens store =
     (let s = session_of now tokens
      in (s, case store of
               Storage_disabled \<Rightarrow> Storage_disabled
             | Storage _ \<Rightarrow> Storage (Json (Some (accessToken s)) (Some (refreshToken s)) (Some (expiresAt s)))))"

definition clearSession :: "storage \<Rightarrow> storage" where
  "clearSession store = (case store of Storage_disabled \<Rightarrow> Storage_disabled | Storage _ \<Rightarrow> Storage Absent)"

section \<open>The provider\<close>

record auth_state =
  session :: "stored_session option"
  storage :: storage
  user :: "current_user option"
  loading :: bool
  refreshing :: "nat option"
  inflight :: "(nat \<times> string) list"
  next_refresh :: nat
  submitted :: "string list"
  now :: int

definition initial_auth :: "storage \<Rightarrow> int \<Rightarrow> auth_state" where
  "initial_auth store t =
     \<lparr>session = loadSession store, storage = store, user = None, loading = True, refreshing = None,
      inflight = [], next_refresh = 0, submitted = [], now = t\<rparr>"

definition signOutLocally :: "auth_state \<Rightarrow> auth_state" where
  "signOutLocally s = s\<lparr>session := None, storage := clearSession (storage s), user := None\<rparr>"

definition store_tokens :: "'a token_pair_scheme \<Rightarrow> auth_state \<Rightarrow> auth_state" where
  "store_tokens tokens s =
     (let (st, store) = saveSession (now s) tokens (storage s) in s\<lparr>session := Some st, storage := store\<rparr>)"

text \<open>
  \<open>getToken\<close> up to its first \<open>await\<close>: it throws, has a token, or waits for a refresh (by
  number), which it starts when none is under way.
\<close>

datatype token_answer = Not_signed_in | Token string | Wait nat

definition getToken :: "auth_state \<Rightarrow> token_answer \<times> auth_state" where
  "getToken s =
     (case session s of
        None \<Rightarrow> (Not_signed_in, s)
      | Some current \<Rightarrow>
          if now s < expiresAt current then (Token (accessToken current), s)
          else case refreshing s of
                 Some r \<Rightarrow> (Wait r, s)
               | None \<Rightarrow>
                   (Wait (next_refresh s),
                    s\<lparr>refreshing := Some (next_refresh s),
                      inflight := inflight s @ [(next_refresh s, refreshToken current)],
                      next_refresh := Suc (next_refresh s),
                      submitted := submitted s @ [refreshToken current]\<rparr>))"

text \<open>The refresh, from where the server's answer arrives.\<close>

definition refresh_ok :: "nat \<Rightarrow> 'a token_pair_scheme \<Rightarrow> auth_state \<Rightarrow> auth_state" where
  "refresh_ok r tokens s =
     (store_tokens tokens s)\<lparr>refreshing := None, inflight := filter (\<lambda>(i, _). i \<noteq> r) (inflight s)\<rparr>"

definition refresh_fail :: "nat \<Rightarrow> auth_state \<Rightarrow> auth_state" where
  "refresh_fail r s =
     (signOutLocally s)\<lparr>refreshing := None, inflight := filter (\<lambda>(i, _). i \<noteq> r) (inflight s)\<rparr>"

definition login_ok :: "auth_response \<Rightarrow> auth_state \<Rightarrow> auth_state" where
  "login_ok result s = (store_tokens result s)\<lparr>user := Some (ar_user result)\<rparr>"

definition logout :: "auth_state \<Rightarrow> auth_state" where
  "logout s = signOutLocally s"

text \<open>
  \<open>restore\<close>: tokens in the address after an OAuth redirect are stored first; without a
  session the loading ends; with one, \<open>getToken\<close> and \<open>me\<close> decide.
\<close>

definition oauth_tokens :: "string \<Rightarrow> string \<Rightarrow> token_pair" where
  "oauth_tokens a r = \<lparr>access_token = a, refresh_token = r, expires_in = 900, token_type = ''Bearer''\<rparr>"

definition restore_begin :: "(string \<times> string) option \<Rightarrow> auth_state \<Rightarrow> auth_state" where
  "restore_begin redirect s =
     (let s = (case redirect of
                 Some (a, r) \<Rightarrow> if a \<noteq> [] \<and> r \<noteq> [] then store_tokens (oauth_tokens a r) s else s
               | None \<Rightarrow> s)
      in if session s = None then s\<lparr>loading := False\<rparr> else s)"

definition restore_ok :: "current_user \<Rightarrow> auth_state \<Rightarrow> auth_state" where
  "restore_ok me s = s\<lparr>user := Some me, loading := False\<rparr>"

definition restore_fail :: "auth_state \<Rightarrow> auth_state" where
  "restore_fail s = (signOutLocally s)\<lparr>loading := False\<rparr>"

definition applyProfile :: "profile \<Rightarrow> auth_state \<Rightarrow> auth_state" where
  "applyProfile p s = s\<lparr>user := map_option (\<lambda>u. u\<lparr>cu_profile := p\<rparr>) (user s)\<rparr>"

datatype auth_label =
    Ask token_answer | Refreshed nat | Refresh_failed nat | Logged_in | Logged_out
  | Restore_begun | Restored | Restore_failed | Profile_applied | Clock int

text \<open>
  The steps. The server issues refresh tokens it has not issued before: \<open>issued\<close> are the ones
  known so far.
\<close>

inductive auth_step :: "auth_state \<times> string set \<Rightarrow> auth_label \<Rightarrow> auth_state \<times> string set \<Rightarrow> bool" where
  ask: "getToken s = (a, s') \<Longrightarrow> auth_step (s, issued) (Ask a) (s', issued)"
| refreshed: "(r, t) \<in> set (inflight s) \<Longrightarrow> refresh_token (tokens :: token_pair) \<notin> issued \<Longrightarrow>
     auth_step (s, issued) (Refreshed r) (refresh_ok r tokens s, insert (refresh_token tokens) issued)"
| refresh_failed: "(r, t) \<in> set (inflight s) \<Longrightarrow>
     auth_step (s, issued) (Refresh_failed r) (refresh_fail r s, issued)"
| logged_in: "refresh_token result \<notin> issued \<Longrightarrow>
     auth_step (s, issued) Logged_in (login_ok result s, insert (refresh_token result) issued)"
| logged_out: "auth_step (s, issued) Logged_out (logout s, issued)"
| restore_begun: "redirect = None \<or> (redirect = Some (a, r) \<and> r \<notin> issued) \<Longrightarrow>
     auth_step (s, issued) Restore_begun
       (restore_begin redirect s, (case redirect of None \<Rightarrow> issued | Some (a, r) \<Rightarrow> insert r issued))"
| restored: "auth_step (s, issued) Restored (restore_ok me s, issued)"
| restore_failed: "auth_step (s, issued) Restore_failed (restore_fail s, issued)"
| profile_applied: "auth_step (s, issued) Profile_applied (applyProfile p s, issued)"
| clock: "now s \<le> t \<Longrightarrow> auth_step (s, issued) (Clock t) (s\<lparr>now := t\<rparr>, issued)"

inductive_cases auth_stepE: "auth_step (s, issued) l (s', issued')"

inductive auth_reachable :: "storage \<Rightarrow> int \<Rightarrow> auth_state \<times> string set \<Rightarrow> bool" for store t where
  init: "issued = set_option (map_option refreshToken (loadSession store)) \<Longrightarrow>
     auth_reachable store t (initial_auth store t, issued)"
| step: "auth_reachable store t c \<Longrightarrow> auth_step c l c' \<Longrightarrow> auth_reachable store t c'"

section \<open>The invariant\<close>

definition one_refresh :: "auth_state \<Rightarrow> bool" where
  "one_refresh s \<longleftrightarrow> (refreshing s = None \<and> inflight s = [])
     \<or> (\<exists>r t. refreshing s = Some r \<and> inflight s = [(r, t)])"

definition auth_inv :: "auth_state \<times> string set \<Rightarrow> bool" where
  "auth_inv c \<longleftrightarrow> (case c of (s, issued) \<Rightarrow>
     one_refresh s \<and> distinct (submitted s) \<and> set (submitted s) \<subseteq> issued
     \<and> (storage s \<noteq> Storage_disabled \<longrightarrow> loadSession (storage s) = session s)
     \<and> (\<forall>current. session s = Some current \<longrightarrow> refreshToken current \<in> issued
          \<and> (refreshToken current \<in> set (submitted s) \<longrightarrow> (\<exists>r. inflight s = [(r, refreshToken current)]))))"

lemma loadSession_save: "snd (saveSession t tokens st) \<noteq> Storage_disabled \<Longrightarrow>
    loadSession (snd (saveSession t tokens st)) = Some (fst (saveSession t tokens st))"
  by (cases st) (auto simp: saveSession_def Let_def session_of_def)

lemma loadSession_clear [simp]: "loadSession (clearSession st) = None"
  by (cases st) (simp_all add: clearSession_def)

lemma store_tokens_fields [simp]:
  "session (store_tokens tokens s) = Some (session_of (now s) tokens)"
  "storage (store_tokens tokens s) = snd (saveSession (now s) tokens (storage s))"
  "refreshing (store_tokens tokens s) = refreshing s" "inflight (store_tokens tokens s) = inflight s"
  "submitted (store_tokens tokens s) = submitted s" "now (store_tokens tokens s) = now s"
  "user (store_tokens tokens s) = user s"
  by (simp_all add: store_tokens_def saveSession_def Let_def)

lemma fst_saveSession [simp]: "fst (saveSession t tokens st) = session_of t tokens"
  by (simp add: saveSession_def Let_def)

lemma refreshToken_session_of [simp]: "refreshToken (session_of t tokens) = refresh_token tokens"
  by (simp add: session_of_def)

lemma inflight_done:
  "one_refresh s \<Longrightarrow> (r, t) \<in> set (inflight s) \<Longrightarrow> filter (\<lambda>(i, _). i \<noteq> r) (inflight s) = []"
  by (auto simp: one_refresh_def split: option.splits)

lemma signOut_fields [simp]:
  "session (signOutLocally s) = None" "storage (signOutLocally s) = clearSession (storage s)"
  "user (signOutLocally s) = None" "refreshing (signOutLocally s) = refreshing s"
  "inflight (signOutLocally s) = inflight s" "submitted (signOutLocally s) = submitted s"
  by (simp_all add: signOutLocally_def)

lemma one_refresh_cong:
  "refreshing s' = refreshing s \<Longrightarrow> inflight s' = inflight s \<Longrightarrow> one_refresh s' = one_refresh s"
  by (simp add: one_refresh_def)

lemma ask_inv:
  assumes inv: "auth_inv (s, issued)" and "getToken s = (a, s')"
  shows "auth_inv (s', issued)"
proof (cases "s' = s")
  case False
  then obtain current where c: "session s = Some current" "refreshing s = None"
    "s' = s\<lparr>refreshing := Some (next_refresh s),
                      inflight := inflight s @ [(next_refresh s, refreshToken current)],
                      next_refresh := Suc (next_refresh s),
                      submitted := submitted s @ [refreshToken current]\<rparr>"
    using assms(2) by (auto simp: getToken_def split: option.splits if_splits)
  have none: "inflight s = []" using inv c(2) by (simp add: auth_inv_def one_refresh_def)
  then have "refreshToken current \<notin> set (submitted s)" "refreshToken current \<in> issued"
    using inv c(1) by (auto simp: auth_inv_def)
  then show ?thesis using inv c none by (simp add: auth_inv_def one_refresh_def)
qed (use inv in simp)

lemma store_inv:
  assumes inv: "auth_inv (s, issued)" and new: "refresh_token tokens \<notin> issued"
  shows "auth_inv (store_tokens tokens s, insert (refresh_token tokens) issued)"
  using inv new loadSession_save [of "now s" tokens "storage s"]
  by (auto simp: auth_inv_def one_refresh_def)

lemma auth_step_inv:
  assumes st: "auth_step c l c'" and inv: "auth_inv c"
  shows "auth_inv c'"
  using st
proof cases
  case (ask s a s' issued)
  then show ?thesis using inv ask_inv by simp
next
  case (refreshed r t s tokens issued)
  then have "auth_inv (store_tokens tokens s, insert (refresh_token tokens) issued)"
    using inv store_inv by simp
  moreover have "filter (\<lambda>(i, _). i \<noteq> r) (inflight s) = []"
    using inv refreshed inflight_done by (auto simp: auth_inv_def)
  moreover have "refresh_token tokens \<notin> set (submitted s)"
    using inv refreshed by (auto simp: auth_inv_def)
  ultimately show ?thesis
    using refreshed by (simp add: auth_inv_def one_refresh_def refresh_ok_def)
next
  case (refresh_failed r t s issued)
  moreover have "filter (\<lambda>(i, _). i \<noteq> r) (inflight s) = []"
    using inv refresh_failed inflight_done by (auto simp: auth_inv_def)
  ultimately show ?thesis using inv by (simp add: auth_inv_def one_refresh_def refresh_fail_def)
next
  case (logged_in result issued s)
  then have "auth_inv (store_tokens result s, insert (refresh_token result) issued)"
    using inv store_inv by blast
  then show ?thesis using logged_in by (simp add: auth_inv_def one_refresh_def login_ok_def)
next
  case (restore_begun redirect a r issued s)
  have plain: "auth_inv (if session s0 = None then s0\<lparr>loading := False\<rparr> else s0, iss)"
    if "auth_inv (s0, iss)" for s0 iss
    using that by (simp add: auth_inv_def one_refresh_def)
  have weaken: "auth_inv (s, insert r issued)"
    using inv restore_begun(1) by (auto simp: auth_inv_def)
  show ?thesis
  proof (cases "redirect = Some (a, r) \<and> a \<noteq> [] \<and> r \<noteq> []")
    case True
    then have "auth_inv (store_tokens (oauth_tokens a r) s, insert r issued)"
      using inv restore_begun store_inv [of s issued "oauth_tokens a r"] by (simp add: oauth_tokens_def)
    from plain [OF this] True show ?thesis using restore_begun by (simp add: restore_begin_def Let_def)
  next
    case False
    then show ?thesis
      using restore_begun inv plain [of s issued] plain [OF weaken]
      by (auto simp: restore_begin_def Let_def)
  qed
qed (use inv in \<open>simp_all add: auth_inv_def one_refresh_def logout_def restore_ok_def restore_fail_def applyProfile_def\<close>)

lemma reachable_auth_inv:
  assumes "auth_reachable store t c"
  shows "auth_inv c"
  using assms
proof (induction rule: auth_reachable.induct)
  case (init issued)
  then show ?case
    by (simp add: auth_inv_def initial_auth_def one_refresh_def)
next
  case (step c l c')
  then show ?case using auth_step_inv by blast
qed

section \<open>A concrete run\<close>

definition demo_user :: current_user where
  "demo_user = \<lparr>cu_id = ''u'', cu_handle = ''ana'', cu_email = ''a@b'', cu_profile =
     \<lparr>pf_user_id = ''u'', pf_display_name = ''Ana'', pf_bio = None, pf_avatar_url = None,
      pf_avatar_effect = None, pf_accent_color = None, pf_created_at = ''1'', pf_updated_at = ''1''\<rparr>,
     cu_platform_role = None\<rparr>"

definition demo_login :: auth_response where
  "demo_login = \<lparr>access_token = ''A1'', refresh_token = ''R1'', expires_in = 900, token_type = ''Bearer'',
     ar_user = demo_user\<rparr>"

definition demo_tokens :: token_pair where
  "demo_tokens = \<lparr>access_token = ''A2'', refresh_token = ''R2'', expires_in = 900, token_type = ''Bearer''\<rparr>"

text \<open>Signed in, a quarter of an hour later, with a refresh under way.\<close>

definition demo_refreshing :: auth_state where
  "demo_refreshing = snd (getToken ((login_ok demo_login (initial_auth (Storage Absent) 0))\<lparr>now := 900000\<rparr>))"

lemma demo_refreshing_reachable:
  "auth_reachable (Storage Absent) 0 (demo_refreshing, {''R1''})"
proof -
  let ?s0 = "initial_auth (Storage Absent) 0"
  have 0: "auth_reachable (Storage Absent) 0 (?s0, {})"
    by (rule auth_reachable.init) simp
  have "auth_step (?s0, {}) Logged_in (login_ok demo_login ?s0, insert (refresh_token demo_login) {})"
    by (rule logged_in) simp
  then have "auth_step (?s0, {}) Logged_in (login_ok demo_login ?s0, {''R1''})"
    by (simp add: demo_login_def)
  note 1 = auth_reachable.step [OF 0 this]
  have "auth_step (login_ok demo_login ?s0, {''R1''}) (Clock 900000) ((login_ok demo_login ?s0)\<lparr>now := 900000\<rparr>, {''R1''})"
    by (rule clock) (simp add: login_ok_def initial_auth_def)
  note 2 = auth_reachable.step [OF 1 this]
  have "auth_step ((login_ok demo_login ?s0)\<lparr>now := 900000\<rparr>, {''R1''})
      (Ask (fst (getToken ((login_ok demo_login ?s0)\<lparr>now := 900000\<rparr>)))) (demo_refreshing, {''R1''})"
    unfolding demo_refreshing_def by (rule ask) simp
  from auth_reachable.step [OF 2 this] show ?thesis .
qed

lemma demo_refreshing_facts:
  "inflight demo_refreshing = [(0, ''R1'')] \<and> submitted demo_refreshing = [''R1'']
   \<and> storage demo_refreshing \<noteq> Storage_disabled"
  by code_simp

section \<open>Properties\<close>

text \<open>
  C8. One refresh at a time, each token used once: however many callers ask for a token and
  however the answers interleave, at most one refresh is under way, it is the one every
  caller waits for, and no refresh token is ever submitted twice, so none is revoked for
  reuse.
\<close>

theorem single_flight_refresh:
  assumes "auth_reachable store t (s, issued)"
  shows "length (inflight s) \<le> 1 \<and> map fst (inflight s) = (case refreshing s of None \<Rightarrow> [] | Some r \<Rightarrow> [r])
    \<and> distinct (submitted s)"
proof -
  from reachable_auth_inv [OF assms] have "one_refresh s" "distinct (submitted s)"
    by (simp_all add: auth_inv_def)
  then show ?thesis by (auto simp: one_refresh_def)
qed

theorem single_flight_refresh_witness:
  "length (inflight demo_refreshing) = 1 \<and> distinct (submitted demo_refreshing)"
  using single_flight_refresh [OF demo_refreshing_reachable] demo_refreshing_facts by simp

text \<open>
  A reload restores exactly what was there: whenever storage works, what it holds reads
  back as the session in memory, after every sign-in, refresh and sign-out.
\<close>

theorem reload_restores_session:
  assumes "auth_reachable store t (s, issued)" and "storage s \<noteq> Storage_disabled"
  shows "session (initial_auth (storage s) t') = session s"
  using reachable_auth_inv [OF assms(1)] assms(2) by (simp add: auth_inv_def initial_auth_def)

theorem reload_restores_session_witness:
  "map_option refreshToken (session (initial_auth (storage demo_refreshing) 1000000)) = Some ''R1''"
proof -
  have "session (initial_auth (storage demo_refreshing) 1000000) = session demo_refreshing"
    using reload_restores_session [OF demo_refreshing_reachable] demo_refreshing_facts by simp
  moreover have "map_option refreshToken (session demo_refreshing) = Some ''R1''" by code_simp
  ultimately show ?thesis by simp
qed

text \<open>
  A token that is handed out without waiting has more than a minute left: with the
  lifetime the server announced when it was stored, it expires no sooner than that.
\<close>

theorem token_has_a_minute:
  assumes "session s = Some (session_of stored_at tokens)" and "stored_at \<le> now s"
    and "getToken s = (Token a, s')"
  shows "a = access_token tokens \<and> now s + 60000 < stored_at + expires_in tokens * 1000"
  using assms by (auto simp: getToken_def session_of_def max_def split: if_splits option.splits)

theorem token_has_a_minute_witness:
  "now (login_ok demo_login (initial_auth (Storage Absent) 5)) + 60000 < 5 + 900 * 1000"
proof -
  let ?s = "login_ok demo_login (initial_auth (Storage Absent) 5)"
  have "session ?s = Some (session_of 5 demo_login)" "5 \<le> now ?s" "getToken ?s = (Token ''A1'', ?s)"
    by (simp_all add: login_ok_def initial_auth_def getToken_def session_of_def demo_login_def)
  from token_has_a_minute [OF this] show ?thesis by (simp add: demo_login_def login_ok_def initial_auth_def)
qed

text \<open>The steps that are neither a sign-in nor a redirect that carries one.\<close>

definition not_sign_in :: "auth_label \<Rightarrow> bool" where
  "not_sign_in l \<longleftrightarrow> l \<noteq> Logged_in \<and> l \<noteq> Restore_begun"

lemma signed_out_step:
  assumes "auth_step (s, issued) l (s', issued')" and "not_sign_in l"
    and "session s = None" and "loadSession (storage s) = None" and "inflight s = []"
  shows "session s' = None \<and> loadSession (storage s') = None \<and> inflight s' = []"
  using assms(1)
proof cases
  case (ask a)
  then show ?thesis using assms(3-5) by (simp add: getToken_def)
qed (use assms(2-5) in \<open>simp_all add: not_sign_in_def logout_def restore_ok_def restore_fail_def applyProfile_def\<close>)

text \<open>
  C9. Signing out is final when no refresh is under way: the session is gone from memory and
  from storage at once, and no later event but a sign-in brings one back.
\<close>

theorem sign_out_is_final:
  assumes "inflight s = []"
    and "(\<lambda>c c'. \<exists>l. not_sign_in l \<and> auth_step c l c')\<^sup>*\<^sup>* (logout s, issued) (s', issued')"
  shows "session s' = None \<and> loadSession (storage s') = None"
proof -
  have "session (fst c) = None \<and> loadSession (storage (fst c)) = None \<and> inflight (fst c) = []"
    if "(\<lambda>c c'. \<exists>l. not_sign_in l \<and> auth_step c l c')\<^sup>*\<^sup>* (logout s, issued) c" for c
    using that
  proof (induction rule: rtranclp_induct)
    case base
    then show ?case using assms(1) by (simp add: logout_def)
  next
    case (step a b)
    then obtain l where "not_sign_in l" "auth_step (fst a, snd a) l (fst b, snd b)" by auto
    with step.IH signed_out_step show ?case by blast
  qed
  from this [OF assms(2)] show ?thesis by simp
qed

theorem sign_out_is_final_witness:
  "\<exists>s' :: auth_state. session s' = None \<and> loadSession (storage s') = None \<and> now s' = 7"
proof -
  let ?s = "login_ok demo_login (initial_auth (Storage Absent) 5)"
  have i: "inflight ?s = []" by (simp add: login_ok_def initial_auth_def)
  have "auth_step (logout ?s, {}) (Clock 7) ((logout ?s)\<lparr>now := 7\<rparr>, {})"
    by (rule clock) (simp add: logout_def signOutLocally_def login_ok_def initial_auth_def)
  then have "(\<lambda>c c'. \<exists>l. not_sign_in l \<and> auth_step c l c')\<^sup>*\<^sup>* (logout ?s, {}) ((logout ?s)\<lparr>now := 7\<rparr>, {})"
    by (intro r_into_rtranclp) (auto simp: not_sign_in_def)
  from sign_out_is_final [OF i this] show ?thesis
    by (intro exI [of _ "(logout ?s)\<lparr>now := 7\<rparr>"]) simp
qed

section \<open>Where signing out is undone\<close>

text \<open>
  With a refresh under way it is not final: the answer that arrives after the sign-out
  stores its tokens as if nothing had happened, and they are there after the next reload.
  If somebody else has signed in meanwhile, their session is replaced by the old account's.
\<close>

theorem refresh_undoes_sign_out:
  assumes "(r, t) \<in> set (inflight s)" and "refresh_token tokens \<notin> issued" and "storage s \<noteq> Storage_disabled"
  shows "\<exists>s'. auth_step (logout s, issued) (Refreshed r) (s', insert (refresh_token tokens) issued)
    \<and> session s' = Some (session_of (now s) (tokens :: token_pair)) \<and> loadSession (storage s') \<noteq> None"
proof (intro exI conjI)
  show "auth_step (logout s, issued) (Refreshed r) (refresh_ok r tokens (logout s), insert (refresh_token tokens) issued)"
    using assms by (intro refreshed) (simp_all add: logout_def)
qed (use assms(3) in \<open>auto simp: refresh_ok_def logout_def signOutLocally_def saveSession_def session_of_def
      clearSession_def Let_def split: storage.splits\<close>)

lemma refresh_replaces_new_session:
  "accessToken (the (session (refresh_ok r tokens (login_ok result (logout s))))) = access_token tokens
   \<and> user (refresh_ok r tokens (login_ok result (logout s))) = Some (ar_user result)"
  by (simp add: refresh_ok_def login_ok_def session_of_def)

end
