(* ===== verification/ApiClient.thy ===== *)
theory ApiClient
  imports Prelude
begin

text \<open>
  The HTTP client every call goes through, \<open>packages/shared/src/api/client.ts\<close>: the module's
  base URL and token, the request interceptor that authorises a call, the response
  interceptor that turns every failure into an \<open>ApiError\<close>, and \<open>request\<close>. The transport
  (axios) runs between the two interceptors and is not part of the model; its defaults are a
  field of the state.
\<close>

section \<open>Errors\<close>

record api_error =
  status :: int
  code :: string
  err_message :: string
  retryAfterSeconds :: "int option"

definition isAuthFailure :: "api_error \<Rightarrow> bool" where
  "isAuthFailure e \<longleftrightarrow> status e = 401"

definition isThrottled :: "api_error \<Rightarrow> bool" where
  "isThrottled e \<longleftrightarrow> status e = 429"

section \<open>Module state\<close>

record api_state =
  defaultBaseUrl :: string
  defaults_baseURL :: "string option"
  globalToken :: "string option"
  has_provider :: bool

definition setApiBaseUrl :: "string \<Rightarrow> api_state \<Rightarrow> api_state" where
  "setApiBaseUrl url s =
     (let base = (if ends_with url ''/'' then butlast url else url)
      in s\<lparr>defaultBaseUrl := base, defaults_baseURL := Some base\<rparr>)"

definition getApiBaseUrl :: "api_state \<Rightarrow> string" where
  "getApiBaseUrl s =
     (if defaultBaseUrl s \<noteq> [] then defaultBaseUrl s
      else case defaults_baseURL s of Some u \<Rightarrow> u | None \<Rightarrow> [])"

definition setAuthToken :: "string option \<Rightarrow> api_state \<Rightarrow> api_state" where
  "setAuthToken t s = s\<lparr>globalToken := t\<rparr>"

definition setTokenProvider :: "bool \<Rightarrow> api_state \<Rightarrow> api_state" where
  "setTokenProvider provider s = s\<lparr>has_provider := provider\<rparr>"

section \<open>Requests\<close>

datatype http_method = GET | POST | PATCH | PUT | DELETE

text \<open>
  JSON, as far as bodies and parameters are made of it. A field that is \<open>undefined\<close> is left
  out when the object is written.
\<close>

datatype json =
    J_null
  | J_bool bool
  | J_number int
  | J_string jstr
  | J_array "json list"
  | J_object "(string \<times> json) list"

definition json_object :: "(string \<times> json option) list \<Rightarrow> json" where
  "json_object members =
     J_object (concat (map (\<lambda>(k, v). case v of Some x \<Rightarrow> [(k, x)] | None \<Rightarrow> []) members))"

record request_config =
  cfg_url :: "string option"
  cfg_method :: http_method
  cfg_data :: "json option"
  cfg_params :: "json option"
  cfg_baseURL :: "string option"
  cfg_authorization :: "string option"

definition AUTH_EXEMPT_PATHS :: "string list" where
  "AUTH_EXEMPT_PATHS =
     [''/api/v1/auth/login'', ''/api/v1/auth/register'', ''/api/v1/auth/refresh'', ''/api/v1/auth/config'']"

definition truthy :: "'a list option \<Rightarrow> bool" where
  "truthy x \<longleftrightarrow> x \<noteq> None \<and> x \<noteq> Some []"

text \<open>
  The request interceptor. \<open>provided\<close> is what awaiting the token provider yields, \<open>None\<close> when
  it rejects; the second component says whether it was asked.
\<close>

definition request_interceptor ::
  "api_state \<Rightarrow> string option option \<Rightarrow> request_config \<Rightarrow> request_config \<times> bool" where
  "request_interceptor s provided config =
     (let config = (if \<not> truthy (cfg_baseURL config) \<and> defaultBaseUrl s \<noteq> []
                    then config\<lparr>cfg_baseURL := Some (defaultBaseUrl s)\<rparr> else config);
          url = (case cfg_url config of Some u \<Rightarrow> u | None \<Rightarrow> []);
          isAuthExempt = list_ex (\<lambda>path. js_includes url path) AUTH_EXEMPT_PATHS
      in if \<not> truthy (cfg_authorization config) \<and> \<not> isAuthExempt
         then let asked = (\<not> truthy (globalToken s) \<and> has_provider s);
                  token = (if asked then (case provided of Some t \<Rightarrow> t | None \<Rightarrow> None) else globalToken s)
              in (if truthy token then config\<lparr>cfg_authorization := Some (''Bearer '' @ the token)\<rparr> else config,
                  asked)
         else (config, False))"

record request_options =
  opt_baseUrl :: "string option"
  opt_method :: http_method
  opt_body :: "json option"
  opt_token :: "string option option"
  opt_params :: "json option"

definition default_options :: request_options where
  "default_options =
     \<lparr>opt_baseUrl = None, opt_method = GET, opt_body = None, opt_token = None, opt_params = None\<rparr>"

text \<open>\<open>request\<close> builds the configuration. The token is absent, \<open>null\<close> or a string.\<close>

definition request_of :: "string \<Rightarrow> request_options \<Rightarrow> request_config" where
  "request_of path opts =
     \<lparr>cfg_url = Some path, cfg_method = opt_method opts, cfg_data = opt_body opts,
      cfg_params = opt_params opts,
      cfg_baseURL = (if truthy (opt_baseUrl opts) then opt_baseUrl opts else None),
      cfg_authorization = (case opt_token opts of
          Some t \<Rightarrow> if truthy t then Some (''Bearer '' @ the t) else None
        | None \<Rightarrow> None)\<rparr>"

section \<open>Responses\<close>

record error_response =
  rs_status :: int
  rs_code :: "string option"
  rs_message :: "string option"
  rs_retry_after :: "string option"

record transport_error =
  te_cancelled :: bool
  te_response :: "error_response option"
  te_code :: "string option"
  te_message :: "string option"

datatype failure = Cancelled | Failed api_error

text \<open>
  \<open>decimal_of\<close> prints a status, \<open>number\<close> is \<open>Number(header)\<close> where that is finite. An error's
  message is absent only when it is no string at all.
\<close>

definition response_interceptor ::
  "(int \<Rightarrow> string) \<Rightarrow> (string option \<Rightarrow> int option) \<Rightarrow> transport_error \<Rightarrow> failure" where
  "response_interceptor decimal_of number error =
     (if te_cancelled error then Cancelled
      else case te_response error of
        None \<Rightarrow>
          let isTimeout = (te_code error = Some ''ECONNABORTED''
                \<or> (case te_message error of Some m \<Rightarrow> js_includes m ''timeout'' | None \<Rightarrow> False))
          in Failed \<lparr>status = 0, code = (if isTimeout then ''TIMEOUT_ERROR'' else ''NETWORK_ERROR''),
                     err_message = (if isTimeout then ''Request timed out'' else ''Could not reach the server''),
                     retryAfterSeconds = None\<rparr>
      | Some response \<Rightarrow>
          let retryAfter = number (rs_retry_after response)
          in Failed \<lparr>status = rs_status response,
                     code = (case rs_code response of Some c \<Rightarrow> c | None \<Rightarrow> ''UNKNOWN''),
                     err_message = (case rs_message response of
                         Some m \<Rightarrow> m
                       | None \<Rightarrow> (case te_message error of
                             Some m \<Rightarrow> m
                           | None \<Rightarrow> ''Request failed ('' @ decimal_of (rs_status response) @ '')'')),
                     retryAfterSeconds = (case retryAfter of
                         Some n \<Rightarrow> if n > 0 then Some n else None
                       | None \<Rightarrow> None)\<rparr>)"

section \<open>Properties\<close>

lemma includes_self: "js_includes s s"
  unfolding includes_iff by (metis append_Nil append_Nil2)

definition exempt :: "string \<Rightarrow> bool" where
  "exempt path \<longleftrightarrow> (\<exists>p \<in> set AUTH_EXEMPT_PATHS. \<exists>a b. path = a @ p @ b)"

lemma exempt_eq: "list_ex (\<lambda>p. js_includes path p) AUTH_EXEMPT_PATHS = exempt path"
  by (simp add: list_ex_iff includes_iff exempt_def)

lemma truthy_simps [simp]: "truthy (Some (c # t))" "\<not> truthy None" "truthy (Some t) \<longleftrightarrow> t \<noteq> []"
  by (simp_all add: truthy_def)

text \<open>
  Who a call is made as. A token given to \<open>request\<close> is the one sent, whatever is stored; a
  call to a path that signs in or refreshes never waits for the token provider, so a refresh
  never waits for itself; any other call carries the stored token or else the provider's,
  and goes out without one when the provider rejects.
\<close>

theorem request_is_authorized:
  "cfg_authorization (fst (request_interceptor s provided (request_of path opts))) =
     (if opt_token opts \<noteq> None \<and> truthy (the (opt_token opts))
      then Some (''Bearer '' @ the (the (opt_token opts)))
      else if exempt path then None
      else if truthy (globalToken s) then Some (''Bearer '' @ the (globalToken s))
      else if has_provider s \<and> provided \<noteq> None \<and> truthy (the provided)
           then Some (''Bearer '' @ the (the provided))
      else None)
   \<and> (snd (request_interceptor s provided (request_of path opts)) \<longleftrightarrow>
        \<not> (opt_token opts \<noteq> None \<and> truthy (the (opt_token opts))) \<and> \<not> exempt path
        \<and> \<not> truthy (globalToken s) \<and> has_provider s)
   \<and> exempt ''/api/v1/auth/refresh''"
proof -
  have refresh: "exempt ''/api/v1/auth/refresh''"
    unfolding exempt_eq [symmetric] by code_simp
  show ?thesis
  proof (cases "opt_token opts \<noteq> None \<and> truthy (the (opt_token opts))")
    case True
    then obtain t where "opt_token opts = Some (Some t)" "t \<noteq> []"
      by (cases "opt_token opts"; cases "the (opt_token opts)") auto
    then show ?thesis
      using refresh by (simp add: request_interceptor_def request_of_def Let_def)
  next
    case False
    then have "(case opt_token opts of None \<Rightarrow> None
        | Some t \<Rightarrow> if truthy t then Some (''Bearer '' @ the t) else None) = None"
      by (auto split: option.split)
    then show ?thesis
      using refresh False
      by (cases provided) (auto simp: request_interceptor_def request_of_def Let_def exempt_eq)
  qed
qed



lemma base_url_without_slash: "getApiBaseUrl (setApiBaseUrl (url @ ''/'') s) = (if url = [] then [] else url)"
proof -
  have "ends_with (url @ ''/'') ''/''" by (simp add: ends_with_iff)
  then show ?thesis by (simp add: getApiBaseUrl_def setApiBaseUrl_def)
qed

end
