(* ===== verification/Endpoints.thy ===== *)
theory Endpoints
  imports ApiClient
begin

text \<open>
  \<open>packages/shared/src/api/endpoints.ts\<close>: one constructor per endpoint function, grouped as
  the file's objects are, and for each group the call it makes, as the path and options
  handed to \<open>request\<close>. An argument that is sent as it is (\<open>body: input\<close>, \<open>params\<close>) is a JSON
  value; an argument that is taken apart is an argument of the constructor. What the
  functions use of the standard library, \<open>URLSearchParams\<close> and \<open>encodeURIComponent\<close>, is
  modelled first.
\<close>

section \<open>Encoding\<close>

text \<open>The scalar values of a string; a lone surrogate reads as the replacement character.\<close>

definition is_high :: "nat \<Rightarrow> bool" where
  "is_high u \<longleftrightarrow> 55296 \<le> u \<and> u < 56320"

definition is_low :: "nat \<Rightarrow> bool" where
  "is_low u \<longleftrightarrow> 56320 \<le> u \<and> u < 57344"

fun scalars :: "jstr \<Rightarrow> nat list" where
  "scalars [] = []"
| "scalars [u] = [if is_high u \<or> is_low u then 65533 else u]"
| "scalars (u # v # s) =
     (if is_high u \<and> is_low v then (65536 + (u - 55296) * 1024 + (v - 56320)) # scalars s
      else (if is_high u \<or> is_low u then 65533 else u) # scalars (v # s))"

fun lone_surrogate :: "jstr \<Rightarrow> bool" where
  "lone_surrogate [] = False"
| "lone_surrogate [u] = (is_high u \<or> is_low u)"
| "lone_surrogate (u # v # s) =
     (if is_high u \<and> is_low v then lone_surrogate s
      else is_high u \<or> is_low u \<or> lone_surrogate (v # s))"

definition utf8 :: "nat \<Rightarrow> nat list" where
  "utf8 c =
     (if c < 128 then [c]
      else if c < 2048 then [192 + c div 64, 128 + c mod 64]
      else if c < 65536 then [224 + c div 4096, 128 + c div 64 mod 64, 128 + c mod 64]
      else [240 + c div 262144, 128 + c div 4096 mod 64, 128 + c div 64 mod 64, 128 + c mod 64])"

definition hex_digit :: "nat \<Rightarrow> char" where
  "hex_digit n = (''0123456789ABCDEF'' ! n)"

definition percent :: "nat \<Rightarrow> string" where
  "percent b = [CHR ''%'', hex_digit (b div 16 mod 16), hex_digit (b mod 16)]"

definition ascii_alnum :: "nat \<Rightarrow> bool" where
  "ascii_alnum b \<longleftrightarrow> is_digit b \<or> is_upper b \<or> is_lower b"

definition form_byte :: "nat \<Rightarrow> string" where
  "form_byte b =
     (if ascii_alnum b \<or> b \<in> set (js ''*-._'') then [char_of b]
      else if b = 32 then ''+'' else percent b)"

definition form_encode :: "jstr \<Rightarrow> string" where
  "form_encode s = concat (map form_byte (concat (map utf8 (scalars s))))"

definition uri_byte :: "nat \<Rightarrow> string" where
  "uri_byte b =
     (if ascii_alnum b \<or> b \<in> set (js ''-_.!~*'' @ [39, 40, 41]) then [char_of b] else percent b)"

text \<open>\<open>encodeURIComponent\<close> throws on a lone surrogate.\<close>

definition encodeURIComponent :: "jstr \<Rightarrow> string option" where
  "encodeURIComponent s =
     (if lone_surrogate s then None else Some (concat (map uri_byte (concat (map utf8 (scalars s))))))"

text \<open>
  \<open>params.toString()\<close> for parameters that are set at most once, in order; \<open>set_when\<close> is
  \<open>if (value) params.set(key, value)\<close>.
\<close>

definition set_when :: "string \<Rightarrow> jstr option \<Rightarrow> (string \<times> jstr) list" where
  "set_when key v = (if truthy v then [(key, the v)] else [])"

definition number_when :: "string \<Rightarrow> nat option \<Rightarrow> (string \<times> jstr) list" where
  "number_when key v = (case v of Some n \<Rightarrow> if n \<noteq> 0 then [(key, decimal n)] else [] | None \<Rightarrow> [])"

fun join_with :: "string \<Rightarrow> string list \<Rightarrow> string" where
  "join_with sep [] = []"
| "join_with sep [x] = x"
| "join_with sep (x # y # xs) = x @ sep @ join_with sep (y # xs)"

definition search_params :: "(string \<times> jstr) list \<Rightarrow> string" where
  "search_params ps = join_with ''&'' (map (\<lambda>(k, v). form_encode (js k) @ ''='' @ form_encode v) ps)"

definition query_of :: "(string \<times> jstr) list \<Rightarrow> string" where
  "query_of ps = (if search_params ps \<noteq> [] then ''?'' @ search_params ps else [])"

definition number_text :: "nat \<Rightarrow> string" where
  "number_text n = map char_of (decimal n)"

section \<open>Calls\<close>

text \<open>What calling an endpoint does: a request, a promise already resolved, or a throw.\<close>

datatype outcome = Request string request_options | Resolved_empty | Throws_URIError

text \<open>The shapes of options the endpoints pass.\<close>

abbreviation read_opts :: "string option \<Rightarrow> request_options" where
  "read_opts token \<equiv> default_options\<lparr>opt_token := Some token\<rparr>"

abbreviation params_opts :: "json option \<Rightarrow> string option \<Rightarrow> request_options" where
  "params_opts params token \<equiv> default_options\<lparr>opt_token := Some token, opt_params := params\<rparr>"

abbreviation send_opts :: "http_method \<Rightarrow> json \<Rightarrow> string option \<Rightarrow> request_options" where
  "send_opts verb body token \<equiv>
     default_options\<lparr>opt_method := verb, opt_body := Some body, opt_token := Some token\<rparr>"

abbreviation bare_opts :: "http_method \<Rightarrow> string option \<Rightarrow> request_options" where
  "bare_opts verb token \<equiv> default_options\<lparr>opt_method := verb, opt_token := Some token\<rparr>"

abbreviation open_opts :: "http_method \<Rightarrow> json \<Rightarrow> request_options" where
  "open_opts verb body \<equiv> default_options\<lparr>opt_method := verb, opt_body := Some body\<rparr>"

abbreviation obj :: "(string \<times> json) list \<Rightarrow> json" where
  "obj \<equiv> J_object"

abbreviation ids_json :: "uuid list \<Rightarrow> json" where
  "ids_json xs \<equiv> J_array (map (\<lambda>x. J_string (js x)) xs)"

abbreviation id_json :: "uuid \<Rightarrow> json" where
  "id_json x \<equiv> J_string (js x)"

section \<open>Accounts\<close>

datatype auth_endpoint =
    Auth_config
  | Auth_register json
  | Auth_login json
  | Auth_refresh string
  | Auth_logout string
  | Auth_me
  | Auth_updateProfile json
  | Auth_overview

primrec auth_call :: "string option \<Rightarrow> auth_endpoint \<Rightarrow> outcome" where
  "auth_call token Auth_config =
     Request ''/api/v1/auth/config'' (default_options)"
| "auth_call token (Auth_register input) =
     Request ''/api/v1/auth/register'' (open_opts POST input)"
| "auth_call token (Auth_login input) =
     Request ''/api/v1/auth/login'' (open_opts POST input)"
| "auth_call token (Auth_refresh refresh_token) =
     Request ''/api/v1/auth/refresh'' (open_opts POST (obj [(''refresh_token'', id_json refresh_token)]))"
| "auth_call token (Auth_logout refresh_token) =
     Request ''/api/v1/auth/logout'' (open_opts POST (obj [(''refresh_token'', id_json refresh_token)]))"
| "auth_call token Auth_me =
     Request ''/api/v1/me'' (read_opts token)"
| "auth_call token (Auth_updateProfile input) =
     Request ''/api/v1/me'' (send_opts PATCH input token)"
| "auth_call token Auth_overview =
     Request ''/api/v1/me/overview'' (read_opts token)"

section \<open>Users\<close>

datatype (ids_users: 'i) users_endpoint =
    Users_get 'i

primrec users_call :: "string option \<Rightarrow> uuid users_endpoint \<Rightarrow> outcome" where
  "users_call token (Users_get i) =
     Request (''/api/v1/users/'' @ i) (read_opts token)"

section \<open>Communities\<close>

datatype (ids_communities: 'i) communities_endpoint =
    Communities_list
  | Communities_get 'i
  | Communities_templates
  | Communities_create json
  | Communities_join 'i
  | Communities_members 'i nat
  | Communities_update 'i json
  | Communities_leave 'i 'i
  | Communities_delete 'i
  | Communities_roles 'i
  | Communities_createRole 'i json
  | Communities_updateRole 'i 'i json
  | Communities_removeRole 'i 'i 'i
  | Communities_assignRole 'i 'i 'i
  | Communities_overview 'i
  | Communities_createInvite 'i json
  | Communities_listInvites 'i
  | Communities_previewInvite string
  | Communities_redeemInvite string
  | Communities_revokeInvite string

primrec communities_call :: "string option \<Rightarrow> uuid communities_endpoint \<Rightarrow> outcome" where
  "communities_call token Communities_list =
     Request ''/api/v1/communities'' (read_opts token)"
| "communities_call token (Communities_get i) =
     Request (''/api/v1/communities/'' @ i) (read_opts token)"
| "communities_call token Communities_templates =
     Request ''/api/v1/communities/templates'' (read_opts token)"
| "communities_call token (Communities_create input) =
     Request ''/api/v1/communities'' (send_opts POST input token)"
| "communities_call token (Communities_join i) =
     Request (''/api/v1/communities/'' @ i @ ''/members'') (send_opts POST (obj []) token)"
| "communities_call token (Communities_members i limit) =
     Request (''/api/v1/communities/'' @ i @ ''/members?limit='' @ number_text limit) (read_opts token)"
| "communities_call token (Communities_update i input) =
     Request (''/api/v1/communities/'' @ i) (send_opts PATCH input token)"
| "communities_call token (Communities_leave i userId) =
     Request (''/api/v1/communities/'' @ i @ ''/members/'' @ userId) (bare_opts DELETE token)"
| "communities_call token (Communities_delete i) =
     Request (''/api/v1/communities/'' @ i) (bare_opts DELETE token)"
| "communities_call token (Communities_roles i) =
     Request (''/api/v1/communities/'' @ i @ ''/roles'') (read_opts token)"
| "communities_call token (Communities_createRole i input) =
     Request (''/api/v1/communities/'' @ i @ ''/roles'') (send_opts POST input token)"
| "communities_call token (Communities_updateRole i roleId input) =
     Request (''/api/v1/communities/'' @ i @ ''/roles/'' @ roleId) (send_opts PATCH input token)"
| "communities_call token (Communities_removeRole i userId roleId) =
     Request (''/api/v1/communities/'' @ i @ ''/members/'' @ userId @ ''/roles/'' @ roleId)
       (bare_opts DELETE token)"
| "communities_call token (Communities_assignRole i userId roleId) =
     Request (''/api/v1/communities/'' @ i @ ''/members/'' @ userId @ ''/roles'')
       (send_opts POST (obj [(''role_id'', id_json roleId)]) token)"
| "communities_call token (Communities_overview i) =
     Request (''/api/v1/communities/'' @ i @ ''/overview'') (read_opts token)"
| "communities_call token (Communities_createInvite i input) =
     Request (''/api/v1/communities/'' @ i @ ''/invites'') (send_opts POST input token)"
| "communities_call token (Communities_listInvites i) =
     Request (''/api/v1/communities/'' @ i @ ''/invites'') (read_opts token)"
| "communities_call token (Communities_previewInvite invite) =
     Request (''/api/v1/invites/'' @ invite) (read_opts token)"
| "communities_call token (Communities_redeemInvite invite) =
     Request (''/api/v1/invites/'' @ invite) (send_opts POST (obj []) token)"
| "communities_call token (Communities_revokeInvite invite) =
     Request (''/api/v1/invites/'' @ invite) (bare_opts DELETE token)"

section \<open>Rooms\<close>

datatype (ids_rooms: 'i) rooms_endpoint =
    Rooms_discovery "jstr option" "nat option"
  | Rooms_feed "jstr option" "nat option" "nat option"
  | Rooms_trending
  | Rooms_live
  | Rooms_random "jstr option" "jstr option"
  | Rooms_list 'i
  | Rooms_get 'i
  | Rooms_mine
  | Rooms_createStandalone json
  | Rooms_create 'i json
  | Rooms_join 'i
  | Rooms_leave 'i
  | Rooms_participants 'i
  | Rooms_setPersona 'i bool
  | Rooms_update 'i json
  | Rooms_delete 'i
  | Rooms_openDM 'i
  | Rooms_session 'i

primrec rooms_call :: "string option \<Rightarrow> uuid rooms_endpoint \<Rightarrow> outcome" where
  "rooms_call token (Rooms_discovery category limit) =
     Request (''/api/v1/rooms/discovery'' @ query_of (set_when ''category'' category @ number_when ''limit'' limit))
       (read_opts token)"
| "rooms_call token (Rooms_feed category limit offset) =
     Request (''/api/v1/rooms/feed'' @
       query_of (set_when ''category'' category @ number_when ''limit'' limit @ number_when ''offset'' offset)) (read_opts token)"
| "rooms_call token Rooms_trending =
     Request ''/api/v1/rooms/trending'' (read_opts token)"
| "rooms_call token Rooms_live =
     Request ''/api/v1/rooms/live'' (read_opts token)"
| "rooms_call token (Rooms_random category room_type) =
     Request (''/api/v1/rooms/random'' @ query_of (set_when ''category'' category @ set_when ''room_type'' room_type))
       (read_opts token)"
| "rooms_call token (Rooms_list i) =
     Request (''/api/v1/communities/'' @ i @ ''/rooms'') (read_opts token)"
| "rooms_call token (Rooms_get i) =
     Request (''/api/v1/rooms/'' @ i) (read_opts token)"
| "rooms_call token Rooms_mine =
     Request ''/api/v1/rooms/mine'' (read_opts token)"
| "rooms_call token (Rooms_createStandalone input) =
     Request ''/api/v1/rooms'' (send_opts POST input token)"
| "rooms_call token (Rooms_create i input) =
     Request (''/api/v1/communities/'' @ i @ ''/rooms'') (send_opts POST input token)"
| "rooms_call token (Rooms_join i) =
     Request (''/api/v1/rooms/'' @ i @ ''/join'') (send_opts POST (obj []) token)"
| "rooms_call token (Rooms_leave i) =
     Request (''/api/v1/rooms/'' @ i @ ''/leave'') (send_opts POST (obj []) token)"
| "rooms_call token (Rooms_participants i) =
     Request (''/api/v1/rooms/'' @ i @ ''/participants'') (read_opts token)"
| "rooms_call token (Rooms_setPersona i is_anonymous) =
     Request (''/api/v1/rooms/'' @ i @ ''/persona'')
       (send_opts PATCH (obj [(''is_anonymous'', J_bool is_anonymous)]) token)"
| "rooms_call token (Rooms_update i input) =
     Request (''/api/v1/rooms/'' @ i) (send_opts PATCH input token)"
| "rooms_call token (Rooms_delete i) =
     Request (''/api/v1/rooms/'' @ i) (bare_opts DELETE token)"
| "rooms_call token (Rooms_openDM targetUserId) =
     Request (''/api/v1/rooms/dm/'' @ targetUserId) (bare_opts POST token)"
| "rooms_call token (Rooms_session i) =
     Request (''/api/v1/rooms/'' @ i @ ''/session'') (bare_opts POST token)"

section \<open>Messages\<close>

datatype (ids_messages: 'i) messages_endpoint =
    Messages_history 'i "jstr option" "jstr option" nat
  | Messages_post 'i jstr "bool option" "'i option"
  | Messages_edit 'i jstr
  | Messages_remove 'i
  | Messages_react 'i jstr
  | Messages_unreact 'i jstr
  | Messages_pins 'i
  | Messages_pin 'i
  | Messages_unpin 'i
  | Messages_search jstr "jstr option" "nat option"
  | Messages_unread
  | Messages_markRead 'i
  | Messages_setMuted 'i bool

primrec messages_call :: "string option \<Rightarrow> uuid messages_endpoint \<Rightarrow> outcome" where
  "messages_call token (Messages_history i before beforeId limit) =
     Request (''/api/v1/rooms/'' @ i @ ''/messages?'' @
       search_params ([(''limit'', decimal limit)] @ set_when ''before'' before @ set_when ''before_id'' beforeId)) (read_opts token)"
| "messages_call token (Messages_post i content is_anonymous reply_to_id) =
     Request (''/api/v1/rooms/'' @ i @ ''/messages'') (send_opts POST (json_object [(''content'', Some (J_string content)), (''is_anonymous'', map_option J_bool is_anonymous),
                     (''reply_to_id'', map_option (\<lambda>r. id_json r) reply_to_id)]) token)"
| "messages_call token (Messages_edit i content) =
     Request (''/api/v1/messages/'' @ i) (send_opts PATCH (obj [(''content'', J_string content)]) token)"
| "messages_call token (Messages_remove i) =
     Request (''/api/v1/messages/'' @ i) (bare_opts DELETE token)"
| "messages_call token (Messages_react i reaction) =
     Request (''/api/v1/messages/'' @ i @ ''/reactions'')
       (send_opts PUT (obj [(''reaction'', J_string reaction)]) token)"
| "messages_call token (Messages_unreact i reaction) =
     Request (''/api/v1/messages/'' @ i @ ''/reactions'')
       (send_opts DELETE (obj [(''reaction'', J_string reaction)]) token)"
| "messages_call token (Messages_pins i) =
     Request (''/api/v1/rooms/'' @ i @ ''/pins'') (read_opts token)"
| "messages_call token (Messages_pin i) =
     Request (''/api/v1/messages/'' @ i @ ''/pin'') (bare_opts PUT token)"
| "messages_call token (Messages_unpin i) =
     Request (''/api/v1/messages/'' @ i @ ''/pin'') (bare_opts DELETE token)"
| "messages_call token (Messages_search q room_id limit) =
     Request (''/api/v1/search/messages?'' @
       search_params ([(''q'', q)] @ set_when ''room_id'' room_id @ number_when ''limit'' limit)) (read_opts token)"
| "messages_call token Messages_unread =
     Request ''/api/v1/me/unread'' (read_opts token)"
| "messages_call token (Messages_markRead i) =
     Request (''/api/v1/rooms/'' @ i @ ''/read'') (send_opts POST (obj []) token)"
| "messages_call token (Messages_setMuted i muted) =
     Request (''/api/v1/rooms/'' @ i @ ''/mute'')
       (send_opts PUT (obj [(''muted'', J_bool muted)]) token)"

section \<open>Friends, notifications, presence and blocks\<close>

datatype (ids_friends: 'i) friends_endpoint =
    Friends_list
  | Friends_pending
  | Friends_sent
  | Friends_request 'i
  | Friends_respond 'i bool
  | Friends_remove 'i

primrec friends_call :: "string option \<Rightarrow> uuid friends_endpoint \<Rightarrow> outcome" where
  "friends_call token Friends_list =
     Request ''/api/v1/friends'' (read_opts token)"
| "friends_call token Friends_pending =
     Request ''/api/v1/friends/requests'' (read_opts token)"
| "friends_call token Friends_sent =
     Request ''/api/v1/friends/sent'' (read_opts token)"
| "friends_call token (Friends_request userId) =
     Request ''/api/v1/friends'' (send_opts POST (obj [(''user_id'', id_json userId)]) token)"
| "friends_call token (Friends_respond requesterId accept) =
     Request (''/api/v1/friends/'' @ requesterId @ ''/respond'')
       (send_opts POST (obj [(''accept'', J_bool accept)]) token)"
| "friends_call token (Friends_remove userId) =
     Request (''/api/v1/friends/'' @ userId) (bare_opts DELETE token)"

datatype (ids_social: 'i) social_endpoint =
    Notifications_list "jstr option" "nat option"
  | Notifications_markRead 'i
  | Notifications_markAllRead
  | Presence_online "'i list option"
  | Social_overview
  | Blocks_list
  | Blocks_block 'i
  | Blocks_unblock 'i

primrec social_call :: "string option \<Rightarrow> uuid social_endpoint \<Rightarrow> outcome" where
  "social_call token (Notifications_list before limit) =
     Request (''/api/v1/notifications'' @ query_of (set_when ''before'' before @ number_when ''limit'' limit))
       (read_opts token)"
| "social_call token (Notifications_markRead i) =
     Request (''/api/v1/notifications/'' @ i @ ''/read'') (bare_opts POST token)"
| "social_call token Notifications_markAllRead =
     Request ''/api/v1/notifications/read'' (bare_opts POST token)"
| "social_call token (Presence_online ids) =
     Request (''/api/v1/presence'' @
       (case ids of Some (i # rest) \<Rightarrow> ''?ids='' @ join_with '','' (i # rest) | _ \<Rightarrow> [])) (read_opts token)"
| "social_call token Social_overview =
     Request ''/api/v1/me/social'' (read_opts token)"
| "social_call token Blocks_list =
     Request ''/api/v1/blocks'' (read_opts token)"
| "social_call token (Blocks_block userId) =
     Request (''/api/v1/blocks/'' @ userId) (bare_opts PUT token)"
| "social_call token (Blocks_unblock userId) =
     Request (''/api/v1/blocks/'' @ userId) (bare_opts DELETE token)"

section \<open>Media\<close>

datatype (ids_media: 'i) media_endpoint =
    Media_join 'i
  | Media_leave 'i
  | Media_ring 'i bool
  | Media_endCall 'i string

primrec media_call :: "string option \<Rightarrow> uuid media_endpoint \<Rightarrow> outcome" where
  "media_call token (Media_join i) =
     Request (''/api/v1/rooms/'' @ i @ ''/media/join'') (bare_opts POST token)"
| "media_call token (Media_leave i) =
     Request (''/api/v1/rooms/'' @ i @ ''/media/leave'') (bare_opts POST token)"
| "media_call token (Media_ring i video) =
     Request (''/api/v1/rooms/'' @ i @ ''/call/ring'')
       (send_opts POST (obj [(''video'', J_bool video)]) token)"
| "media_call token (Media_endCall i reason) =
     Request (''/api/v1/rooms/'' @ i @ ''/call/end'')
       (send_opts POST (obj [(''reason'', id_json reason)]) token)"

section \<open>Support and recommendations\<close>

datatype (ids_support: 'i) support_endpoint =
    Support_open json
  | Support_mine
  | Support_get 'i
  | Support_reply 'i jstr
  | Recommendations_rooms json
  | Recommendations_people json
  | Recommendations_communities json

primrec support_call :: "string option \<Rightarrow> uuid support_endpoint \<Rightarrow> outcome" where
  "support_call token (Support_open input) =
     Request ''/api/v1/support/tickets'' (send_opts POST input token)"
| "support_call token Support_mine =
     Request ''/api/v1/support/tickets'' (read_opts token)"
| "support_call token (Support_get i) =
     Request (''/api/v1/support/tickets/'' @ i) (read_opts token)"
| "support_call token (Support_reply i body) =
     Request (''/api/v1/support/tickets/'' @ i @ ''/messages'')
       (send_opts POST (obj [(''body'', J_string body)]) token)"
| "support_call token (Recommendations_rooms params) =
     Request ''/api/v1/recommendations/rooms'' (params_opts (Some params) token)"
| "support_call token (Recommendations_people params) =
     Request ''/api/v1/recommendations/people'' (params_opts (Some params) token)"
| "support_call token (Recommendations_communities params) =
     Request ''/api/v1/recommendations/communities'' (params_opts (Some params) token)"

section \<open>The console: accounts and tickets\<close>

datatype (ids_admin: 'i) admin_endpoint =
    Admin_stats
  | Admin_audit json
  | Admin_auditActions
  | Admin_searchUsers jstr "(string \<times> json) list"
  | Admin_bulkSuspendUsers "'i list" jstr
  | Admin_bulkReinstateUsers "'i list"
  | Admin_getUser 'i
  | Admin_listStaff
  | Admin_suspendUser 'i jstr
  | Admin_reinstateUser 'i
  | Admin_setPlatformRole 'i string
  | Admin_tickets json
  | Admin_ticket 'i
  | Admin_replyToTicket 'i jstr bool
  | Admin_updateTicket 'i json
  | Admin_assignTicket 'i "'i option"

primrec admin_call :: "string option \<Rightarrow> uuid admin_endpoint \<Rightarrow> outcome" where
  "admin_call token Admin_stats =
     Request ''/api/v1/admin/stats'' (read_opts token)"
| "admin_call token (Admin_audit params) =
     Request ''/api/v1/admin/audit'' (params_opts (Some params) token)"
| "admin_call token Admin_auditActions =
     Request ''/api/v1/admin/audit/actions'' (read_opts token)"
| "admin_call token (Admin_searchUsers q params) =
     Request ''/api/v1/admin/users'' (params_opts (Some (obj ((''q'', J_string q) # params))) token)"
| "admin_call token (Admin_bulkSuspendUsers userIds reason) =
     Request ''/api/v1/admin/users/bulk/suspend''
       (send_opts POST (obj [(''user_ids'', ids_json userIds), (''reason'', J_string reason)]) token)"
| "admin_call token (Admin_bulkReinstateUsers userIds) =
     Request ''/api/v1/admin/users/bulk/reinstate''
       (send_opts POST (obj [(''user_ids'', ids_json userIds)]) token)"
| "admin_call token (Admin_getUser i) =
     Request (''/api/v1/admin/users/'' @ i) (read_opts token)"
| "admin_call token Admin_listStaff =
     Request ''/api/v1/admin/staff'' (read_opts token)"
| "admin_call token (Admin_suspendUser i reason) =
     Request (''/api/v1/admin/users/'' @ i @ ''/suspend'')
       (send_opts POST (obj [(''reason'', J_string reason)]) token)"
| "admin_call token (Admin_reinstateUser i) =
     Request (''/api/v1/admin/users/'' @ i @ ''/reinstate'') (send_opts POST (obj []) token)"
| "admin_call token (Admin_setPlatformRole i role) =
     Request (''/api/v1/admin/users/'' @ i @ ''/platform-role'')
       (send_opts PUT (obj [(''role'', id_json role)]) token)"
| "admin_call token (Admin_tickets params) =
     Request ''/api/v1/admin/tickets'' (params_opts (Some params) token)"
| "admin_call token (Admin_ticket i) =
     Request (''/api/v1/admin/tickets/'' @ i) (read_opts token)"
| "admin_call token (Admin_replyToTicket i body staffOnly) =
     Request (''/api/v1/admin/tickets/'' @ i @ ''/messages'')
       (send_opts POST (obj [(''body'', J_string body), (''staff_only'', J_bool staffOnly)]) token)"
| "admin_call token (Admin_updateTicket i patch) =
     Request (''/api/v1/admin/tickets/'' @ i) (send_opts PATCH patch token)"
| "admin_call token (Admin_assignTicket i assigneeId) =
     Request (''/api/v1/admin/tickets/'' @ i @ ''/assign'')
       (send_opts PUT (obj [(''assignee_id'', case assigneeId of Some a \<Rightarrow> id_json a | None \<Rightarrow> J_null)]) token)"

section \<open>The console: communities, media and settings\<close>

datatype (ids_console: 'i) console_endpoint =
    Console_communities json
  | Console_quarantineCommunity 'i jstr
  | Console_unquarantineCommunity 'i
  | Console_deleteCommunity 'i
  | Console_liveMedia
  | Console_terminateLiveMedia 'i
  | Console_broadcasts
  | Console_createBroadcast json
  | Console_deleteBroadcast 'i
  | Console_settings
  | Console_updateSetting jstr json

primrec console_call :: "string option \<Rightarrow> uuid console_endpoint \<Rightarrow> outcome" where
  "console_call token (Console_communities params) =
     Request ''/api/v1/admin/communities'' (params_opts (Some params) token)"
| "console_call token (Console_quarantineCommunity i reason) =
     Request (''/api/v1/admin/communities/'' @ i @ ''/quarantine'')
       (send_opts POST (obj [(''reason'', J_string reason)]) token)"
| "console_call token (Console_unquarantineCommunity i) =
     Request (''/api/v1/admin/communities/'' @ i @ ''/unquarantine'') (send_opts POST (obj []) token)"
| "console_call token (Console_deleteCommunity i) =
     Request (''/api/v1/admin/communities/'' @ i) (bare_opts DELETE token)"
| "console_call token Console_liveMedia =
     Request ''/api/v1/admin/live'' (read_opts token)"
| "console_call token (Console_terminateLiveMedia i) =
     Request (''/api/v1/admin/live/'' @ i @ ''/terminate'') (send_opts POST (obj []) token)"
| "console_call token Console_broadcasts =
     Request ''/api/v1/admin/broadcasts'' (read_opts token)"
| "console_call token (Console_createBroadcast input) =
     Request ''/api/v1/admin/broadcasts'' (send_opts POST input token)"
| "console_call token (Console_deleteBroadcast i) =
     Request (''/api/v1/admin/broadcasts/'' @ i) (bare_opts DELETE token)"
| "console_call token Console_settings =
     Request ''/api/v1/admin/settings'' (read_opts token)"
| "console_call token (Console_updateSetting key val) =
     Request ''/api/v1/admin/settings''
       (send_opts PUT (obj [(''key'', J_string key), (''value'', val)]) token)"

section \<open>The console: security, jobs and moderation\<close>

datatype (ids_security: 'i) security_endpoint =
    Security_ipBans
  | Security_banIp jstr jstr "timestamp option"
  | Security_unbanIp 'i
  | Security_emailDomains
  | Security_blockEmailDomain jstr "jstr option"
  | Security_unblockEmailDomain jstr
  | Security_automodRules
  | Security_createAutomodRule json
  | Security_deleteAutomodRule 'i
  | Security_recommendationCoverage
  | Security_explainRecommendations json
  | Security_telemetry
  | Security_jobs
  | Security_runJob jstr
  | Security_revokeUserSessions 'i
  | Security_staffUpdateUserProfile 'i json
  | Broadcasts_active

primrec security_call :: "string option \<Rightarrow> uuid security_endpoint \<Rightarrow> outcome" where
  "security_call token Security_ipBans =
     Request ''/api/v1/admin/security/ip-bans'' (read_opts token)"
| "security_call token (Security_banIp ip_or_cidr reason expires_at) =
     Request ''/api/v1/admin/security/ip-bans''
       (send_opts POST (json_object [(''ip_or_cidr'', Some (J_string ip_or_cidr)), (''reason'', Some (J_string reason)),
                                     (''expires_at'', map_option (\<lambda>t. id_json t) expires_at)]) token)"
| "security_call token (Security_unbanIp i) =
     Request (''/api/v1/admin/security/ip-bans/'' @ i) (bare_opts DELETE token)"
| "security_call token Security_emailDomains =
     Request ''/api/v1/admin/security/email-domains'' (read_opts token)"
| "security_call token (Security_blockEmailDomain domain reason) =
     Request ''/api/v1/admin/security/email-domains''
       (send_opts POST (json_object [(''domain'', Some (J_string domain)), (''reason'', map_option J_string reason)]) token)"
| "security_call token (Security_unblockEmailDomain domain) =
     (case encodeURIComponent domain of
        None \<Rightarrow> Throws_URIError
      | Some d \<Rightarrow> Request (''/api/v1/admin/security/email-domains/'' @ d) (bare_opts DELETE token))"
| "security_call token Security_automodRules =
     Request ''/api/v1/admin/automod'' (read_opts token)"
| "security_call token (Security_createAutomodRule input) =
     Request ''/api/v1/admin/automod'' (send_opts POST input token)"
| "security_call token (Security_deleteAutomodRule i) =
     Request (''/api/v1/admin/automod/'' @ i) (bare_opts DELETE token)"
| "security_call token Security_recommendationCoverage =
     Request ''/api/v1/admin/recommendations/coverage'' (read_opts token)"
| "security_call token (Security_explainRecommendations params) =
     Request ''/api/v1/admin/recommendations/explain'' (params_opts (Some params) token)"
| "security_call token Security_telemetry =
     Request ''/api/v1/admin/system/health'' (read_opts token)"
| "security_call token Security_jobs =
     Request ''/api/v1/admin/system/jobs'' (read_opts token)"
| "security_call token (Security_runJob name) =
     (case encodeURIComponent name of
        None \<Rightarrow> Throws_URIError
      | Some n \<Rightarrow> Request (''/api/v1/admin/system/jobs/'' @ n @ ''/run'') (send_opts POST (obj []) token))"
| "security_call token (Security_revokeUserSessions userId) =
     Request (''/api/v1/admin/users/'' @ userId @ ''/revoke-sessions'') (send_opts POST (obj []) token)"
| "security_call token (Security_staffUpdateUserProfile userId patch) =
     Request (''/api/v1/admin/users/'' @ userId @ ''/profile'') (send_opts PATCH patch token)"
| "security_call token Broadcasts_active =
     Request ''/api/v1/broadcasts/active'' (read_opts None)"

section \<open>Points, the store and what is worn\<close>

datatype (ids_store: 'i) store_endpoint =
    Referrals_overview
  | Referrals_claim jstr
  | Economy_balance
  | Economy_dailyCheckin
  | Store_items "string option"
  | Store_purchase 'i
  | Inventory_mine
  | Inventory_equipped
  | Inventory_equip json
  | Cosmetics_forUsers "'i list"
  | StoreAdmin_items
  | StoreAdmin_create json
  | StoreAdmin_update 'i json
  | StoreAdmin_remove 'i
  | StoreAdmin_grantItem 'i 'i
  | StoreAdmin_grantPoints json

primrec store_call :: "string option \<Rightarrow> uuid store_endpoint \<Rightarrow> outcome" where
  "store_call token Referrals_overview =
     Request ''/api/v1/referrals/overview'' (read_opts token)"
| "store_call token (Referrals_claim invite) =
     Request ''/api/v1/referrals/claim'' (send_opts POST (obj [(''code'', J_string invite)]) token)"
| "store_call token Economy_balance =
     Request ''/api/v1/economy/balance'' (read_opts token)"
| "store_call token Economy_dailyCheckin =
     Request ''/api/v1/economy/daily-checkin'' (send_opts POST (obj []) token)"
| "store_call token (Store_items itemType) =
     Request ''/api/v1/store/items''
       (params_opts (if truthy itemType \<and> itemType \<noteq> Some ''all''
                     then Some (obj [(''item_type'', id_json (the itemType))]) else None) token)"
| "store_call token (Store_purchase itemId) =
     Request (''/api/v1/store/items/'' @ itemId @ ''/purchase'') (send_opts POST (obj []) token)"
| "store_call token Inventory_mine =
     Request ''/api/v1/inventory/my-items'' (read_opts token)"
| "store_call token Inventory_equipped =
     Request ''/api/v1/inventory/equipped'' (read_opts token)"
| "store_call token (Inventory_equip input) =
     Request ''/api/v1/inventory/equip'' (send_opts POST input token)"
| "store_call token (Cosmetics_forUsers userIds) =
     (if length userIds = 0 then Resolved_empty
      else Request ''/api/v1/cosmetics''
             (params_opts (Some (obj [(''user_ids'', id_json (join_with '','' userIds))])) token))"
| "store_call token StoreAdmin_items =
     Request ''/api/v1/admin/store/items'' (read_opts token)"
| "store_call token (StoreAdmin_create input) =
     Request ''/api/v1/admin/store/items'' (send_opts POST input token)"
| "store_call token (StoreAdmin_update itemId input) =
     Request (''/api/v1/admin/store/items/'' @ itemId) (send_opts PATCH input token)"
| "store_call token (StoreAdmin_remove itemId) =
     Request (''/api/v1/admin/store/items/'' @ itemId) (bare_opts DELETE token)"
| "store_call token (StoreAdmin_grantItem itemId userId) =
     Request (''/api/v1/admin/store/items/'' @ itemId @ ''/grant'')
       (send_opts POST (obj [(''user_id'', id_json userId)]) token)"
| "store_call token (StoreAdmin_grantPoints input) =
     Request ''/api/v1/admin/economy/grant'' (send_opts POST input token)"

section \<open>Custom emoji and GIFs\<close>

datatype (ids_emojis: 'i) emojis_endpoint =
    Emojis_forRoom 'i
  | Emojis_list 'i
  | Emojis_create 'i json
  | Emojis_rename 'i 'i jstr
  | Emojis_remove 'i 'i
  | Gifs_trending nat "jstr option"
  | Gifs_search jstr nat "jstr option"

primrec emojis_call :: "string option \<Rightarrow> uuid emojis_endpoint \<Rightarrow> outcome" where
  "emojis_call token (Emojis_forRoom i) =
     Request (''/api/v1/rooms/'' @ i @ ''/emojis'') (read_opts token)"
| "emojis_call token (Emojis_list i) =
     Request (''/api/v1/communities/'' @ i @ ''/emojis'') (read_opts token)"
| "emojis_call token (Emojis_create i input) =
     Request (''/api/v1/communities/'' @ i @ ''/emojis'') (send_opts POST input token)"
| "emojis_call token (Emojis_rename i emojiId name) =
     Request (''/api/v1/communities/'' @ i @ ''/emojis/'' @ emojiId)
       (send_opts PATCH (obj [(''name'', J_string name)]) token)"
| "emojis_call token (Emojis_remove i emojiId) =
     Request (''/api/v1/communities/'' @ i @ ''/emojis/'' @ emojiId) (bare_opts DELETE token)"
| "emojis_call token (Gifs_trending limit pos) =
     Request (''/api/v1/gifs/trending?'' @ search_params ([(''limit'', decimal limit)] @ set_when ''pos'' pos))
       (read_opts token)"
| "emojis_call token (Gifs_search query limit pos) =
     Request (''/api/v1/gifs/search?'' @
       search_params ([(''q'', query), (''limit'', decimal limit)] @ set_when ''pos'' pos)) (read_opts token)"

end
