(* ===== verification/Router.thy ===== *)
theory Router
  imports Endpoints
begin

text \<open>
  The API's route table (\<open>apps/api/src/router.rs\<close>), the way a request finds its route, and
  the theorem that the calls of \<open>Endpoints\<close> find theirs. The table is copied in its order;
  a parameter is \<open>Id\<close> where its handler takes a typed id and \<open>Text\<close> where it takes a string.
  The router itself (axum, and matchit under it) is a library: a path matches segment by
  segment, a literal segment goes before a parameter, and a parameter takes one segment that
  is not empty. Whether a segment reads as an id is the parameter \<open>parses\<close>.
\<close>

section \<open>The table\<close>

datatype seg = Lit string | Id | Text

type_synonym route = "seg list \<times> http_method list"

definition api_routes :: "route list" where
  "api_routes =
    [([Lit ''auth'', Lit ''config''], [GET]),
     ([Lit ''auth'', Lit ''register''], [POST]),
     ([Lit ''auth'', Lit ''login''], [POST]),
     ([Lit ''auth'', Lit ''refresh''], [POST]),
     ([Lit ''auth'', Lit ''logout''], [POST]),
     ([Lit ''auth'', Lit ''oauth'', Text, Lit ''authorize''], [GET]),
     ([Lit ''auth'', Lit ''oauth'', Text, Lit ''callback''], [GET]),
     ([Lit ''me''], [GET, PATCH]),
     ([Lit ''recommendations'', Lit ''rooms''], [GET]),
     ([Lit ''recommendations'', Lit ''people''], [GET]),
     ([Lit ''recommendations'', Lit ''communities''], [GET]),
     ([Lit ''me'', Lit ''overview''], [GET]),
     ([Lit ''me'', Lit ''social''], [GET]),
     ([Lit ''referrals'', Lit ''overview''], [GET]),
     ([Lit ''referrals'', Lit ''claim''], [POST]),
     ([Lit ''economy'', Lit ''balance''], [GET]),
     ([Lit ''economy'', Lit ''daily-checkin''], [POST]),
     ([Lit ''store'', Lit ''items''], [GET]),
     ([Lit ''store'', Lit ''items'', Id, Lit ''purchase''], [POST]),
     ([Lit ''inventory'', Lit ''my-items''], [GET]),
     ([Lit ''inventory'', Lit ''equipped''], [GET]),
     ([Lit ''inventory'', Lit ''equip''], [POST]),
     ([Lit ''cosmetics''], [GET]),
     ([Lit ''admin'', Lit ''store'', Lit ''items''], [GET, POST]),
     ([Lit ''admin'', Lit ''store'', Lit ''items'', Id], [PATCH, DELETE]),
     ([Lit ''admin'', Lit ''store'', Lit ''items'', Id, Lit ''grant''], [POST]),
     ([Lit ''admin'', Lit ''economy'', Lit ''grant''], [POST]),
     ([Lit ''admin'', Lit ''stats''], [GET]),
     ([Lit ''admin'', Lit ''audit''], [GET]),
     ([Lit ''admin'', Lit ''audit'', Lit ''actions''], [GET]),
     ([Lit ''admin'', Lit ''staff''], [GET]),
     ([Lit ''admin'', Lit ''users''], [GET]),
     ([Lit ''admin'', Lit ''users'', Id], [GET]),
     ([Lit ''admin'', Lit ''users'', Id, Lit ''suspend''], [POST]),
     ([Lit ''admin'', Lit ''users'', Id, Lit ''reinstate''], [POST]),
     ([Lit ''admin'', Lit ''users'', Id, Lit ''platform-role''], [PUT]),
     ([Lit ''admin'', Lit ''users'', Id, Lit ''revoke-sessions''], [POST]),
     ([Lit ''admin'', Lit ''users'', Id, Lit ''profile''], [PATCH]),
     ([Lit ''admin'', Lit ''tickets''], [GET]),
     ([Lit ''admin'', Lit ''tickets'', Id], [GET, PATCH]),
     ([Lit ''admin'', Lit ''tickets'', Id, Lit ''assign''], [PUT]),
     ([Lit ''admin'', Lit ''tickets'', Id, Lit ''messages''], [POST]),
     ([Lit ''admin'', Lit ''communities''], [GET]),
     ([Lit ''admin'', Lit ''communities'', Id, Lit ''quarantine''], [POST]),
     ([Lit ''admin'', Lit ''communities'', Id, Lit ''unquarantine''], [POST]),
     ([Lit ''admin'', Lit ''communities'', Id], [DELETE]),
     ([Lit ''admin'', Lit ''live''], [GET]),
     ([Lit ''admin'', Lit ''live'', Id, Lit ''terminate''], [POST]),
     ([Lit ''admin'', Lit ''broadcasts''], [GET, POST]),
     ([Lit ''admin'', Lit ''broadcasts'', Id], [DELETE]),
     ([Lit ''broadcasts'', Lit ''active''], [GET]),
     ([Lit ''admin'', Lit ''settings''], [GET, PUT]),
     ([Lit ''admin'', Lit ''security'', Lit ''ip-bans''], [GET, POST]),
     ([Lit ''admin'', Lit ''security'', Lit ''ip-bans'', Id], [DELETE]),
     ([Lit ''admin'', Lit ''security'', Lit ''email-domains''], [GET, POST]),
     ([Lit ''admin'', Lit ''security'', Lit ''email-domains'', Text], [DELETE]),
     ([Lit ''admin'', Lit ''automod''], [GET, POST]),
     ([Lit ''admin'', Lit ''automod'', Id], [DELETE]),
     ([Lit ''admin'', Lit ''recommendations'', Lit ''coverage''], [GET]),
     ([Lit ''admin'', Lit ''recommendations'', Lit ''explain''], [GET]),
     ([Lit ''admin'', Lit ''system'', Lit ''health''], [GET]),
     ([Lit ''admin'', Lit ''system'', Lit ''jobs''], [GET]),
     ([Lit ''admin'', Lit ''system'', Lit ''jobs'', Text, Lit ''run''], [POST]),
     ([Lit ''support'', Lit ''tickets''], [GET, POST]),
     ([Lit ''support'', Lit ''tickets'', Id], [GET]),
     ([Lit ''support'', Lit ''tickets'', Id, Lit ''messages''], [POST]),
     ([Lit ''invites'', Text], [GET, POST, DELETE]),
     ([Lit ''communities''], [GET, POST]),
     ([Lit ''communities'', Lit ''templates''], [GET]),
     ([Lit ''communities'', Id], [GET, PATCH, DELETE]),
     ([Lit ''communities'', Id, Lit ''overview''], [GET]),
     ([Lit ''communities'', Id, Lit ''members''], [GET, POST]),
     ([Lit ''communities'', Id, Lit ''members'', Id], [DELETE]),
     ([Lit ''communities'', Id, Lit ''members'', Id, Lit ''roles''], [POST]),
     ([Lit ''communities'', Id, Lit ''members'', Id, Lit ''roles'', Id], [DELETE]),
     ([Lit ''communities'', Id, Lit ''roles''], [GET, POST]),
     ([Lit ''communities'', Id, Lit ''roles'', Id], [PATCH]),
     ([Lit ''communities'', Id, Lit ''emojis''], [GET, POST]),
     ([Lit ''communities'', Id, Lit ''emojis'', Id], [PATCH, DELETE]),
     ([Lit ''users'', Id], [GET]),
     ([Lit ''rooms''], [POST]),
     ([Lit ''rooms'', Lit ''dm'', Id], [POST]),
     ([Lit ''rooms'', Lit ''discovery''], [GET]),
     ([Lit ''rooms'', Lit ''feed''], [GET]),
     ([Lit ''rooms'', Lit ''mine''], [GET]),
     ([Lit ''rooms'', Lit ''trending''], [GET]),
     ([Lit ''rooms'', Lit ''live''], [GET]),
     ([Lit ''rooms'', Lit ''random''], [GET]),
     ([Lit ''communities'', Id, Lit ''invites''], [GET, POST]),
     ([Lit ''communities'', Id, Lit ''rooms''], [GET, POST]),
     ([Lit ''rooms'', Id], [GET, PATCH, DELETE]),
     ([Lit ''rooms'', Id, Lit ''session''], [POST]),
     ([Lit ''rooms'', Id, Lit ''join''], [POST]),
     ([Lit ''rooms'', Id, Lit ''leave''], [POST]),
     ([Lit ''rooms'', Id, Lit ''persona''], [PATCH]),
     ([Lit ''rooms'', Id, Lit ''participants''], [GET]),
     ([Lit ''rooms'', Id, Lit ''emojis''], [GET]),
     ([Lit ''rooms'', Id, Lit ''media'', Lit ''join''], [POST]),
     ([Lit ''rooms'', Id, Lit ''media'', Lit ''leave''], [POST]),
     ([Lit ''rooms'', Id, Lit ''call'', Lit ''ring''], [POST]),
     ([Lit ''rooms'', Id, Lit ''call'', Lit ''end''], [POST]),
     ([Lit ''gifs'', Lit ''search''], [GET]),
     ([Lit ''gifs'', Lit ''trending''], [GET]),
     ([Lit ''rooms'', Id, Lit ''messages''], [GET, POST]),
     ([Lit ''messages'', Id], [PATCH, DELETE]),
     ([Lit ''messages'', Id, Lit ''pin''], [PUT, DELETE]),
     ([Lit ''rooms'', Id, Lit ''pins''], [GET]),
     ([Lit ''search'', Lit ''messages''], [GET]),
     ([Lit ''me'', Lit ''unread''], [GET]),
     ([Lit ''rooms'', Id, Lit ''read''], [POST]),
     ([Lit ''rooms'', Id, Lit ''mute''], [PUT]),
     ([Lit ''messages'', Id, Lit ''reactions''], [PUT, DELETE]),
     ([Lit ''friends''], [GET, POST]),
     ([Lit ''friends'', Lit ''requests''], [GET]),
     ([Lit ''friends'', Lit ''sent''], [GET]),
     ([Lit ''friends'', Id], [DELETE]),
     ([Lit ''friends'', Id, Lit ''respond''], [POST]),
     ([Lit ''presence''], [GET]),
     ([Lit ''notifications''], [GET]),
     ([Lit ''notifications'', Lit ''read''], [POST]),
     ([Lit ''notifications'', Id, Lit ''read''], [POST]),
     ([Lit ''blocks''], [GET]),
     ([Lit ''blocks'', Id], [PUT, DELETE]),
     ([Lit ''ws''], [GET])]"

section \<open>Matching\<close>

fun lengthen :: "char \<Rightarrow> string list \<Rightarrow> string list" where
  "lengthen c [] = [[c]]"
| "lengthen c (x # xs) = (c # x) # xs"

fun split_slash :: "string \<Rightarrow> string list" where
  "split_slash [] = [[]]"
| "split_slash (c # s) = (if c = CHR ''/'' then [] # split_slash s else lengthen c (split_slash s))"

text \<open>The path of a URL, without its query.\<close>

definition url_path :: "string \<Rightarrow> string" where
  "url_path url = takeWhile (\<lambda>c. c \<noteq> CHR ''?'' \<and> c \<noteq> CHR ''#'') url"

text \<open>
  Finding a route: the entries whose next segment is this literal go first, and the entries
  whose next segment is a parameter are tried when none of those leads anywhere.
\<close>

fun after_literal :: "string \<Rightarrow> (seg list \<times> 'a) list \<Rightarrow> (seg list \<times> 'a) list" where
  "after_literal s [] = []"
| "after_literal s ((Lit l # p, v) # t) =
     (if l = s then (p, v) # after_literal s t else after_literal s t)"
| "after_literal s (_ # t) = after_literal s t"

fun after_param :: "(seg list \<times> 'a) list \<Rightarrow> (seg list \<times> 'a) list" where
  "after_param [] = []"
| "after_param ((Id # p, v) # t) = (p, v) # after_param t"
| "after_param ((Text # p, v) # t) = (p, v) # after_param t"
| "after_param (_ # t) = after_param t"

fun find_route :: "(seg list \<times> 'a) list \<Rightarrow> string list \<Rightarrow> 'a option" where
  "find_route t [] = map_of t []"
| "find_route t (s # r) =
     (case find_route (after_literal s t) r of
        Some v \<Rightarrow> Some v
      | None \<Rightarrow> if s = [] then None else find_route (after_param t) r)"

definition resolve :: "string list \<Rightarrow> route option" where
  "resolve segments = find_route (map (\<lambda>(p, verbs). (p, (p, verbs))) api_routes) segments"

fun ids_parse :: "(string \<Rightarrow> bool) \<Rightarrow> seg list \<Rightarrow> string list \<Rightarrow> bool" where
  "ids_parse parses (Id # p) (s # r) = (parses s \<and> ids_parse parses p r)"
| "ids_parse parses (_ # p) (s # r) = ids_parse parses p r"
| "ids_parse parses _ _ = True"

text \<open>
  A request is served when its path is under \<open>/api/v1\<close> (\<open>nest\<close>), the route found takes its
  method, and the segments in the place of ids read as ids.
\<close>

definition under_api :: "string list \<Rightarrow> string list option" where
  "under_api segments =
     (case segments of
        a # b # c # r \<Rightarrow> if a = [] \<and> b = ''api'' \<and> c = ''v1'' then Some r else None
      | _ \<Rightarrow> None)"

definition served_segments :: "(string \<Rightarrow> bool) \<Rightarrow> http_method \<Rightarrow> string list \<Rightarrow> bool" where
  "served_segments parses verb r =
     (case resolve r of
        None \<Rightarrow> False
      | Some (p, verbs) \<Rightarrow> verb \<in> set verbs \<and> ids_parse parses p r)"

definition served :: "(string \<Rightarrow> bool) \<Rightarrow> outcome \<Rightarrow> bool" where
  "served parses c =
     (case c of
        Request url opts \<Rightarrow>
          (case under_api (split_slash (url_path url)) of
             None \<Rightarrow> False
           | Some r \<Rightarrow> served_segments parses (opt_method opts) r)
      | _ \<Rightarrow> True)"


section \<open>Lemmas\<close>

text \<open>A path that fills a pattern with parameters that no literal of the table competes with.\<close>

fun fills :: "(seg list \<times> 'a) list \<Rightarrow> seg list \<Rightarrow> string list \<Rightarrow> bool" where
  "fills t [] [] = True"
| "fills t (Lit l # p) (s # r) = (s = l \<and> fills (after_literal s t) p r)"
| "fills t (_ # p) (s # r) = (s \<noteq> [] \<and> after_literal s t = [] \<and> fills (after_param t) p r)"
| "fills t _ _ = False"

text \<open>Two patterns of one shape, which no table may hold.\<close>

definition shape :: "seg list \<Rightarrow> string option list" where
  "shape p = map (\<lambda>x. case x of Lit l \<Rightarrow> Some l | _ \<Rightarrow> None) p"

lemma after_literal_mem: "(p, v) \<in> set (after_literal s t) \<longleftrightarrow> (Lit s # p, v) \<in> set t"
  by (induction s t rule: after_literal.induct) auto

lemma after_param_mem:
  "(p, v) \<in> set (after_param t) \<longleftrightarrow> (Id # p, v) \<in> set t \<or> (Text # p, v) \<in> set t"
  by (induction t rule: after_param.induct) auto

definition functional :: "(seg list \<times> 'a) list \<Rightarrow> bool" where
  "functional t \<longleftrightarrow>
     (\<forall>p v q w. (p, v) \<in> set t \<longrightarrow> (q, w) \<in> set t \<longrightarrow> shape p = shape q \<longrightarrow> v = w)"

lemma functionalD: "functional t \<Longrightarrow> (p, v) \<in> set t \<Longrightarrow> (q, w) \<in> set t \<Longrightarrow> shape p = shape q \<Longrightarrow> v = w"
  unfolding functional_def by blast

lemma functionalI:
  "(\<And>p v q w. (p, v) \<in> set t \<Longrightarrow> (q, w) \<in> set t \<Longrightarrow> shape p = shape q \<Longrightarrow> v = w) \<Longrightarrow> functional t"
  unfolding functional_def by blast

lemma shape_Cons [simp]:
  "shape (x # p) = (case x of Lit l \<Rightarrow> Some l | _ \<Rightarrow> None) # shape p"
  by (simp add: shape_def)

lemma functional_after_literal: "functional t \<Longrightarrow> functional (after_literal s t)"
  unfolding functional_def after_literal_mem by (metis shape_Cons)

lemma functional_after_param: "functional t \<Longrightarrow> functional (after_param t)"
proof (rule functionalI)
  fix p v q w
  assume t: "functional t" and pq: "shape p = shape q"
    and "(p, v) \<in> set (after_param t)" and "(q, w) \<in> set (after_param t)"
  then obtain a b where "(a # p, v) \<in> set t" "(b # q, w) \<in> set t" "a \<in> {Id, Text}" "b \<in> {Id, Text}"
    by (auto simp: after_param_mem)
  then show "v = w" by (elim functionalD [OF t]) (use pq in auto)
qed

lemma find_route_empty [simp]: "find_route [] r = None"
  by (induction r) auto

lemma find_route_fills:
  "fills t p r \<Longrightarrow> (p, v) \<in> set t \<Longrightarrow> functional t \<Longrightarrow> find_route t r = Some v"
proof (induction t p r rule: fills.induct)
  case (1 t)
  then obtain w where "map_of t [] = Some w" "([], w) \<in> set t"
    by (metis map_of_SomeD not_None_eq weak_map_of_SomeI)
  with 1 show ?case by (auto dest: functionalD)
next
  case (2 t l p s r)
  then have "find_route (after_literal s t) r = Some v"
    by (auto simp: after_literal_mem functional_after_literal)
  then show ?case by simp
qed (simp_all add: after_param_mem functional_after_param)

section \<open>Every route of the table is found\<close>

fun literals :: "seg list \<Rightarrow> string list" where
  "literals [] = []"
| "literals (Lit l # p) = l # literals p"
| "literals (_ # p) = literals p"

definition route_words :: "string list" where
  "route_words = concat (map (literals \<circ> fst) api_routes)"

text \<open>A parameter that is no word of the table is in nobody's way.\<close>

definition fresh :: "string \<Rightarrow> bool" where
  "fresh s \<longleftrightarrow> s \<noteq> [] \<and> s \<notin> set route_words"

fun fresh_fill :: "seg list \<Rightarrow> string list \<Rightarrow> bool" where
  "fresh_fill [] [] = True"
| "fresh_fill (Lit l # p) (s # r) = (s = l \<and> fresh_fill p r)"
| "fresh_fill (_ # p) (s # r) = (fresh s \<and> fresh_fill p r)"
| "fresh_fill _ _ = False"

definition words_within :: "(seg list \<times> 'a) list \<Rightarrow> bool" where
  "words_within t \<longleftrightarrow>
     (\<forall>p v w. (p, v) \<in> set t \<longrightarrow> w \<in> set (literals p) \<longrightarrow> w \<in> set route_words)"

lemma words_within_after:
  assumes "words_within t"
  shows "words_within (after_literal s t)" and "words_within (after_param t)"
  using assms unfolding words_within_def after_literal_mem after_param_mem
  by (metis literals.simps(2) list.set_intros(2), metis literals.simps(3,4))

lemma after_literal_fresh:
  assumes "words_within t" and "fresh s"
  shows "after_literal s t = []"
proof (rule ccontr)
  assume "after_literal s t \<noteq> []"
  then obtain p v where "(p, v) \<in> set (after_literal s t)" by (cases "after_literal s t") auto
  then have "(Lit s # p, v) \<in> set t" by (simp add: after_literal_mem)
  with assms show False unfolding words_within_def fresh_def
    by (metis literals.simps(2) list.set_intros(1))
qed

lemma fresh_fill_fills: "fresh_fill p r \<Longrightarrow> words_within t \<Longrightarrow> fills t p r"
proof (induction p r arbitrary: t rule: fresh_fill.induct)
  case (2 l p s r)
  then show ?case by (simp add: words_within_after)
qed (simp_all add: words_within_after after_literal_fresh, simp_all add: fresh_def)

definition route_table :: "(seg list \<times> route) list" where
  "route_table = map (\<lambda>(p, verbs). (p, (p, verbs))) api_routes"

lemma route_table_mem: "(p, q, verbs) \<in> set route_table \<longleftrightarrow> q = p \<and> (p, verbs) \<in> set api_routes"
  unfolding route_table_def by auto

lemma shapes_distinct: "distinct (map (shape \<circ> fst) api_routes)"
  by code_simp

lemma route_table_functional: "functional route_table"
proof (rule functionalI)
  fix p v q w
  assume "(p, v) \<in> set route_table" "(q, w) \<in> set route_table" and eq: "shape p = shape q"
  then obtain vs ws where v: "v = (p, vs)" "(p, vs) \<in> set api_routes"
    and w: "w = (q, ws)" "(q, ws) \<in> set api_routes"
    by (cases v; cases w) (auto simp: route_table_mem)
  have "(p, vs) = (q, ws)"
    using shapes_distinct v(2) w(2) eq by (metis comp_apply distinct_map fst_conv inj_on_def)
  with v(1) w(1) show "v = w" by simp
qed

lemma route_table_words: "words_within route_table"
  unfolding words_within_def
proof (intro allI impI)
  fix p v w
  assume "(p, v) \<in> set route_table" and "w \<in> set (literals p)"
  then obtain verbs where "(p, verbs) \<in> set api_routes" by (cases v) (auto simp: route_table_mem)
  with \<open>w \<in> set (literals p)\<close> show "w \<in> set route_words"
    unfolding route_words_def by (auto intro!: bexI)
qed

lemma resolve_fills: "fills route_table p r \<Longrightarrow> (p, verbs) \<in> set api_routes \<Longrightarrow> resolve r = Some (p, verbs)"
  unfolding resolve_def route_table_def [symmetric]
  by (rule find_route_fills) (simp_all add: route_table_functional route_table_mem)

lemma routes_all:
  "list_all (\<lambda>(p, verbs). \<forall>r. fresh_fill p r \<longrightarrow> resolve r = Some (p, verbs)) api_routes"
  by (auto simp: list_all_iff intro: resolve_fills fresh_fill_fills route_table_words)

lemma fresh_fill_iff:
  "fresh_fill [] r \<longleftrightarrow> r = []"
  "fresh_fill (Lit l # p) r \<longleftrightarrow> (\<exists>r'. r = l # r' \<and> fresh_fill p r')"
  "fresh_fill (Id # p) r \<longleftrightarrow> (\<exists>s r'. r = s # r' \<and> fresh s \<and> fresh_fill p r')"
  "fresh_fill (Text # p) r \<longleftrightarrow> (\<exists>s r'. r = s # r' \<and> fresh s \<and> fresh_fill p r')"
  by (cases r; auto)+

lemma fresh_fill_all:
  "(\<forall>r. fresh_fill [] r \<longrightarrow> P r) \<longleftrightarrow> P []"
  "(\<forall>r. fresh_fill (Lit l # p) r \<longrightarrow> P r) \<longleftrightarrow> (\<forall>r. fresh_fill p r \<longrightarrow> P (l # r))"
  "(\<forall>r. fresh_fill (Id # p) r \<longrightarrow> P r) \<longleftrightarrow> (\<forall>s. fresh s \<longrightarrow> (\<forall>r. fresh_fill p r \<longrightarrow> P (s # r)))"
  "(\<forall>r. fresh_fill (Text # p) r \<longrightarrow> P r) \<longleftrightarrow> (\<forall>s. fresh s \<longrightarrow> (\<forall>r. fresh_fill p r \<longrightarrow> P (s # r)))"
  unfolding fresh_fill_iff by blast+

lemmas routes_found = routes_all [unfolded api_routes_def list.pred_inject prod.case fresh_fill_all]

text \<open>The routes whose parameter is free text: nothing else of the table begins as they do.\<close>

lemma text_routes:
  "after_literal ''invites'' route_table = [([Text], ([Lit ''invites'', Text], [GET, POST, DELETE]))]"
  "after_literal ''email-domains'' (after_literal ''security'' (after_literal ''admin'' route_table)) =
     [([], ([Lit ''admin'', Lit ''security'', Lit ''email-domains''], [GET, POST])),
      ([Text], ([Lit ''admin'', Lit ''security'', Lit ''email-domains'', Text], [DELETE]))]"
  "after_literal ''jobs'' (after_literal ''system'' (after_literal ''admin'' route_table)) =
     [([], ([Lit ''admin'', Lit ''system'', Lit ''jobs''], [GET])),
      ([Text, Lit ''run''], ([Lit ''admin'', Lit ''system'', Lit ''jobs'', Text, Lit ''run''], [POST]))]"
  by code_simp+

lemma text_routes_found:
  "s \<noteq> [] \<Longrightarrow> resolve [''invites'', s] = Some ([Lit ''invites'', Text], [GET, POST, DELETE])"
  "s \<noteq> [] \<Longrightarrow> resolve [''admin'', ''security'', ''email-domains'', s] =
     Some ([Lit ''admin'', Lit ''security'', Lit ''email-domains'', Text], [DELETE])"
  "s \<noteq> [] \<Longrightarrow> resolve [''admin'', ''system'', ''jobs'', s, ''run''] =
     Some ([Lit ''admin'', Lit ''system'', Lit ''jobs'', Text, Lit ''run''], [POST])"
  unfolding resolve_def route_table_def [symmetric] by (simp_all add: text_routes)

end
