(* ===== verification/Calls.thy ===== *)
theory Calls
  imports Router
begin

text \<open>
  The calls of \<open>Endpoints\<close> meet the table of \<open>Router\<close>: the path of each call is taken apart,
  its route is looked up, and every endpoint but two finds a route of its own.
\<close>

section \<open>Paths\<close>

definition plain :: "string \<Rightarrow> bool" where
  "plain s \<longleftrightarrow> s \<noteq> [] \<and> set s \<inter> {CHR ''/'', CHR ''?'', CHR ''#''} = {}"

lemma split_slash_free:
  "CHR ''/'' \<notin> set a \<Longrightarrow> split_slash (a @ CHR ''/'' # b) = a # split_slash b"
  "CHR ''/'' \<notin> set a \<Longrightarrow> split_slash a = [a]"
  by (induction a) auto

lemma split_slash_plain:
  "plain a \<Longrightarrow> split_slash (a @ CHR ''/'' # b) = a # split_slash b"
  "plain a \<Longrightarrow> split_slash a = [a]"
  by (simp_all add: plain_def split_slash_free)

lemma url_path_Cons:
  "url_path (c # s) = (if c \<noteq> CHR ''?'' \<and> c \<noteq> CHR ''#'' then c # url_path s else [])"
  by (simp add: url_path_def)

lemma url_path_plain: "plain a \<Longrightarrow> url_path (a @ s) = a @ url_path s"
  unfolding url_path_def plain_def by (subst takeWhile_append2) auto

lemma url_path_plain_end: "plain a \<Longrightarrow> url_path a = a"
  using url_path_plain [of a "[]"] by (simp add: url_path_def)

lemma url_path_query: "url_path (query_of ps) = []"
  by (simp add: query_of_def url_path_def)

lemma url_path_Nil: "url_path [] = []"
  by (simp add: url_path_def)

lemmas url_simps =
  url_path_Cons url_path_plain url_path_plain_end url_path_query url_path_Nil
  split_slash_plain

text \<open>Ids as the server writes them.\<close>

definition hex_char :: "char \<Rightarrow> bool" where
  "hex_char c \<longleftrightarrow> c \<in> set ''0123456789abcdefABCDEF''"

definition uuid_text :: "string \<Rightarrow> bool" where
  "uuid_text s \<longleftrightarrow> length s = 36
     \<and> list_all (\<lambda>(i, c). if i \<in> {8, 13, 18, 23} then c = CHR ''-'' else hex_char c) (enumerate 0 s)"

lemma words_short: "list_all (\<lambda>w. length w \<noteq> 36) route_words"
  by code_simp

lemma uuid_fresh: "uuid_text s \<Longrightarrow> fresh s"
  using words_short by (auto simp: uuid_text_def fresh_def list_all_iff)

lemma uuid_chars:
  assumes "uuid_text s" and "c \<in> set s"
  shows "c = CHR ''-'' \<or> hex_char c"
proof -
  from assms(2) obtain i where "i < length s" "s ! i = c" by (auto simp: in_set_conv_nth)
  then have "(i, c) \<in> set (List.enumerate 0 s)" by (auto simp: in_set_enumerate_eq)
  with assms(1) show ?thesis by (auto simp: uuid_text_def list_all_iff split: if_splits)
qed

lemma uuid_plain: "uuid_text s \<Longrightarrow> plain s"
proof -
  assume uuid: "uuid_text s"
  have "\<not> hex_char (CHR ''/'')" "\<not> hex_char (CHR ''?'')" "\<not> hex_char (CHR ''#'')"
    by (simp_all add: hex_char_def)
  with uuid show ?thesis using uuid_chars by (fastforce simp: plain_def uuid_text_def)
qed

lemma plain_nonempty: "plain s \<Longrightarrow> s \<noteq> []"
  by (simp add: plain_def)

text \<open>An encoded component is plain.\<close>

lemma hex_digit_plain: "n < 16 \<Longrightarrow> hex_digit n \<notin> {CHR ''/'', CHR ''?'', CHR ''#''}"
proof -
  assume "n < 16"
  then have "hex_digit n \<in> set ''0123456789ABCDEF''"
    unfolding hex_digit_def by (intro nth_mem) simp
  then show ?thesis by auto
qed

lemma uri_byte_plain: "plain (uri_byte b)"
proof (cases "ascii_alnum b \<or> b \<in> set (js ''-_.!~*'' @ [39, 40, 41])")
  case True
  then have b: "b < 128" "b \<noteq> 47" "b \<noteq> 63" "b \<noteq> 35"
    by (auto simp: ascii_alnum_def is_digit_def is_upper_def is_lower_def js_def)
  have "char_of b \<noteq> c" if "of_char c \<noteq> b" for c
    using that b(1) of_char_of [of b] by auto
  then have "char_of b \<noteq> (CHR ''/'')" "char_of b \<noteq> (CHR ''?'')" "char_of b \<noteq> (CHR ''#'')"
    using b by simp_all
  with True show ?thesis by (simp add: uri_byte_def plain_def)
next
  case False
  then show ?thesis
    using hex_digit_plain [of "b div 16 mod 16"] hex_digit_plain [of "b mod 16"]
    by (simp add: uri_byte_def plain_def percent_def)
qed

lemma plain_concat: "(\<And>x. x \<in> set xs \<Longrightarrow> plain x) \<Longrightarrow> xs \<noteq> [] \<Longrightarrow> plain (concat xs)"
  by (cases xs) (auto simp: plain_def)

lemma scalars_ne: "s \<noteq> [] \<Longrightarrow> scalars s \<noteq> []"
  by (induction s rule: scalars.induct) auto

lemma utf8_ne: "utf8 c \<noteq> []"
  by (simp add: utf8_def)

lemma encodeURIComponent_plain:
  assumes "encodeURIComponent s = Some e" and "s \<noteq> []"
  shows "plain e"
proof -
  have "concat (map utf8 (scalars s)) \<noteq> []"
    using scalars_ne [OF assms(2)] utf8_ne by (cases "scalars s") auto
  moreover have "e = concat (map uri_byte (concat (map utf8 (scalars s))))"
    using assms(1) by (simp add: encodeURIComponent_def split: if_splits)
  ultimately show ?thesis by (auto intro!: plain_concat simp del: concat_eq_Nil_conv simp: uri_byte_plain)
qed

section \<open>Every call\<close>

datatype endpoint =
    Auth auth_endpoint
  | Users "uuid users_endpoint"
  | Communities "uuid communities_endpoint"
  | Rooms "uuid rooms_endpoint"
  | Messages "uuid messages_endpoint"
  | Friends "uuid friends_endpoint"
  | Social "uuid social_endpoint"
  | Media "uuid media_endpoint"
  | Support "uuid support_endpoint"
  | Admin "uuid admin_endpoint"
  | Console "uuid console_endpoint"
  | Security "uuid security_endpoint"
  | Store "uuid store_endpoint"
  | Emojis "uuid emojis_endpoint"

primrec endpoint_call :: "string option \<Rightarrow> endpoint \<Rightarrow> outcome" where
  "endpoint_call token (Auth e) = auth_call token e"
| "endpoint_call token (Users e) = users_call token e"
| "endpoint_call token (Communities e) = communities_call token e"
| "endpoint_call token (Rooms e) = rooms_call token e"
| "endpoint_call token (Messages e) = messages_call token e"
| "endpoint_call token (Friends e) = friends_call token e"
| "endpoint_call token (Social e) = social_call token e"
| "endpoint_call token (Media e) = media_call token e"
| "endpoint_call token (Support e) = support_call token e"
| "endpoint_call token (Admin e) = admin_call token e"
| "endpoint_call token (Console e) = console_call token e"
| "endpoint_call token (Security e) = security_call token e"
| "endpoint_call token (Store e) = store_call token e"
| "endpoint_call token (Emojis e) = emojis_call token e"

primrec endpoint_ids :: "endpoint \<Rightarrow> uuid set" where
  "endpoint_ids (Auth e) = {}"
| "endpoint_ids (Users e) = ids_users e"
| "endpoint_ids (Communities e) = ids_communities e"
| "endpoint_ids (Rooms e) = ids_rooms e"
| "endpoint_ids (Messages e) = ids_messages e"
| "endpoint_ids (Friends e) = ids_friends e"
| "endpoint_ids (Social e) = ids_social e"
| "endpoint_ids (Media e) = ids_media e"
| "endpoint_ids (Support e) = ids_support e"
| "endpoint_ids (Admin e) = ids_admin e"
| "endpoint_ids (Console e) = ids_console e"
| "endpoint_ids (Security e) = ids_security e"
| "endpoint_ids (Store e) = ids_store e"
| "endpoint_ids (Emojis e) = ids_emojis e"

text \<open>
  The arguments the caller answers for: ids are ids, an invite code has no character of URL
  syntax, and a domain or a job's name is not empty.
\<close>

definition arguments_fit :: "endpoint \<Rightarrow> bool" where
  "arguments_fit e \<longleftrightarrow> (\<forall>i \<in> endpoint_ids e. uuid_text i)
     \<and> (\<forall>c. e = Communities (Communities_previewInvite c) \<or> e = Communities (Communities_redeemInvite c)
            \<or> e = Communities (Communities_revokeInvite c) \<longrightarrow> plain c)
     \<and> (\<forall>d. e = Security (Security_unblockEmailDomain d) \<or> e = Security (Security_runJob d) \<longrightarrow> d \<noteq> [])"

definition is_bulk :: "endpoint \<Rightarrow> bool" where
  "is_bulk e \<longleftrightarrow> (\<exists>us r. e = Admin (Admin_bulkSuspendUsers us r))
     \<or> (\<exists>us. e = Admin (Admin_bulkReinstateUsers us))"

lemmas served_simps =
  served_def under_api_def served_segments_def default_options_def routes_found text_routes_found
  url_simps uuid_plain uuid_fresh plain_nonempty

lemma auth_served: "served parses (auth_call token e)"
  by (cases e) (simp_all add: served_simps)

lemma users_served:
  assumes "\<And>s. uuid_text s \<Longrightarrow> parses s" and "\<forall>i \<in> ids_users e. uuid_text i"
  shows "served parses (users_call token e)"
  using assms by (cases e) (simp_all add: served_simps)

lemma rooms_served:
  assumes "\<And>s. uuid_text s \<Longrightarrow> parses s" and "\<forall>i \<in> ids_rooms e. uuid_text i"
  shows "served parses (rooms_call token e)"
  using assms by (cases e) (simp_all add: served_simps)

lemma messages_served:
  assumes "\<And>s. uuid_text s \<Longrightarrow> parses s" and "\<forall>i \<in> ids_messages e. uuid_text i"
  shows "served parses (messages_call token e)"
  using assms by (cases e) (simp_all add: served_simps)

lemma friends_served:
  assumes "\<And>s. uuid_text s \<Longrightarrow> parses s" and "\<forall>i \<in> ids_friends e. uuid_text i"
  shows "served parses (friends_call token e)"
  using assms by (cases e) (simp_all add: served_simps)

lemma media_served:
  assumes "\<And>s. uuid_text s \<Longrightarrow> parses s" and "\<forall>i \<in> ids_media e. uuid_text i"
  shows "served parses (media_call token e)"
  using assms by (cases e) (simp_all add: served_simps)

lemma support_served:
  assumes "\<And>s. uuid_text s \<Longrightarrow> parses s" and "\<forall>i \<in> ids_support e. uuid_text i"
  shows "served parses (support_call token e)"
  using assms by (cases e) (simp_all add: served_simps)

lemma console_served:
  assumes "\<And>s. uuid_text s \<Longrightarrow> parses s" and "\<forall>i \<in> ids_console e. uuid_text i"
  shows "served parses (console_call token e)"
  using assms by (cases e) (simp_all add: served_simps)

lemma store_served:
  assumes "\<And>s. uuid_text s \<Longrightarrow> parses s" and "\<forall>i \<in> ids_store e. uuid_text i"
  shows "served parses (store_call token e)"
  using assms by (cases e) (simp_all add: served_simps)

lemma emojis_served:
  assumes "\<And>s. uuid_text s \<Longrightarrow> parses s" and "\<forall>i \<in> ids_emojis e. uuid_text i"
  shows "served parses (emojis_call token e)"
  using assms by (cases e) (simp_all add: served_simps)

lemma social_served:
  assumes "\<And>s. uuid_text s \<Longrightarrow> parses s" and "\<forall>i \<in> ids_social e. uuid_text i"
  shows "served parses (social_call token e)"
  using assms by (cases e) (simp_all add: served_simps split: option.split list.split)

lemma communities_served:
  assumes "\<And>s. uuid_text s \<Longrightarrow> parses s" and "\<forall>i \<in> ids_communities e. uuid_text i"
    and "\<And>c. e = Communities_previewInvite c \<or> e = Communities_redeemInvite c
               \<or> e = Communities_revokeInvite c \<Longrightarrow> plain c"
  shows "served parses (communities_call token e)"
  using assms by (cases e) (simp_all add: served_simps)

lemma security_served:
  assumes "\<And>s. uuid_text s \<Longrightarrow> parses s" and "\<forall>i \<in> ids_security e. uuid_text i"
    and "\<And>d. e = Security_unblockEmailDomain d \<or> e = Security_runJob d \<Longrightarrow> d \<noteq> []"
  shows "served parses (security_call token e)"
proof (cases e)
  case (Security_unblockEmailDomain d)
  with assms(3) [of d] encodeURIComponent_plain [of d] show ?thesis
    by (cases "encodeURIComponent d") (simp_all add: served_simps)
next
  case (Security_runJob d)
  with assms(3) [of d] encodeURIComponent_plain [of d] show ?thesis
    by (cases "encodeURIComponent d") (simp_all add: served_simps)
qed (use assms(1,2) in \<open>simp_all add: served_simps\<close>)

lemma bulk_fresh: "fresh ''bulk''" "plain ''bulk''"
  unfolding fresh_def route_words_def plain_def by code_simp+

lemma admin_served:
  assumes "\<And>s. uuid_text s \<Longrightarrow> parses s" and "\<not> parses ''bulk''" and "\<forall>i \<in> ids_admin e. uuid_text i"
  shows "served parses (admin_call token e) \<longleftrightarrow> \<not> is_bulk (Admin e)"
  using assms by (cases e) (simp_all add: served_simps bulk_fresh is_bulk_def)

lemma endpoint_served:
  assumes "\<And>s. uuid_text s \<Longrightarrow> parses s" and "\<not> parses ''bulk''" and "arguments_fit e"
  shows "served parses (endpoint_call token e) \<longleftrightarrow> \<not> is_bulk e"
proof (cases e)
  case (Communities c)
  with assms show ?thesis by (auto simp: arguments_fit_def is_bulk_def intro!: communities_served)
next
  case (Security c)
  with assms show ?thesis by (auto simp: arguments_fit_def is_bulk_def intro!: security_served)
qed (use assms in \<open>simp_all add: arguments_fit_def is_bulk_def auth_served users_served rooms_served
  messages_served friends_served social_served media_served support_served admin_served
  console_served store_served emojis_served\<close>)

section \<open>Properties\<close>

text \<open>
  C23. Client and server speak of the same API: every endpoint of the client, called with ids
  that are ids, asks for a path and method that the route table serves, with an id in every
  place where the route takes one, whatever the other arguments are. Except the two bulk
  calls of the console: \<open>/admin/users/bulk/suspend\<close> and \<open>/admin/users/bulk/reinstate\<close> have
  handlers but no routes, and are taken for the suspension of an account called \<open>bulk\<close>.
\<close>

theorem every_call_is_served:
  assumes "\<And>s. uuid_text s \<Longrightarrow> parses s" and "\<not> parses ''bulk''" and "arguments_fit e"
  shows "served parses (endpoint_call token e) \<longleftrightarrow> \<not> is_bulk e"
  using assms by (rule endpoint_served)

theorem every_call_is_served_witness:
  "served uuid_text (endpoint_call (Some ''t'') (Rooms (Rooms_join ''01234567-89ab-cdef-0123-456789abcdef'')))
   \<and> \<not> served uuid_text (endpoint_call None (Admin (Admin_bulkSuspendUsers [] [])))"
proof -
  let ?j = "Rooms (Rooms_join ''01234567-89ab-cdef-0123-456789abcdef'')"
  let ?b = "Admin (Admin_bulkSuspendUsers [] [])"
  have bulk: "\<not> uuid_text ''bulk''" by (simp add: uuid_text_def)
  have "uuid_text ''01234567-89ab-cdef-0123-456789abcdef''" by code_simp
  then have "arguments_fit ?j" and "arguments_fit ?b" by (simp_all add: arguments_fit_def)
  moreover have "\<not> is_bulk ?j" "is_bulk ?b" by (auto simp: is_bulk_def)
  ultimately show ?thesis
    using every_call_is_served [of uuid_text ?j "Some ''t''"] every_call_is_served [of uuid_text ?b None] bulk
    by simp
qed

end
