(* ===== verification/Queries.thy ===== *)
theory Queries
  imports Calls QueryClient "HOL-Library.Extended_Nat" "HOL-Library.List_Lexorder" "HOL-Library.Char_ord"
begin

text \<open>
  The query layer the phone app reads and writes the server through, the files of
  \<open>packages/shared/src/queries\<close>: one definition per hook, as the query or mutation it hands
  to the cache (\<open>useQuery\<close>, \<open>useMutation\<close>). A query is its key, what its function asks of
  the endpoints, whether it runs at all, and the options it sets; a mutation is the call it
  makes and what it does to the cache when the call has answered. Responses are JSON.
\<close>

section \<open>Queries and mutations\<close>

text \<open>
  What a query or mutation function does: throw, or reject, before asking anything; ask one
  endpoint with a token; or ask for several entries of the cache by their keys, dropping the
  ones that fail.
\<close>

datatype fetch =
    Throws string
  | Asks "string option" endpoint
  | Asks_each "(query_key \<times> string option \<times> endpoint) list"

text \<open>
  What is done to the cache: entries under a key are marked stale, an entry is written
  through an updater (\<open>setQueryData\<close>), the entries under a key are (\<open>setQueriesData\<close>), entries are
  dropped, or the cache is emptied.
\<close>

datatype effect =
    Invalidate query_key
  | Write query_key "json option \<Rightarrow> json option"
  | Write_under query_key "json option \<Rightarrow> json option"
  | Remove query_key
  | Clear

record cached_query =
  q_key :: query_key
  q_fn :: fetch
  q_enabled :: bool
  q_writes :: "json \<Rightarrow> effect list"
  q_next :: "json \<Rightarrow> json option"
  q_staleTime :: "enat option"
  q_interval :: "nat option"
  q_onFocus :: bool
  q_onReconnect :: bool
  q_retry :: bool

record mutation =
  m_fn :: fetch
  m_success :: "json \<Rightarrow> effect list"
  m_settled :: "effect list"

text \<open>The options left out take the client's defaults.\<close>

definition useQuery :: "query_key \<Rightarrow> fetch \<Rightarrow> bool \<Rightarrow> cached_query" where
  "useQuery key fn enabled =
     \<lparr>q_key = key, q_fn = fn, q_enabled = enabled, q_writes = (\<lambda>_. []), q_next = (\<lambda>_. None),
      q_staleTime = None, q_interval = None, q_onFocus = True, q_onReconnect = True, q_retry = True\<rparr>"

definition useMutation :: "fetch \<Rightarrow> effect list \<Rightarrow> mutation" where
  "useMutation fn effects = \<lparr>m_fn = fn, m_success = (\<lambda>_. effects), m_settled = []\<rparr>"

definition require :: "bool \<Rightarrow> string \<Rightarrow> fetch \<Rightarrow> fetch" where
  "require c message fn = (if c then fn else Throws message)"

text \<open>Fields of a response; a response is not \<open>undefined\<close>, a field of it may be.\<close>

definition json_field :: "string \<Rightarrow> json \<Rightarrow> json option" where
  "json_field name v = (case v of J_object fs \<Rightarrow> map_of fs name | _ \<Rightarrow> None)"

definition json_id :: "json option \<Rightarrow> uuid" where
  "json_id v = (case v of Some (J_string s) \<Rightarrow> map char_of s | _ \<Rightarrow> ''undefined'')"

text \<open>\<open>value ?? undefined\<close>\<close>

definition nullish :: "json option \<Rightarrow> json option" where
  "nullish v = (if v = Some J_null then None else v)"

text \<open>\<open>setQueryData(key, value)\<close>, which does nothing when the value is \<open>undefined\<close>.\<close>

abbreviation put :: "query_key \<Rightarrow> json option \<Rightarrow> effect" where
  "put key v \<equiv> Write key (\<lambda>_. v)"

section \<open>Keys\<close>

definition queryKeys_auth_all :: query_key where
  "queryKeys_auth_all = [K ''auth'']"

definition queryKeys_auth_config :: query_key where
  "queryKeys_auth_config = queryKeys_auth_all @ [K ''config'']"

definition queryKeys_auth_me :: query_key where
  "queryKeys_auth_me = queryKeys_auth_all @ [K ''me'']"

definition queryKeys_users_all :: query_key where
  "queryKeys_users_all = [K ''users'']"

definition queryKeys_users_detail :: "uuid \<Rightarrow> query_key" where
  "queryKeys_users_detail i = queryKeys_users_all @ [K ''detail'', K i]"

definition queryKeys_users_blocked :: query_key where
  "queryKeys_users_blocked = queryKeys_users_all @ [K ''blocked'']"

definition queryKeys_users_batch :: "uuid list \<Rightarrow> query_key" where
  "queryKeys_users_batch ids = queryKeys_users_all @ [K ''batch'', K (join_with '','' (sort ids))]"

definition queryKeys_communities_all :: query_key where
  "queryKeys_communities_all = [K ''communities'']"

definition queryKeys_communities_lists :: query_key where
  "queryKeys_communities_lists = queryKeys_communities_all @ [K ''list'']"

definition queryKeys_communities_templates :: query_key where
  "queryKeys_communities_templates = queryKeys_communities_all @ [K ''templates'']"

definition queryKeys_communities_detail :: "uuid \<Rightarrow> query_key" where
  "queryKeys_communities_detail i = queryKeys_communities_all @ [K ''detail'', K i]"

definition queryKeys_communities_members :: "uuid \<Rightarrow> query_key" where
  "queryKeys_communities_members i = queryKeys_communities_detail i @ [K ''members'']"

definition queryKeys_communities_roles :: "uuid \<Rightarrow> query_key" where
  "queryKeys_communities_roles i = queryKeys_communities_detail i @ [K ''roles'']"

definition queryKeys_communities_invites :: "uuid \<Rightarrow> query_key" where
  "queryKeys_communities_invites i = queryKeys_communities_detail i @ [K ''invites'']"

definition queryKeys_communities_invitePreview :: "string \<Rightarrow> query_key" where
  "queryKeys_communities_invitePreview invite = queryKeys_communities_all @ [K ''invitePreview'', K invite]"

definition queryKeys_rooms_all :: query_key where
  "queryKeys_rooms_all = [K ''rooms'']"

definition queryKeys_rooms_lists :: "uuid option \<Rightarrow> query_key" where
  "queryKeys_rooms_lists communityId =
     queryKeys_rooms_all @ [K ''list'', Params [(''communityId'', id_part communityId)]]"

definition queryKeys_rooms_detail :: "uuid \<Rightarrow> query_key" where
  "queryKeys_rooms_detail i = queryKeys_rooms_all @ [K ''detail'', K i]"

definition queryKeys_rooms_participants :: "uuid \<Rightarrow> query_key" where
  "queryKeys_rooms_participants i = queryKeys_rooms_detail i @ [K ''participants'']"

definition queryKeys_rooms_discovery :: "jstr option \<Rightarrow> query_key" where
  "queryKeys_rooms_discovery category =
     queryKeys_rooms_all @ [K ''discovery'', Params [(''category'', text_part category)]]"

definition queryKeys_rooms_feed :: "jstr option \<Rightarrow> query_key" where
  "queryKeys_rooms_feed category =
     queryKeys_rooms_all @ [K ''feed'', Params [(''category'', text_part category)]]"

definition queryKeys_rooms_mine :: query_key where
  "queryKeys_rooms_mine = queryKeys_rooms_all @ [K ''mine'']"

definition queryKeys_emojis_all :: query_key where
  "queryKeys_emojis_all = [K ''emojis'']"

definition queryKeys_emojis_forCommunity :: "uuid \<Rightarrow> query_key" where
  "queryKeys_emojis_forCommunity communityId = queryKeys_emojis_all @ [K ''community'', K communityId]"

definition queryKeys_emojis_forRoom :: "uuid \<Rightarrow> query_key" where
  "queryKeys_emojis_forRoom roomId = queryKeys_emojis_all @ [K ''room'', K roomId]"

definition queryKeys_gifs_all :: query_key where
  "queryKeys_gifs_all = [K ''gifs'']"

definition queryKeys_gifs_trending :: query_key where
  "queryKeys_gifs_trending = queryKeys_gifs_all @ [K ''trending'']"

definition queryKeys_gifs_search :: "jstr \<Rightarrow> query_key" where
  "queryKeys_gifs_search query = queryKeys_gifs_all @ [K ''search'', Str query]"

definition queryKeys_messages_all :: query_key where
  "queryKeys_messages_all = [K ''messages'']"

definition queryKeys_messages_list :: "uuid \<Rightarrow> query_key" where
  "queryKeys_messages_list roomId = queryKeys_messages_all @ [K ''room'', K roomId]"

definition queryKeys_messages_pins :: "uuid \<Rightarrow> query_key" where
  "queryKeys_messages_pins roomId = queryKeys_messages_list roomId @ [K ''pins'']"

definition queryKeys_messages_search :: "jstr \<Rightarrow> uuid option \<Rightarrow> query_key" where
  "queryKeys_messages_search query roomId =
     queryKeys_messages_all @ [K ''search'', Params [(''query'', Str query), (''roomId'', id_part roomId)]]"

definition queryKeys_messages_unread :: query_key where
  "queryKeys_messages_unread = queryKeys_messages_all @ [K ''unread'']"

definition queryKeys_friends_all :: query_key where
  "queryKeys_friends_all = [K ''friends'']"

definition queryKeys_friends_list :: query_key where
  "queryKeys_friends_list = queryKeys_friends_all @ [K ''list'']"

definition queryKeys_notifications_all :: query_key where
  "queryKeys_notifications_all = [K ''notifications'']"

definition queryKeys_notifications_list :: query_key where
  "queryKeys_notifications_list = queryKeys_notifications_all @ [K ''list'']"

definition queryKeys_economy_all :: query_key where
  "queryKeys_economy_all = [K ''economy'']"

definition queryKeys_economy_balance :: query_key where
  "queryKeys_economy_balance = queryKeys_economy_all @ [K ''balance'']"

definition queryKeys_recommendations_all :: query_key where
  "queryKeys_recommendations_all = [K ''recommendations'']"

definition queryKeys_recommendations_rooms :: "jstr option \<Rightarrow> query_key" where
  "queryKeys_recommendations_rooms category =
     queryKeys_recommendations_all
       @ [K ''rooms'', Str (case category of Some c \<Rightarrow> c | None \<Rightarrow> js ''all'')]"

definition queryKeys_recommendations_people :: query_key where
  "queryKeys_recommendations_people = queryKeys_recommendations_all @ [K ''people'']"

definition queryKeys_recommendations_communities :: query_key where
  "queryKeys_recommendations_communities = queryKeys_recommendations_all @ [K ''communities'']"

definition queryKeys_broadcasts_all :: query_key where
  "queryKeys_broadcasts_all = [K ''broadcasts'']"

definition queryKeys_broadcasts_active :: query_key where
  "queryKeys_broadcasts_active = queryKeys_broadcasts_all @ [K ''active'']"

definition queryKeys_store_all :: query_key where
  "queryKeys_store_all = [K ''store'']"

definition queryKeys_store_items :: query_key where
  "queryKeys_store_items = queryKeys_store_all @ [K ''items'']"

definition queryKeys_store_inventory :: query_key where
  "queryKeys_store_inventory = queryKeys_store_all @ [K ''inventory'']"

definition queryKeys_store_equipped :: query_key where
  "queryKeys_store_equipped = queryKeys_store_all @ [K ''equipped'']"

definition queryKeys_bff_all :: query_key where
  "queryKeys_bff_all = [K ''bff'']"

definition queryKeys_bff_roomSession :: "uuid \<Rightarrow> query_key" where
  "queryKeys_bff_roomSession i = queryKeys_bff_all @ [K ''room'', K i, K ''session'']"

definition queryKeys_bff_meOverview :: query_key where
  "queryKeys_bff_meOverview = queryKeys_bff_all @ [K ''me'', K ''overview'']"

definition queryKeys_bff_communityOverview :: "uuid \<Rightarrow> query_key" where
  "queryKeys_bff_communityOverview i = queryKeys_communities_detail i @ [K ''overview'']"

definition queryKeys_bff_socialOverview :: query_key where
  "queryKeys_bff_socialOverview = queryKeys_friends_all @ [K ''overview'']"

lemmas queryKeys_defs =
  queryKeys_auth_all_def queryKeys_auth_config_def queryKeys_auth_me_def queryKeys_users_all_def
  queryKeys_users_detail_def queryKeys_users_blocked_def
  queryKeys_communities_all_def queryKeys_communities_lists_def queryKeys_communities_templates_def
  queryKeys_communities_detail_def queryKeys_communities_members_def queryKeys_communities_roles_def
  queryKeys_communities_invites_def queryKeys_communities_invitePreview_def queryKeys_rooms_all_def
  queryKeys_rooms_lists_def queryKeys_rooms_detail_def queryKeys_rooms_participants_def
  queryKeys_rooms_discovery_def queryKeys_rooms_feed_def queryKeys_rooms_mine_def
  queryKeys_emojis_all_def queryKeys_emojis_forCommunity_def queryKeys_emojis_forRoom_def
  queryKeys_gifs_all_def queryKeys_gifs_trending_def queryKeys_gifs_search_def
  queryKeys_messages_all_def queryKeys_messages_list_def queryKeys_messages_pins_def
  queryKeys_messages_search_def queryKeys_messages_unread_def queryKeys_friends_all_def
  queryKeys_friends_list_def queryKeys_notifications_all_def queryKeys_notifications_list_def
  queryKeys_economy_all_def queryKeys_economy_balance_def queryKeys_recommendations_all_def
  queryKeys_recommendations_rooms_def queryKeys_recommendations_people_def
  queryKeys_recommendations_communities_def queryKeys_broadcasts_all_def
  queryKeys_broadcasts_active_def queryKeys_store_all_def queryKeys_store_items_def
  queryKeys_store_inventory_def queryKeys_store_equipped_def queryKeys_bff_all_def
  queryKeys_bff_roomSession_def queryKeys_bff_meOverview_def queryKeys_bff_communityOverview_def
  queryKeys_bff_socialOverview_def

end
