(* ===== verification/SharedHooks.thy ===== *)
theory SharedHooks
  imports Queries
begin

text \<open>
  The hooks of \<open>packages/shared/src/queries\<close>, in the order of its files. A hook's arguments
  come first, then those its mutation is called with. \<open>None\<close> stands for a missing id or
  token (\<open>null\<close> or \<open>undefined\<close>), and an empty one is as good as missing.
\<close>

section \<open>auth.queries.ts\<close>

definition useAuthConfigQuery :: cached_query where
  "useAuthConfigQuery =
     useQuery queryKeys_auth_config (Asks None (Auth Auth_config)) True\<lparr>q_staleTime := Some \<infinity>\<rparr>"

definition useCurrentUserQuery :: "string option \<Rightarrow> cached_query" where
  "useCurrentUserQuery token =
     useQuery queryKeys_auth_me (require (truthy token) ''No token'' (Asks token (Auth Auth_me)))
       (truthy token)\<lparr>q_staleTime := Some 300000\<rparr>"

definition useLoginMutation :: "json \<Rightarrow> mutation" where
  "useLoginMutation input = useMutation (Asks None (Auth (Auth_login input))) [Invalidate queryKeys_auth_all]"

definition useRegisterMutation :: "json \<Rightarrow> mutation" where
  "useRegisterMutation input =
     useMutation (Asks None (Auth (Auth_register input))) [Invalidate queryKeys_auth_all]"

definition useLogoutMutation :: "string \<Rightarrow> mutation" where
  "useLogoutMutation refreshToken =
     useMutation (Asks None (Auth (Auth_logout refreshToken))) []\<lparr>m_settled := [Clear]\<rparr>"

text \<open>
  \<open>old ? {...old, profile} : old\<close>: a field written over, or added when it was not there.
\<close>

definition json_falsy :: "json \<Rightarrow> bool" where
  "json_falsy v \<longleftrightarrow> v \<in> {J_null, J_bool False, J_number 0, J_string []}"

definition json_members :: "json \<Rightarrow> (string \<times> json) list" where
  "json_members v = (case v of J_object fs \<Rightarrow> fs | _ \<Rightarrow> [])"

definition spread_field :: "string \<Rightarrow> json \<Rightarrow> json \<Rightarrow> json" where
  "spread_field name v old = J_object (AList.update name v (json_members old))"

definition with_field :: "string \<Rightarrow> json \<Rightarrow> json \<Rightarrow> json" where
  "with_field name v old = (if json_falsy old then old else spread_field name v old)"

definition useUpdateProfileMutation :: "string option \<Rightarrow> json \<Rightarrow> mutation" where
  "useUpdateProfileMutation token input =
     useMutation (require (truthy token) ''Unauthenticated'' (Asks token (Auth (Auth_updateProfile input)))) []
       \<lparr>m_success := \<lambda>updatedProfile.
          [Write queryKeys_auth_me (map_option (with_field ''profile'' updatedProfile)),
           Invalidate queryKeys_auth_me]\<rparr>"

section \<open>communities.queries.ts\<close>

definition useCommunitiesQuery :: "string option \<Rightarrow> cached_query" where
  "useCommunitiesQuery token =
     useQuery queryKeys_communities_lists
       (require (truthy token) ''No token'' (Asks token (Communities Communities_list))) (truthy token)"

definition useCommunityQuery :: "string option \<Rightarrow> uuid option \<Rightarrow> cached_query" where
  "useCommunityQuery token communityId =
     useQuery (if truthy communityId then queryKeys_communities_detail (the communityId)
               else [K ''communities'', K ''detail'', Null])
       (require (truthy token \<and> truthy communityId) ''Missing token or communityId''
          (Asks token (Communities (Communities_get (the communityId)))))
       (truthy token \<and> truthy communityId)"

definition useCommunityMembersQuery :: "string option \<Rightarrow> uuid option \<Rightarrow> nat \<Rightarrow> cached_query" where
  "useCommunityMembersQuery token communityId limit =
     useQuery (if truthy communityId then queryKeys_communities_members (the communityId)
               else [K ''communities'', K ''members'', Null])
       (require (truthy token \<and> truthy communityId) ''Missing token or communityId''
          (Asks token (Communities (Communities_members (the communityId) limit))))
       (truthy token \<and> truthy communityId)"

definition useCommunityRolesQuery :: "string option \<Rightarrow> uuid option \<Rightarrow> cached_query" where
  "useCommunityRolesQuery token communityId =
     useQuery (if truthy communityId then queryKeys_communities_roles (the communityId)
               else [K ''communities'', K ''roles'', Null])
       (require (truthy token \<and> truthy communityId) ''Missing token or communityId''
          (Asks token (Communities (Communities_roles (the communityId)))))
       (truthy token \<and> truthy communityId)"

definition useCreateCommunityMutation :: "string option \<Rightarrow> json \<Rightarrow> mutation" where
  "useCreateCommunityMutation token input =
     useMutation (require (truthy token) ''Unauthenticated'' (Asks token (Communities (Communities_create input))))
       [Invalidate queryKeys_communities_lists]"

definition useJoinCommunityMutation :: "string option \<Rightarrow> uuid \<Rightarrow> mutation" where
  "useJoinCommunityMutation token communityId =
     useMutation (require (truthy token) ''Unauthenticated'' (Asks token (Communities (Communities_join communityId))))
       [Invalidate queryKeys_communities_lists, Invalidate (queryKeys_communities_detail communityId)]"

definition useLeaveCommunityMutation :: "string option \<Rightarrow> uuid \<Rightarrow> uuid \<Rightarrow> mutation" where
  "useLeaveCommunityMutation token communityId userId =
     useMutation (require (truthy token) ''Unauthenticated''
         (Asks token (Communities (Communities_leave communityId userId))))
       [Invalidate queryKeys_communities_lists, Invalidate (queryKeys_communities_detail communityId)]"

definition useUpdateCommunityMutation :: "string option \<Rightarrow> uuid \<Rightarrow> json \<Rightarrow> mutation" where
  "useUpdateCommunityMutation token communityId input =
     useMutation (require (truthy token) ''Unauthenticated''
         (Asks token (Communities (Communities_update communityId input))))
       [Invalidate queryKeys_communities_lists, Invalidate (queryKeys_communities_detail communityId)]"

definition useDeleteCommunityMutation :: "string option \<Rightarrow> uuid \<Rightarrow> mutation" where
  "useDeleteCommunityMutation token communityId =
     useMutation (require (truthy token) ''Unauthenticated''
         (Asks token (Communities (Communities_delete communityId))))
       [Invalidate queryKeys_communities_all]"

definition useCreateRoleMutation :: "string option \<Rightarrow> uuid \<Rightarrow> json \<Rightarrow> mutation" where
  "useCreateRoleMutation token communityId input =
     useMutation (require (truthy token) ''Unauthenticated''
         (Asks token (Communities (Communities_createRole communityId input))))
       [Invalidate (queryKeys_communities_roles communityId), Invalidate (queryKeys_communities_detail communityId)]"

definition useUpdateRoleMutation :: "string option \<Rightarrow> uuid \<Rightarrow> uuid \<Rightarrow> json \<Rightarrow> mutation" where
  "useUpdateRoleMutation token communityId roleId input =
     useMutation (require (truthy token) ''Unauthenticated''
         (Asks token (Communities (Communities_updateRole communityId roleId input))))
       [Invalidate (queryKeys_communities_roles communityId), Invalidate (queryKeys_communities_detail communityId)]"

definition useAssignRoleMutation :: "string option \<Rightarrow> uuid \<Rightarrow> uuid \<Rightarrow> uuid \<Rightarrow> mutation" where
  "useAssignRoleMutation token communityId userId roleId =
     useMutation (require (truthy token) ''Unauthenticated''
         (Asks token (Communities (Communities_assignRole communityId userId roleId))))
       [Invalidate (queryKeys_communities_members communityId), Invalidate (queryKeys_communities_detail communityId)]"

definition useRemoveRoleMutation :: "string option \<Rightarrow> uuid \<Rightarrow> uuid \<Rightarrow> uuid \<Rightarrow> mutation" where
  "useRemoveRoleMutation token communityId userId roleId =
     useMutation (require (truthy token) ''Unauthenticated''
         (Asks token (Communities (Communities_removeRole communityId userId roleId))))
       [Invalidate (queryKeys_communities_members communityId), Invalidate (queryKeys_communities_detail communityId)]"

definition useCommunityInvitesQuery :: "string option \<Rightarrow> uuid option \<Rightarrow> cached_query" where
  "useCommunityInvitesQuery token communityId =
     useQuery (if truthy communityId then queryKeys_communities_invites (the communityId)
               else [K ''communities'', K ''invites'', Null])
       (require (truthy token \<and> truthy communityId) ''Missing token or communityId''
          (Asks token (Communities (Communities_listInvites (the communityId)))))
       (truthy token \<and> truthy communityId)"

definition useCreateInviteMutation :: "string option \<Rightarrow> uuid option \<Rightarrow> json \<Rightarrow> mutation" where
  "useCreateInviteMutation token communityId input =
     useMutation (require (truthy token \<and> truthy communityId) ''Missing token or communityId''
         (Asks token (Communities (Communities_createInvite (the communityId) input))))
       (if truthy communityId then [Invalidate (queryKeys_communities_invites (the communityId))] else [])"

definition useRevokeInviteMutation :: "string option \<Rightarrow> uuid option \<Rightarrow> string \<Rightarrow> mutation" where
  "useRevokeInviteMutation token communityId invite =
     useMutation (require (truthy token) ''Unauthenticated'' (Asks token (Communities (Communities_revokeInvite invite))))
       ((if truthy communityId then [Invalidate (queryKeys_communities_invites (the communityId))] else [])
         @ [Invalidate queryKeys_communities_all])"

definition useInvitePreviewQuery :: "string option \<Rightarrow> string option \<Rightarrow> cached_query" where
  "useInvitePreviewQuery token invite =
     useQuery (if truthy invite then queryKeys_communities_invitePreview (the invite)
               else [K ''communities'', K ''invitePreview'', Null])
       (require (truthy token \<and> truthy invite) ''Missing token or code''
          (Asks token (Communities (Communities_previewInvite (the invite)))))
       (truthy token \<and> truthy invite)\<lparr>q_retry := False\<rparr>"

definition useRedeemInviteMutation :: "string option \<Rightarrow> string \<Rightarrow> mutation" where
  "useRedeemInviteMutation token invite =
     useMutation (require (truthy token) ''Unauthenticated'' (Asks token (Communities (Communities_redeemInvite invite)))) []
       \<lparr>m_success := \<lambda>community.
          [Invalidate queryKeys_communities_lists,
           Invalidate (queryKeys_communities_detail (json_id (json_field ''id'' community))),
           Invalidate queryKeys_bff_meOverview]\<rparr>"

section \<open>rooms.queries.ts\<close>

definition useRoomsQuery :: "string option \<Rightarrow> uuid option \<Rightarrow> cached_query" where
  "useRoomsQuery token communityId =
     useQuery (queryKeys_rooms_lists communityId)
       (require (truthy token) ''Unauthenticated''
          (Asks token (Rooms (if truthy communityId then Rooms_list (the communityId) else Rooms_mine))))
       (truthy token)"

definition useRoomQuery :: "string option \<Rightarrow> uuid option \<Rightarrow> cached_query" where
  "useRoomQuery token roomId =
     useQuery (if truthy roomId then queryKeys_rooms_detail (the roomId) else [K ''rooms'', K ''detail'', Null])
       (require (truthy token \<and> truthy roomId) ''Missing token or roomId''
          (Asks token (Rooms (Rooms_get (the roomId)))))
       (truthy token \<and> truthy roomId)"

definition useDiscoveryQuery :: "string option \<Rightarrow> jstr option \<Rightarrow> nat option \<Rightarrow> cached_query" where
  "useDiscoveryQuery token category limit =
     useQuery (queryKeys_rooms_discovery category)
       (require (truthy token) ''Missing token'' (Asks token (Rooms (Rooms_discovery category limit))))
       (truthy token)\<lparr>q_staleTime := Some 30000\<rparr>"

text \<open>A page of an infinite query; \<open>pageParam\<close> is 0 for the first.\<close>

definition useFeedQuery :: "string option \<Rightarrow> jstr option \<Rightarrow> nat \<Rightarrow> nat \<Rightarrow> cached_query" where
  "useFeedQuery token category pageSize pageParam =
     useQuery (queryKeys_rooms_feed category)
       (require (truthy token) ''Missing token''
          (Asks token (Rooms (Rooms_feed category (Some pageSize) (Some pageParam)))))
       (truthy token)
       \<lparr>q_next := \<lambda>last. nullish (json_field ''next_offset'' last), q_staleTime := Some 15000\<rparr>"

definition useMyRoomsQuery :: "string option \<Rightarrow> cached_query" where
  "useMyRoomsQuery token =
     useQuery queryKeys_rooms_mine (require (truthy token) ''Missing token'' (Asks token (Rooms Rooms_mine)))
       (truthy token)"

definition useRoomParticipantsQuery ::
  "string option \<Rightarrow> uuid option \<Rightarrow> bool \<Rightarrow> nat option \<Rightarrow> cached_query" where
  "useRoomParticipantsQuery token roomId enabled refetchInterval =
     useQuery (if truthy roomId then queryKeys_rooms_participants (the roomId)
               else [K ''rooms'', K ''participants'', Null])
       (require (truthy token \<and> truthy roomId) ''Missing token or roomId''
          (Asks token (Rooms (Rooms_participants (the roomId)))))
       (enabled \<and> truthy token \<and> truthy roomId)\<lparr>q_interval := refetchInterval\<rparr>"

definition useCreateStandaloneRoomMutation :: "string option \<Rightarrow> json \<Rightarrow> mutation" where
  "useCreateStandaloneRoomMutation token input =
     useMutation (require (truthy token) ''Unauthenticated'' (Asks token (Rooms (Rooms_createStandalone input))))
       [Invalidate (queryKeys_rooms_lists None)]"

definition useCreateCommunityRoomMutation :: "string option \<Rightarrow> uuid \<Rightarrow> json \<Rightarrow> mutation" where
  "useCreateCommunityRoomMutation token communityId input =
     useMutation (require (truthy token) ''Unauthenticated'' (Asks token (Rooms (Rooms_create communityId input))))
       [Invalidate (queryKeys_rooms_lists (Some communityId)), Invalidate (queryKeys_communities_detail communityId)]"

definition useDeleteRoomMutation :: "string option \<Rightarrow> uuid \<Rightarrow> mutation" where
  "useDeleteRoomMutation token roomId =
     useMutation (require (truthy token) ''Unauthenticated'' (Asks token (Rooms (Rooms_delete roomId))))
       [Invalidate queryKeys_rooms_all, Invalidate queryKeys_communities_all]"

definition useOpenDMMutation :: "string option \<Rightarrow> uuid \<Rightarrow> mutation" where
  "useOpenDMMutation token targetUserId =
     useMutation (require (truthy token) ''Unauthenticated'' (Asks token (Rooms (Rooms_openDM targetUserId))))
       [Invalidate queryKeys_rooms_mine]"

definition useUpdateRoomMutation :: "string option \<Rightarrow> uuid \<Rightarrow> json \<Rightarrow> mutation" where
  "useUpdateRoomMutation token roomId input =
     useMutation (require (truthy token) ''Unauthenticated'' (Asks token (Rooms (Rooms_update roomId input))))
       [Invalidate (queryKeys_rooms_detail roomId), Invalidate queryKeys_rooms_all,
        Invalidate queryKeys_communities_all]"

section \<open>bff.queries.ts\<close>

definition seedFromSession :: "uuid \<Rightarrow> json \<Rightarrow> effect list" where
  "seedFromSession roomId session =
     [put (queryKeys_bff_roomSession roomId) (Some session),
      put (queryKeys_rooms_detail roomId) (json_field ''room'' session),
      put (queryKeys_rooms_participants roomId) (json_field ''participants'' session)]"

definition useRoomSessionQuery :: "string option \<Rightarrow> uuid option \<Rightarrow> cached_query" where
  "useRoomSessionQuery token roomId =
     useQuery (if truthy roomId then queryKeys_bff_roomSession (the roomId)
               else [K ''bff'', K ''room'', K ''session'', Null])
       (require (truthy token \<and> truthy roomId) ''Missing token or roomId''
          (Asks None (Rooms (Rooms_session (the roomId)))))
       (truthy token \<and> truthy roomId)
       \<lparr>q_writes := seedFromSession (the roomId), q_staleTime := Some \<infinity>, q_onFocus := False,
        q_onReconnect := False, q_retry := False\<rparr>"

definition useOpenRoomSessionMutation :: "string option \<Rightarrow> uuid \<Rightarrow> mutation" where
  "useOpenRoomSessionMutation token roomId =
     useMutation (require (truthy token) ''Unauthenticated'' (Asks None (Rooms (Rooms_session roomId)))) []
       \<lparr>m_success := \<lambda>session. seedFromSession roomId session @ [Invalidate queryKeys_rooms_mine]\<rparr>"

definition useSeedMeOverview :: "json \<Rightarrow> effect list" where
  "useSeedMeOverview overview =
     [put queryKeys_auth_me (json_field ''me'' overview),
      put queryKeys_auth_config (json_field ''config'' overview),
      put queryKeys_communities_lists (json_field ''communities'' overview),
      put queryKeys_rooms_mine (json_field ''rooms'' overview)]"

definition useCommunityOverviewQuery :: "string option \<Rightarrow> uuid option \<Rightarrow> cached_query" where
  "useCommunityOverviewQuery token communityId =
     useQuery (if truthy communityId then queryKeys_bff_communityOverview (the communityId)
               else [K ''communities'', K ''detail'', Null, K ''overview''])
       (require (truthy token \<and> truthy communityId) ''Missing token or communityId''
          (Asks token (Communities (Communities_overview (the communityId)))))
       (truthy token \<and> truthy communityId)
       \<lparr>q_writes := \<lambda>overview.
          [put (queryKeys_communities_members (the communityId)) (json_field ''members'' overview),
           put (queryKeys_rooms_lists communityId) (json_field ''rooms'' overview)]\<rparr>"

definition useSocialOverviewQuery :: "string option \<Rightarrow> cached_query" where
  "useSocialOverviewQuery token =
     useQuery queryKeys_bff_socialOverview
       (require (truthy token) ''Unauthenticated'' (Asks token (Social Social_overview))) (truthy token)"

section \<open>messages.queries.ts\<close>

definition useMessagesQuery ::
  "string option \<Rightarrow> uuid option \<Rightarrow> jstr option \<Rightarrow> jstr option \<Rightarrow> nat option \<Rightarrow> cached_query" where
  "useMessagesQuery token roomId before beforeId limit =
     useQuery
       (if truthy roomId
        then queryKeys_messages_list (the roomId)
               @ [text_part before, text_part beforeId, (case limit of Some n \<Rightarrow> Num (int n) | None \<Rightarrow> Undefined)]
        else [K ''messages'', K ''list'', Null])
       (require (truthy token \<and> truthy roomId) ''Missing token or roomId''
          (Asks token (Messages (Messages_history (the roomId) before beforeId
             (case limit of Some n \<Rightarrow> n | None \<Rightarrow> 50)))))
       (truthy token \<and> truthy roomId)"

definition useSendMessageMutation :: "string option \<Rightarrow> uuid \<Rightarrow> jstr \<Rightarrow> bool option \<Rightarrow> mutation" where
  "useSendMessageMutation token roomId content isAnonymous =
     useMutation (require (truthy token) ''Unauthenticated''
         (Asks token (Messages (Messages_post roomId content isAnonymous None))))
       [Invalidate (queryKeys_messages_list roomId)]"

definition useAddReactionMutation :: "string option \<Rightarrow> uuid \<Rightarrow> uuid \<Rightarrow> jstr \<Rightarrow> mutation" where
  "useAddReactionMutation token roomId messageId reaction =
     useMutation (require (truthy token) ''Unauthenticated'' (Asks token (Messages (Messages_react messageId reaction))))
       [Invalidate (queryKeys_messages_list roomId)]"

definition useRemoveReactionMutation :: "string option \<Rightarrow> uuid \<Rightarrow> uuid \<Rightarrow> jstr \<Rightarrow> mutation" where
  "useRemoveReactionMutation token roomId messageId reaction =
     useMutation (require (truthy token) ''Unauthenticated'' (Asks token (Messages (Messages_unreact messageId reaction))))
       [Invalidate (queryKeys_messages_list roomId)]"

definition useEditMessageMutation :: "string option \<Rightarrow> uuid \<Rightarrow> uuid \<Rightarrow> jstr \<Rightarrow> mutation" where
  "useEditMessageMutation token roomId messageId content =
     useMutation (require (truthy token) ''Unauthenticated'' (Asks token (Messages (Messages_edit messageId content))))
       [Invalidate (queryKeys_messages_list roomId)]"

definition useDeleteMessageMutation :: "string option \<Rightarrow> uuid \<Rightarrow> uuid \<Rightarrow> mutation" where
  "useDeleteMessageMutation token roomId messageId =
     useMutation (require (truthy token) ''Unauthenticated'' (Asks token (Messages (Messages_remove messageId))))
       [Invalidate (queryKeys_messages_list roomId)]"

section \<open>users.queries.ts\<close>

definition PROFILE_STALE_MS :: enat where
  "PROFILE_STALE_MS = 300000"

definition useUserProfileQuery :: "string option \<Rightarrow> uuid option \<Rightarrow> cached_query" where
  "useUserProfileQuery token userId =
     useQuery (if truthy userId then queryKeys_users_detail (the userId) else [K ''users'', K ''detail'', Null])
       (require (truthy token \<and> truthy userId) ''Missing token or userId''
          (Asks token (Users (Users_get (the userId)))))
       (truthy token \<and> truthy userId)"

definition usePublicProfilesQuery :: "string option \<Rightarrow> uuid list \<Rightarrow> cached_query" where
  "usePublicProfilesQuery token userIds =
     useQuery (queryKeys_users_batch userIds)
       (require (truthy token) ''Unauthenticated''
          (Asks_each (map (\<lambda>i. (queryKeys_users_detail i, token, Users (Users_get i))) userIds)))
       (truthy token \<and> length userIds > 0)\<lparr>q_staleTime := Some PROFILE_STALE_MS\<rparr>"

definition useBlockedUsersQuery :: "string option \<Rightarrow> cached_query" where
  "useBlockedUsersQuery token =
     useQuery queryKeys_users_blocked (require (truthy token) ''Unauthenticated'' (Asks token (Social Blocks_list)))
       (truthy token)"

definition useBlockUserMutation :: "string option \<Rightarrow> uuid \<Rightarrow> mutation" where
  "useBlockUserMutation token userId =
     useMutation (require (truthy token) ''Unauthenticated'' (Asks token (Social (Blocks_block userId))))
       [Invalidate queryKeys_users_blocked, Invalidate queryKeys_bff_socialOverview]"

definition useUnblockUserMutation :: "string option \<Rightarrow> uuid \<Rightarrow> mutation" where
  "useUnblockUserMutation token userId =
     useMutation (require (truthy token) ''Unauthenticated'' (Asks token (Social (Blocks_unblock userId))))
       [Invalidate queryKeys_users_blocked, Invalidate queryKeys_bff_socialOverview]"

section \<open>friends.queries.ts\<close>

definition useFriendsListQuery :: "string option \<Rightarrow> cached_query" where
  "useFriendsListQuery token =
     useQuery queryKeys_friends_list (require (truthy token) ''Unauthenticated'' (Asks token (Friends Friends_list)))
       (truthy token)"

definition usePendingFriendsQuery :: "string option \<Rightarrow> cached_query" where
  "usePendingFriendsQuery token =
     useQuery (queryKeys_friends_all @ [K ''pending''])
       (require (truthy token) ''Unauthenticated'' (Asks token (Friends Friends_pending))) (truthy token)"

definition useSentFriendsQuery :: "string option \<Rightarrow> cached_query" where
  "useSentFriendsQuery token =
     useQuery (queryKeys_friends_all @ [K ''sent''])
       (require (truthy token) ''Unauthenticated'' (Asks token (Friends Friends_sent))) (truthy token)"

definition useSendFriendRequestMutation :: "string option \<Rightarrow> uuid \<Rightarrow> mutation" where
  "useSendFriendRequestMutation token userId =
     useMutation (require (truthy token) ''Unauthenticated'' (Asks token (Friends (Friends_request userId))))
       [Invalidate queryKeys_friends_all]"

definition useRespondFriendRequestMutation :: "string option \<Rightarrow> uuid \<Rightarrow> bool \<Rightarrow> mutation" where
  "useRespondFriendRequestMutation token requesterId accept =
     useMutation (require (truthy token) ''Unauthenticated'' (Asks token (Friends (Friends_respond requesterId accept))))
       [Invalidate queryKeys_friends_all]"

definition useRemoveFriendMutation :: "string option \<Rightarrow> uuid \<Rightarrow> mutation" where
  "useRemoveFriendMutation token userId =
     useMutation (require (truthy token) ''Unauthenticated'' (Asks token (Friends (Friends_remove userId))))
       [Invalidate queryKeys_friends_all]"

section \<open>emojis.queries.ts\<close>

definition EMOJI_STALE_TIME :: enat where
  "EMOJI_STALE_TIME = 300000"

text \<open>\<open>id!\<close> of a missing id, in a query that is not enabled.\<close>

definition bang :: "string option \<Rightarrow> string" where
  "bang i = (case i of Some s \<Rightarrow> s | None \<Rightarrow> ''null'')"

definition useRoomEmojisQuery :: "uuid option \<Rightarrow> bool \<Rightarrow> cached_query" where
  "useRoomEmojisQuery roomId enabled =
     useQuery (if truthy roomId then queryKeys_emojis_forRoom (the roomId) else queryKeys_emojis_all @ [K ''idle''])
       (Asks None (Emojis (Emojis_forRoom (bang roomId)))) (enabled \<and> truthy roomId)
       \<lparr>q_staleTime := Some EMOJI_STALE_TIME\<rparr>"

definition useCommunityEmojisQuery :: "uuid option \<Rightarrow> bool \<Rightarrow> cached_query" where
  "useCommunityEmojisQuery communityId enabled =
     useQuery (if truthy communityId then queryKeys_emojis_forCommunity (the communityId)
               else queryKeys_emojis_all @ [K ''idle''])
       (Asks None (Emojis (Emojis_list (bang communityId)))) (enabled \<and> truthy communityId)
       \<lparr>q_staleTime := Some EMOJI_STALE_TIME\<rparr>"

definition useEmojiInvalidation :: "effect list" where
  "useEmojiInvalidation = [Invalidate queryKeys_emojis_all]"

definition useCreateEmojiMutation :: "uuid option \<Rightarrow> json \<Rightarrow> mutation" where
  "useCreateEmojiMutation communityId input =
     useMutation (require (truthy communityId) ''Missing communityId''
         (Asks None (Emojis (Emojis_create (the communityId) input)))) useEmojiInvalidation"

definition useRenameEmojiMutation :: "uuid option \<Rightarrow> uuid \<Rightarrow> jstr \<Rightarrow> mutation" where
  "useRenameEmojiMutation communityId emojiId name =
     useMutation (require (truthy communityId) ''Missing communityId''
         (Asks None (Emojis (Emojis_rename (the communityId) emojiId name)))) useEmojiInvalidation"

definition useDeleteEmojiMutation :: "uuid option \<Rightarrow> uuid \<Rightarrow> mutation" where
  "useDeleteEmojiMutation communityId emojiId =
     useMutation (require (truthy communityId) ''Missing communityId''
         (Asks None (Emojis (Emojis_remove (the communityId) emojiId)))) useEmojiInvalidation"

section \<open>gifs.queries.ts\<close>

definition GIF_PAGE_SIZE :: nat where
  "GIF_PAGE_SIZE = 24"

definition useGifSearchInfinite :: "jstr \<Rightarrow> bool \<Rightarrow> jstr option \<Rightarrow> cached_query" where
  "useGifSearchInfinite query enabled pageParam =
     (let term = js_trim query
      in useQuery (if term \<noteq> [] then queryKeys_gifs_search term else queryKeys_gifs_trending)
           (Asks None (Emojis (if term \<noteq> [] then Gifs_search term GIF_PAGE_SIZE pageParam
                               else Gifs_trending GIF_PAGE_SIZE pageParam)))
           enabled
           \<lparr>q_next := \<lambda>lastPage. nullish (json_field ''next'' lastPage), q_staleTime := Some 600000,
            q_retry := False\<rparr>)"

section \<open>rewards.queries.ts\<close>

definition useBalanceQuery :: "string option \<Rightarrow> cached_query" where
  "useBalanceQuery token =
     useQuery queryKeys_economy_balance (Asks token (Store Economy_balance)) (truthy token)
       \<lparr>q_staleTime := Some 30000\<rparr>"

definition useDailyCheckinMutation :: "string option \<Rightarrow> mutation" where
  "useDailyCheckinMutation token =
     useMutation (Asks token (Store Economy_dailyCheckin)) [Invalidate queryKeys_economy_balance]"

definition useStoreItemsQuery :: "string option \<Rightarrow> cached_query" where
  "useStoreItemsQuery token =
     useQuery queryKeys_store_items (Asks token (Store (Store_items None))) (truthy token)
       \<lparr>q_staleTime := Some 60000\<rparr>"

definition useInventoryQuery :: "string option \<Rightarrow> cached_query" where
  "useInventoryQuery token =
     useQuery queryKeys_store_inventory (Asks token (Store Inventory_mine)) (truthy token)
       \<lparr>q_staleTime := Some 30000\<rparr>"

definition usePurchaseMutation :: "string option \<Rightarrow> uuid \<Rightarrow> mutation" where
  "usePurchaseMutation token itemId =
     useMutation (Asks token (Store (Store_purchase itemId)))
       [Invalidate queryKeys_economy_balance, Invalidate queryKeys_store_inventory]"

definition useEquippedQuery :: "string option \<Rightarrow> cached_query" where
  "useEquippedQuery token =
     useQuery queryKeys_store_equipped (Asks token (Store Inventory_equipped)) (truthy token)
       \<lparr>q_staleTime := Some 30000\<rparr>"

definition useEquipMutation :: "string option \<Rightarrow> json \<Rightarrow> mutation" where
  "useEquipMutation token input =
     useMutation (Asks token (Store (Inventory_equip input)))
       [Invalidate queryKeys_store_equipped, Invalidate queryKeys_store_items]"

section \<open>recommendations.queries.ts\<close>

definition STALE_TIME :: enat where
  "STALE_TIME = 90000"

definition json_number :: "nat \<Rightarrow> json" where
  "json_number n = J_number (int n)"

definition useRecommendedRoomsQuery :: "string option \<Rightarrow> jstr option \<Rightarrow> nat option \<Rightarrow> cached_query" where
  "useRecommendedRoomsQuery token category limit =
     useQuery (queryKeys_recommendations_rooms category)
       (Asks token (Support (Recommendations_rooms
          (json_object [(''category'', map_option J_string category), (''limit'', map_option json_number limit)]))))
       (truthy token)\<lparr>q_staleTime := Some STALE_TIME\<rparr>"

definition useRecommendedPeopleQuery :: "string option \<Rightarrow> nat option \<Rightarrow> cached_query" where
  "useRecommendedPeopleQuery token limit =
     useQuery queryKeys_recommendations_people
       (Asks token (Support (Recommendations_people (json_object [(''limit'', map_option json_number limit)]))))
       (truthy token)\<lparr>q_staleTime := Some STALE_TIME\<rparr>"

definition useRecommendedCommunitiesQuery :: "string option \<Rightarrow> nat option \<Rightarrow> cached_query" where
  "useRecommendedCommunitiesQuery token limit =
     useQuery queryKeys_recommendations_communities
       (Asks token (Support (Recommendations_communities (json_object [(''limit'', map_option json_number limit)]))))
       (truthy token)\<lparr>q_staleTime := Some STALE_TIME\<rparr>"

section \<open>broadcasts.queries.ts and notifications.queries.ts\<close>

definition POLL_INTERVAL :: nat where
  "POLL_INTERVAL = 120000"

definition useActiveBroadcastsQuery :: cached_query where
  "useActiveBroadcastsQuery =
     useQuery queryKeys_broadcasts_active (Asks None (Security Broadcasts_active)) True
       \<lparr>q_staleTime := Some (enat POLL_INTERVAL), q_interval := Some POLL_INTERVAL, q_retry := False\<rparr>"

definition useNotificationsQuery :: "string option \<Rightarrow> jstr option \<Rightarrow> nat option \<Rightarrow> cached_query" where
  "useNotificationsQuery token before limit =
     useQuery (queryKeys_notifications_list
                 @ [text_part before, (case limit of Some n \<Rightarrow> Num (int n) | None \<Rightarrow> Undefined)])
       (require (truthy token) ''Unauthenticated'' (Asks token (Social (Notifications_list before limit))))
       (truthy token)"

end
