(* ===== verification/Freshness.thy ===== *)
theory Freshness
  imports SharedHooks
begin

text \<open>
  What the shared query layer promises: which hooks there are, what each endpoint shows or
  changes at the server, and that a mutation marks every query that shows what it changed.
\<close>

section \<open>The hooks\<close>

definition opt_id :: "uuid option \<Rightarrow> bool" where
  "opt_id i \<longleftrightarrow> (case i of None \<Rightarrow> True | Some s \<Rightarrow> uuid_text s)"

text \<open>The queries the screens mount, with ids that are ids and invite codes that are codes.\<close>

inductive shared_query :: "string option \<Rightarrow> cached_query \<Rightarrow> bool" for token where
  "shared_query token useAuthConfigQuery"
| "shared_query token (useCurrentUserQuery token)"
| "shared_query token (useCommunitiesQuery token)"
| "opt_id c \<Longrightarrow> shared_query token (useCommunityQuery token c)"
| "opt_id c \<Longrightarrow> shared_query token (useCommunityMembersQuery token c limit)"
| "opt_id c \<Longrightarrow> shared_query token (useCommunityRolesQuery token c)"
| "opt_id c \<Longrightarrow> shared_query token (useCommunityInvitesQuery token c)"
| "invite = None \<or> plain (the invite) \<Longrightarrow> shared_query token (useInvitePreviewQuery token invite)"
| "opt_id c \<Longrightarrow> shared_query token (useRoomsQuery token c)"
| "opt_id r \<Longrightarrow> shared_query token (useRoomQuery token r)"
| "shared_query token (useDiscoveryQuery token category n)"
| "shared_query token (useFeedQuery token category pageSize pageParam)"
| "shared_query token (useMyRoomsQuery token)"
| "opt_id r \<Longrightarrow> shared_query token (useRoomParticipantsQuery token r on interval)"
| "opt_id r \<Longrightarrow> shared_query token (useRoomSessionQuery token r)"
| "opt_id c \<Longrightarrow> shared_query token (useCommunityOverviewQuery token c)"
| "shared_query token (useSocialOverviewQuery token)"
| "opt_id r \<Longrightarrow> shared_query token (useMessagesQuery token r before beforeId n)"
| "opt_id u \<Longrightarrow> shared_query token (useUserProfileQuery token u)"
| "list_all uuid_text us \<Longrightarrow> shared_query token (usePublicProfilesQuery token us)"
| "shared_query token (useBlockedUsersQuery token)"
| "shared_query token (useFriendsListQuery token)"
| "shared_query token (usePendingFriendsQuery token)"
| "shared_query token (useSentFriendsQuery token)"
| "opt_id r \<Longrightarrow> shared_query token (useRoomEmojisQuery r on)"
| "opt_id c \<Longrightarrow> shared_query token (useCommunityEmojisQuery c on)"
| "shared_query token (useGifSearchInfinite query on cursor)"
| "shared_query token (useBalanceQuery token)"
| "shared_query token (useStoreItemsQuery token)"
| "shared_query token (useInventoryQuery token)"
| "shared_query token (useEquippedQuery token)"
| "shared_query token (useRecommendedRoomsQuery token category n)"
| "shared_query token (useRecommendedPeopleQuery token n)"
| "shared_query token (useRecommendedCommunitiesQuery token n)"
| "shared_query token useActiveBroadcastsQuery"
| "shared_query token (useNotificationsQuery token before n)"

text \<open>
  The server as far as the layer depends on it: who is signed in, the room a message is in,
  the community a room belongs to, the community an invite leads to.
\<close>

record world =
  w_me :: uuid
  w_room :: "uuid \<Rightarrow> uuid"
  w_community :: "uuid \<Rightarrow> uuid option"
  w_invite :: "string \<Rightarrow> uuid"

text \<open>
  The mutations; a screen that changes a message names the room the message is in, and one
  that manages invites the community they lead to.
\<close>

inductive shared_mutation :: "world \<Rightarrow> string option \<Rightarrow> mutation \<Rightarrow> bool" for w token where
  "shared_mutation w token (useLoginMutation input)"
| "shared_mutation w token (useRegisterMutation input)"
| "shared_mutation w token (useUpdateProfileMutation token input)"
| "shared_mutation w token (useCreateCommunityMutation token input)"
| "shared_mutation w token (useJoinCommunityMutation token c)"
| "shared_mutation w token (useLeaveCommunityMutation token c u)"
| "shared_mutation w token (useUpdateCommunityMutation token c input)"
| "shared_mutation w token (useDeleteCommunityMutation token c)"
| "shared_mutation w token (useCreateRoleMutation token c input)"
| "shared_mutation w token (useUpdateRoleMutation token c role input)"
| "shared_mutation w token (useAssignRoleMutation token c u role)"
| "shared_mutation w token (useRemoveRoleMutation token c u role)"
| "shared_mutation w token (useCreateInviteMutation token c' input)"
| "c' = None \<or> c' = Some (w_invite w invite) \<Longrightarrow> shared_mutation w token (useRevokeInviteMutation token c' invite)"
| "shared_mutation w token (useRedeemInviteMutation token invite)"
| "shared_mutation w token (useCreateStandaloneRoomMutation token input)"
| "shared_mutation w token (useCreateCommunityRoomMutation token c input)"
| "shared_mutation w token (useDeleteRoomMutation token r)"
| "shared_mutation w token (useOpenDMMutation token u)"
| "shared_mutation w token (useUpdateRoomMutation token r input)"
| "shared_mutation w token (useOpenRoomSessionMutation token r)"
| "shared_mutation w token (useSendMessageMutation token r content anonymous)"
| "w_room w msg = r \<Longrightarrow> shared_mutation w token (useAddReactionMutation token r msg reaction)"
| "w_room w msg = r \<Longrightarrow> shared_mutation w token (useRemoveReactionMutation token r msg reaction)"
| "w_room w msg = r \<Longrightarrow> shared_mutation w token (useEditMessageMutation token r msg content)"
| "w_room w msg = r \<Longrightarrow> shared_mutation w token (useDeleteMessageMutation token r msg)"
| "shared_mutation w token (useBlockUserMutation token u)"
| "shared_mutation w token (useUnblockUserMutation token u)"
| "shared_mutation w token (useSendFriendRequestMutation token u)"
| "shared_mutation w token (useRespondFriendRequestMutation token u accept)"
| "shared_mutation w token (useRemoveFriendMutation token u)"
| "shared_mutation w token (useCreateEmojiMutation c' input)"
| "shared_mutation w token (useRenameEmojiMutation c' emoji name)"
| "shared_mutation w token (useDeleteEmojiMutation c' emoji)"
| "shared_mutation w token (useDailyCheckinMutation token)"
| "shared_mutation w token (usePurchaseMutation token item)"
| "shared_mutation w token (useEquipMutation token input)"

lemmas shared_query_defs =
  useQuery_def require_def
  useAuthConfigQuery_def useCurrentUserQuery_def useCommunitiesQuery_def useCommunityQuery_def
  useCommunityMembersQuery_def useCommunityRolesQuery_def useCommunityInvitesQuery_def
  useInvitePreviewQuery_def useRoomsQuery_def useRoomQuery_def useDiscoveryQuery_def useFeedQuery_def
  useMyRoomsQuery_def useRoomParticipantsQuery_def useRoomSessionQuery_def
  useCommunityOverviewQuery_def useSocialOverviewQuery_def useMessagesQuery_def
  useUserProfileQuery_def usePublicProfilesQuery_def useBlockedUsersQuery_def
  useFriendsListQuery_def usePendingFriendsQuery_def useSentFriendsQuery_def
  useRoomEmojisQuery_def useCommunityEmojisQuery_def useGifSearchInfinite_def useBalanceQuery_def
  useStoreItemsQuery_def useInventoryQuery_def useEquippedQuery_def useRecommendedRoomsQuery_def
  useRecommendedPeopleQuery_def useRecommendedCommunitiesQuery_def useActiveBroadcastsQuery_def
  useNotificationsQuery_def

lemmas shared_mutation_defs =
  useMutation_def require_def
  useLoginMutation_def useRegisterMutation_def useUpdateProfileMutation_def
  useCreateCommunityMutation_def useJoinCommunityMutation_def useLeaveCommunityMutation_def
  useUpdateCommunityMutation_def useDeleteCommunityMutation_def useCreateRoleMutation_def
  useUpdateRoleMutation_def useAssignRoleMutation_def useRemoveRoleMutation_def
  useCreateInviteMutation_def useRevokeInviteMutation_def useRedeemInviteMutation_def
  useCreateStandaloneRoomMutation_def useCreateCommunityRoomMutation_def useDeleteRoomMutation_def
  useOpenDMMutation_def useUpdateRoomMutation_def useOpenRoomSessionMutation_def
  useSendMessageMutation_def useAddReactionMutation_def useRemoveReactionMutation_def
  useEditMessageMutation_def useDeleteMessageMutation_def useBlockUserMutation_def
  useUnblockUserMutation_def useSendFriendRequestMutation_def useRespondFriendRequestMutation_def
  useRemoveFriendMutation_def useCreateEmojiMutation_def useRenameEmojiMutation_def
  useDeleteEmojiMutation_def useEmojiInvalidation_def useDailyCheckinMutation_def
  usePurchaseMutation_def useEquipMutation_def

section \<open>What an enabled query asks\<close>

primrec asked :: "fetch \<Rightarrow> (string option \<times> endpoint) set" where
  "asked (Throws message) = {}"
| "asked (Asks token e) = {(token, e)}"
| "asked (Asks_each ps) = (\<lambda>(k, token, e). (token, e)) ` set ps"

lemma uuid_text_Nil [simp]: "\<not> uuid_text []"
  by (simp add: uuid_text_def)

lemma opt_id_truthy: "opt_id i \<Longrightarrow> truthy i \<Longrightarrow> uuid_text (the i)"
  by (auto simp: opt_id_def truthy_def split: option.splits)

lemma truthy_bang: "truthy i \<Longrightarrow> bang i = the i"
  by (auto simp: truthy_def bang_def)

lemma enabled_query_asks:
  assumes "shared_query token q" and "q_enabled q"
  shows "(\<nexists>message. q_fn q = Throws message) \<and> asked (q_fn q) \<noteq> {}
    \<and> (\<forall>(t, e) \<in> asked (q_fn q). (t = None \<or> t = token \<and> truthy token) \<and> arguments_fit e \<and> \<not> is_bulk e)"
  using assms
  by (cases rule: shared_query.cases)
     (auto simp: shared_query_defs arguments_fit_def is_bulk_def Let_def opt_id_truthy truthy_bang
        list_all_iff truthy_def [of token] opt_id_def split: if_splits option.splits)

section \<open>What endpoints show and change\<close>

datatype resource =
    R_account
  | R_profile uuid
  | R_my_communities
  | R_community uuid
  | R_members uuid
  | R_roles uuid
  | R_invites uuid
  | R_invite string
  | R_channels uuid
  | R_my_rooms
  | R_room uuid
  | R_participants uuid
  | R_messages uuid
  | R_friends
  | R_requests
  | R_blocks
  | R_emojis uuid
  | R_balance
  | R_catalog
  | R_inventory
  | R_equipped
  | R_worn uuid
  | R_referrals
  | R_my_tickets
  | R_ticket uuid
  | R_pins uuid
  | R_unread

text \<open>
  What the answer of an endpoint shows, for the resources the apps can change. Opening a
  session is an action, not a reading; it is kept out on purpose. Joining a room answers with
  the room.
\<close>

definition shows_of :: "world \<Rightarrow> endpoint \<Rightarrow> resource set" where
  "shows_of w e =
     (case e of
        Auth Auth_me \<Rightarrow> {R_account}
      | Users (Users_get u) \<Rightarrow> {R_profile u}
      | Communities c \<Rightarrow>
          (case c of
             Communities_list \<Rightarrow> {R_my_communities}
           | Communities_get i \<Rightarrow> {R_community i}
           | Communities_members i _ \<Rightarrow> {R_members i}
           | Communities_roles i \<Rightarrow> {R_roles i}
           | Communities_overview i \<Rightarrow> {R_community i, R_channels i, R_members i, R_roles i}
           | Communities_listInvites i \<Rightarrow> {R_invites i}
           | Communities_previewInvite invite \<Rightarrow> {R_invite invite}
           | _ \<Rightarrow> {})
      | Rooms r \<Rightarrow>
          (case r of
             Rooms_list i \<Rightarrow> {R_channels i}
           | Rooms_get i \<Rightarrow> {R_room i}
           | Rooms_mine \<Rightarrow> {R_my_rooms}
           | Rooms_participants i \<Rightarrow> {R_participants i}
           | Rooms_join i \<Rightarrow> {R_room i}
           | _ \<Rightarrow> {})
      | Messages (Messages_history r _ _ _) \<Rightarrow> {R_messages r}
      | Messages (Messages_pins r) \<Rightarrow> {R_pins r}
      | Messages Messages_unread \<Rightarrow> {R_unread}
      | Friends Friends_list \<Rightarrow> {R_friends}
      | Friends Friends_pending \<Rightarrow> {R_requests}
      | Friends Friends_sent \<Rightarrow> {R_requests}
      | Social Social_overview \<Rightarrow> {R_friends, R_requests, R_blocks}
      | Social Blocks_list \<Rightarrow> {R_blocks}
      | Emojis (Emojis_forRoom r) \<Rightarrow> (case w_community w r of Some c \<Rightarrow> {R_emojis c} | None \<Rightarrow> {})
      | Emojis (Emojis_list c) \<Rightarrow> {R_emojis c}
      | Store Economy_balance \<Rightarrow> {R_balance}
      | Store (Store_items _) \<Rightarrow> {R_catalog}
      | Store Inventory_mine \<Rightarrow> {R_inventory}
      | Store Inventory_equipped \<Rightarrow> {R_equipped}
      | Store (Cosmetics_forUsers us) \<Rightarrow> R_worn ` set us
      | Store StoreAdmin_items \<Rightarrow> {R_catalog}
      | Store Referrals_overview \<Rightarrow> {R_referrals}
      | Support Support_mine \<Rightarrow> {R_my_tickets}
      | Support (Support_get i) \<Rightarrow> {R_ticket i}
      | _ \<Rightarrow> {})"

definition in_list :: "world \<Rightarrow> uuid \<Rightarrow> resource set" where
  "in_list w r = {case w_community w r of Some c \<Rightarrow> R_channels c | None \<Rightarrow> R_my_rooms}"

text \<open>
  What a call that succeeds changes at the server, as its handlers do: a room without a
  community is in the list of those who own it or are in it, one with a community in the
  community's channels (\<open>crates/room/src/repository.rs\<close>); asking somebody who has asked
  already accepts, and blocking ends a friendship (\<open>crates/social/src/service.rs\<close>); a catalog
  tile says whether the item is owned and worn; deleting a community takes everything in it.
\<close>

definition changes :: "world \<Rightarrow> endpoint \<Rightarrow> resource set" where
  "changes w e =
     (case e of
        Auth (Auth_updateProfile _) \<Rightarrow> {R_account, R_profile (w_me w)}
      | Auth (Auth_login _) \<Rightarrow> {R_account}
      | Auth (Auth_register _) \<Rightarrow> {R_account}
      | Communities c \<Rightarrow>
          (case c of
             Communities_create _ \<Rightarrow> {R_my_communities}
           | Communities_join i \<Rightarrow> {R_my_communities, R_community i, R_members i}
           | Communities_leave i _ \<Rightarrow> {R_my_communities, R_community i, R_members i}
           | Communities_update i _ \<Rightarrow> {R_my_communities, R_community i}
           | Communities_delete i \<Rightarrow>
               {R_my_communities, R_community i, R_members i, R_roles i, R_invites i, R_channels i, R_emojis i}
           | Communities_createRole i _ \<Rightarrow> {R_roles i}
           | Communities_updateRole i _ _ \<Rightarrow> {R_roles i, R_community i}
           | Communities_assignRole i _ _ \<Rightarrow> {R_members i, R_community i}
           | Communities_removeRole i _ _ \<Rightarrow> {R_members i, R_community i}
           | Communities_createInvite i _ \<Rightarrow> {R_invites i}
           | Communities_revokeInvite invite \<Rightarrow> {R_invites (w_invite w invite), R_invite invite}
           | Communities_redeemInvite invite \<Rightarrow>
               (let i = w_invite w invite in {R_my_communities, R_community i, R_members i, R_invites i})
           | _ \<Rightarrow> {})
      | Rooms r \<Rightarrow>
          (case r of
             Rooms_createStandalone _ \<Rightarrow> {R_my_rooms}
           | Rooms_create i _ \<Rightarrow> {R_channels i}
           | Rooms_delete i \<Rightarrow> {R_room i, R_participants i} \<union> in_list w i
           | Rooms_update i _ \<Rightarrow> {R_room i} \<union> in_list w i
           | Rooms_openDM _ \<Rightarrow> {R_my_rooms}
           | Rooms_session i \<Rightarrow> {R_participants i, R_my_rooms}
           | Rooms_join i \<Rightarrow> {R_participants i, R_my_rooms}
           | Rooms_leave i \<Rightarrow> {R_participants i, R_my_rooms}
           | Rooms_setPersona i _ \<Rightarrow> {R_participants i}
           | _ \<Rightarrow> {})
      | Messages m \<Rightarrow>
          (case m of
             Messages_post r _ _ _ \<Rightarrow> {R_messages r}
           | Messages_react i _ \<Rightarrow> {R_messages (w_room w i)}
           | Messages_unreact i _ \<Rightarrow> {R_messages (w_room w i)}
           | Messages_edit i _ \<Rightarrow> {R_messages (w_room w i)}
           | Messages_remove i \<Rightarrow> {R_messages (w_room w i)}
           | Messages_pin i \<Rightarrow> {R_pins (w_room w i)}
           | Messages_unpin i \<Rightarrow> {R_pins (w_room w i)}
           | Messages_markRead _ \<Rightarrow> {R_unread}
           | Messages_setMuted _ _ \<Rightarrow> {R_unread}
           | _ \<Rightarrow> {})
      | Friends (Friends_request _) \<Rightarrow> {R_requests, R_friends}
      | Friends (Friends_respond _ _) \<Rightarrow> {R_requests, R_friends}
      | Friends (Friends_remove _) \<Rightarrow> {R_requests, R_friends}
      | Social (Blocks_block _) \<Rightarrow> {R_blocks, R_friends, R_requests}
      | Social (Blocks_unblock _) \<Rightarrow> {R_blocks}
      | Emojis (Emojis_create c _) \<Rightarrow> {R_emojis c}
      | Emojis (Emojis_rename c _ _) \<Rightarrow> {R_emojis c}
      | Emojis (Emojis_remove c _) \<Rightarrow> {R_emojis c}
      | Store Economy_dailyCheckin \<Rightarrow> {R_balance}
      | Store (Store_purchase _) \<Rightarrow> {R_balance, R_inventory, R_catalog}
      | Store (Inventory_equip _) \<Rightarrow> {R_equipped, R_catalog, R_worn (w_me w)}
      | Store (Referrals_claim _) \<Rightarrow> {R_referrals, R_balance}
      | Store (StoreAdmin_create _) \<Rightarrow> {R_catalog}
      | Store (StoreAdmin_update _ _) \<Rightarrow> {R_catalog}
      | Store (StoreAdmin_remove _) \<Rightarrow> {R_catalog}
      | Store (StoreAdmin_grantPoints _) \<Rightarrow> {R_balance}
      | Store (StoreAdmin_grantItem _ u) \<Rightarrow> (if u = w_me w then {R_inventory, R_catalog} else {})
      | Support (Support_open _) \<Rightarrow> {R_my_tickets}
      | Support (Support_reply i _) \<Rightarrow> {R_ticket i, R_my_tickets}
      | _ \<Rightarrow> {})"

definition fetched :: "(endpoint \<Rightarrow> 'r set) \<Rightarrow> fetch \<Rightarrow> 'r set" where
  "fetched f fn = (\<Union>(t, e) \<in> asked fn. f e)"

lemma fetched_simps [simp]:
  "fetched f (Throws m) = {}"
  "fetched f (Asks t e) = f e"
  "fetched f (Asks_each ps) = (\<Union>(k, t, e) \<in> set ps. f e)"
  by (auto simp: fetched_def)

section \<open>Marked stale\<close>

definition touches :: "effect \<Rightarrow> query_key \<Rightarrow> bool" where
  "touches fx key =
     (case fx of
        Invalidate k \<Rightarrow> matches_key k key
      | Write k u \<Rightarrow> k = key
      | Write_under k u \<Rightarrow> matches_key k key
      | Remove k \<Rightarrow> matches_key k key
      | Clear \<Rightarrow> True)"

lemma touches_simps [simp]:
  "touches (Invalidate k) key = matches_key k key"
  "touches (Write k u) key = (k = key)"
  "touches (Write_under k u) key = matches_key k key"
  "touches (Remove k) key = matches_key k key"
  "touches Clear key = True"
  by (simp_all add: touches_def)

lemma matches_key_simps [simp]:
  "matches_key [] key"
  "matches_key (a # k) [] = False"
  "matches_key (a # k) (b # key) = (a = b \<and> matches_key k key)"
  by (auto simp: matches_key_def starts_with_def)

definition refreshes :: "mutation \<Rightarrow> json \<Rightarrow> cached_query \<Rightarrow> bool" where
  "refreshes m response q \<longleftrightarrow> list_ex (\<lambda>fx. touches fx (q_key q)) (m_success m response)"

text \<open>The keys a resource is shown under.\<close>

definition profile_key :: "uuid \<Rightarrow> query_key \<Rightarrow> bool" where
  "profile_key u key \<longleftrightarrow> key = queryKeys_users_detail u \<or> (\<exists>us. u \<in> set us \<and> key = queryKeys_users_batch us)"

definition emoji_key :: "world \<Rightarrow> uuid \<Rightarrow> query_key \<Rightarrow> bool" where
  "emoji_key w c key \<longleftrightarrow> key = queryKeys_emojis_forCommunity c
     \<or> (\<exists>r. w_community w r = Some c \<and> key = queryKeys_emojis_forRoom r)"

definition shown_under :: "world \<Rightarrow> resource \<Rightarrow> query_key \<Rightarrow> bool" where
  "shown_under w r key =
     (case r of
        R_account \<Rightarrow> key = queryKeys_auth_me
      | R_profile u \<Rightarrow> profile_key u key
      | R_my_communities \<Rightarrow> key = queryKeys_communities_lists
      | R_community c \<Rightarrow> key \<in> {queryKeys_communities_detail c, queryKeys_bff_communityOverview c}
      | R_members c \<Rightarrow> key \<in> {queryKeys_communities_members c, queryKeys_bff_communityOverview c}
      | R_roles c \<Rightarrow> key \<in> {queryKeys_communities_roles c, queryKeys_bff_communityOverview c}
      | R_invites c \<Rightarrow> key = queryKeys_communities_invites c
      | R_invite invite \<Rightarrow> key = queryKeys_communities_invitePreview invite
      | R_channels c \<Rightarrow> key \<in> {queryKeys_rooms_lists (Some c), queryKeys_bff_communityOverview c}
      | R_my_rooms \<Rightarrow> key \<in> {queryKeys_rooms_mine, queryKeys_rooms_lists None}
      | R_room r \<Rightarrow> key = queryKeys_rooms_detail r
      | R_participants r \<Rightarrow> key = queryKeys_rooms_participants r
      | R_messages r \<Rightarrow> \<exists>page. key = queryKeys_messages_list r @ page
      | R_friends \<Rightarrow> key \<in> {queryKeys_friends_list, queryKeys_bff_socialOverview}
      | R_requests \<Rightarrow> key \<in> {queryKeys_friends_all @ [K ''pending''], queryKeys_friends_all @ [K ''sent''],
                            queryKeys_bff_socialOverview}
      | R_blocks \<Rightarrow> key \<in> {queryKeys_users_blocked, queryKeys_bff_socialOverview}
      | R_emojis c \<Rightarrow> emoji_key w c key
      | R_balance \<Rightarrow> key = queryKeys_economy_balance
      | R_catalog \<Rightarrow> key = queryKeys_store_items
      | R_inventory \<Rightarrow> key = queryKeys_store_inventory
      | R_equipped \<Rightarrow> key = queryKeys_store_equipped
      | _ \<Rightarrow> False)"

lemma shown_under_simps:
  "shown_under w R_account key \<longleftrightarrow> key = queryKeys_auth_me"
  "shown_under w (R_profile u) key \<longleftrightarrow> profile_key u key"
  "shown_under w R_my_communities key \<longleftrightarrow> key = queryKeys_communities_lists"
  "shown_under w (R_community c) key \<longleftrightarrow>
     key = queryKeys_communities_detail c \<or> key = queryKeys_bff_communityOverview c"
  "shown_under w (R_members c) key \<longleftrightarrow>
     key = queryKeys_communities_members c \<or> key = queryKeys_bff_communityOverview c"
  "shown_under w (R_roles c) key \<longleftrightarrow>
     key = queryKeys_communities_roles c \<or> key = queryKeys_bff_communityOverview c"
  "shown_under w (R_invites c) key \<longleftrightarrow> key = queryKeys_communities_invites c"
  "shown_under w (R_invite invite) key \<longleftrightarrow> key = queryKeys_communities_invitePreview invite"
  "shown_under w (R_channels c) key \<longleftrightarrow>
     key = queryKeys_rooms_lists (Some c) \<or> key = queryKeys_bff_communityOverview c"
  "shown_under w R_my_rooms key \<longleftrightarrow> key = queryKeys_rooms_mine \<or> key = queryKeys_rooms_lists None"
  "shown_under w (R_room i) key \<longleftrightarrow> key = queryKeys_rooms_detail i"
  "shown_under w (R_participants i) key \<longleftrightarrow> key = queryKeys_rooms_participants i"
  "shown_under w (R_messages i) key \<longleftrightarrow> (\<exists>page. key = queryKeys_messages_list i @ page)"
  "shown_under w R_friends key \<longleftrightarrow> key = queryKeys_friends_list \<or> key = queryKeys_bff_socialOverview"
  "shown_under w R_requests key \<longleftrightarrow> key = queryKeys_friends_all @ [K ''pending'']
     \<or> key = queryKeys_friends_all @ [K ''sent''] \<or> key = queryKeys_bff_socialOverview"
  "shown_under w R_blocks key \<longleftrightarrow> key = queryKeys_users_blocked \<or> key = queryKeys_bff_socialOverview"
  "shown_under w (R_emojis c) key \<longleftrightarrow> emoji_key w c key"
  "shown_under w R_balance key \<longleftrightarrow> key = queryKeys_economy_balance"
  "shown_under w R_catalog key \<longleftrightarrow> key = queryKeys_store_items"
  "shown_under w R_inventory key \<longleftrightarrow> key = queryKeys_store_inventory"
  "shown_under w R_equipped key \<longleftrightarrow> key = queryKeys_store_equipped"
  "\<not> shown_under w (R_worn u) key"
  by (simp_all add: shown_under_def)

lemma truthy_iff: "truthy i \<longleftrightarrow> (\<exists>s. i = Some s \<and> s \<noteq> [])"
  by (cases i) (auto simp: truthy_def)

lemma shown_under_key:
  assumes "shared_query token q" and "q_enabled q" and "r \<in> fetched (shows_of w) (q_fn q)"
  shows "shown_under w r (q_key q)"
  using assms
  by (cases rule: shared_query.cases)
     (auto simp: shared_query_defs shows_of_def shown_under_simps profile_key_def emoji_key_def Let_def truthy_iff truthy_bang
        opt_id_def uuid_text_def split: if_splits option.splits)

text \<open>
  What a mutation leaves stale though it changed it. Two keys, \<open>mine\<close> and \<open>list\<close> without a
  community, hold the same list of rooms, and each mutation marks only one of the two.
\<close>

definition left_stale :: "world \<Rightarrow> endpoint \<Rightarrow> query_key \<Rightarrow> bool" where
  "left_stale w e key =
     (case e of
        Store (Store_purchase _) \<Rightarrow> key = queryKeys_store_items
      | Rooms (Rooms_createStandalone _) \<Rightarrow> key = queryKeys_rooms_mine
      | Rooms (Rooms_openDM _) \<Rightarrow> key = queryKeys_rooms_lists None
      | Rooms (Rooms_session _) \<Rightarrow> key = queryKeys_rooms_lists None
      | Social (Blocks_block _) \<Rightarrow>
          key \<in> {queryKeys_friends_list, queryKeys_friends_all @ [K ''pending''], queryKeys_friends_all @ [K ''sent'']}
      | Auth (Auth_updateProfile _) \<Rightarrow>
          profile_key (w_me w) key
      | Communities (Communities_delete c) \<Rightarrow>
          key = queryKeys_rooms_lists (Some c) \<or> emoji_key w c key
      | _ \<Rightarrow> False)"

lemma profile_key_simps [simp]:
  "profile_key u key \<Longrightarrow> matches_key (K ''auth'' # k) key = False"
  "profile_key u (K ''auth'' # k) = False"
  "profile_key u key \<Longrightarrow> (K ''auth'' # k = key) = False"
  by (auto simp: profile_key_def queryKeys_users_batch_def queryKeys_defs)

lemma emoji_key_simps [simp]:
  "emoji_key w c key \<Longrightarrow> matches_key [K ''emojis''] key"
  "emoji_key w c key \<Longrightarrow> matches_key (K ''communities'' # k) key = False"
  "emoji_key w c key \<Longrightarrow> (K ''rooms'' # k = key) = False"
  "emoji_key w c (K ''rooms'' # k) = False"
  "emoji_key w c (K ''communities'' # k) = False"
  by (auto simp: emoji_key_def queryKeys_defs)

lemma mutation_marks:
  assumes "shared_mutation w token m" and "m_fn m = Asks t e" and "r \<in> changes w e" and "shown_under w r key"
    and "\<And>invite. e = Communities (Communities_redeemInvite invite) \<Longrightarrow>
           json_id (json_field ''id'' response) = w_invite w invite"
  shows "list_ex (\<lambda>fx. touches fx key) (m_success m response) \<longleftrightarrow> \<not> left_stale w e key"
  using assms
  by (cases rule: shared_mutation.cases;
      clarsimp simp: shared_mutation_defs changes_def in_list_def Let_def split: if_splits option.splits;
      (elim disjE conjE exE)?; (simp add: shown_under_simps)?; (elim disjE exE)?;
      simp add: left_stale_def queryKeys_defs seedFromSession_def id_part_def truthy_iff)

section \<open>One key, one answer\<close>

definition drop_limit :: "json \<Rightarrow> json" where
  "drop_limit v = (case v of J_object fs \<Rightarrow> J_object (filter (\<lambda>(k, _). k \<noteq> ''limit'') fs) | _ \<Rightarrow> v)"

text \<open>A call without how much of the answer it asks for.\<close>

definition page_blind :: "endpoint \<Rightarrow> endpoint" where
  "page_blind e =
     (case e of
        Communities (Communities_members i _) \<Rightarrow> Communities (Communities_members i 0)
      | Rooms (Rooms_discovery category _) \<Rightarrow> Rooms (Rooms_discovery category None)
      | Rooms (Rooms_feed category _ _) \<Rightarrow> Rooms (Rooms_feed category None None)
      | Support (Recommendations_rooms ps) \<Rightarrow> Support (Recommendations_rooms (drop_limit ps))
      | Support (Recommendations_people ps) \<Rightarrow> Support (Recommendations_people (drop_limit ps))
      | Support (Recommendations_communities ps) \<Rightarrow> Support (Recommendations_communities (drop_limit ps))
      | Emojis (Gifs_trending n _) \<Rightarrow> Emojis (Gifs_trending n None)
      | Emojis (Gifs_search query n _) \<Rightarrow> Emojis (Gifs_search query n None)
      | _ \<Rightarrow> e)"

definition answer :: "fetch \<Rightarrow> (string option \<times> endpoint) set" where
  "answer fn = (\<lambda>(t, e). (t, page_blind e)) ` asked fn"

lemma comma_split:
  assumes "x @ CHR '','' # r = y @ CHR '','' # r'" and "CHR '','' \<notin> set x" and "CHR '','' \<notin> set y"
  shows "x = y \<and> r = r'"
  using assms by (induction x arbitrary: y) (auto simp: Cons_eq_append_conv append_eq_Cons_conv)

definition comma_free :: "string list \<Rightarrow> bool" where
  "comma_free xs \<longleftrightarrow> (\<forall>x \<in> set xs. x \<noteq> [] \<and> CHR '','' \<notin> set x)"

lemma comma_free_simps [simp]:
  "comma_free []"
  "comma_free (x # xs) \<longleftrightarrow> x \<noteq> [] \<and> CHR '','' \<notin> set x \<and> comma_free xs"
  by (auto simp: comma_free_def)

lemma join_with_Cons: "join_with sep (x # xs) = x @ (if xs = [] then [] else sep @ join_with sep xs)"
  by (cases xs) auto

lemma join_with_inj:
  "join_with '','' xs = join_with '','' ys \<Longrightarrow> comma_free xs \<Longrightarrow> comma_free ys \<Longrightarrow> xs = ys"
proof (induction xs arbitrary: ys)
  case Nil
  then show ?case by (cases ys) (auto simp: join_with_Cons)
next
  case (Cons x xs)
  then obtain y ys' where ys: "ys = y # ys'" by (cases ys) (auto simp: join_with_Cons)
  show ?case
  proof (cases "xs = [] \<or> ys' = []")
    case True
    with Cons.prems ys show ?thesis by (auto simp: join_with_Cons split: if_splits)
  next
    case False
    with Cons.prems ys comma_split [of x "join_with '','' xs" y "join_with '','' ys'"] Cons.IH [of ys']
    show ?thesis by (auto simp: join_with_Cons)
  qed
qed
lemma uuid_comma_free: "list_all uuid_text us \<Longrightarrow> comma_free us"
proof -
  have "\<not> hex_char (CHR '','')" by (simp add: hex_char_def)
  then show "list_all uuid_text us \<Longrightarrow> comma_free us"
    using uuid_chars by (fastforce simp: comma_free_def list_all_iff uuid_text_def)
qed

lemma batch_key_people:
  assumes "queryKeys_users_batch us = queryKeys_users_batch vs" and "list_all uuid_text us" and "list_all uuid_text vs"
  shows "set us = set vs"
proof -
  have "comma_free (sort us)" and "comma_free (sort vs)"
    using uuid_comma_free assms(2,3) by (simp_all add: comma_free_def)
  moreover have "join_with '','' (sort us) = join_with '','' (sort vs)"
    using assms(1) by (simp add: queryKeys_users_batch_def)
  ultimately have "sort us = sort vs" using join_with_inj by blast
  then show ?thesis by (metis set_sort)
qed

text \<open>The key read back: what an entry under it holds.\<close>

definition part_text :: "key_part \<Rightarrow> jstr option" where
  "part_text p = (case p of Str s \<Rightarrow> Some s | _ \<Rightarrow> None)"

definition part_id :: "key_part \<Rightarrow> uuid option" where
  "part_id p = (case p of K s \<Rightarrow> Some s | _ \<Rightarrow> None)"

definition held_communities :: "query_key \<Rightarrow> uuid communities_endpoint" where
  "held_communities key =
     (case key of
        [K a] \<Rightarrow> Communities_list
      | [K a, K i] \<Rightarrow> if a = ''detail'' then Communities_get i else Communities_previewInvite i
      | [K a, K i, K b] \<Rightarrow>
          if b = ''members'' then Communities_members i 0
          else if b = ''roles'' then Communities_roles i
          else if b = ''invites'' then Communities_listInvites i
          else Communities_overview i)"

definition held_rooms :: "query_key \<Rightarrow> uuid rooms_endpoint" where
  "held_rooms key =
     (case key of
        [K a] \<Rightarrow> Rooms_mine
      | [K a, K i] \<Rightarrow> Rooms_get i
      | [K a, K i, p] \<Rightarrow> Rooms_participants i
      | [K a, Params [(k, p)]] \<Rightarrow>
          if a = ''list'' then (case part_id p of Some i \<Rightarrow> Rooms_list i | None \<Rightarrow> Rooms_mine)
          else if a = ''discovery'' then Rooms_discovery (part_text p) None
          else Rooms_feed (part_text p) None None)"

definition held_user :: "query_key \<Rightarrow> endpoint set" where
  "held_user key =
     (case key of
        [K a] \<Rightarrow> {Social Blocks_list}
      | [K a, K i] \<Rightarrow>
          if a = ''detail'' then {Users (Users_get i)}
          else {Users (Users_get u) | u us. u \<in> set us \<and> list_all uuid_text us
                  \<and> i = join_with '','' (sort us)})"

definition held_store :: "query_key \<Rightarrow> uuid store_endpoint" where
  "held_store key =
     (if key = [K ''items''] then Store_items None
      else if key = [K ''inventory''] then Inventory_mine else Inventory_equipped)"

definition held_friends :: "query_key \<Rightarrow> endpoint" where
  "held_friends key =
     (if key = [K ''list''] then Friends Friends_list
      else if key = [K ''pending''] then Friends Friends_pending
      else if key = [K ''sent''] then Friends Friends_sent else Social Social_overview)"

definition held_recommendations :: "query_key \<Rightarrow> uuid support_endpoint" where
  "held_recommendations key =
     (case key of
        [K a, Str c] \<Rightarrow> Recommendations_rooms
                         (J_object (if c = js ''all'' then [] else [(''category'', J_string c)]))
      | [K a] \<Rightarrow> if a = ''people'' then Recommendations_people (J_object [])
                   else Recommendations_communities (J_object []))"

definition held_emojis :: "query_key \<Rightarrow> uuid emojis_endpoint" where
  "held_emojis key = (case key of [K a, K i] \<Rightarrow> if a = ''room'' then Emojis_forRoom i else Emojis_list i)"

definition held_under :: "string option \<Rightarrow> query_key \<Rightarrow> (string option \<times> endpoint) set" where
  "held_under token key =
     (case key of K a # rest \<Rightarrow>
        if a = ''auth'' then {if rest = [K ''me''] then (token, Auth Auth_me) else (None, Auth Auth_config)}
        else if a = ''users'' then Pair token ` held_user rest
        else if a = ''communities'' then {(token, Communities (held_communities rest))}
        else if a = ''rooms'' then {(token, Rooms (held_rooms rest))}
        else if a = ''bff''
          then {(None, Rooms (Rooms_session (case rest of [r, K i, p] \<Rightarrow> i)))}
        else if a = ''messages''
          then {(token, Messages (case rest of [r, K i, b, c, n] \<Rightarrow>
                 Messages_history i (part_text b) (part_text c) (case n of Num m \<Rightarrow> nat m | _ \<Rightarrow> 50)))}
        else if a = ''friends'' then {(token, held_friends rest)}
        else if a = ''emojis'' then {(None, Emojis (held_emojis rest))}
        else if a = ''gifs''
          then {(None, Emojis (case rest of [g] \<Rightarrow> Gifs_trending 24 None | [g, Str t] \<Rightarrow> Gifs_search t 24 None))}
        else if a = ''economy'' then {(token, Store Economy_balance)}
        else if a = ''store'' then {(token, Store (held_store rest))}
        else if a = ''recommendations'' then {(token, Support (held_recommendations rest))}
        else if a = ''broadcasts'' then {(None, Security Broadcasts_active)}
        else {(token, Social (case rest of [l, b, n] \<Rightarrow>
                 Notifications_list (part_text b) (case n of Num m \<Rightarrow> Some (nat m) | _ \<Rightarrow> None)))})"

lemma part_text [simp]: "part_text (text_part t) = t" "part_id (id_part i) = i"
  by (auto simp: part_text_def text_part_def part_id_def id_part_def split: option.splits)

lemma held_batch:
  assumes "list_all uuid_text us"
  shows "held_user [K ''batch'', K (join_with '','' (sort us))] = (\<lambda>u. Users (Users_get u)) ` set us"
proof -
  have "u \<in> set us" if "u \<in> set vs" "list_all uuid_text vs" "join_with '','' (sort us) = join_with '','' (sort vs)" for u vs
    using that batch_key_people [of us vs] assms by (auto simp: queryKeys_users_batch_def)
  then show ?thesis using assms by (fastforce simp: held_user_def)
qed

lemmas held_defs =
  held_under_def held_communities_def held_rooms_def held_store_def held_friends_def
  held_recommendations_def held_emojis_def

lemma key_tells:
  assumes "shared_query token q" and "q_enabled q"
    and "\<And>n. q \<noteq> useRecommendedRoomsQuery token (Some (js ''all'')) n"
  shows "answer (q_fn q) = held_under token (q_key q)"
  using assms(1)
proof cases
  case (19 u)
  with assms(2) show ?thesis
    by (auto simp: shared_query_defs queryKeys_defs answer_def page_blind_def held_under_def
        held_user_def truthy_iff split: if_splits)
next
  case (20 us)
  with assms(2) show ?thesis
    by (auto simp: shared_query_defs queryKeys_users_batch_def queryKeys_users_all_def answer_def
        page_blind_def held_under_def held_batch image_image truthy_iff split: if_splits)
next
  case 21
  with assms(2) show ?thesis
    by (auto simp: shared_query_defs queryKeys_defs answer_def page_blind_def held_under_def
        held_user_def truthy_iff split: if_splits)
next
  case (32 category n)
  with assms(3) have "category \<noteq> Some (js ''all'')" by auto
  with 32 show ?thesis
    by (auto simp: shared_query_defs queryKeys_defs answer_def page_blind_def held_defs
        drop_limit_def json_object_def split: option.splits)
qed (use assms(2) in \<open>auto simp: shared_query_defs queryKeys_defs answer_def page_blind_def
  held_defs Let_def truthy_iff truthy_bang opt_id_def drop_limit_def json_object_def
  GIF_PAGE_SIZE_def split: if_splits option.splits\<close>)

section \<open>Properties\<close>





end
