(* ===== verification/JsonText.thy ===== *)
theory JsonText
  imports ApiClient
begin

text \<open>
  \<open>JSON.stringify\<close>, which the clients put in cache keys and in the messages of the room
  experiences: the text of a value, and that no two values share one.
\<close>

section \<open>The text of a value\<close>

definition hex_lower :: "nat \<Rightarrow> nat" where
  "hex_lower d = (if d < 10 then 48 + d else 87 + d)"

definition lone_surrogate :: "nat \<Rightarrow> bool" where
  "lone_surrogate c \<longleftrightarrow> 55296 \<le> c \<and> c < 57344"

definition json_escape :: "nat \<Rightarrow> jstr" where
  "json_escape c =
     [92, 117, hex_lower (c div 4096), hex_lower (c div 256 mod 16), hex_lower (c div 16 mod 16), hex_lower (c mod 16)]"

definition json_short :: "nat \<Rightarrow> nat option" where
  "json_short c = map_of [(34, 34), (92, 92), (8, 98), (9, 116), (10, 110), (12, 102), (13, 114)] c"

definition json_unit :: "nat \<Rightarrow> jstr" where
  "json_unit c =
     (case json_short c of
        Some e \<Rightarrow> [92, e]
      | None \<Rightarrow> if c < 32 then json_escape c else [c])"

text \<open>A surrogate stands when it is half of a pair and is escaped when it is alone.\<close>

fun json_units :: "jstr \<Rightarrow> jstr" where
  "json_units [] = []"
| "json_units (c # s) =
     (if lone_surrogate c
      then (case s of
              d # r \<Rightarrow> if c < 56320 \<and> 56320 \<le> d \<and> d < 57344 then c # d # json_units r
                       else json_escape c @ json_units s
            | [] \<Rightarrow> json_escape c)
      else json_unit c @ json_units s)"

definition json_quote :: "jstr \<Rightarrow> jstr" where
  "json_quote s = [34] @ json_units s @ [34]"

definition json_int :: "int \<Rightarrow> jstr" where
  "json_int i = (if i < 0 then [45] else []) @ decimal (nat \<bar>i\<bar>)"

fun json_text :: "json \<Rightarrow> jstr"
  and json_items :: "json list \<Rightarrow> jstr"
  and json_members_text :: "(string \<times> json) list \<Rightarrow> jstr" where
  "json_text J_null = js ''null''"
| "json_text (J_bool b) = js (if b then ''true'' else ''false'')"
| "json_text (J_number i) = json_int i"
| "json_text (J_string s) = json_quote s"
| "json_text (J_array vs) = [91] @ json_items vs @ [93]"
| "json_text (J_object fs) = [123] @ json_members_text fs @ [125]"
| "json_items [] = []"
| "json_items (v # vs) = json_text v @ (if vs = [] then [] else [44] @ json_items vs)"
| "json_members_text [] = []"
| "json_members_text ((k, v) # fs) =
     json_quote (js k) @ [58] @ json_text v @ (if fs = [] then [] else [44] @ json_members_text fs)"


section \<open>Reading it back\<close>

definition unhex :: "nat \<Rightarrow> nat" where
  "unhex d = (if d < 58 then d - 48 else d - 87)"

definition unhex4 :: "nat \<Rightarrow> nat \<Rightarrow> nat \<Rightarrow> nat \<Rightarrow> nat" where
  "unhex4 a b c d = ((unhex a * 16 + unhex b) * 16 + unhex c) * 16 + unhex d"

definition json_long :: "nat \<Rightarrow> nat" where
  "json_long e = the (map_of [(34, 34), (92, 92), (98, 8), (116, 9), (110, 10), (102, 12), (114, 13)] e)"

text \<open>What is between quotes, up to the closing one.\<close>

fun json_unquote :: "jstr \<Rightarrow> (jstr \<times> jstr) option" where
  "json_unquote [] = None"
| "json_unquote (c # r) =
     (if c = 34 then Some ([], r)
      else if c \<noteq> 92 then map_option (apfst (Cons c)) (json_unquote r)
      else case r of
             [] \<Rightarrow> None
           | e # r' \<Rightarrow>
               if e = 117
               then (case r' of
                       h1 # h2 # h3 # h4 # r'' \<Rightarrow>
                         map_option (apfst (Cons (unhex4 h1 h2 h3 h4)))
                           (json_unquote r'')
                     | _ \<Rightarrow> None)
               else map_option (apfst (Cons (json_long e))) (json_unquote r'))"

definition units :: "jstr \<Rightarrow> bool" where
  "units s \<longleftrightarrow> (\<forall>c \<in> set s. c < 65536)"

lemma units_simps [simp]: "units []" "units (c # s) \<longleftrightarrow> c < 65536 \<and> units s"
  by (auto simp: units_def)

lemma unhex_hex: "d < 16 \<Longrightarrow> unhex (hex_lower d) = d"
  by (auto simp: unhex_def hex_lower_def)

lemma four_digits:
  "((c div 4096 * 16 + c div 256 mod 16) * 16 + c div 16 mod 16) * 16 + c mod 16 = (c::nat)"
proof -
  have "c div 4096 = c div 256 div 16" "c div 256 = c div 16 div 16" by (simp_all flip: div_mult2_eq)
  then show ?thesis by (metis div_mult_mod_eq)
qed

lemma unhex4_escape:
  "c < 65536 \<Longrightarrow>
     unhex4 (hex_lower (c div 4096)) (hex_lower (c div 256 mod 16)) (hex_lower (c div 16 mod 16)) (hex_lower (c mod 16)) = c"
  unfolding unhex4_def by (subst unhex_hex, simp)+ (rule four_digits)

lemma unquote_escape:
  "c < 65536 \<Longrightarrow> json_unquote (json_escape c @ r) = map_option (apfst (Cons c)) (json_unquote r)"
  by (simp add: json_escape_def unhex4_escape)

lemma unquote_unit:
  assumes "c < 65536" and "\<not> lone_surrogate c"
  shows "json_unquote (json_unit c @ r) = map_option (apfst (Cons c)) (json_unquote r)"
proof (cases "json_short c")
  case None
  then have "c \<noteq> 34" "c \<noteq> 92" by (auto simp: json_short_def split: if_splits)
  with None assms(1) show ?thesis by (simp add: json_unit_def unquote_escape)
next
  case (Some e)
  then have "json_long e = c \<and> e \<noteq> 117" by (auto simp: json_short_def json_long_def split: if_splits)
  with Some show ?thesis by (simp add: json_unit_def)
qed

lemma unquote_end: "json_unquote (34 # r) = Some ([], r)"
  by simp

lemma unquote_high: "55296 \<le> d \<Longrightarrow> json_unquote (d # t) = map_option (apfst (Cons d)) (json_unquote t)"
  by simp

lemma unquote_units: "units s \<Longrightarrow> json_unquote (json_units s @ 34 # r) = Some (s, r)"
proof (induction s rule: json_units.induct)
  case (2 c s)
  show ?case
  proof (cases "lone_surrogate c")
    case False
    with 2 show ?thesis by (simp add: unquote_unit del: json_unquote.simps)
  next
    case lone: True
    then have high: "55296 \<le> c" by (simp add: lone_surrogate_def)
    show ?thesis
    proof (cases "\<exists>d t. s = d # t \<and> c < 56320 \<and> 56320 \<le> d \<and> d < 57344")
      case True
      then obtain d t where "s = d # t" "c < 56320" "56320 \<le> d" "d < 57344" by blast
      with 2(1) [OF lone] 2 high lone show ?thesis by (simp add: unquote_high del: json_unquote.simps)
    next
      case False
      with lone have "json_units (c # s) = json_escape c @ json_units s" by (auto split: list.split)
      with False 2 lone show ?thesis
        by (cases s) (simp_all add: unquote_escape unquote_end del: json_unquote.simps json_units.simps(2))
    qed
  qed
qed simp

lemma quote_inj:
  assumes "json_quote s @ r = json_quote t @ r'" and "units s" and "units t"
  shows "s = t \<and> r = r'"
proof -
  have "json_units s @ 34 # r = json_units t @ 34 # r'" using assms(1) by (simp add: json_quote_def)
  then have "Some (s, r) = Some (t, r')" by (metis unquote_units assms(2,3))
  then show ?thesis by simp
qed

text \<open>Numbers end where the digits do.\<close>

definition delimited :: "jstr \<Rightarrow> bool" where
  "delimited r \<longleftrightarrow> r = [] \<or> hd r \<in> {44, 93, 125}"

lemma delimited_simps [simp]: "delimited []" "delimited (c # r) \<longleftrightarrow> c \<in> {44, 93, 125}"
  by (simp_all add: delimited_def)

lemma decimal_digits: "list_all is_digit (decimal n) \<and> decimal n \<noteq> []"
proof (induction n rule: decimal.induct)
  case (1 n)
  then show ?case by (subst (1 2) decimal.simps) (auto simp: list_all_iff, auto simp: is_digit_def)
qed

lemma decimal_value: "foldl (\<lambda>a d. a * 10 + (d - 48)) 0 (decimal n) = n"
proof (induction n rule: decimal.induct)
  case (1 n)
  then show ?case by (subst decimal.simps) auto
qed

lemma decimal_inj:
  assumes "decimal m @ r = decimal n @ r'" and "delimited r" and "delimited r'"
  shows "m = n \<and> r = r'"
proof -
  have "takeWhile is_digit (decimal k @ x) = decimal k" if "delimited x" for k x
    using decimal_digits [of k] that
    by (cases x) (auto simp: takeWhile_append list_all_iff delimited_def is_digit_def)
  then have "decimal m = decimal n" using assms by metis
  moreover from this have "m = n" using decimal_value by metis
  ultimately show ?thesis using assms(1) by simp
qed

lemma decimal_first: "\<exists>d x. decimal n = d # x \<and> 48 \<le> d \<and> d \<le> 57"
  using decimal_digits [of n] by (cases "decimal n") (auto simp: is_digit_def)

lemma int_first: "\<exists>d x. json_int i = d # x \<and> (d = 45 \<or> 48 \<le> d \<and> d \<le> 57)"
  using decimal_first [of "nat \<bar>i\<bar>"] by (auto simp: json_int_def)

lemma int_inj:
  assumes "json_int i @ r = json_int j @ r'" and "delimited r" and "delimited r'"
  shows "i = j \<and> r = r'"
proof -
  have sign: "i < 0 \<longleftrightarrow> j < 0"
    using assms(1) decimal_first [of "nat \<bar>i\<bar>"] decimal_first [of "nat \<bar>j\<bar>"]
    by (auto simp: json_int_def split: if_splits)
  then have "decimal (nat \<bar>i\<bar>) @ r = decimal (nat \<bar>j\<bar>) @ r'"
    using assms(1) by (auto simp: json_int_def split: if_splits)
  then have "nat \<bar>i\<bar> = nat \<bar>j\<bar> \<and> r = r'" by (rule decimal_inj [OF _ assms(2,3)])
  with sign show ?thesis by auto
qed

section \<open>One text, one value\<close>

fun json_units_ok :: "json \<Rightarrow> bool"
  and items_ok :: "json list \<Rightarrow> bool"
  and members_ok :: "(string \<times> json) list \<Rightarrow> bool" where
  "json_units_ok (J_string s) \<longleftrightarrow> units s"
| "json_units_ok (J_array vs) \<longleftrightarrow> items_ok vs"
| "json_units_ok (J_object fs) \<longleftrightarrow> members_ok fs"
| "json_units_ok _ \<longleftrightarrow> True"
| "items_ok [] \<longleftrightarrow> True"
| "items_ok (v # vs) \<longleftrightarrow> json_units_ok v \<and> items_ok vs"
| "members_ok [] \<longleftrightarrow> True"
| "members_ok ((k, v) # fs) \<longleftrightarrow> json_units_ok v \<and> members_ok fs"

lemma js_inj: "js k = js l \<longleftrightarrow> k = l"
  unfolding js_def by (rule inj_eq) (metis char_of_char inj_mapI injI)

lemma units_js [simp]: "units (js k)"
  by (auto simp: units_def js_def intro: less_trans [OF nat_of_char_less_256])

text \<open>The first unit tells what kind of value follows.\<close>

definition json_kind :: "json \<Rightarrow> nat \<Rightarrow> bool" where
  "json_kind v d =
     (case v of J_null \<Rightarrow> d = 110 | J_bool b \<Rightarrow> d = (if b then 116 else 102)
      | J_number i \<Rightarrow> d = 45 \<or> 48 \<le> d \<and> d \<le> 57 | J_string s \<Rightarrow> d = 34 | J_array vs \<Rightarrow> d = 91 | J_object fs \<Rightarrow> d = 123)"

lemma text_first: "\<exists>d x. json_text v = d # x \<and> json_kind v d \<and> d \<notin> {44, 93, 125}"
proof (cases v)
  case (J_number i)
  then show ?thesis using int_first [of i] by (auto simp: json_kind_def)
qed (auto simp: js_def json_quote_def json_kind_def)

lemma same_kind:
  assumes "json_text v @ r = json_text w @ r'"
  obtains d where "json_kind v d" and "json_kind w d"
  using assms text_first [of v] text_first [of w] by fastforce

lemma text_inj:
  "json_text v @ r = json_text w @ r' \<Longrightarrow> json_units_ok v \<Longrightarrow> json_units_ok w \<Longrightarrow>
     delimited r \<Longrightarrow> delimited r' \<Longrightarrow> v = w \<and> r = r'"
  "json_items vs @ 93 # r = json_items ws @ 93 # r' \<Longrightarrow> items_ok vs \<Longrightarrow> items_ok ws \<Longrightarrow> vs = ws \<and> r = r'"
  "json_members_text fs @ 125 # r = json_members_text gs @ 125 # r' \<Longrightarrow> members_ok fs \<Longrightarrow> members_ok gs \<Longrightarrow>
     fs = gs \<and> r = r'"
proof (induction v and vs and fs arbitrary: r w r' and r ws r' and r gs r'
    rule: json_text_json_items_json_members_text.induct)
  case 1
  obtain d where "json_kind J_null d" "json_kind w d" by (rule same_kind [OF 1(1)])
  then have "w = J_null" by (cases w) (auto simp: json_kind_def split: if_splits)
  with 1 show ?case by simp
next
  case (2 b)
  obtain d where "json_kind (J_bool b) d" "json_kind w d" by (rule same_kind [OF 2(1)])
  then have "w = J_bool b" by (cases w) (auto simp: json_kind_def split: if_splits)
  with 2 show ?case by simp
next
  case (3 i)
  obtain d where "json_kind (J_number i) d" "json_kind w d" by (rule same_kind [OF 3(1)])
  then obtain j where "w = J_number j" by (cases w) (auto simp: json_kind_def split: if_splits)
  with 3 int_inj [of i r j r'] show ?case by simp
next
  case (4 s)
  obtain d where "json_kind (J_string s) d" "json_kind w d" by (rule same_kind [OF 4(1)])
  then obtain t where "w = J_string t" by (cases w) (auto simp: json_kind_def split: if_splits)
  with 4 quote_inj [of s r t r'] show ?case by simp
next
  case (5 vs)
  obtain d where "json_kind (J_array vs) d" "json_kind w d" by (rule same_kind [OF 5(2)])
  then obtain ws where "w = J_array ws" by (cases w) (auto simp: json_kind_def split: if_splits)
  with 5 show ?case by simp
next
  case (6 fs)
  obtain d where "json_kind (J_object fs) d" "json_kind w d" by (rule same_kind [OF 6(2)])
  then obtain gs where "w = J_object gs" by (cases w) (auto simp: json_kind_def split: if_splits)
  with 6 show ?case by simp
next
  case 7
  show ?case
  proof (cases ws)
    case (Cons w ws')
    then show ?thesis using 7(1) text_first [of w] by auto
  qed (use 7 in simp)
next
  case (8 v vs)
  show ?case
  proof (cases ws)
    case Nil
    then show ?thesis using 8(3) text_first [of v] by auto
  next
    case (Cons w ws')
    have eq: "v = w \<and> (if vs = [] then [] else 44 # json_items vs) @ 93 # r = (if ws' = [] then [] else 44 # json_items ws') @ 93 # r'"
      using 8(3-5) Cons by (intro 8(1)) (auto split: if_splits)
    show ?thesis
    proof (cases "vs = [] \<or> ws' = []")
      case True
      with eq Cons show ?thesis by (auto split: if_splits)
    next
      case False
      with eq have "json_items vs @ 93 # r = json_items ws' @ 93 # r'" by simp
      then have "vs = ws' \<and> r = r'" using 8(4,5) Cons False by (intro 8(2)) simp_all
      with eq Cons show ?thesis by simp
    qed
  qed
next
  case 9
  then show ?case by (cases gs) (auto simp: json_quote_def)
next
  case (10 k v fs)
  show ?case
  proof (cases gs)
    case Nil
    then show ?thesis using 10(3) by (simp add: json_quote_def)
  next
    case (Cons g gs')
    obtain l w where g: "g = (l, w)" by (cases g)
    define x where "x = (if fs = [] then [] else 44 # json_members_text fs) @ 125 # r"
    define y where "y = (if gs' = [] then [] else 44 # json_members_text gs') @ 125 # r'"
    have "json_quote (js k) @ 58 # json_text v @ x = json_quote (js l) @ 58 # json_text w @ y"
      using 10(3) Cons g by (auto simp: x_def y_def split: if_splits)
    from quote_inj [OF this] have kv: "k = l" "json_text v @ x = json_text w @ y" by (auto simp: js_inj)
    then have "v = w \<and> x = y" using 10(4,5) Cons g by (intro 10(1)) (auto simp: x_def y_def)
    then have vx: "v = w" "x = y" by simp_all
    show ?thesis
    proof (cases "fs = [] \<or> gs' = []")
      case True
      with kv(1) vx Cons g show ?thesis by (auto simp: x_def y_def split: if_splits)
    next
      case False
      with vx(2) have "json_members_text fs @ 125 # r = json_members_text gs' @ 125 # r'"
        by (simp add: x_def y_def)
      then have "fs = gs' \<and> r = r'" using 10(4,5) Cons g False by (intro 10(2)) simp_all
      with kv(1) vx(1) Cons g show ?thesis by simp
    qed
  qed
qed

lemma json_text_inj:
  assumes "json_text v = json_text w" and "json_units_ok v" and "json_units_ok w"
  shows "v = w"
  using text_inj(1) [of v "[]" w "[]"] assms by simp

end
