(* ===== verification/WebHooks.thy ===== *)
theory WebHooks
  imports SharedHooks Transcript JsonText
begin

text \<open>
  The query hooks of the web app, \<open>apps/web/src/features/*/api\<close>, in the shape of
  \<open>SharedHooks\<close>. The web app passes no token: the interceptor fills it in, and
  \<open>signedIn\<close> (\<open>useIsSignedIn\<close>) says whether a query runs.
\<close>

section \<open>rooms/api/useRoomsApi.ts\<close>

definition roomKeys_all :: query_key where
  "roomKeys_all = [K ''rooms'']"

definition or_all :: "jstr option \<Rightarrow> jstr" where
  "or_all category = (case category of Some c \<Rightarrow> c | None \<Rightarrow> js ''all'')"

definition roomKeys_discovery :: "jstr option \<Rightarrow> query_key" where
  "roomKeys_discovery category = roomKeys_all @ [K ''discovery'', Str (or_all category)]"

definition roomKeys_feed :: "jstr option \<Rightarrow> query_key" where
  "roomKeys_feed category = roomKeys_all @ [K ''feed'', Str (or_all category)]"

definition roomKeys_trending :: query_key where
  "roomKeys_trending = roomKeys_all @ [K ''trending'']"

definition roomKeys_live :: query_key where
  "roomKeys_live = roomKeys_all @ [K ''live'']"

definition roomKeys_mine :: query_key where
  "roomKeys_mine = roomKeys_all @ [K ''mine'']"

definition roomKeys_community :: "uuid \<Rightarrow> query_key" where
  "roomKeys_community communityId = roomKeys_all @ [K ''community'', K communityId]"

definition roomKeys_detail :: "uuid \<Rightarrow> query_key" where
  "roomKeys_detail i = roomKeys_all @ [K ''detail'', K i]"

definition roomKeys_participants :: "uuid \<Rightarrow> query_key" where
  "roomKeys_participants i = roomKeys_detail i @ [K ''participants'']"

definition room_idle :: "string list \<Rightarrow> query_key" where
  "room_idle parts = roomKeys_all @ [K ''idle''] @ map K parts"

definition web_useDiscoveryRooms :: "bool \<Rightarrow> jstr option \<Rightarrow> nat option \<Rightarrow> cached_query" where
  "web_useDiscoveryRooms signedIn category limit =
     useQuery (roomKeys_discovery category) (Asks None (Rooms (Rooms_discovery category limit))) signedIn
       \<lparr>q_staleTime := Some 30000\<rparr>"

definition web_usePlaygroundFeed :: "bool \<Rightarrow> jstr option \<Rightarrow> nat \<Rightarrow> nat \<Rightarrow> cached_query" where
  "web_usePlaygroundFeed signedIn category pageSize pageParam =
     useQuery (roomKeys_feed category)
       (Asks None (Rooms (Rooms_feed category (Some pageSize) (Some pageParam)))) signedIn
       \<lparr>q_next := \<lambda>last. nullish (json_field ''next_offset'' last), q_staleTime := Some 15000\<rparr>"

definition web_useTrendingRooms :: "bool \<Rightarrow> cached_query" where
  "web_useTrendingRooms signedIn = useQuery roomKeys_trending (Asks None (Rooms Rooms_trending)) signedIn"

definition web_useLiveRooms :: "bool \<Rightarrow> cached_query" where
  "web_useLiveRooms signedIn = useQuery roomKeys_live (Asks None (Rooms Rooms_live)) signedIn"

definition web_useCommunityRoomsQuery :: "bool \<Rightarrow> uuid option \<Rightarrow> cached_query" where
  "web_useCommunityRoomsQuery signedIn communityId =
     useQuery (if truthy communityId then roomKeys_community (the communityId) else room_idle [''community''])
       (Asks None (Rooms (Rooms_list (bang communityId)))) (signedIn \<and> truthy communityId)"

definition web_useMyRoomsQuery :: "bool \<Rightarrow> cached_query" where
  "web_useMyRoomsQuery signedIn = useQuery roomKeys_mine (Asks None (Rooms Rooms_mine)) signedIn"

definition web_useRoomDetailQuery :: "bool \<Rightarrow> uuid option \<Rightarrow> cached_query" where
  "web_useRoomDetailQuery signedIn roomId =
     useQuery (if truthy roomId then roomKeys_detail (the roomId) else room_idle [''detail''])
       (Asks None (Rooms (Rooms_get (bang roomId)))) (signedIn \<and> truthy roomId)"

definition web_useJoinedRoomQuery :: "bool \<Rightarrow> uuid option \<Rightarrow> cached_query" where
  "web_useJoinedRoomQuery signedIn roomId =
     useQuery (if truthy roomId then roomKeys_detail (the roomId) else room_idle [''joined''])
       (Asks None (Rooms (Rooms_join (bang roomId)))) (signedIn \<and> truthy roomId)
       \<lparr>q_staleTime := Some \<infinity>, q_onFocus := False, q_onReconnect := False\<rparr>"

definition web_useRoomParticipantsQuery :: "bool \<Rightarrow> uuid option \<Rightarrow> cached_query" where
  "web_useRoomParticipantsQuery signedIn roomId =
     useQuery (if truthy roomId then roomKeys_participants (the roomId) else room_idle [''participants''])
       (Asks None (Rooms (Rooms_participants (bang roomId)))) (signedIn \<and> truthy roomId)"

definition web_useCreateStandaloneRoomMutation :: "json \<Rightarrow> mutation" where
  "web_useCreateStandaloneRoomMutation input =
     useMutation (Asks None (Rooms (Rooms_createStandalone input))) [Invalidate roomKeys_all]"

text \<open>What a hook mounted with an id does about it when it has one.\<close>

definition if_id :: "uuid option \<Rightarrow> (uuid \<Rightarrow> effect list) \<Rightarrow> effect list" where
  "if_id i effects = (if truthy i then effects (the i) else [])"

definition web_useCreateCommunityRoomMutation :: "uuid option \<Rightarrow> json \<Rightarrow> mutation" where
  "web_useCreateCommunityRoomMutation communityId input =
     useMutation (Asks None (Rooms (Rooms_create (bang communityId) input)))
       (if_id communityId (\<lambda>i. [Invalidate (roomKeys_community i)]))"

definition web_useUpdateRoomMutation :: "uuid option \<Rightarrow> json \<Rightarrow> mutation" where
  "web_useUpdateRoomMutation roomId input =
     useMutation (Asks None (Rooms (Rooms_update (bang roomId) input)))
       (if_id roomId (\<lambda>i. [Invalidate (roomKeys_detail i)]) @ [Invalidate roomKeys_all])"

definition web_useDeleteRoomMutation :: "uuid \<Rightarrow> mutation" where
  "web_useDeleteRoomMutation roomId =
     useMutation (Asks None (Rooms (Rooms_delete roomId)))
       [Remove (roomKeys_detail roomId), Invalidate roomKeys_all]"

definition web_useJoinRoomMutation :: "uuid \<Rightarrow> mutation" where
  "web_useJoinRoomMutation roomId =
     useMutation (Asks None (Rooms (Rooms_join roomId))) []
       \<lparr>m_success := \<lambda>room.
          [put (roomKeys_detail roomId) (Some room), Invalidate (roomKeys_participants roomId),
           Invalidate roomKeys_mine]\<rparr>"

definition web_useLeaveRoomMutation :: "uuid \<Rightarrow> mutation" where
  "web_useLeaveRoomMutation roomId =
     useMutation (Asks None (Rooms (Rooms_leave roomId)))
       [Invalidate (roomKeys_detail roomId), Invalidate (roomKeys_participants roomId), Invalidate roomKeys_mine]"

definition web_useSetPersonaMutation :: "uuid option \<Rightarrow> bool \<Rightarrow> mutation" where
  "web_useSetPersonaMutation roomId isAnonymous =
     useMutation (Asks None (Rooms (Rooms_setPersona (bang roomId) isAnonymous)))
       (if_id roomId (\<lambda>i. [Invalidate (roomKeys_detail i), Invalidate (roomKeys_participants i)]))"

definition web_useOpenDMMutation :: "uuid \<Rightarrow> mutation" where
  "web_useOpenDMMutation targetUserId =
     useMutation (Asks None (Rooms (Rooms_openDM targetUserId))) [Invalidate roomKeys_mine]"

definition web_useRandomRoomMutation :: "jstr option \<Rightarrow> jstr option \<Rightarrow> mutation" where
  "web_useRandomRoomMutation category roomType =
     useMutation (Asks None (Rooms (Rooms_random category roomType))) []"

definition web_useJoinMediaSessionMutation :: "uuid \<Rightarrow> mutation" where
  "web_useJoinMediaSessionMutation roomId = useMutation (Asks None (Media (Media_join roomId))) []"

definition web_useRingMutation :: "uuid \<Rightarrow> bool \<Rightarrow> mutation" where
  "web_useRingMutation roomId video = useMutation (Asks None (Media (Media_ring roomId video))) []"

definition web_useEndCallMutation :: "uuid \<Rightarrow> string \<Rightarrow> mutation" where
  "web_useEndCallMutation roomId reason = useMutation (Asks None (Media (Media_endCall roomId reason))) []"

section \<open>communities/api/useCommunitiesApi.ts\<close>

definition communityKeys_all :: query_key where
  "communityKeys_all = [K ''communities'']"

definition communityKeys_list :: query_key where
  "communityKeys_list = communityKeys_all @ [K ''list'']"

definition communityKeys_templates :: query_key where
  "communityKeys_templates = communityKeys_all @ [K ''templates'']"

definition communityKeys_detail :: "uuid \<Rightarrow> query_key" where
  "communityKeys_detail i = communityKeys_all @ [K ''detail'', K i]"

definition communityKeys_members :: "uuid \<Rightarrow> query_key" where
  "communityKeys_members i = communityKeys_detail i @ [K ''members'']"

definition communityKeys_roles :: "uuid \<Rightarrow> query_key" where
  "communityKeys_roles i = communityKeys_detail i @ [K ''roles'']"

definition communityKeys_invites :: "uuid \<Rightarrow> query_key" where
  "communityKeys_invites i = communityKeys_detail i @ [K ''invites'']"

definition communityKeys_invitePreview :: "string \<Rightarrow> query_key" where
  "communityKeys_invitePreview invite = communityKeys_all @ [K ''invitePreview'', K invite]"

definition community_idle :: "string list \<Rightarrow> query_key" where
  "community_idle parts = communityKeys_all @ [K ''idle''] @ map K parts"

definition web_useCommunitiesList :: "bool \<Rightarrow> cached_query" where
  "web_useCommunitiesList signedIn =
     useQuery communityKeys_list (Asks None (Communities Communities_list)) signedIn"

definition web_useCommunityTemplates :: "bool \<Rightarrow> cached_query" where
  "web_useCommunityTemplates signedIn =
     useQuery communityKeys_templates (Asks None (Communities Communities_templates)) signedIn
       \<lparr>q_staleTime := Some \<infinity>\<rparr>"

definition web_useCommunityDetail :: "bool \<Rightarrow> uuid option \<Rightarrow> cached_query" where
  "web_useCommunityDetail signedIn communityId =
     useQuery (if truthy communityId then communityKeys_detail (the communityId) else community_idle [''detail''])
       (Asks None (Communities (Communities_get (bang communityId)))) (signedIn \<and> truthy communityId)"

definition web_useCommunityMembers :: "bool \<Rightarrow> uuid option \<Rightarrow> nat \<Rightarrow> cached_query" where
  "web_useCommunityMembers signedIn communityId limit =
     useQuery (if truthy communityId then communityKeys_members (the communityId) else community_idle [''members''])
       (Asks None (Communities (Communities_members (bang communityId) limit))) (signedIn \<and> truthy communityId)"

definition web_useCommunityRoles :: "bool \<Rightarrow> uuid option \<Rightarrow> cached_query" where
  "web_useCommunityRoles signedIn communityId =
     useQuery (if truthy communityId then communityKeys_roles (the communityId) else community_idle [''roles''])
       (Asks None (Communities (Communities_roles (bang communityId)))) (signedIn \<and> truthy communityId)"

definition web_useCreateCommunityMutation :: "json \<Rightarrow> mutation" where
  "web_useCreateCommunityMutation input =
     useMutation (Asks None (Communities (Communities_create input))) [Invalidate communityKeys_list]"

definition web_useUpdateCommunityMutation :: "uuid option \<Rightarrow> json \<Rightarrow> mutation" where
  "web_useUpdateCommunityMutation communityId input =
     useMutation (Asks None (Communities (Communities_update (bang communityId) input)))
       (if_id communityId (\<lambda>i. [Invalidate (communityKeys_detail i)]) @ [Invalidate communityKeys_list])"

definition web_useDeleteCommunityMutation :: "uuid \<Rightarrow> mutation" where
  "web_useDeleteCommunityMutation communityId =
     useMutation (Asks None (Communities (Communities_delete communityId)))
       [Remove (communityKeys_detail communityId), Invalidate communityKeys_list]"

definition web_useJoinCommunityMutation :: "uuid \<Rightarrow> mutation" where
  "web_useJoinCommunityMutation communityId =
     useMutation (Asks None (Communities (Communities_join communityId)))
       [Invalidate communityKeys_list, Invalidate (communityKeys_members communityId)]"

definition web_useLeaveCommunityMutation :: "uuid \<Rightarrow> uuid \<Rightarrow> mutation" where
  "web_useLeaveCommunityMutation communityId userId =
     useMutation (Asks None (Communities (Communities_leave communityId userId)))
       [Invalidate communityKeys_list, Invalidate (communityKeys_members communityId)]"

definition web_useCreateRoleMutation :: "uuid option \<Rightarrow> json \<Rightarrow> mutation" where
  "web_useCreateRoleMutation communityId input =
     useMutation (Asks None (Communities (Communities_createRole (bang communityId) input)))
       (if_id communityId (\<lambda>i. [Invalidate (communityKeys_roles i)]))"

definition web_useUpdateRoleMutation :: "uuid option \<Rightarrow> uuid \<Rightarrow> json \<Rightarrow> mutation" where
  "web_useUpdateRoleMutation communityId roleId input =
     useMutation (Asks None (Communities (Communities_updateRole (bang communityId) roleId input)))
       (if_id communityId (\<lambda>i. [Invalidate (communityKeys_roles i)]))"

definition web_useAssignRoleMutation :: "uuid option \<Rightarrow> uuid \<Rightarrow> uuid \<Rightarrow> mutation" where
  "web_useAssignRoleMutation communityId userId roleId =
     useMutation (Asks None (Communities (Communities_assignRole (bang communityId) userId roleId)))
       (if_id communityId (\<lambda>i. [Invalidate (communityKeys_members i)]))"

definition web_useRemoveRoleMutation :: "uuid option \<Rightarrow> uuid \<Rightarrow> uuid \<Rightarrow> mutation" where
  "web_useRemoveRoleMutation communityId userId roleId =
     useMutation (Asks None (Communities (Communities_removeRole (bang communityId) userId roleId)))
       (if_id communityId (\<lambda>i. [Invalidate (communityKeys_members i)]))"

definition web_useCommunityInvites :: "bool \<Rightarrow> uuid option \<Rightarrow> cached_query" where
  "web_useCommunityInvites signedIn communityId =
     useQuery (if truthy communityId then communityKeys_invites (the communityId) else community_idle [''invites''])
       (Asks None (Communities (Communities_listInvites (bang communityId)))) (signedIn \<and> truthy communityId)"

definition web_useCreateInviteMutation :: "uuid option \<Rightarrow> json \<Rightarrow> mutation" where
  "web_useCreateInviteMutation communityId input =
     useMutation (Asks None (Communities (Communities_createInvite (bang communityId) input)))
       (if_id communityId (\<lambda>i. [Invalidate (communityKeys_invites i)]))"

definition web_useRevokeInviteMutation :: "uuid option \<Rightarrow> string \<Rightarrow> mutation" where
  "web_useRevokeInviteMutation communityId invite =
     useMutation (Asks None (Communities (Communities_revokeInvite invite)))
       (if_id communityId (\<lambda>i. [Invalidate (communityKeys_invites i)]))"

definition web_useInvitePreview :: "bool \<Rightarrow> string option \<Rightarrow> cached_query" where
  "web_useInvitePreview signedIn invite =
     useQuery (if truthy invite then communityKeys_invitePreview (the invite) else community_idle [''invitePreview''])
       (Asks None (Communities (Communities_previewInvite (bang invite)))) (signedIn \<and> truthy invite)
       \<lparr>q_retry := False\<rparr>"

definition web_useRedeemInviteMutation :: "string \<Rightarrow> mutation" where
  "web_useRedeemInviteMutation invite =
     useMutation (Asks None (Communities (Communities_redeemInvite invite))) []
       \<lparr>m_success := \<lambda>community.
          [Invalidate communityKeys_list,
           Invalidate (communityKeys_detail (json_id (json_field ''id'' community)))]\<rparr>"

section \<open>friends/api/useFriendsApi.ts\<close>

definition friendKeys_all :: query_key where
  "friendKeys_all = [K ''friends'']"

definition friendKeys_list :: query_key where
  "friendKeys_list = friendKeys_all @ [K ''list'']"

definition friendKeys_pending :: query_key where
  "friendKeys_pending = friendKeys_all @ [K ''pending'']"

definition friendKeys_sent :: query_key where
  "friendKeys_sent = friendKeys_all @ [K ''sent'']"

definition friendKeys_blocked :: query_key where
  "friendKeys_blocked = [K ''blocks'', K ''list'']"

definition friendKeys_presence :: query_key where
  "friendKeys_presence = [K ''presence'', K ''online'']"

definition socialGraphKeys :: "query_key list" where
  "socialGraphKeys = [friendKeys_list, friendKeys_pending, friendKeys_sent, friendKeys_blocked]"

definition web_useFriendsList :: "bool \<Rightarrow> cached_query" where
  "web_useFriendsList signedIn = useQuery friendKeys_list (Asks None (Friends Friends_list)) signedIn"

definition web_usePendingFriendRequests :: "bool \<Rightarrow> cached_query" where
  "web_usePendingFriendRequests signedIn =
     useQuery friendKeys_pending (Asks None (Friends Friends_pending)) signedIn"

definition web_useSentFriendRequests :: "bool \<Rightarrow> cached_query" where
  "web_useSentFriendRequests signedIn = useQuery friendKeys_sent (Asks None (Friends Friends_sent)) signedIn"

definition web_useBlockedUsers :: "bool \<Rightarrow> cached_query" where
  "web_useBlockedUsers signedIn = useQuery friendKeys_blocked (Asks None (Social Blocks_list)) signedIn"

definition web_useOnlineUsers :: "bool \<Rightarrow> cached_query" where
  "web_useOnlineUsers signedIn =
     useQuery friendKeys_presence (Asks None (Social (Presence_online None))) signedIn
       \<lparr>q_staleTime := Some 60000\<rparr>"

definition useGraphInvalidation :: "effect list" where
  "useGraphInvalidation = map Invalidate socialGraphKeys"

definition web_useSendFriendRequestMutation :: "uuid \<Rightarrow> mutation" where
  "web_useSendFriendRequestMutation userId =
     useMutation (Asks None (Friends (Friends_request userId))) useGraphInvalidation"

definition web_useRespondFriendRequestMutation :: "uuid \<Rightarrow> bool \<Rightarrow> mutation" where
  "web_useRespondFriendRequestMutation requesterId accept =
     useMutation (Asks None (Friends (Friends_respond requesterId accept))) useGraphInvalidation"

definition web_useRemoveFriendMutation :: "uuid \<Rightarrow> mutation" where
  "web_useRemoveFriendMutation userId =
     useMutation (Asks None (Friends (Friends_remove userId))) useGraphInvalidation"

definition web_useBlockUserMutation :: "uuid \<Rightarrow> mutation" where
  "web_useBlockUserMutation userId =
     useMutation (Asks None (Social (Blocks_block userId))) useGraphInvalidation"

definition web_useUnblockUserMutation :: "uuid \<Rightarrow> mutation" where
  "web_useUnblockUserMutation userId =
     useMutation (Asks None (Social (Blocks_unblock userId))) useGraphInvalidation"

section \<open>bff/api/useBffApi.ts\<close>

definition bffKeys_all :: query_key where
  "bffKeys_all = [K ''bff'']"

definition bffKeys_meOverview :: query_key where
  "bffKeys_meOverview = bffKeys_all @ [K ''me'', K ''overview'']"

definition bffKeys_communityOverview :: "uuid \<Rightarrow> query_key" where
  "bffKeys_communityOverview i = bffKeys_all @ [K ''community'', K i, K ''overview'']"

definition bffKeys_roomSession :: "uuid \<Rightarrow> query_key" where
  "bffKeys_roomSession i = bffKeys_all @ [K ''room'', K i, K ''session'']"

definition bffKeys_socialOverview :: query_key where
  "bffKeys_socialOverview = bffKeys_all @ [K ''me'', K ''social'']"

definition web_useMeOverviewQuery :: "bool \<Rightarrow> cached_query" where
  "web_useMeOverviewQuery signedIn =
     useQuery bffKeys_meOverview (Asks None (Auth Auth_overview)) signedIn\<lparr>q_staleTime := Some 120000\<rparr>"

definition web_useCommunityOverviewQuery :: "bool \<Rightarrow> uuid option \<Rightarrow> cached_query" where
  "web_useCommunityOverviewQuery signedIn communityId =
     useQuery (if truthy communityId then bffKeys_communityOverview (the communityId) else bffKeys_all @ [K ''idle''])
       (Asks None (Communities (Communities_overview (bang communityId)))) (signedIn \<and> truthy communityId)"

definition web_useRoomSessionQuery :: "bool \<Rightarrow> uuid option \<Rightarrow> cached_query" where
  "web_useRoomSessionQuery signedIn roomId =
     useQuery (if truthy roomId then bffKeys_roomSession (the roomId) else bffKeys_all @ [K ''room'', K ''idle''])
       (Asks None (Rooms (Rooms_session (bang roomId)))) (signedIn \<and> truthy roomId)
       \<lparr>q_staleTime := Some \<infinity>, q_onFocus := False, q_onReconnect := False, q_retry := False\<rparr>"

definition web_useSocialOverviewQuery :: "bool \<Rightarrow> cached_query" where
  "web_useSocialOverviewQuery signedIn =
     useQuery bffKeys_socialOverview (Asks None (Social Social_overview)) signedIn"

section \<open>settings/api/useSettingsApi.ts and auth/api/useAuthApi.ts\<close>

definition settingsKeys_all :: query_key where
  "settingsKeys_all = [K ''settings'']"

definition settingsKeys_publicProfile :: "uuid \<Rightarrow> query_key" where
  "settingsKeys_publicProfile userId = [K ''users'', K ''detail'', K userId]"

definition web_usePublicProfileQuery :: "bool \<Rightarrow> uuid option \<Rightarrow> cached_query" where
  "web_usePublicProfileQuery signedIn userId =
     useQuery (if truthy userId then settingsKeys_publicProfile (the userId)
               else [K ''users'', K ''detail'', K ''idle''])
       (Asks None (Users (Users_get (bang userId)))) (signedIn \<and> truthy userId)
       \<lparr>q_staleTime := Some 300000\<rparr>"

definition web_usePublicProfiles :: "bool \<Rightarrow> uuid list \<Rightarrow> cached_query" where
  "web_usePublicProfiles signedIn userIds =
     useQuery [K ''users'', K ''batch'', K (join_with '','' (sort userIds))]
       (Asks_each (map (\<lambda>i. (settingsKeys_publicProfile i, None, Users (Users_get i))) userIds))
       (signedIn \<and> length userIds > 0)\<lparr>q_staleTime := Some 300000\<rparr>"

definition authKeys_all :: query_key where
  "authKeys_all = [K ''auth'']"

definition authKeys_config :: query_key where
  "authKeys_config = authKeys_all @ [K ''config'']"

definition authKeys_me :: query_key where
  "authKeys_me = authKeys_all @ [K ''me'']"

definition web_useAuthConfig :: cached_query where
  "web_useAuthConfig = useQuery authKeys_config (Asks None (Auth Auth_config)) True\<lparr>q_staleTime := Some \<infinity>\<rparr>"

definition web_useCurrentUser :: "bool \<Rightarrow> cached_query" where
  "web_useCurrentUser signedIn =
     useQuery authKeys_me (Asks None (Auth Auth_me)) signedIn\<lparr>q_staleTime := Some 300000\<rparr>"

definition web_useUpdateProfileMutation :: "json \<Rightarrow> mutation" where
  "web_useUpdateProfileMutation input =
     useMutation (Asks None (Auth (Auth_updateProfile input))) []
       \<lparr>m_success := \<lambda>profile.
          [Write authKeys_me (map_option (with_field ''profile'' profile)), Invalidate authKeys_me]\<rparr>"

definition web_useLoginMutation :: "json \<Rightarrow> mutation" where
  "web_useLoginMutation input = useMutation (Asks None (Auth (Auth_login input))) []"

definition web_useRegisterMutation :: "json \<Rightarrow> mutation" where
  "web_useRegisterMutation input = useMutation (Asks None (Auth (Auth_register input))) []"

section \<open>recommendations/api/useRecommendations.ts\<close>

definition recommendationKeys_all :: query_key where
  "recommendationKeys_all = [K ''recommendations'']"

definition recommendationKeys_rooms :: "jstr option \<Rightarrow> query_key" where
  "recommendationKeys_rooms category = recommendationKeys_all @ [K ''rooms'', Str (or_all category)]"

definition recommendationKeys_people :: query_key where
  "recommendationKeys_people = recommendationKeys_all @ [K ''people'']"

definition recommendationKeys_communities :: query_key where
  "recommendationKeys_communities = recommendationKeys_all @ [K ''communities'']"

definition web_STALE_TIME :: enat where
  "web_STALE_TIME = 90000"

definition web_useRecommendedRooms :: "bool \<Rightarrow> jstr option \<Rightarrow> nat option \<Rightarrow> cached_query" where
  "web_useRecommendedRooms signedIn category limit =
     useQuery (recommendationKeys_rooms category)
       (Asks None (Support (Recommendations_rooms
          (json_object [(''category'', map_option J_string category), (''limit'', map_option json_number limit)]))))
       signedIn\<lparr>q_staleTime := Some web_STALE_TIME\<rparr>"

definition web_useRecommendedPeople :: "bool \<Rightarrow> nat option \<Rightarrow> cached_query" where
  "web_useRecommendedPeople signedIn limit =
     useQuery recommendationKeys_people
       (Asks None (Support (Recommendations_people (json_object [(''limit'', map_option json_number limit)]))))
       signedIn\<lparr>q_staleTime := Some web_STALE_TIME\<rparr>"

definition web_useRecommendedCommunities :: "bool \<Rightarrow> nat option \<Rightarrow> cached_query" where
  "web_useRecommendedCommunities signedIn limit =
     useQuery recommendationKeys_communities
       (Asks None (Support (Recommendations_communities (json_object [(''limit'', map_option json_number limit)]))))
       signedIn\<lparr>q_staleTime := Some web_STALE_TIME\<rparr>"

text \<open>The details are joined with a middle dot between spaces.\<close>

fun join_dots :: "jstr list \<Rightarrow> jstr" where
  "join_dots [] = []"
| "join_dots [x] = x"
| "join_dots (x # y # xs) = x @ [32, 183, 32] @ join_dots (y # xs)"

definition explain :: "jstr list \<Rightarrow> jstr option" where
  "explain details = (if length details = 0 then None else Some (join_dots details))"

section \<open>chat/api/useChatApi.ts\<close>

definition web_useRoomMessagesInfinite ::
  "bool \<Rightarrow> uuid option \<Rightarrow> nat \<Rightarrow> (jstr option \<times> jstr option) option \<Rightarrow> cached_query" where
  "web_useRoomMessagesInfinite signedIn roomId limit pageParam =
     useQuery (if truthy roomId then chatKeys_messages (the roomId) else chatKeys_all @ [K ''idle''])
       (Asks None (Messages (Messages_history (bang roomId)
          (case pageParam of Some (before, _) \<Rightarrow> before | None \<Rightarrow> None)
          (case pageParam of Some (_, beforeId) \<Rightarrow> beforeId | None \<Rightarrow> None) limit)))
       (signedIn \<and> truthy roomId)
       \<lparr>q_next := \<lambda>lastPage.
          (let before = json_field ''next_before'' lastPage
           in if before = None \<or> json_falsy (the before) then None
              else Some (json_object [(''before'', before), (''beforeId'', json_field ''next_before_id'' lastPage)])),
        q_staleTime := Some \<infinity>, q_onFocus := False\<rparr>"

definition web_useSendMessageMutation :: "uuid option \<Rightarrow> jstr \<Rightarrow> bool option \<Rightarrow> uuid option \<Rightarrow> mutation" where
  "web_useSendMessageMutation roomId content isAnonymous replyTo =
     useMutation (Asks None (Messages (Messages_post (bang roomId) content isAnonymous replyTo))) []"

definition web_useEditMessageMutation :: "uuid \<Rightarrow> jstr \<Rightarrow> mutation" where
  "web_useEditMessageMutation messageId content =
     useMutation (Asks None (Messages (Messages_edit messageId content))) []"

definition web_useDeleteMessageMutation :: "uuid \<Rightarrow> mutation" where
  "web_useDeleteMessageMutation messageId = useMutation (Asks None (Messages (Messages_remove messageId))) []"

text \<open>
  The new tally is written over the message wherever the chat cache holds it: in the pages of
  a transcript, or in a list of messages. What \<open>map\<close> is called on is an array and what is
  spread an object, as the server answers; anything else is left as it is.
\<close>

definition map_items :: "(json \<Rightarrow> json) \<Rightarrow> json \<Rightarrow> json" where
  "map_items f v = (case v of J_array xs \<Rightarrow> J_array (map f xs) | _ \<Rightarrow> v)"

definition has_id :: "string \<Rightarrow> uuid \<Rightarrow> json \<Rightarrow> bool" where
  "has_id name i v \<longleftrightarrow> json_field name v = Some (J_string (js i))"

definition retally :: "uuid \<Rightarrow> json \<Rightarrow> json \<Rightarrow> json" where
  "retally messageId reactions item =
     (if has_id ''id'' messageId item then spread_field ''reactions'' reactions item else item)"

definition retally_page :: "uuid \<Rightarrow> json \<Rightarrow> json \<Rightarrow> json" where
  "retally_page messageId reactions page =
     spread_field ''messages''
       (map_items (retally messageId reactions)
          (case nullish (json_field ''messages'' page) of Some ms \<Rightarrow> ms | None \<Rightarrow> J_array [])) page"

definition retally_cached :: "uuid \<Rightarrow> json \<Rightarrow> json option \<Rightarrow> json option" where
  "retally_cached messageId reactions cached =
     (case cached of
        None \<Rightarrow> None
      | Some v \<Rightarrow>
          Some (if json_falsy v then v
                else case json_field ''pages'' v of
                  Some (J_array ps) \<Rightarrow>
                    spread_field ''pages'' (J_array (map (retally_page messageId reactions) ps)) v
                | _ \<Rightarrow> map_items (retally messageId reactions) v))"

definition web_useReactionMutation :: "uuid \<Rightarrow> jstr \<Rightarrow> bool \<Rightarrow> mutation" where
  "web_useReactionMutation messageId reaction add =
     useMutation (Asks None (Messages (if add then Messages_react messageId reaction
                                       else Messages_unreact messageId reaction))) []
       \<lparr>m_success := \<lambda>reactions. [Write_under chatKeys_all (retally_cached messageId reactions)]\<rparr>"

definition web_useRoomPinsQuery :: "bool \<Rightarrow> uuid option \<Rightarrow> cached_query" where
  "web_useRoomPinsQuery signedIn roomId =
     useQuery (if truthy roomId then chatKeys_pins (the roomId) else chatKeys_all @ [K ''idle'', K ''pins''])
       (Asks None (Messages (Messages_pins (bang roomId)))) (signedIn \<and> truthy roomId)"

definition web_usePinMessageMutation :: "uuid option \<Rightarrow> uuid \<Rightarrow> mutation" where
  "web_usePinMessageMutation roomId messageId =
     useMutation (Asks None (Messages (Messages_pin messageId))) (if_id roomId (\<lambda>i. [Invalidate (chatKeys_pins i)]))"

definition web_useUnpinMessageMutation :: "uuid option \<Rightarrow> uuid \<Rightarrow> mutation" where
  "web_useUnpinMessageMutation roomId messageId =
     useMutation (Asks None (Messages (Messages_unpin messageId))) (if_id roomId (\<lambda>i. [Invalidate (chatKeys_pins i)]))"

definition web_useSearchMessagesQuery :: "bool \<Rightarrow> jstr \<Rightarrow> uuid option \<Rightarrow> nat \<Rightarrow> cached_query" where
  "web_useSearchMessagesQuery signedIn query roomId limit =
     (let trimmed = js_trim query
      in useQuery (chatKeys_search trimmed roomId)
           (Asks None (Messages (Messages_search trimmed (map_option js roomId) (Some limit))))
           (signedIn \<and> length trimmed > 0)\<lparr>q_staleTime := Some 30000\<rparr>)"

definition web_useUnreadOverviewQuery :: "bool \<Rightarrow> cached_query" where
  "web_useUnreadOverviewQuery signedIn =
     useQuery chatKeys_unread (Asks None (Messages Messages_unread)) signedIn\<lparr>q_interval := Some 15000\<rparr>"

text \<open>\<open>old ? old.map(...) : old\<close>, for the entry of one room.\<close>

definition on_room_entry :: "uuid \<Rightarrow> string \<Rightarrow> json \<Rightarrow> json \<Rightarrow> json" where
  "on_room_entry roomId name v old =
     (if json_falsy old then old
      else map_items (\<lambda>entry. if has_id ''room_id'' roomId entry then spread_field name v entry else entry) old)"

definition web_useMarkRoomReadMutation :: "uuid \<Rightarrow> mutation" where
  "web_useMarkRoomReadMutation roomId =
     useMutation (Asks None (Messages (Messages_markRead roomId)))
       [Write chatKeys_unread (map_option (on_room_entry roomId ''unread'' (J_number 0)))]"

definition web_useMuteRoomMutation :: "uuid \<Rightarrow> bool \<Rightarrow> mutation" where
  "web_useMuteRoomMutation roomId muted =
     useMutation (Asks None (Messages (Messages_setMuted roomId muted)))
       [Write chatKeys_unread (map_option (on_room_entry roomId ''muted'' (J_bool muted)))]"

section \<open>experiences/api/useExperiencesApi.ts\<close>

text \<open>\<open>{ type, ...rest }\<close>: what is spread may write over the type.\<close>

definition spread_over :: "(string \<times> json) list \<Rightarrow> json \<Rightarrow> json" where
  "spread_over first rest = J_object (fold (\<lambda>(k, v) acc. AList.update k v acc) (json_members rest) first)"

definition postEnvelope :: "uuid \<Rightarrow> json \<Rightarrow> bool option \<Rightarrow> fetch" where
  "postEnvelope roomId envelope anonymous =
     Asks None (Messages (Messages_post roomId (json_text envelope) anonymous None))"

definition web_useVotePollMutation :: "uuid option \<Rightarrow> jstr \<Rightarrow> jstr \<Rightarrow> mutation" where
  "web_useVotePollMutation roomId pollId optionId =
     useMutation (postEnvelope (bang roomId)
       (J_object [(''type'', J_string (js ''poll_vote'')), (''pollId'', J_string pollId), (''optionId'', J_string optionId)])
       None) []"

definition web_useCreatePollMutation :: "uuid option \<Rightarrow> json \<Rightarrow> mutation" where
  "web_useCreatePollMutation roomId poll =
     useMutation (postEnvelope (bang roomId)
       (J_object [(''type'', J_string (js ''poll_create'')), (''poll'', poll)]) None) []"

definition web_useSubmitConfessionMutation :: "uuid option \<Rightarrow> json \<Rightarrow> mutation" where
  "web_useSubmitConfessionMutation roomId confession =
     useMutation (postEnvelope (bang roomId)
       (spread_over [(''type'', J_string (js ''confession_post''))] confession) (Some True)) []"

definition web_useSubmitDebateArgumentMutation :: "uuid option \<Rightarrow> json \<Rightarrow> mutation" where
  "web_useSubmitDebateArgumentMutation roomId argument =
     useMutation (postEnvelope (bang roomId)
       (spread_over [(''type'', J_string (js ''debate_arg''))] argument) None) []"

end
