(* ===== verification/ConsoleHooks.thy ===== *)
theory ConsoleHooks
  imports WebHooks
begin

text \<open>
  The points store and the staff console of the web app,
  \<open>apps/web/src/features/rewards/api\<close> and \<open>apps/web/src/features/admin/api\<close>: who may see the
  console, its paged lists and their filters, and the signals that make them stale.
\<close>

section \<open>rewards/api/useRewardsApi.ts\<close>

definition rewardKeys_all :: query_key where
  "rewardKeys_all = [K ''rewards'']"

definition rewardKeys_balance :: query_key where
  "rewardKeys_balance = rewardKeys_all @ [K ''balance'']"

definition rewardKeys_referrals :: query_key where
  "rewardKeys_referrals = rewardKeys_all @ [K ''referrals'']"

definition rewardKeys_store :: "string \<Rightarrow> query_key" where
  "rewardKeys_store itemType = rewardKeys_all @ [K ''store'', K itemType]"

definition rewardKeys_inventory :: query_key where
  "rewardKeys_inventory = rewardKeys_all @ [K ''inventory'']"

definition rewardKeys_equipped :: query_key where
  "rewardKeys_equipped = rewardKeys_all @ [K ''equipped'']"

definition rewardKeys_cosmetics :: "uuid list \<Rightarrow> query_key" where
  "rewardKeys_cosmetics userIds = rewardKeys_all @ [K ''cosmetics'', K (join_with '','' (sort userIds))]"

definition rewardKeys_adminCatalog :: query_key where
  "rewardKeys_adminCatalog = rewardKeys_all @ [K ''admin'', K ''catalog'']"

definition useRewardsInvalidation :: "effect list" where
  "useRewardsInvalidation = [Invalidate rewardKeys_all]"

definition web_useBalanceQuery :: "bool \<Rightarrow> cached_query" where
  "web_useBalanceQuery signedIn =
     useQuery rewardKeys_balance (Asks None (Store Economy_balance)) signedIn\<lparr>q_staleTime := Some 30000\<rparr>"

text \<open>
  \<open>{...previous, balance, lifetime_earned, daily_streak, can_claim_daily}\<close>. A member that is
  \<open>undefined\<close> is no member, and a sum of what are not numbers is written as \<open>null\<close>.
\<close>

definition json_plus :: "json option \<Rightarrow> json option \<Rightarrow> json" where
  "json_plus a b = (case (a, b) of (Some (J_number x), Some (J_number y)) \<Rightarrow> J_number (x + y) | _ \<Rightarrow> J_null)"

definition spread_member :: "string \<times> json option \<Rightarrow> json \<Rightarrow> json" where
  "spread_member = (\<lambda>(name, v) old.
     (case v of Some x \<Rightarrow> spread_field name x old | None \<Rightarrow> J_object (AList.delete name (json_members old))))"

definition after_checkin :: "json \<Rightarrow> json \<Rightarrow> json" where
  "after_checkin result previous =
     (if json_falsy previous then previous
      else fold spread_member
             [(''balance'', json_field ''new_balance'' result),
              (''lifetime_earned'',
                Some (json_plus (json_field ''lifetime_earned'' previous) (json_field ''points_awarded'' result))),
              (''daily_streak'', json_field ''daily_streak'' result),
              (''can_claim_daily'', Some (J_bool False))] previous)"

definition web_useDailyCheckinMutation :: mutation where
  "web_useDailyCheckinMutation =
     useMutation (Asks None (Store Economy_dailyCheckin)) []
       \<lparr>m_success := \<lambda>result.
          [Write rewardKeys_balance (map_option (after_checkin result))] @ useRewardsInvalidation\<rparr>"

definition web_useReferralOverviewQuery :: "bool \<Rightarrow> cached_query" where
  "web_useReferralOverviewQuery signedIn =
     useQuery rewardKeys_referrals (Asks None (Store Referrals_overview)) signedIn\<lparr>q_staleTime := Some 60000\<rparr>"

definition web_useClaimReferralMutation :: "jstr \<Rightarrow> mutation" where
  "web_useClaimReferralMutation referral =
     useMutation (Asks None (Store (Referrals_claim referral))) useRewardsInvalidation"

definition web_useStoreItemsQuery :: "bool \<Rightarrow> string \<Rightarrow> cached_query" where
  "web_useStoreItemsQuery signedIn itemType =
     useQuery (rewardKeys_store itemType) (Asks None (Store (Store_items (Some itemType)))) signedIn
       \<lparr>q_staleTime := Some 120000\<rparr>"

definition web_useInventoryQuery :: "bool \<Rightarrow> cached_query" where
  "web_useInventoryQuery signedIn =
     useQuery rewardKeys_inventory (Asks None (Store Inventory_mine)) signedIn\<lparr>q_staleTime := Some 60000\<rparr>"

definition web_useEquippedQuery :: "bool \<Rightarrow> cached_query" where
  "web_useEquippedQuery signedIn =
     useQuery rewardKeys_equipped (Asks None (Store Inventory_equipped)) signedIn\<lparr>q_staleTime := Some 60000\<rparr>"

definition web_usePurchaseMutation :: "uuid \<Rightarrow> mutation" where
  "web_usePurchaseMutation itemId =
     useMutation (Asks None (Store (Store_purchase itemId))) useRewardsInvalidation"

definition web_useEquipMutation :: "json \<Rightarrow> mutation" where
  "web_useEquipMutation input =
     useMutation (Asks None (Store (Inventory_equip input))) []
       \<lparr>m_success := \<lambda>equipped.
          [put rewardKeys_equipped (Some equipped),
           put (rewardKeys_cosmetics [json_id (json_field ''user_id'' equipped)]) (Some (J_array [equipped]))]
          @ useRewardsInvalidation\<rparr>"

text \<open>\<open>Array.from(new Set(userIds.filter(Boolean)))\<close>.\<close>

definition distinct_ids :: "uuid list \<Rightarrow> uuid list" where
  "distinct_ids userIds = jset_of (filter (\<lambda>i. i \<noteq> []) userIds)"

definition web_useCosmeticsFor :: "bool \<Rightarrow> uuid list \<Rightarrow> cached_query" where
  "web_useCosmeticsFor signedIn userIds =
     (let unique = distinct_ids userIds
      in useQuery (rewardKeys_cosmetics unique) (Asks None (Store (Cosmetics_forUsers unique)))
           (signedIn \<and> length unique > 0)\<lparr>q_staleTime := Some 300000\<rparr>)"

definition web_useAdminCatalogQuery :: "bool \<Rightarrow> bool \<Rightarrow> cached_query" where
  "web_useAdminCatalogQuery signedIn enabled =
     useQuery rewardKeys_adminCatalog (Asks None (Store StoreAdmin_items)) (signedIn \<and> enabled)
       \<lparr>q_staleTime := Some 30000\<rparr>"

definition web_useCreateStoreItemMutation :: "json \<Rightarrow> mutation" where
  "web_useCreateStoreItemMutation input =
     useMutation (Asks None (Store (StoreAdmin_create input))) useRewardsInvalidation"

definition web_useUpdateStoreItemMutation :: "uuid \<Rightarrow> json \<Rightarrow> mutation" where
  "web_useUpdateStoreItemMutation itemId input =
     useMutation (Asks None (Store (StoreAdmin_update itemId input))) useRewardsInvalidation"

definition web_useDeleteStoreItemMutation :: "uuid \<Rightarrow> mutation" where
  "web_useDeleteStoreItemMutation itemId =
     useMutation (Asks None (Store (StoreAdmin_remove itemId))) useRewardsInvalidation"

definition web_useGrantItemMutation :: "uuid \<Rightarrow> uuid \<Rightarrow> mutation" where
  "web_useGrantItemMutation itemId userId =
     useMutation (Asks None (Store (StoreAdmin_grantItem itemId userId))) useRewardsInvalidation"

definition web_useGrantPointsMutation :: "json \<Rightarrow> mutation" where
  "web_useGrantPointsMutation input =
     useMutation (Asks None (Store (StoreAdmin_grantPoints input))) useRewardsInvalidation"

datatype item_type =
    Frame | Badge | Banner | Name_color | Name_font | Title | Avatar_effect | Chat_bubble

text \<open>What an item is for is read off it by \<open>slot_of\<close>.\<close>

definition groupBySlot :: "('i \<Rightarrow> item_type) \<Rightarrow> 'i list \<Rightarrow> (item_type \<times> 'i list) list" where
  "groupBySlot slot_of items =
     fold (\<lambda>item groups. AList.map_entry (slot_of item) (\<lambda>g. g @ [item]) groups) items
       [(Frame, []), (Badge, []), (Banner, []), (Name_color, []), (Name_font, []), (Title, []),
        (Avatar_effect, []), (Chat_bubble, [])]"

definition ownedForSlot :: "('i \<Rightarrow> item_type) \<Rightarrow> 'i list \<Rightarrow> item_type \<Rightarrow> 'i list" where
  "ownedForSlot slot_of items slot = filter (\<lambda>entry. slot_of entry = slot) items"

section \<open>admin/api/useAdminApi.ts: keys and roles\<close>

definition adminKeys_all :: query_key where
  "adminKeys_all = [K ''admin'']"

definition adminKeys_stats :: query_key where
  "adminKeys_stats = adminKeys_all @ [K ''stats'']"

definition adminKeys_audit :: "jstr \<Rightarrow> query_key" where
  "adminKeys_audit filters = adminKeys_all @ [K ''audit'', Str filters]"

definition adminKeys_auditActions :: query_key where
  "adminKeys_auditActions = adminKeys_all @ [K ''audit'', Str (js ''actions'')]"

definition adminKeys_users :: "jstr \<Rightarrow> query_key" where
  "adminKeys_users query = adminKeys_all @ [K ''users'', Str query]"

definition adminKeys_user :: "uuid \<Rightarrow> query_key" where
  "adminKeys_user i = adminKeys_all @ [K ''user'', K i]"

definition adminKeys_staff :: query_key where
  "adminKeys_staff = adminKeys_all @ [K ''staff'']"

definition adminKeys_tickets :: "jstr \<Rightarrow> query_key" where
  "adminKeys_tickets filters = adminKeys_all @ [K ''tickets'', Str filters]"

definition adminKeys_ticket :: "uuid \<Rightarrow> query_key" where
  "adminKeys_ticket i = adminKeys_all @ [K ''ticket'', K i]"

definition adminKeys_communities :: "jstr \<Rightarrow> query_key" where
  "adminKeys_communities filters = adminKeys_all @ [K ''communities'', Str filters]"

definition adminKeys_liveMedia :: query_key where
  "adminKeys_liveMedia = adminKeys_all @ [K ''live-media'']"

definition adminKeys_broadcasts :: query_key where
  "adminKeys_broadcasts = adminKeys_all @ [K ''broadcasts'']"

definition adminKeys_settings :: query_key where
  "adminKeys_settings = adminKeys_all @ [K ''settings'']"

definition adminKeys_ipBans :: query_key where
  "adminKeys_ipBans = adminKeys_all @ [K ''ip-bans'']"

definition adminKeys_emailDomains :: query_key where
  "adminKeys_emailDomains = adminKeys_all @ [K ''email-domains'']"

definition adminKeys_automod :: query_key where
  "adminKeys_automod = adminKeys_all @ [K ''automod'']"

definition adminKeys_telemetry :: query_key where
  "adminKeys_telemetry = adminKeys_all @ [K ''telemetry'']"

definition adminKeys_jobs :: query_key where
  "adminKeys_jobs = adminKeys_all @ [K ''jobs'']"

definition adminKeys_recommendationCoverage :: query_key where
  "adminKeys_recommendationCoverage = adminKeys_all @ [K ''recommendations'', K ''coverage'']"

definition adminKeys_recommendationExplain :: "uuid \<Rightarrow> string \<Rightarrow> query_key" where
  "adminKeys_recommendationExplain userId surface =
     adminKeys_all @ [K ''recommendations'', K ''explain'', K userId, K surface]"

definition broadcastKeys_all :: query_key where
  "broadcastKeys_all = [K ''broadcasts'']"

definition broadcastKeys_active :: query_key where
  "broadcastKeys_active = broadcastKeys_all @ [K ''active'']"

definition supportKeys_all :: query_key where
  "supportKeys_all = [K ''support'']"

definition supportKeys_mine :: query_key where
  "supportKeys_mine = supportKeys_all @ [K ''mine'']"

definition supportKeys_ticket :: "uuid \<Rightarrow> query_key" where
  "supportKeys_ticket i = supportKeys_all @ [K ''ticket'', K i]"

text \<open>The signed-in account, or nobody; an account without a role is an ordinary one.\<close>

definition usePlatformRole :: "current_user option \<Rightarrow> platform_role" where
  "usePlatformRole user =
     (case user of
        Some u \<Rightarrow> (case cu_platform_role u of Some role \<Rightarrow> role | None \<Rightarrow> User_role)
      | None \<Rightarrow> User_role)"

definition useIsStaff :: "current_user option \<Rightarrow> bool" where
  "useIsStaff user \<longleftrightarrow> (let role = usePlatformRole user in role = Support_role \<or> role = Admin_role)"

definition useIsPlatformAdmin :: "current_user option \<Rightarrow> bool" where
  "useIsPlatformAdmin user \<longleftrightarrow> usePlatformRole user = Admin_role"

section \<open>Filters and pages\<close>

text \<open>
  A filter is the members of an object; a member that is \<open>undefined\<close> is \<open>None\<close> and is left
  out when the object is written, in a key as in a request.
\<close>

type_synonym filters = "(string \<times> json option) list"

definition spread :: "filters \<Rightarrow> filters \<Rightarrow> filters" where
  "spread first rest = fold (\<lambda>(k, v) acc. AList.update k v acc) rest first"

definition filter_text :: "filters \<Rightarrow> jstr" where
  "filter_text f = json_text (json_object f)"

definition truthy_json :: "json option \<Rightarrow> bool" where
  "truthy_json v \<longleftrightarrow> (case v of None \<Rightarrow> False | Some x \<Rightarrow> \<not> json_falsy x)"

definition nextPageCursor :: "json \<Rightarrow> json option" where
  "nextPageCursor page =
     (if truthy_json (json_field ''next_cursor'' page) \<and> truthy_json (json_field ''next_cursor_id'' page)
      then Some (json_object [(''cursor'', json_field ''next_cursor'' page),
                              (''cursorId'', json_field ''next_cursor_id'' page)])
      else None)"

text \<open>\<open>...(pageParam ? { before: pageParam.cursor, before_id: pageParam.cursorId } : {})\<close>.\<close>

definition from_cursor :: "string \<Rightarrow> string \<Rightarrow> json option \<Rightarrow> filters" where
  "from_cursor at_key id_key pageParam =
     (case pageParam of
        Some p \<Rightarrow> [(at_key, json_field ''cursor'' p), (id_key, json_field ''cursorId'' p)]
      | None \<Rightarrow> [])"

definition page_items :: "json \<Rightarrow> json list" where
  "page_items page = (case json_field ''items'' page of Some (J_array items) \<Rightarrow> items | _ \<Rightarrow> [])"

definition loaded_items :: "json infinite_data option \<Rightarrow> json list" where
  "loaded_items data = (case data of Some d \<Rightarrow> concat (map page_items (pages d)) | None \<Rightarrow> [])"

section \<open>admin/api/useAdminApi.ts: the console\<close>

definition useAdminStats :: "current_user option \<Rightarrow> cached_query" where
  "useAdminStats user =
     useQuery adminKeys_stats (Asks None (Admin Admin_stats)) (useIsStaff user)\<lparr>q_interval := Some 15000\<rparr>"

definition useAuditLog :: "current_user option \<Rightarrow> filters \<Rightarrow> json option \<Rightarrow> cached_query" where
  "useAuditLog user f pageParam =
     useQuery (adminKeys_audit (filter_text f))
       (Asks None (Admin (Admin_audit (json_object
          (spread (spread [(''limit'', Some (J_number 100))] f) (from_cursor ''before'' ''before_id'' pageParam))))))
       (useIsPlatformAdmin user)\<lparr>q_next := nextPageCursor\<rparr>"

definition useAuditEntries :: "json infinite_data option \<Rightarrow> json list" where
  "useAuditEntries data = loaded_items data"

definition useAuditActions :: "current_user option \<Rightarrow> cached_query" where
  "useAuditActions user =
     useQuery adminKeys_auditActions (Asks None (Admin Admin_auditActions)) (useIsPlatformAdmin user)
       \<lparr>q_staleTime := Some \<infinity>\<rparr>"

definition useUserSearch :: "current_user option \<Rightarrow> jstr \<Rightarrow> filters \<Rightarrow> json option \<Rightarrow> cached_query" where
  "useUserSearch user query options pageParam =
     (let trimmed = js_trim query
      in useQuery (adminKeys_users (trimmed @ js '':'' @ filter_text options))
           (Asks None (Admin (Admin_searchUsers trimmed
              (json_members (json_object (spread options (from_cursor ''before'' ''before_id'' pageParam)))))))
           (useIsStaff user)\<lparr>q_next := nextPageCursor\<rparr>)"

definition useSearchedAccounts :: "json infinite_data option \<Rightarrow> json list" where
  "useSearchedAccounts data = loaded_items data"

definition useStaffList :: "current_user option \<Rightarrow> cached_query" where
  "useStaffList user = useQuery adminKeys_staff (Asks None (Admin Admin_listStaff)) (useIsPlatformAdmin user)"

definition useSupportQueue :: "current_user option \<Rightarrow> filters \<Rightarrow> json option \<Rightarrow> cached_query" where
  "useSupportQueue user f pageParam =
     useQuery (adminKeys_tickets (filter_text f))
       (Asks None (Admin (Admin_tickets (json_object (spread f (from_cursor ''after'' ''after_id'' pageParam))))))
       (useIsStaff user)\<lparr>q_next := nextPageCursor\<rparr>"

definition useQueuedTickets :: "json infinite_data option \<Rightarrow> json list" where
  "useQueuedTickets data = loaded_items data"

definition useOpenTicketCount :: "json infinite_data option \<Rightarrow> json" where
  "useOpenTicketCount data =
     (case data of
        Some d \<Rightarrow>
          (case pages d of
             first # _ \<Rightarrow> (case nullish (json_field ''open_count'' first) of Some n \<Rightarrow> n | None \<Rightarrow> J_number 0)
           | [] \<Rightarrow> J_number 0)
      | None \<Rightarrow> J_number 0)"

definition useSupportTicket :: "current_user option \<Rightarrow> uuid option \<Rightarrow> cached_query" where
  "useSupportTicket user i =
     useQuery (if truthy i then adminKeys_ticket (the i) else adminKeys_all @ [K ''ticket'', K ''idle''])
       (Asks None (Admin (Admin_ticket (bang i)))) (useIsStaff user \<and> truthy i)"

definition useConsoleInvalidation :: "effect list" where
  "useConsoleInvalidation = [Invalidate adminKeys_all]"

definition useSuspendUserMutation :: "uuid \<Rightarrow> jstr \<Rightarrow> mutation" where
  "useSuspendUserMutation userId reason =
     useMutation (Asks None (Admin (Admin_suspendUser userId reason))) useConsoleInvalidation"

definition useReinstateUserMutation :: "uuid \<Rightarrow> mutation" where
  "useReinstateUserMutation userId =
     useMutation (Asks None (Admin (Admin_reinstateUser userId))) useConsoleInvalidation"

definition role_text :: "platform_role \<Rightarrow> string" where
  "role_text role = (case role of User_role \<Rightarrow> ''user'' | Support_role \<Rightarrow> ''support'' | Admin_role \<Rightarrow> ''admin'')"

definition useSetPlatformRoleMutation :: "uuid \<Rightarrow> platform_role \<Rightarrow> mutation" where
  "useSetPlatformRoleMutation userId role =
     useMutation (Asks None (Admin (Admin_setPlatformRole userId (role_text role)))) useConsoleInvalidation"

definition useStaffReplyMutation :: "uuid \<Rightarrow> jstr \<Rightarrow> bool option \<Rightarrow> mutation" where
  "useStaffReplyMutation ticketId body staffOnly =
     useMutation (Asks None (Admin (Admin_replyToTicket ticketId body (staffOnly = Some True)))) useConsoleInvalidation"

definition useUpdateTicketMutation :: "uuid \<Rightarrow> json \<Rightarrow> mutation" where
  "useUpdateTicketMutation ticketId patch =
     useMutation (Asks None (Admin (Admin_updateTicket ticketId patch))) useConsoleInvalidation"

definition useAssignTicketMutation :: "uuid \<Rightarrow> uuid option \<Rightarrow> mutation" where
  "useAssignTicketMutation ticketId assigneeId =
     useMutation (Asks None (Admin (Admin_assignTicket ticketId assigneeId))) useConsoleInvalidation"

definition useAdminCommunities :: "current_user option \<Rightarrow> filters \<Rightarrow> cached_query" where
  "useAdminCommunities user params =
     useQuery (adminKeys_communities (filter_text params))
       (Asks None (Console (Console_communities (json_object params)))) (useIsStaff user)"

definition useQuarantineCommunityMutation :: "uuid \<Rightarrow> jstr \<Rightarrow> mutation" where
  "useQuarantineCommunityMutation communityId reason =
     useMutation (Asks None (Console (Console_quarantineCommunity communityId reason))) useConsoleInvalidation"

definition useUnquarantineCommunityMutation :: "uuid \<Rightarrow> mutation" where
  "useUnquarantineCommunityMutation communityId =
     useMutation (Asks None (Console (Console_unquarantineCommunity communityId))) useConsoleInvalidation"

definition useDeleteAdminCommunityMutation :: "uuid \<Rightarrow> mutation" where
  "useDeleteAdminCommunityMutation communityId =
     useMutation (Asks None (Console (Console_deleteCommunity communityId))) useConsoleInvalidation"

definition useLiveMediaSessions :: "current_user option \<Rightarrow> cached_query" where
  "useLiveMediaSessions user = useQuery adminKeys_liveMedia (Asks None (Console Console_liveMedia)) (useIsStaff user)\<lparr>q_interval := Some 5000\<rparr>"

definition useTerminateLiveMediaMutation :: "uuid \<Rightarrow> mutation" where
  "useTerminateLiveMediaMutation roomId =
     useMutation (Asks None (Console (Console_terminateLiveMedia roomId))) useConsoleInvalidation"

definition useActiveBroadcasts :: cached_query where
  "useActiveBroadcasts =
     useQuery broadcastKeys_active (Asks None (Security Broadcasts_active)) True\<lparr>q_interval := Some 60000\<rparr>"

definition useAdminBroadcasts :: "current_user option \<Rightarrow> cached_query" where
  "useAdminBroadcasts user = useQuery adminKeys_broadcasts (Asks None (Console Console_broadcasts)) (useIsStaff user)"

definition useCreateBroadcastMutation :: "json \<Rightarrow> mutation" where
  "useCreateBroadcastMutation input =
     useMutation (Asks None (Console (Console_createBroadcast input)))
       (useConsoleInvalidation @ [Invalidate broadcastKeys_active])"

definition useDeleteBroadcastMutation :: "uuid \<Rightarrow> mutation" where
  "useDeleteBroadcastMutation broadcastId =
     useMutation (Asks None (Console (Console_deleteBroadcast broadcastId)))
       (useConsoleInvalidation @ [Invalidate broadcastKeys_active])"

definition useAdminSettings :: "current_user option \<Rightarrow> cached_query" where
  "useAdminSettings user = useQuery adminKeys_settings (Asks None (Console Console_settings)) (useIsStaff user)"

definition useUpdateSettingMutation :: "jstr \<Rightarrow> json \<Rightarrow> mutation" where
  "useUpdateSettingMutation key val =
     useMutation (Asks None (Console (Console_updateSetting key val))) useConsoleInvalidation"

definition useIpBans :: "current_user option \<Rightarrow> cached_query" where
  "useIpBans user = useQuery adminKeys_ipBans (Asks None (Security Security_ipBans)) (useIsStaff user)"

definition useBanIpMutation :: "jstr \<Rightarrow> jstr \<Rightarrow> timestamp option \<Rightarrow> mutation" where
  "useBanIpMutation ipOrCidr reason expiresAt =
     useMutation (Asks None (Security (Security_banIp ipOrCidr reason expiresAt))) useConsoleInvalidation"

definition useUnbanIpMutation :: "uuid \<Rightarrow> mutation" where
  "useUnbanIpMutation banId =
     useMutation (Asks None (Security (Security_unbanIp banId))) useConsoleInvalidation"

definition useBlockedEmailDomains :: "current_user option \<Rightarrow> cached_query" where
  "useBlockedEmailDomains user = useQuery adminKeys_emailDomains (Asks None (Security Security_emailDomains)) (useIsStaff user)"

definition useBlockEmailDomainMutation :: "jstr \<Rightarrow> jstr option \<Rightarrow> mutation" where
  "useBlockEmailDomainMutation domain reason =
     useMutation (Asks None (Security (Security_blockEmailDomain domain reason))) useConsoleInvalidation"

definition useUnblockEmailDomainMutation :: "jstr \<Rightarrow> mutation" where
  "useUnblockEmailDomainMutation domain =
     useMutation (Asks None (Security (Security_unblockEmailDomain domain))) useConsoleInvalidation"

definition useAutomodRules :: "current_user option \<Rightarrow> cached_query" where
  "useAutomodRules user = useQuery adminKeys_automod (Asks None (Security Security_automodRules)) (useIsStaff user)"

definition useCreateAutomodRuleMutation :: "json \<Rightarrow> mutation" where
  "useCreateAutomodRuleMutation input =
     useMutation (Asks None (Security (Security_createAutomodRule input))) useConsoleInvalidation"

definition useDeleteAutomodRuleMutation :: "uuid \<Rightarrow> mutation" where
  "useDeleteAutomodRuleMutation i =
     useMutation (Asks None (Security (Security_deleteAutomodRule i))) useConsoleInvalidation"

definition useBackgroundJobs :: "current_user option \<Rightarrow> cached_query" where
  "useBackgroundJobs user = useQuery adminKeys_jobs (Asks None (Security Security_jobs)) (useIsStaff user)\<lparr>q_interval := Some 60000\<rparr>"

definition useRunJobMutation :: "jstr \<Rightarrow> mutation" where
  "useRunJobMutation name = useMutation (Asks None (Security (Security_runJob name))) [Invalidate adminKeys_all]"

definition useBulkSuspendMutation :: "uuid list \<Rightarrow> jstr \<Rightarrow> mutation" where
  "useBulkSuspendMutation userIds reason =
     useMutation (Asks None (Admin (Admin_bulkSuspendUsers userIds reason))) useConsoleInvalidation"

definition useBulkReinstateMutation :: "uuid list \<Rightarrow> mutation" where
  "useBulkReinstateMutation userIds =
     useMutation (Asks None (Admin (Admin_bulkReinstateUsers userIds))) useConsoleInvalidation"

definition useRecommendationCoverage :: "current_user option \<Rightarrow> cached_query" where
  "useRecommendationCoverage user = useQuery adminKeys_recommendationCoverage (Asks None (Security Security_recommendationCoverage)) (useIsStaff user)\<lparr>q_interval := Some 60000\<rparr>"

definition useRecommendationExplain :: "current_user option \<Rightarrow> uuid option \<Rightarrow> string \<Rightarrow> cached_query" where
  "useRecommendationExplain user userId surface =
     useQuery (adminKeys_recommendationExplain (case userId of Some i \<Rightarrow> i | None \<Rightarrow> ''none'') surface)
       (Asks None (Security (Security_explainRecommendations (J_object
          [(''user_id'', case userId of Some i \<Rightarrow> id_json i | None \<Rightarrow> J_null),
           (''surface'', id_json surface), (''limit'', J_number 10)]))))
       (useIsPlatformAdmin user \<and> truthy userId)"

section \<open>Signals of the server\<close>

definition TOPIC_KEYS :: "(string \<times> query_key list) list" where
  "TOPIC_KEYS =
     [(''support_queue'', [adminKeys_all @ [K ''tickets''], adminKeys_stats]),
      (''live_media'', [adminKeys_liveMedia]),
      (''broadcasts'', [adminKeys_broadcasts, broadcastKeys_active]),
      (''users'', [adminKeys_all @ [K ''users''], adminKeys_staff, adminKeys_stats]),
      (''audit_log'', [adminKeys_all @ [K ''audit'']])]"

text \<open>
  What a frame of the socket does to the cache: nothing off the console, and nothing for a
  topic the client does not know.
\<close>

definition useConsoleLiveUpdates :: "bool \<Rightarrow> current_user option \<Rightarrow> string \<Rightarrow> string \<Rightarrow> effect list" where
  "useConsoleLiveUpdates enabled user type topic =
     (if \<not> enabled \<or> \<not> useIsStaff user then []
      else if type \<noteq> ''console_changed'' then []
      else map Invalidate (case map_of TOPIC_KEYS topic of Some keys \<Rightarrow> keys | None \<Rightarrow> []))"

section \<open>Health, moderation and the person's own tickets\<close>

definition useSystemTelemetry :: "current_user option \<Rightarrow> cached_query" where
  "useSystemTelemetry user = useQuery adminKeys_telemetry (Asks None (Security Security_telemetry)) (useIsStaff user)\<lparr>q_interval := Some 5000\<rparr>"

definition useRevokeUserSessionsMutation :: "uuid \<Rightarrow> mutation" where
  "useRevokeUserSessionsMutation userId =
     useMutation (Asks None (Security (Security_revokeUserSessions userId))) useConsoleInvalidation"

definition useStaffUpdateUserProfileMutation :: "uuid \<Rightarrow> json \<Rightarrow> mutation" where
  "useStaffUpdateUserProfileMutation userId patch =
     useMutation (Asks None (Security (Security_staffUpdateUserProfile userId patch))) useConsoleInvalidation"

definition useMyTickets :: "bool \<Rightarrow> cached_query" where
  "useMyTickets signedIn = useQuery supportKeys_mine (Asks None (Support Support_mine)) signedIn"

definition useMyTicket :: "bool \<Rightarrow> uuid option \<Rightarrow> cached_query" where
  "useMyTicket signedIn i =
     useQuery (if truthy i then supportKeys_ticket (the i) else supportKeys_all @ [K ''idle''])
       (Asks None (Support (Support_get (bang i)))) (signedIn \<and> truthy i)"

definition useOpenTicketMutation :: "json \<Rightarrow> mutation" where
  "useOpenTicketMutation input =
     useMutation (Asks None (Support (Support_open input))) [Invalidate supportKeys_mine]"

definition useReplyToMyTicketMutation :: "uuid \<Rightarrow> jstr \<Rightarrow> mutation" where
  "useReplyToMyTicketMutation ticketId body =
     useMutation (Asks None (Support (Support_reply ticketId body)))
       [Invalidate (supportKeys_ticket ticketId), Invalidate supportKeys_mine]"

end
