(* ===== verification/WebFreshness.thy ===== *)
theory WebFreshness
  imports Freshness ConsoleHooks
begin

text \<open>
  What the query layer of the web app promises: what its queries ask, that a mutation marks
  every query that shows what it changed, and that a filter of the console has an entry of
  the cache to itself.
\<close>

section \<open>Filters\<close>

text \<open>
  Filters as the screens build them: an object has a key once, no key is a cursor's, and
  texts are made of 16-bit units. A limit that is there is a limit.
\<close>

definition cursor_keys :: "string set" where
  "cursor_keys = {''before'', ''before_id'', ''after'', ''after_id''}"

definition filters_ok :: "filters \<Rightarrow> bool" where
  "filters_ok f \<longleftrightarrow> distinct (map fst f) \<and> fst ` set f \<inter> cursor_keys = {}
     \<and> (''limit'', None) \<notin> set f \<and> (\<forall>(k, v) \<in> set f. case v of None \<Rightarrow> True | Some x \<Rightarrow> json_units_ok x)"

definition given :: "filters \<Rightarrow> (string \<times> json) list" where
  "given f = concat (map (\<lambda>(k, v). case v of Some x \<Rightarrow> [(k, x)] | None \<Rightarrow> []) f)"

lemma json_object_given: "json_object f = J_object (given f)"
  by (simp add: json_object_def given_def)

lemma given_simps [simp]:
  "given [] = []"
  "given ((k, v) # f) = (case v of Some x \<Rightarrow> (k, x) # given f | None \<Rightarrow> given f)"
  "given (f @ g) = given f @ given g"
  by (auto simp: given_def split: option.split)

lemma members_ok_iff: "members_ok fs \<longleftrightarrow> (\<forall>(k, v) \<in> set fs. json_units_ok v)"
  by (induction fs) auto

lemma given_ok: "filters_ok f \<Longrightarrow> json_units_ok (json_object f)"
  by (auto simp: filters_ok_def json_object_given members_ok_iff given_def split: option.splits)

lemma filter_text_inj: "filter_text f = filter_text g \<Longrightarrow> filters_ok f \<Longrightarrow> filters_ok g \<Longrightarrow> given f = given g"
  using json_text_inj [of "json_object f" "json_object g"] given_ok [of f] given_ok [of g]
  by (simp add: filter_text_def json_object_given)

text \<open>What is spread after comes behind, or in the place of what it writes over.\<close>

lemma spread_fresh:
  "fst ` set f \<inter> fst ` set g = {} \<Longrightarrow> distinct (map fst g) \<Longrightarrow> spread f g = f @ g"
proof (induction g arbitrary: f)
  case (Cons kv g)
  obtain k v where kv: "kv = (k, v)" by (cases kv)
  have "AList.update k v f = f @ [(k, v)]" if "k \<notin> fst ` set f" for f
    using that by (induction f) auto
  with Cons kv show ?case by (force simp: spread_def)
qed (simp add: spread_def)

definition without :: "string set \<Rightarrow> (string \<times> json) list \<Rightarrow> (string \<times> json) list" where
  "without ks ps = filter (\<lambda>(k, _). k \<notin> ks) ps"

lemma without_simps [simp]:
  "without ks [] = []"
  "without ks ((k, v) # ps) = (if k \<in> ks then without ks ps else (k, v) # without ks ps)"
  "without ks (ps @ qs) = without ks ps @ without ks qs"
  by (auto simp: without_def)

lemma without_given: "fst ` set f \<inter> ks = {} \<Longrightarrow> without ks (given f) = given f"
proof (induction f)
  case (Cons kv f)
  then show ?case by (cases kv) (auto split: option.split)
qed simp

lemma given_page:
  assumes "fst ` set f \<inter> cursor_keys = {}" and "at_key \<in> cursor_keys" and "id_key \<in> cursor_keys" and "at_key \<noteq> id_key"
  shows "without cursor_keys (given (spread f (from_cursor at_key id_key page))) = given f"
proof (cases page)
  case None
  then show ?thesis using without_given [OF assms(1)] by (simp add: from_cursor_def spread_def)
next
  case (Some p)
  have "spread f (from_cursor at_key id_key page) = f @ from_cursor at_key id_key page"
    using assms Some by (intro spread_fresh) (auto simp: from_cursor_def)
  moreover have "without cursor_keys (given (from_cursor at_key id_key page)) = []"
    using assms Some by (auto simp: from_cursor_def split: option.split)
  ultimately show ?thesis using without_given [OF assms(1)] by simp
qed

text \<open>The default limit, in front or written over.\<close>

definition with_default :: "(string \<times> json) list \<Rightarrow> (string \<times> json) list" where
  "with_default ps = (case map_of ps ''limit'' of
     Some n \<Rightarrow> (''limit'', n) # without {''limit''} ps | None \<Rightarrow> (''limit'', J_number 100) # ps)"

lemma given_default:
  assumes "filters_ok f"
  shows "given (spread [(''limit'', Some (J_number 100))] f) = with_default (given f)"
    and "fst ` set (spread [(''limit'', Some (J_number 100))] f) \<inter> cursor_keys = {}"
proof -
  let ?l = "[(''limit'', Some (J_number 100))]"
  have dom: "fst ` set (spread f' g) = fst ` set f' \<union> fst ` set g" for f' g :: filters
  proof (induction g arbitrary: f')
    case (Cons kv g)
    then show ?case by (cases kv) (simp add: spread_def dom_map_of_update)
  qed (simp add: spread_def)
  show "fst ` set (spread ?l f) \<inter> cursor_keys = {}"
    using assms by (auto simp: dom filters_ok_def cursor_keys_def)
  have main: "given (spread ((''limit'', x) # f') f) =
      (case map_of f ''limit'' of
         Some y \<Rightarrow> given [(''limit'', y)] @ given f' @ without {''limit''} (given f)
       | None \<Rightarrow> given [(''limit'', x)] @ given f' @ given f)"
    if "distinct (map fst f)" "fst ` set f' \<inter> fst ` set f = {}" "''limit'' \<notin> fst ` set f'" for x f' f
    using that
  proof (induction f arbitrary: x f')
    case (Cons kv f)
    obtain k v where kv: "kv = (k, v)" by (cases kv)
    have fresh: "AList.update k v f' = f' @ [(k, v)]" if "k \<notin> fst ` set f'" for k v and f' :: filters
      using that by (induction f') auto
    show ?case
    proof (cases "k = ''limit''")
      case True
      have "map_of f ''limit'' = None" using Cons.prems kv True by (auto simp: map_of_eq_None_iff)
      moreover have "without {''limit''} (given f) = given f"
        using Cons.prems kv True by (intro without_given) auto
      ultimately show ?thesis using Cons kv True by (auto simp: spread_def split: option.split)
    next
      case False
      have "given (spread ((''limit'', x) # f' @ [(k, v)]) f) =
        (case map_of f ''limit'' of
           Some y \<Rightarrow> given [(''limit'', y)] @ given (f' @ [(k, v)]) @ without {''limit''} (given f)
         | None \<Rightarrow> given [(''limit'', x)] @ given (f' @ [(k, v)]) @ given f)"
        using Cons.prems kv False by (intro Cons.IH) auto
      moreover have "spread ((''limit'', x) # f') (kv # f) = spread ((''limit'', x) # f' @ [(k, v)]) f"
        using Cons.prems kv False fresh [of k f' v] by (auto simp: spread_def)
      ultimately show ?thesis using kv False by (auto split: option.split)
    qed
  qed (simp add: spread_def split: option.split)
  have "map_of (given f) ''limit'' = (case map_of f ''limit'' of Some (Some n) \<Rightarrow> Some n | _ \<Rightarrow> None)"
    if "distinct (map fst f)" for f
    using that
  proof (induction f)
    case (Cons kv f)
    then show ?case by (cases kv) (auto split: option.splits simp: map_of_eq_None_iff given_def image_iff)
  qed simp
  moreover have "map_of f ''limit'' \<noteq> Some None" using assms map_of_SomeD by (fastforce simp: filters_ok_def)
  ultimately show "given (spread ?l f) = with_default (given f)"
    using main [of f "[]" "Some (J_number 100)"] assms
    by (auto simp: with_default_def filters_ok_def split: option.splits)
qed


text \<open>
  The key of a search is the text and the options with a colon between; no option the screens
  offer has a brace in it, so the two can be told apart.
\<close>

fun brace_free :: "json \<Rightarrow> bool" where
  "brace_free (J_string s) \<longleftrightarrow> 123 \<notin> set s"
| "brace_free (J_array vs) \<longleftrightarrow> False"
| "brace_free (J_object fs) \<longleftrightarrow> False"
| "brace_free _ \<longleftrightarrow> True"

definition options_ok :: "filters \<Rightarrow> bool" where
  "options_ok f \<longleftrightarrow> filters_ok f \<and> (\<forall>(k, v) \<in> set (given f). 123 \<notin> set (js k) \<and> brace_free v)"

lemma hex_small: "d < 16 \<Longrightarrow> hex_lower d \<noteq> 123"
  by (auto simp: hex_lower_def)

lemma escape_no_brace: "c < 65536 \<Longrightarrow> 123 \<notin> set (json_escape c)"
proof -
  assume "c < 65536"
  then have "c div 4096 < 16" by (intro less_mult_imp_div_less) simp
  then have "hex_lower (c div 4096) \<noteq> 123" by (rule hex_small)
  moreover have "hex_lower (n mod 16) \<noteq> 123" for n by (rule hex_small) simp
  moreover have "123 \<notin> set [92, 117, a, b, d, e]" if "a \<noteq> 123" "b \<noteq> 123" "d \<noteq> 123" "e \<noteq> 123" for a b d e :: nat
    using that by auto
  ultimately show ?thesis unfolding json_escape_def by blast
qed

lemma unit_no_brace: "c < 65536 \<Longrightarrow> c \<noteq> 123 \<Longrightarrow> 123 \<notin> set (json_unit c)"
  using escape_no_brace [of c] by (auto simp: json_unit_def json_short_def split: if_splits option.splits)

lemma units_no_brace: "units s \<Longrightarrow> 123 \<notin> set s \<Longrightarrow> 123 \<notin> set (json_units s)"
proof (induction s rule: json_units.induct)
  case (2 c s)
  then have c: "c < 65536" "c \<noteq> 123" "units s" "123 \<notin> set s" by auto
  show ?case
  proof (cases "lone_surrogate c")
    case False
    with 2(3) c unit_no_brace [of c] show ?thesis by simp
  next
    case True
    note IH = 2(1,2) [OF True]
    show ?thesis
    proof (cases s)
      case Nil
      with c True escape_no_brace [of c] show ?thesis by simp
    next
      case (Cons d r)
      show ?thesis
      proof (cases "c < 56320 \<and> 56320 \<le> d \<and> d < 57344")
        case pair: True
        with IH(1) [OF Cons pair] c Cons True show ?thesis by simp
      next
        case False
        then have eq: "json_units (c # s) = json_escape c @ json_units s" using True Cons by auto
        show ?thesis unfolding eq using IH(2) [OF Cons False] c escape_no_brace [of c] by simp
      qed
    qed
  qed
qed simp

lemma quote_no_brace: "units s \<Longrightarrow> 123 \<notin> set s \<Longrightarrow> 123 \<notin> set (json_quote s)"
  using units_no_brace by (simp add: json_quote_def)

lemma value_no_brace: "json_units_ok v \<Longrightarrow> brace_free v \<Longrightarrow> 123 \<notin> set (json_text v)"
proof (cases v)
  case (J_number i)
  then show ?thesis using decimal_digits [of "nat \<bar>i\<bar>"] by (auto simp: json_int_def list_all_iff is_digit_def)
qed (auto simp: js_def quote_no_brace)

lemma members_no_brace:
  "members_ok ps \<Longrightarrow> \<forall>(k, v) \<in> set ps. 123 \<notin> set (js k) \<and> brace_free v \<Longrightarrow> 123 \<notin> set (json_members_text ps)"
proof (induction ps)
  case (Cons kv ps)
  then show ?case by (cases kv) (auto simp: quote_no_brace value_no_brace)
qed simp

lemma last_occurrence:
  assumes "a @ x # b = a' @ x # b'" and "x \<notin> set b" and "x \<notin> set b'"
  shows "a = a' \<and> b = b'"
  using assms by (auto simp: append_eq_append_conv2 Cons_eq_append_conv append_eq_Cons_conv)

lemma options_no_brace: "options_ok f \<Longrightarrow> \<exists>m. filter_text f = 123 # m \<and> 123 \<notin> set m"
proof -
  assume ok: "options_ok f"
  then have "members_ok (given f)" using given_ok by (auto simp: options_ok_def json_object_given)
  with ok have "123 \<notin> set (json_members_text (given f))"
    by (intro members_no_brace) (auto simp: options_ok_def)
  then show ?thesis by (simp add: filter_text_def json_object_given)
qed

lemma search_split:
  assumes "q @ js '':'' @ filter_text f = q' @ js '':'' @ filter_text g" and "options_ok f" and "options_ok g"
  shows "q = q' \<and> given f = given g"
proof -
  obtain m m' where m: "filter_text f = 123 # m" "123 \<notin> set m" "filter_text g = 123 # m'" "123 \<notin> set m'"
    using options_no_brace assms(2,3) by metis
  then have "(q @ js '':'') @ 123 # m = (q' @ js '':'') @ 123 # m'" using assms(1) by simp
  then have "q @ js '':'' = q' @ js '':'' \<and> m = m'" using m by (intro last_occurrence)
  with m filter_text_inj [of f g] assms(2,3) show ?thesis by (simp add: options_ok_def)
qed

section \<open>The hooks\<close>

text \<open>
  The queries the web screens mount, with ids that are ids and filters that are filters. The four composite queries of
  \<open>useBffApi.ts\<close> and \<open>useRoomDetailQuery\<close> are mounted by none.
\<close>

inductive web_query :: "bool \<Rightarrow> current_user option \<Rightarrow> cached_query \<Rightarrow> bool" for signedIn user where
  "web_query signedIn user (web_useDiscoveryRooms signedIn category n)"
| "web_query signedIn user (web_usePlaygroundFeed signedIn category pageSize pageParam)"
| "web_query signedIn user (web_useTrendingRooms signedIn)"
| "web_query signedIn user (web_useLiveRooms signedIn)"
| "opt_id c \<Longrightarrow> web_query signedIn user (web_useCommunityRoomsQuery signedIn c)"
| "web_query signedIn user (web_useMyRoomsQuery signedIn)"
| "opt_id r \<Longrightarrow> web_query signedIn user (web_useJoinedRoomQuery signedIn r)"
| "opt_id r \<Longrightarrow> web_query signedIn user (web_useRoomParticipantsQuery signedIn r)"
| "web_query signedIn user (web_useCommunitiesList signedIn)"
| "web_query signedIn user (web_useCommunityTemplates signedIn)"
| "opt_id c \<Longrightarrow> web_query signedIn user (web_useCommunityDetail signedIn c)"
| "opt_id c \<Longrightarrow> web_query signedIn user (web_useCommunityMembers signedIn c limit)"
| "opt_id c \<Longrightarrow> web_query signedIn user (web_useCommunityRoles signedIn c)"
| "opt_id c \<Longrightarrow> web_query signedIn user (web_useCommunityInvites signedIn c)"
| "invite = None \<or> plain (the invite) \<Longrightarrow> web_query signedIn user (web_useInvitePreview signedIn invite)"
| "web_query signedIn user (web_useFriendsList signedIn)"
| "web_query signedIn user (web_usePendingFriendRequests signedIn)"
| "web_query signedIn user (web_useSentFriendRequests signedIn)"
| "web_query signedIn user (web_useBlockedUsers signedIn)"
| "web_query signedIn user (web_useOnlineUsers signedIn)"
| "opt_id u \<Longrightarrow> web_query signedIn user (web_usePublicProfileQuery signedIn u)"
| "list_all uuid_text us \<Longrightarrow> web_query signedIn user (web_usePublicProfiles signedIn us)"
| "web_query signedIn user web_useAuthConfig"
| "web_query signedIn user (web_useCurrentUser signedIn)"
| "web_query signedIn user (web_useRecommendedRooms signedIn category n)"
| "web_query signedIn user (web_useRecommendedPeople signedIn n)"
| "web_query signedIn user (web_useRecommendedCommunities signedIn n)"
| "opt_id r \<Longrightarrow> web_query signedIn user (web_useRoomMessagesInfinite signedIn r limit cursor)"
| "opt_id r \<Longrightarrow> web_query signedIn user (web_useRoomPinsQuery signedIn r)"
| "web_query signedIn user (web_useSearchMessagesQuery signedIn query r limit)"
| "web_query signedIn user (web_useUnreadOverviewQuery signedIn)"
| "web_query signedIn user (web_useBalanceQuery signedIn)"
| "web_query signedIn user (web_useReferralOverviewQuery signedIn)"
| "web_query signedIn user (web_useStoreItemsQuery signedIn itemType)"
| "web_query signedIn user (web_useInventoryQuery signedIn)"
| "web_query signedIn user (web_useEquippedQuery signedIn)"
| "list_all uuid_text us \<Longrightarrow> web_query signedIn user (web_useCosmeticsFor signedIn us)"
| "web_query signedIn user (web_useAdminCatalogQuery signedIn on)"
| "web_query signedIn user (useAdminStats user)"
| "filters_ok f \<Longrightarrow> web_query signedIn user (useAuditLog user f page)"
| "web_query signedIn user (useAuditActions user)"
| "options_ok f \<Longrightarrow> web_query signedIn user (useUserSearch user query f page)"
| "web_query signedIn user (useStaffList user)"
| "filters_ok f \<Longrightarrow> web_query signedIn user (useSupportQueue user f page)"
| "opt_id i \<Longrightarrow> web_query signedIn user (useSupportTicket user i)"
| "filters_ok f \<Longrightarrow> web_query signedIn user (useAdminCommunities user f)"
| "web_query signedIn user (useLiveMediaSessions user)"
| "web_query signedIn user useActiveBroadcasts"
| "web_query signedIn user (useAdminBroadcasts user)"
| "web_query signedIn user (useAdminSettings user)"
| "web_query signedIn user (useIpBans user)"
| "web_query signedIn user (useBlockedEmailDomains user)"
| "web_query signedIn user (useAutomodRules user)"
| "web_query signedIn user (useBackgroundJobs user)"
| "web_query signedIn user (useRecommendationCoverage user)"
| "opt_id u \<Longrightarrow> web_query signedIn user (useRecommendationExplain user u surface)"
| "web_query signedIn user (useSystemTelemetry user)"
| "web_query signedIn user (useMyTickets signedIn)"
| "opt_id i \<Longrightarrow> web_query signedIn user (useMyTicket signedIn i)"

text \<open>
  The mutations. A hook that takes an id is mounted with one; a message is pinned in the room
  it is in, and an invite revoked in the community it leads to.
\<close>

inductive web_mutation :: "world \<Rightarrow> mutation \<Rightarrow> bool" for w where
  "web_mutation w (web_useCreateStandaloneRoomMutation input)"
| "c \<noteq> [] \<Longrightarrow> web_mutation w (web_useCreateCommunityRoomMutation (Some c) input)"
| "r \<noteq> [] \<Longrightarrow> web_mutation w (web_useUpdateRoomMutation (Some r) input)"
| "web_mutation w (web_useDeleteRoomMutation r)"
| "web_mutation w (web_useJoinRoomMutation r)"
| "web_mutation w (web_useLeaveRoomMutation r)"
| "r \<noteq> [] \<Longrightarrow> web_mutation w (web_useSetPersonaMutation (Some r) anonymous)"
| "web_mutation w (web_useOpenDMMutation u)"
| "web_mutation w (web_useCreateCommunityMutation input)"
| "c \<noteq> [] \<Longrightarrow> web_mutation w (web_useUpdateCommunityMutation (Some c) input)"
| "web_mutation w (web_useDeleteCommunityMutation c)"
| "web_mutation w (web_useJoinCommunityMutation c)"
| "web_mutation w (web_useLeaveCommunityMutation c u)"
| "c \<noteq> [] \<Longrightarrow> web_mutation w (web_useCreateRoleMutation (Some c) input)"
| "c \<noteq> [] \<Longrightarrow> web_mutation w (web_useUpdateRoleMutation (Some c) role input)"
| "c \<noteq> [] \<Longrightarrow> web_mutation w (web_useAssignRoleMutation (Some c) u role)"
| "c \<noteq> [] \<Longrightarrow> web_mutation w (web_useRemoveRoleMutation (Some c) u role)"
| "c \<noteq> [] \<Longrightarrow> web_mutation w (web_useCreateInviteMutation (Some c) input)"
| "w_invite w invite \<noteq> [] \<Longrightarrow> web_mutation w (web_useRevokeInviteMutation (Some (w_invite w invite)) invite)"
| "web_mutation w (web_useRedeemInviteMutation invite)"
| "web_mutation w (web_useSendFriendRequestMutation u)"
| "web_mutation w (web_useRespondFriendRequestMutation u accept)"
| "web_mutation w (web_useRemoveFriendMutation u)"
| "web_mutation w (web_useBlockUserMutation u)"
| "web_mutation w (web_useUnblockUserMutation u)"
| "web_mutation w (web_useUpdateProfileMutation input)"
| "web_mutation w (web_useLoginMutation input)"
| "web_mutation w (web_useRegisterMutation input)"
| "r \<noteq> [] \<Longrightarrow> web_mutation w (web_useSendMessageMutation (Some r) content anonymous replyTo)"
| "web_mutation w (web_useEditMessageMutation msg content)"
| "web_mutation w (web_useDeleteMessageMutation msg)"
| "web_mutation w (web_useReactionMutation msg reaction add)"
| "w_room w msg \<noteq> [] \<Longrightarrow> web_mutation w (web_usePinMessageMutation (Some (w_room w msg)) msg)"
| "w_room w msg \<noteq> [] \<Longrightarrow> web_mutation w (web_useUnpinMessageMutation (Some (w_room w msg)) msg)"
| "web_mutation w (web_useMarkRoomReadMutation r)"
| "web_mutation w (web_useMuteRoomMutation r muted)"
| "web_mutation w web_useDailyCheckinMutation"
| "web_mutation w (web_useClaimReferralMutation referral)"
| "web_mutation w (web_usePurchaseMutation item)"
| "web_mutation w (web_useEquipMutation input)"
| "web_mutation w (web_useCreateStoreItemMutation input)"
| "web_mutation w (web_useUpdateStoreItemMutation item input)"
| "web_mutation w (web_useDeleteStoreItemMutation item)"
| "web_mutation w (web_useGrantItemMutation item u)"
| "web_mutation w (web_useGrantPointsMutation input)"
| "web_mutation w (useOpenTicketMutation input)"
| "web_mutation w (useReplyToMyTicketMutation ticket body)"

lemmas web_query_defs =
  useQuery_def web_useDiscoveryRooms_def web_usePlaygroundFeed_def web_useTrendingRooms_def
  web_useLiveRooms_def web_useCommunityRoomsQuery_def web_useMyRoomsQuery_def
  web_useJoinedRoomQuery_def web_useRoomParticipantsQuery_def web_useCommunitiesList_def
  web_useCommunityTemplates_def web_useCommunityDetail_def web_useCommunityMembers_def
  web_useCommunityRoles_def web_useCommunityInvites_def web_useInvitePreview_def
  web_useFriendsList_def web_usePendingFriendRequests_def web_useSentFriendRequests_def
  web_useBlockedUsers_def web_useOnlineUsers_def web_usePublicProfileQuery_def
  web_usePublicProfiles_def web_useAuthConfig_def web_useCurrentUser_def
  web_useRecommendedRooms_def web_useRecommendedPeople_def web_useRecommendedCommunities_def
  web_useRoomMessagesInfinite_def web_useRoomPinsQuery_def web_useSearchMessagesQuery_def
  web_useUnreadOverviewQuery_def web_useBalanceQuery_def web_useReferralOverviewQuery_def
  web_useStoreItemsQuery_def web_useInventoryQuery_def web_useEquippedQuery_def
  web_useCosmeticsFor_def web_useAdminCatalogQuery_def useAdminStats_def useAuditLog_def
  useAuditActions_def useUserSearch_def useStaffList_def useSupportQueue_def useSupportTicket_def
  useAdminCommunities_def useLiveMediaSessions_def useActiveBroadcasts_def useAdminBroadcasts_def
  useAdminSettings_def useIpBans_def useBlockedEmailDomains_def useAutomodRules_def
  useBackgroundJobs_def useRecommendationCoverage_def useRecommendationExplain_def
  useSystemTelemetry_def useMyTickets_def useMyTicket_def

lemmas web_mutation_defs =
  useMutation_def if_id_def bang_def useGraphInvalidation_def socialGraphKeys_def
  useRewardsInvalidation_def web_useCreateStandaloneRoomMutation_def
  web_useCreateCommunityRoomMutation_def web_useUpdateRoomMutation_def
  web_useDeleteRoomMutation_def web_useJoinRoomMutation_def web_useLeaveRoomMutation_def
  web_useSetPersonaMutation_def web_useOpenDMMutation_def web_useCreateCommunityMutation_def
  web_useUpdateCommunityMutation_def web_useDeleteCommunityMutation_def
  web_useJoinCommunityMutation_def web_useLeaveCommunityMutation_def web_useCreateRoleMutation_def
  web_useUpdateRoleMutation_def web_useAssignRoleMutation_def web_useRemoveRoleMutation_def
  web_useCreateInviteMutation_def web_useRevokeInviteMutation_def web_useRedeemInviteMutation_def
  web_useSendFriendRequestMutation_def web_useRespondFriendRequestMutation_def
  web_useRemoveFriendMutation_def web_useBlockUserMutation_def web_useUnblockUserMutation_def
  web_useUpdateProfileMutation_def web_useLoginMutation_def web_useRegisterMutation_def
  web_useSendMessageMutation_def web_useEditMessageMutation_def web_useDeleteMessageMutation_def
  web_useReactionMutation_def web_usePinMessageMutation_def web_useUnpinMessageMutation_def
  web_useMarkRoomReadMutation_def web_useMuteRoomMutation_def web_useDailyCheckinMutation_def
  web_useClaimReferralMutation_def web_usePurchaseMutation_def web_useEquipMutation_def
  web_useCreateStoreItemMutation_def web_useUpdateStoreItemMutation_def
  web_useDeleteStoreItemMutation_def web_useGrantItemMutation_def web_useGrantPointsMutation_def
  useOpenTicketMutation_def useReplyToMyTicketMutation_def

lemmas web_key_defs =
  roomKeys_all_def roomKeys_discovery_def roomKeys_feed_def roomKeys_trending_def
  roomKeys_live_def roomKeys_mine_def roomKeys_community_def roomKeys_detail_def
  roomKeys_participants_def room_idle_def communityKeys_all_def communityKeys_list_def
  communityKeys_templates_def communityKeys_detail_def communityKeys_members_def
  communityKeys_roles_def communityKeys_invites_def communityKeys_invitePreview_def
  community_idle_def friendKeys_all_def friendKeys_list_def friendKeys_pending_def
  friendKeys_sent_def friendKeys_blocked_def friendKeys_presence_def bffKeys_all_def
  bffKeys_meOverview_def bffKeys_communityOverview_def bffKeys_roomSession_def
  bffKeys_socialOverview_def settingsKeys_all_def settingsKeys_publicProfile_def authKeys_all_def
  authKeys_config_def authKeys_me_def recommendationKeys_all_def recommendationKeys_rooms_def
  recommendationKeys_people_def recommendationKeys_communities_def rewardKeys_all_def
  rewardKeys_balance_def rewardKeys_referrals_def rewardKeys_store_def rewardKeys_inventory_def
  rewardKeys_equipped_def rewardKeys_cosmetics_def rewardKeys_adminCatalog_def adminKeys_all_def
  adminKeys_stats_def adminKeys_audit_def adminKeys_auditActions_def adminKeys_users_def
  adminKeys_user_def adminKeys_staff_def adminKeys_tickets_def adminKeys_ticket_def
  adminKeys_communities_def adminKeys_liveMedia_def adminKeys_broadcasts_def
  adminKeys_settings_def adminKeys_ipBans_def adminKeys_emailDomains_def adminKeys_automod_def
  adminKeys_telemetry_def adminKeys_jobs_def adminKeys_recommendationCoverage_def
  adminKeys_recommendationExplain_def broadcastKeys_all_def broadcastKeys_active_def
  supportKeys_all_def supportKeys_mine_def supportKeys_ticket_def chatKeys_all_def
  chatKeys_room_def chatKeys_messages_def chatKeys_pins_def chatKeys_search_def
  chatKeys_unread_def

section \<open>What an enabled query asks\<close>

lemma distinct_ids_uuid: "list_all uuid_text us \<Longrightarrow> i \<in> set (distinct_ids us) \<Longrightarrow> uuid_text i"
  by (auto simp: distinct_ids_def list_all_iff)

lemma enabled_web_query_asks:
  assumes "web_query signedIn user q" and "q_enabled q"
  shows "(\<nexists>message. q_fn q = Throws message) \<and> asked (q_fn q) \<noteq> {}
    \<and> (\<forall>(t, e) \<in> asked (q_fn q). t = None \<and> arguments_fit e \<and> \<not> is_bulk e)"
  using assms
  by (cases rule: web_query.cases)
     (auto simp: web_query_defs arguments_fit_def is_bulk_def Let_def opt_id_truthy truthy_bang
        list_all_iff distinct_ids_uuid split: if_splits option.splits)

section \<open>What is shown, and what is left stale\<close>

text \<open>The keys of the web app a resource is shown under.\<close>

definition web_shown_under :: "world \<Rightarrow> resource \<Rightarrow> query_key \<Rightarrow> bool" where
  "web_shown_under w r key =
     (case r of
        R_account \<Rightarrow> key = authKeys_me
      | R_profile u \<Rightarrow> profile_key u key
      | R_my_communities \<Rightarrow> key = communityKeys_list
      | R_community c \<Rightarrow> key = communityKeys_detail c
      | R_members c \<Rightarrow> key = communityKeys_members c
      | R_roles c \<Rightarrow> key = communityKeys_roles c
      | R_invites c \<Rightarrow> key = communityKeys_invites c
      | R_invite invite \<Rightarrow> key = communityKeys_invitePreview invite
      | R_channels c \<Rightarrow> key = roomKeys_community c
      | R_my_rooms \<Rightarrow> key = roomKeys_mine
      | R_room i \<Rightarrow> key = roomKeys_detail i
      | R_participants i \<Rightarrow> key = roomKeys_participants i
      | R_messages i \<Rightarrow> key = chatKeys_messages i
      | R_friends \<Rightarrow> key = friendKeys_list
      | R_requests \<Rightarrow> key = friendKeys_pending \<or> key = friendKeys_sent
      | R_blocks \<Rightarrow> key = friendKeys_blocked
      | R_balance \<Rightarrow> key = rewardKeys_balance
      | R_catalog \<Rightarrow> key = rewardKeys_adminCatalog \<or> (\<exists>t. key = rewardKeys_store t)
      | R_inventory \<Rightarrow> key = rewardKeys_inventory
      | R_equipped \<Rightarrow> key = rewardKeys_equipped
      | R_worn u \<Rightarrow> \<exists>us. u \<in> set us \<and> key = rewardKeys_cosmetics us
      | R_referrals \<Rightarrow> key = rewardKeys_referrals
      | R_my_tickets \<Rightarrow> key = supportKeys_mine
      | R_ticket i \<Rightarrow> key = supportKeys_ticket i
      | R_pins i \<Rightarrow> key = chatKeys_pins i
      | R_unread \<Rightarrow> key = chatKeys_unread
      | R_emojis c \<Rightarrow> False)"

lemma web_shown_under_simps:
  "web_shown_under w R_account key \<longleftrightarrow> key = authKeys_me"
  "web_shown_under w (R_profile u) key \<longleftrightarrow> profile_key u key"
  "web_shown_under w R_my_communities key \<longleftrightarrow> key = communityKeys_list"
  "web_shown_under w (R_community c) key \<longleftrightarrow> key = communityKeys_detail c"
  "web_shown_under w (R_members c) key \<longleftrightarrow> key = communityKeys_members c"
  "web_shown_under w (R_roles c) key \<longleftrightarrow> key = communityKeys_roles c"
  "web_shown_under w (R_invites c) key \<longleftrightarrow> key = communityKeys_invites c"
  "web_shown_under w (R_invite invite) key \<longleftrightarrow> key = communityKeys_invitePreview invite"
  "web_shown_under w (R_channels c) key \<longleftrightarrow> key = roomKeys_community c"
  "web_shown_under w R_my_rooms key \<longleftrightarrow> key = roomKeys_mine"
  "web_shown_under w (R_room i) key \<longleftrightarrow> key = roomKeys_detail i"
  "web_shown_under w (R_participants i) key \<longleftrightarrow> key = roomKeys_participants i"
  "web_shown_under w (R_messages i) key \<longleftrightarrow> key = chatKeys_messages i"
  "web_shown_under w R_friends key \<longleftrightarrow> key = friendKeys_list"
  "web_shown_under w R_requests key \<longleftrightarrow> key = friendKeys_pending \<or> key = friendKeys_sent"
  "web_shown_under w R_blocks key \<longleftrightarrow> key = friendKeys_blocked"
  "web_shown_under w R_balance key \<longleftrightarrow> key = rewardKeys_balance"
  "web_shown_under w R_catalog key \<longleftrightarrow> key = rewardKeys_adminCatalog \<or> (\<exists>t. key = rewardKeys_store t)"
  "web_shown_under w R_inventory key \<longleftrightarrow> key = rewardKeys_inventory"
  "web_shown_under w R_equipped key \<longleftrightarrow> key = rewardKeys_equipped"
  "web_shown_under w (R_worn u) key \<longleftrightarrow> (\<exists>us. u \<in> set us \<and> key = rewardKeys_cosmetics us)"
  "web_shown_under w R_referrals key \<longleftrightarrow> key = rewardKeys_referrals"
  "web_shown_under w R_my_tickets key \<longleftrightarrow> key = supportKeys_mine"
  "web_shown_under w (R_ticket i) key \<longleftrightarrow> key = supportKeys_ticket i"
  "web_shown_under w (R_pins i) key \<longleftrightarrow> key = chatKeys_pins i"
  "web_shown_under w R_unread key \<longleftrightarrow> key = chatKeys_unread"
  "web_shown_under w (R_emojis c) key \<longleftrightarrow> False"
  by (simp_all add: web_shown_under_def)

lemma web_profile_keys:
  "profile_key u (settingsKeys_publicProfile u)"
  "u \<in> set us \<Longrightarrow> profile_key u [K ''users'', K ''batch'', K (join_with '','' (sort us))]"
  by (auto simp: profile_key_def settingsKeys_publicProfile_def queryKeys_users_detail_def
      queryKeys_users_batch_def queryKeys_users_all_def)

lemma web_shown_under_key:
  assumes "web_query signedIn user q" and "q_enabled q" and "r \<in> fetched (shows_of w) (q_fn q)"
  shows "web_shown_under w r (q_key q)"
  using assms
  by (cases rule: web_query.cases)
     (auto simp: web_query_defs shows_of_def web_shown_under_simps web_profile_keys Let_def truthy_iff truthy_bang
        split: if_splits option.splits)

text \<open>
  What the web app leaves stale. A session is the provider's, and messages come back over the
  socket; the rest a screen goes on showing as it was.
\<close>

definition web_left_stale :: "world \<Rightarrow> endpoint \<Rightarrow> query_key \<Rightarrow> bool" where
  "web_left_stale w e key =
     (case e of
        Auth (Auth_login _) \<Rightarrow> key = authKeys_me
      | Auth (Auth_register _) \<Rightarrow> key = authKeys_me
      | Auth (Auth_updateProfile _) \<Rightarrow> profile_key (w_me w) key
      | Messages (Messages_post r _ _ _) \<Rightarrow> key = chatKeys_messages r
      | Messages (Messages_edit i _) \<Rightarrow> key = chatKeys_messages (w_room w i)
      | Messages (Messages_remove i) \<Rightarrow> key = chatKeys_messages (w_room w i)
      | Communities (Communities_join c) \<Rightarrow> key = communityKeys_detail c
      | Communities (Communities_leave c _) \<Rightarrow> key = communityKeys_detail c
      | Communities (Communities_updateRole c _ _) \<Rightarrow> key = communityKeys_detail c
      | Communities (Communities_assignRole c _ _) \<Rightarrow> key = communityKeys_detail c
      | Communities (Communities_removeRole c _ _) \<Rightarrow> key = communityKeys_detail c
      | Communities (Communities_delete c) \<Rightarrow> key = roomKeys_community c
      | Communities (Communities_revokeInvite invite) \<Rightarrow> key = communityKeys_invitePreview invite
      | _ \<Rightarrow> False)"

lemma web_mutation_marks:
  assumes "web_mutation w m" and "m_fn m = Asks t e" and "r \<in> changes w e" and "web_shown_under w r key"
    and "\<And>invite. e = Communities (Communities_redeemInvite invite) \<Longrightarrow>
           json_id (json_field ''id'' response) = w_invite w invite"
  shows "list_ex (\<lambda>fx. touches fx key) (m_success m response) \<longleftrightarrow> \<not> web_left_stale w e key"
  using assms
  by (cases rule: web_mutation.cases;
      clarsimp simp: web_mutation_defs changes_def in_list_def Let_def truthy_iff split: if_splits option.splits;
      (elim disjE conjE exE)?; (simp add: web_shown_under_simps)?; (elim disjE exE)?;
      simp add: web_left_stale_def web_key_defs)

section \<open>A filter has its entry\<close>

text \<open>The key of an entry read back: what it holds, up to the page.\<close>

definition web_blind :: "endpoint \<Rightarrow> endpoint" where
  "web_blind e =
     (case e of
        Admin (Admin_audit ps) \<Rightarrow> Admin (Admin_audit (J_object (without cursor_keys (json_members ps))))
      | Admin (Admin_searchUsers q ps) \<Rightarrow> Admin (Admin_searchUsers q (without cursor_keys ps))
      | Admin (Admin_tickets ps) \<Rightarrow> Admin (Admin_tickets (J_object (without cursor_keys (json_members ps))))
      | Messages (Messages_history r _ _ _) \<Rightarrow> Messages (Messages_history r None None 0)
      | Messages (Messages_search q r _) \<Rightarrow> Messages (Messages_search q r None)
      | Store (Cosmetics_forUsers us) \<Rightarrow> Store (Cosmetics_forUsers (sort us))
      | _ \<Rightarrow> page_blind e)"

definition web_answer :: "fetch \<Rightarrow> endpoint set" where
  "web_answer fn = (\<lambda>(t, e). web_blind e) ` asked fn"

definition filters_of :: "jstr \<Rightarrow> (string \<times> json) list" where
  "filters_of t = (THE ps. \<exists>f. filters_ok f \<and> filter_text f = t \<and> given f = ps)"

lemma filters_of_text: "filters_ok f \<Longrightarrow> filters_of (filter_text f) = given f"
  unfolding filters_of_def using filter_text_inj by (intro the_equality) blast+

definition search_of :: "jstr \<Rightarrow> jstr \<times> (string \<times> json) list" where
  "search_of t = (THE qp. \<exists>q f. options_ok f \<and> t = q @ js '':'' @ filter_text f \<and> qp = (q, given f))"

lemma search_of_text: "options_ok f \<Longrightarrow> search_of (q @ js '':'' @ filter_text f) = (q, given f)"
  unfolding search_of_def
proof (rule the_equality)
  fix qp assume "\<exists>q' g. options_ok g \<and> q @ js '':'' @ filter_text f = q' @ js '':'' @ filter_text g \<and> qp = (q', given g)"
  then obtain q' g where g: "options_ok g" "qp = (q', given g)"
    "q @ js '':'' @ filter_text f = q' @ js '':'' @ filter_text g" by blast
  assume "options_ok f"
  from search_split [OF g(3) this g(1)] g(2) show "qp = (q, given f)" by simp
qed blast

definition people_of :: "string \<Rightarrow> uuid list" where
  "people_of t = (THE vs. list_all uuid_text vs \<and> sorted vs \<and> t = join_with '','' vs)"

lemma people_of_text:
  assumes "list_all uuid_text us"
  shows "people_of (join_with '','' (sort us)) = sort us"
  unfolding people_of_def
proof (rule the_equality)
  fix vs assume vs: "list_all uuid_text vs \<and> sorted vs \<and> join_with '','' (sort us) = join_with '','' vs"
  with assms show "vs = sort us"
    using uuid_comma_free join_with_inj [of "sort us" vs] by (simp add: list_all_iff)
qed (use assms in \<open>simp add: list_all_iff\<close>)

definition held_web_rooms :: "query_key \<Rightarrow> uuid rooms_endpoint" where
  "held_web_rooms key =
     (case key of
        [K a] \<Rightarrow> if a = ''trending'' then Rooms_trending else if a = ''live'' then Rooms_live else Rooms_mine
      | [K a, Str c] \<Rightarrow>
          (let category = if c = js ''all'' then None else Some c
           in if a = ''discovery'' then Rooms_discovery category None else Rooms_feed category None None)
      | [K a, K i] \<Rightarrow> if a = ''community'' then Rooms_list i else Rooms_join i
      | [K a, K i, p] \<Rightarrow> Rooms_participants i)"

definition held_web_communities :: "query_key \<Rightarrow> uuid communities_endpoint" where
  "held_web_communities key =
     (case key of
        [K a] \<Rightarrow> if a = ''list'' then Communities_list else Communities_templates
      | _ \<Rightarrow> held_communities key)"

definition held_web_chat :: "query_key \<Rightarrow> uuid messages_endpoint" where
  "held_web_chat key =
     (case key of
        [K a] \<Rightarrow> Messages_unread
      | [K a, K r, K b] \<Rightarrow> if b = ''messages'' then Messages_history r None None 0 else Messages_pins r
      | [K a, Params [(q, Str t), (r, p)]] \<Rightarrow> Messages_search t (map_option js (part_id p)) None)"

definition held_web_store :: "query_key \<Rightarrow> uuid store_endpoint" where
  "held_web_store key =
     (case key of
        [K a] \<Rightarrow>
          if a = ''balance'' then Economy_balance else if a = ''referrals'' then Referrals_overview
          else if a = ''inventory'' then Inventory_mine else Inventory_equipped
      | [K a, K b] \<Rightarrow>
          if a = ''store'' then Store_items (Some b)
          else if a = ''cosmetics'' then Cosmetics_forUsers (people_of b) else StoreAdmin_items)"

definition held_console :: "query_key \<Rightarrow> endpoint" where
  "held_console key =
     (case key of
        [K a] \<Rightarrow>
          the (map_of
            [(''stats'', Admin Admin_stats), (''staff'', Admin Admin_listStaff), (''live-media'', Console Console_liveMedia),
             (''broadcasts'', Console Console_broadcasts), (''settings'', Console Console_settings),
             (''ip-bans'', Security Security_ipBans), (''email-domains'', Security Security_emailDomains),
             (''automod'', Security Security_automodRules), (''telemetry'', Security Security_telemetry),
             (''jobs'', Security Security_jobs)] a)
      | [K a, Str t] \<Rightarrow>
          if a = ''audit''
          then Admin (if t = js ''actions'' then Admin_auditActions else Admin_audit (J_object (with_default (filters_of t))))
          else if a = ''users'' then Admin (Admin_searchUsers (fst (search_of t)) (snd (search_of t)))
          else if a = ''tickets'' then Admin (Admin_tickets (J_object (filters_of t)))
          else Console (Console_communities (J_object (filters_of t)))
      | [K a, K i] \<Rightarrow> if a = ''ticket'' then Admin (Admin_ticket i) else Security Security_recommendationCoverage
      | [K a, K b, K u, K surface] \<Rightarrow>
          Security (Security_explainRecommendations (J_object
            [(''user_id'', id_json u), (''surface'', id_json surface), (''limit'', J_number 10)])))"

definition web_held :: "query_key \<Rightarrow> endpoint set" where
  "web_held key =
     (case key of K a # rest \<Rightarrow>
        if a = ''auth'' then {Auth (if rest = [K ''me''] then Auth_me else Auth_config)}
        else if a = ''users'' then held_user rest
        else if a = ''communities'' then {Communities (held_web_communities rest)}
        else if a = ''rooms'' then {Rooms (held_web_rooms rest)}
        else if a = ''chat'' then {Messages (held_web_chat rest)}
        else if a = ''friends'' then {held_friends rest}
        else if a = ''blocks'' then {Social Blocks_list}
        else if a = ''presence'' then {Social (Presence_online None)}
        else if a = ''rewards'' then {Store (held_web_store rest)}
        else if a = ''recommendations'' then {Support (held_recommendations rest)}
        else if a = ''broadcasts'' then {Security Broadcasts_active}
        else if a = ''support'' then {Support (case rest of [m] \<Rightarrow> Support_mine | [t, K i] \<Rightarrow> Support_get i)}
        else {held_console rest})"

lemmas web_held_defs =
  web_held_def held_web_rooms_def held_web_communities_def held_communities_def held_web_chat_def
  held_web_store_def held_console_def held_friends_def held_recommendations_def

text \<open>The queries whose key takes a category called \<open>all\<close> for none.\<close>

definition called_all :: "cached_query \<Rightarrow> bool" where
  "called_all q \<longleftrightarrow> (\<exists>signedIn n k m.
     q = web_useDiscoveryRooms signedIn (Some (js ''all'')) n
     \<or> q = web_usePlaygroundFeed signedIn (Some (js ''all'')) k m
     \<or> q = web_useRecommendedRooms signedIn (Some (js ''all'')) n)"

lemma filter_text_brace: "\<exists>m. filter_text f = 123 # m"
  by (simp add: filter_text_def json_object_given)

lemma filter_text_not_actions: "filter_text f \<noteq> js ''actions''"
  using filter_text_brace [of f] by (auto simp: js_def)

lemma web_answer_simps [simp]:
  "web_answer (Asks t e) = {web_blind e}"
  "web_answer (Asks_each ps) = (\<lambda>(k, t, e). web_blind e) ` set ps"
  by (auto simp: web_answer_def image_image case_prod_unfold)

lemma given_pages:
  assumes "fst ` set f \<inter> cursor_keys = {}"
  shows "without cursor_keys (given (spread f (from_cursor ''before'' ''before_id'' page))) = given f"
    and "without cursor_keys (given (spread f (from_cursor ''after'' ''after_id'' page))) = given f"
  by (rule given_page [OF assms]; simp add: cursor_keys_def)+

lemma audit_blind:
  "filters_ok f \<Longrightarrow> web_blind (Admin (Admin_audit (json_object
       (spread (spread [(''limit'', Some (J_number 100))] f) (from_cursor ''before'' ''before_id'' page)))))
     = Admin (Admin_audit (J_object (with_default (filters_of (filter_text f)))))"
  using given_default [of f]
  by (simp add: web_blind_def json_object_given json_members_def given_pages filters_of_text)

lemma tickets_blind:
  "filters_ok f \<Longrightarrow> web_blind (Admin (Admin_tickets (json_object (spread f (from_cursor ''after'' ''after_id'' page)))))
     = Admin (Admin_tickets (J_object (filters_of (filter_text f))))"
  by (simp add: web_blind_def json_object_given json_members_def given_pages filters_of_text filters_ok_def)

lemma search_blind:
  "options_ok f \<Longrightarrow> web_blind (Admin (Admin_searchUsers q
       (json_members (json_object (spread f (from_cursor ''before'' ''before_id'' page))))))
     = Admin (Admin_searchUsers q (given f))"
  by (simp add: web_blind_def json_object_given json_members_def given_pages options_ok_def filters_ok_def)

lemma distinct_ids_people: "list_all uuid_text us \<Longrightarrow> list_all uuid_text (distinct_ids us)"
  by (auto simp: distinct_ids_def list_all_iff)

lemma web_key_tells:
  assumes "web_query signedIn user q" and "q_enabled q" and "\<not> called_all q"
  shows "web_answer (q_fn q) = web_held (q_key q)"
  using assms(1)
proof cases
  case (1 category n)
  with assms(3) have "category \<noteq> Some (js ''all'')" by (auto simp: called_all_def)
  with 1 show ?thesis
    by (auto simp: web_query_defs web_key_defs web_blind_def page_blind_def web_held_defs or_all_def split: option.splits)
next
  case (2 category n m)
  with assms(3) have "category \<noteq> Some (js ''all'')" by (auto simp: called_all_def)
  with 2 show ?thesis
    by (auto simp: web_query_defs web_key_defs web_blind_def page_blind_def web_held_defs or_all_def split: option.splits)
next
  case (25 category n)
  with assms(3) have "category \<noteq> Some (js ''all'')" by (auto simp: called_all_def)
  with 25 show ?thesis
    by (auto simp: web_query_defs web_key_defs web_blind_def page_blind_def web_held_defs or_all_def
        drop_limit_def json_object_def split: option.splits)
next
  case (22 us)
  then show ?thesis
    by (auto simp: web_query_defs web_blind_def page_blind_def web_held_def held_batch image_image)
next
  case (37 us)
  then show ?thesis
    by (simp add: web_query_defs web_key_defs web_blind_def web_held_defs Let_def people_of_text distinct_ids_people)
next
  case (40 f page)
  then show ?thesis
    using audit_blind [of f page] filter_text_not_actions
    by (simp add: web_query_defs web_key_defs web_held_defs)
next
  case (42 f query page)
  then show ?thesis
    using search_blind [of f "js_trim query" page]
    by (simp add: web_query_defs web_key_defs web_held_defs Let_def search_of_text)
next
  case (44 f page)
  then show ?thesis
    using tickets_blind [of f page] by (simp add: web_query_defs web_key_defs web_held_defs)
next
  case (46 f)
  then show ?thesis
    by (simp add: web_query_defs web_key_defs web_held_defs web_blind_def page_blind_def filters_of_text json_object_given)
qed (use assms(2) in \<open>auto simp: web_query_defs web_key_defs web_blind_def page_blind_def web_held_defs held_user_def
  Let_def truthy_iff truthy_bang drop_limit_def json_object_def split: if_splits option.splits\<close>)

section \<open>Properties\<close>

text \<open>
  C29. A query either app may run never throws before it asks, asks only endpoints the server
  serves, and asks with the person's own token or with none, which the client's interceptor
  fills in; a query with a missing id, or with nobody or not enough of a role signed in, is
  never run.
\<close>

theorem queries_served:
  assumes "shared_query token q \<or> web_query signedIn user q" and "q_enabled q"
    and "\<And>s. uuid_text s \<Longrightarrow> parses s" and "\<not> parses ''bulk''"
  shows "(\<nexists>message. q_fn q = Throws message) \<and> asked (q_fn q) \<noteq> {}
    \<and> (\<forall>(t, e) \<in> asked (q_fn q). (t = None \<or> t = token \<and> truthy token) \<and> served parses (endpoint_call t e))"
proof -
  have asks: "(\<nexists>message. q_fn q = Throws message) \<and> asked (q_fn q) \<noteq> {}
    \<and> (\<forall>(t, e) \<in> asked (q_fn q). (t = None \<or> t = token \<and> truthy token) \<and> arguments_fit e \<and> \<not> is_bulk e)"
    using assms(1)
  proof
    assume "shared_query token q"
    from enabled_query_asks [OF this assms(2)] show ?thesis .
  next
    assume "web_query signedIn user q"
    from enabled_web_query_asks [OF this assms(2)] show ?thesis by blast
  qed
  moreover have "served parses (endpoint_call t e)" if "(t, e) \<in> asked (q_fn q)" for t e
    using asks that endpoint_served [of parses e t] assms(3,4) by auto
  ultimately show ?thesis by blast
qed

theorem queries_served_witness:
  "served uuid_text (endpoint_call None (Rooms (Rooms_session ''01234567-89ab-cdef-0123-456789abcdef'')))
   \<and> served uuid_text (endpoint_call None (Rooms (Rooms_join ''01234567-89ab-cdef-0123-456789abcdef'')))"
proof -
  let ?r = "''01234567-89ab-cdef-0123-456789abcdef''"
  let ?q = "useRoomSessionQuery (Some ''t'') (Some ?r)"
  let ?p = "web_useJoinedRoomQuery True (Some ?r)"
  have "uuid_text ?r" by code_simp
  then have "shared_query (Some ''t'') ?q" and "web_query True None ?p"
    by (auto intro!: shared_query.intros web_query.intros simp: opt_id_def)
  moreover have "q_enabled ?q" and "(None, Rooms (Rooms_session ?r)) \<in> asked (q_fn ?q)"
    and "q_enabled ?p" and "(None, Rooms (Rooms_join ?r)) \<in> asked (q_fn ?p)"
    by (simp_all add: shared_query_defs web_query_defs truthy_def bang_def)
  moreover have "\<not> uuid_text ''bulk''" by (simp add: uuid_text_def)
  ultimately show ?thesis
    using queries_served [of "Some ''t''" ?q True None uuid_text] queries_served [of "Some ''t''" ?p True None uuid_text]
    by blast
qed




text \<open>Somebody of the staff.\<close>

definition demo_staff :: current_user where
  "demo_staff = \<lparr>cu_id = ''s'', cu_handle = ''s'', cu_email = ''s'',
     cu_profile = \<lparr>pf_user_id = ''s'', pf_display_name = ''s'', pf_bio = None, pf_avatar_url = None,
       pf_avatar_effect = None, pf_accent_color = None, pf_created_at = ''t'', pf_updated_at = ''t''\<rparr>,
     cu_platform_role = Some Admin_role\<rparr>"

lemma demo_roles: "useIsStaff (Some demo_staff)" "useIsPlatformAdmin (Some demo_staff)"
  by (simp_all add: useIsStaff_def useIsPlatformAdmin_def usePlatformRole_def demo_staff_def)


end
