(* ===== verification/ConsoleFreshness.thy ===== *)
theory ConsoleFreshness
  imports WebFreshness
begin

text \<open>
  How the staff console keeps up: what its queries show, what staff actions change, the
  topics the server sends to every console, and which queries a topic marks.
\<close>

section \<open>Actions and signals\<close>

inductive console_mutation :: "mutation \<Rightarrow> bool" where
  "console_mutation (useSuspendUserMutation u reason)"
| "console_mutation (useReinstateUserMutation u)"
| "console_mutation (useSetPlatformRoleMutation u role)"
| "console_mutation (useStaffReplyMutation ticket body staffOnly)"
| "console_mutation (useUpdateTicketMutation ticket patch)"
| "console_mutation (useAssignTicketMutation ticket assignee)"
| "console_mutation (useQuarantineCommunityMutation c reason)"
| "console_mutation (useUnquarantineCommunityMutation c)"
| "console_mutation (useDeleteAdminCommunityMutation c)"
| "console_mutation (useTerminateLiveMediaMutation r)"
| "console_mutation (useCreateBroadcastMutation input)"
| "console_mutation (useDeleteBroadcastMutation b)"
| "console_mutation (useUpdateSettingMutation key val)"
| "console_mutation (useBanIpMutation ip reason expires)"
| "console_mutation (useUnbanIpMutation b)"
| "console_mutation (useBlockEmailDomainMutation domain why)"
| "console_mutation (useUnblockEmailDomainMutation domain)"
| "console_mutation (useCreateAutomodRuleMutation input)"
| "console_mutation (useDeleteAutomodRuleMutation i)"
| "console_mutation (useRunJobMutation job)"
| "console_mutation (useBulkSuspendMutation us reason)"
| "console_mutation (useBulkReinstateMutation us)"
| "console_mutation (useRevokeUserSessionsMutation u)"
| "console_mutation (useStaffUpdateUserProfileMutation u patch)"

lemmas console_mutation_defs =
  useMutation_def useConsoleInvalidation_def useSuspendUserMutation_def
  useReinstateUserMutation_def useSetPlatformRoleMutation_def useStaffReplyMutation_def
  useUpdateTicketMutation_def useAssignTicketMutation_def useQuarantineCommunityMutation_def
  useUnquarantineCommunityMutation_def useDeleteAdminCommunityMutation_def
  useTerminateLiveMediaMutation_def useCreateBroadcastMutation_def useDeleteBroadcastMutation_def
  useUpdateSettingMutation_def useBanIpMutation_def useUnbanIpMutation_def
  useBlockEmailDomainMutation_def useUnblockEmailDomainMutation_def
  useCreateAutomodRuleMutation_def useDeleteAutomodRuleMutation_def useRunJobMutation_def
  useBulkSuspendMutation_def useBulkReinstateMutation_def useRevokeUserSessionsMutation_def
  useStaffUpdateUserProfileMutation_def

datatype console_resource =
    C_accounts
  | C_staff
  | C_queue
  | C_thread uuid
  | C_communities
  | C_live
  | C_broadcasts
  | C_settings
  | C_ip_bans
  | C_domains
  | C_rules
  | C_jobs
  | C_audit

text \<open>
  What the console's queries show. The overview counts accounts, staff, tickets and
  communities; its count of audit entries, which every action moves, is left aside.
\<close>

definition console_shows :: "endpoint \<Rightarrow> console_resource set" where
  "console_shows e =
     (case e of
        Admin a \<Rightarrow>
          (case a of
             Admin_stats \<Rightarrow> {C_accounts, C_staff, C_queue, C_communities}
           | Admin_audit _ \<Rightarrow> {C_audit}
           | Admin_auditActions \<Rightarrow> {C_audit}
           | Admin_searchUsers _ _ \<Rightarrow> {C_accounts}
           | Admin_listStaff \<Rightarrow> {C_staff}
           | Admin_tickets _ \<Rightarrow> {C_queue}
           | Admin_ticket i \<Rightarrow> {C_thread i}
           | _ \<Rightarrow> {})
      | Console c \<Rightarrow>
          (case c of
             Console_communities _ \<Rightarrow> {C_communities}
           | Console_liveMedia \<Rightarrow> {C_live}
           | Console_broadcasts \<Rightarrow> {C_broadcasts}
           | Console_settings \<Rightarrow> {C_settings}
           | _ \<Rightarrow> {})
      | Security s \<Rightarrow>
          (case s of
             Security_ipBans \<Rightarrow> {C_ip_bans}
           | Security_emailDomains \<Rightarrow> {C_domains}
           | Security_automodRules \<Rightarrow> {C_rules}
           | Security_jobs \<Rightarrow> {C_jobs}
           | Broadcasts_active \<Rightarrow> {C_broadcasts}
           | _ \<Rightarrow> {})
      | _ \<Rightarrow> {})"

text \<open>
  What an action changes that the console shows (\<open>crates/admin/src\<close>): each writes to the
  audit log; a suspension shows on the list of staff when the account is staff; a reply moves
  the ticket in the queue; deleting a community takes a row from the list.
\<close>

definition console_changes :: "endpoint \<Rightarrow> console_resource set" where
  "console_changes e =
     (case e of
        Admin a \<Rightarrow>
          (case a of
             Admin_suspendUser _ _ \<Rightarrow> {C_accounts, C_staff, C_audit}
           | Admin_reinstateUser _ \<Rightarrow> {C_accounts, C_staff, C_audit}
           | Admin_bulkSuspendUsers _ _ \<Rightarrow> {C_accounts, C_staff, C_audit}
           | Admin_bulkReinstateUsers _ \<Rightarrow> {C_accounts, C_staff, C_audit}
           | Admin_setPlatformRole _ _ \<Rightarrow> {C_accounts, C_staff, C_audit}
           | Admin_replyToTicket i _ _ \<Rightarrow> {C_thread i, C_queue, C_audit}
           | Admin_updateTicket i _ \<Rightarrow> {C_thread i, C_queue, C_audit}
           | Admin_assignTicket i _ \<Rightarrow> {C_thread i, C_queue, C_audit}
           | _ \<Rightarrow> {})
      | Console c \<Rightarrow>
          (case c of
             Console_quarantineCommunity _ _ \<Rightarrow> {C_communities, C_audit}
           | Console_unquarantineCommunity _ \<Rightarrow> {C_communities, C_audit}
           | Console_deleteCommunity _ \<Rightarrow> {C_communities, C_audit}
           | Console_terminateLiveMedia _ \<Rightarrow> {C_live, C_audit}
           | Console_createBroadcast _ \<Rightarrow> {C_broadcasts, C_audit}
           | Console_deleteBroadcast _ \<Rightarrow> {C_broadcasts, C_audit}
           | Console_updateSetting _ _ \<Rightarrow> {C_settings, C_audit}
           | _ \<Rightarrow> {})
      | Security s \<Rightarrow>
          (case s of
             Security_banIp _ _ _ \<Rightarrow> {C_ip_bans, C_audit}
           | Security_unbanIp _ \<Rightarrow> {C_ip_bans, C_audit}
           | Security_blockEmailDomain _ _ \<Rightarrow> {C_domains, C_audit}
           | Security_unblockEmailDomain _ \<Rightarrow> {C_domains, C_audit}
           | Security_createAutomodRule _ \<Rightarrow> {C_rules, C_audit}
           | Security_deleteAutomodRule _ \<Rightarrow> {C_rules, C_audit}
           | Security_runJob _ \<Rightarrow> {C_jobs, C_audit}
           | Security_revokeUserSessions _ \<Rightarrow> {C_audit}
           | Security_staffUpdateUserProfile _ _ \<Rightarrow> {C_accounts, C_staff, C_audit}
           | _ \<Rightarrow> {})
      | Support s \<Rightarrow>
          (case s of
             Support_open _ \<Rightarrow> {C_queue, C_audit}
           | Support_reply i _ \<Rightarrow> {C_thread i, C_queue, C_audit}
           | _ \<Rightarrow> {})
      | _ \<Rightarrow> {})"

text \<open>The topics the server's handlers send to every console (\<open>apps/api/src/routes/admin.rs\<close>).\<close>

definition account_signals :: "uuid admin_endpoint \<Rightarrow> string list" where
  "account_signals a =
     (case a of
        Admin_suspendUser _ _ \<Rightarrow> [''users'', ''audit_log'']
      | Admin_reinstateUser _ \<Rightarrow> [''users'', ''audit_log'']
      | Admin_setPlatformRole _ _ \<Rightarrow> [''users'', ''audit_log'']
      | Admin_bulkSuspendUsers _ _ \<Rightarrow> [''users'', ''audit_log'']
      | Admin_bulkReinstateUsers _ \<Rightarrow> [''users'', ''audit_log'']
      | _ \<Rightarrow> [])"

definition ticket_signals :: "endpoint \<Rightarrow> string list" where
  "ticket_signals e =
     (case e of
        Admin (Admin_replyToTicket _ _ _) \<Rightarrow> [''support_queue'']
      | Admin (Admin_updateTicket _ _) \<Rightarrow> [''support_queue'']
      | Admin (Admin_assignTicket _ _) \<Rightarrow> [''support_queue'']
      | Support (Support_open _) \<Rightarrow> [''support_queue'']
      | Support (Support_reply _ _) \<Rightarrow> []
      | _ \<Rightarrow> [])"

definition media_signals :: "uuid console_endpoint \<Rightarrow> string list" where
  "media_signals c =
     (case c of
        Console_quarantineCommunity _ _ \<Rightarrow> []
      | Console_unquarantineCommunity _ \<Rightarrow> []
      | Console_deleteCommunity _ \<Rightarrow> []
      | Console_terminateLiveMedia _ \<Rightarrow> [''live_media'', ''audit_log'']
      | Console_createBroadcast _ \<Rightarrow> [''broadcasts'', ''audit_log'']
      | Console_deleteBroadcast _ \<Rightarrow> [''broadcasts'', ''audit_log'']
      | _ \<Rightarrow> [])"

definition console_changed :: "endpoint \<Rightarrow> string list" where
  "console_changed e =
     (case e of Admin a \<Rightarrow> account_signals a | Console c \<Rightarrow> media_signals c | _ \<Rightarrow> []) @ ticket_signals e"

text \<open>What another console learns of an action.\<close>

definition told :: "endpoint \<Rightarrow> console_resource set" where
  "told e =
     (case e of
        Admin a \<Rightarrow>
          (case a of
             Admin_replyToTicket _ _ _ \<Rightarrow> {C_queue}
           | Admin_updateTicket _ _ \<Rightarrow> {C_queue}
           | Admin_assignTicket _ _ \<Rightarrow> {C_queue}
           | _ \<Rightarrow> console_changes e)
      | Console c \<Rightarrow>
          (case c of
             Console_terminateLiveMedia _ \<Rightarrow> {C_live, C_audit}
           | Console_createBroadcast _ \<Rightarrow> {C_broadcasts, C_audit}
           | Console_deleteBroadcast _ \<Rightarrow> {C_broadcasts, C_audit}
           | _ \<Rightarrow> {})
      | Support (Support_open _) \<Rightarrow> {C_queue}
      | _ \<Rightarrow> {})"

lemma told_changes: "told e \<subseteq> console_changes e"
  by (auto simp: told_def console_changes_def split: endpoint.splits admin_endpoint.splits
      console_endpoint.splits support_endpoint.splits)

text \<open>The queries marked stale by the frames one action sends.\<close>

definition signalled :: "current_user option \<Rightarrow> endpoint \<Rightarrow> cached_query \<Rightarrow> bool" where
  "signalled user e q \<longleftrightarrow> (\<exists>topic \<in> set (console_changed e).
     list_ex (\<lambda>fx. touches fx (q_key q)) (useConsoleLiveUpdates True user ''console_changed'' topic))"

definition topic_shows :: "string \<Rightarrow> console_resource set" where
  "topic_shows topic =
     (if topic = ''support_queue'' then {C_queue}
      else if topic = ''live_media'' then {C_live}
      else if topic = ''broadcasts'' then {C_broadcasts}
      else if topic = ''users'' then {C_accounts, C_staff}
      else if topic = ''audit_log'' then {C_audit} else {})"

lemma topic_marks:
  assumes "web_query signedIn user q" and "q_enabled q" and "useIsStaff user"
  shows "list_ex (\<lambda>fx. touches fx (q_key q)) (useConsoleLiveUpdates True user ''console_changed'' topic)
    \<longleftrightarrow> fetched console_shows (q_fn q) \<inter> topic_shows topic \<noteq> {}"
  using assms(1)
  by cases
    (use assms(2,3) in \<open>auto simp: web_query_defs web_key_defs useConsoleLiveUpdates_def TOPIC_KEYS_def topic_shows_def
      console_shows_def Let_def split: if_splits\<close>)

lemmas signal_defs =
  told_def console_changed_def account_signals_def ticket_signals_def media_signals_def
  console_changes_def topic_shows_def

lemma told_topics: "told e = (\<Union>topic \<in> set (console_changed e). topic_shows topic)"
proof (cases e)
  case (Admin a)
  then show ?thesis by (cases a) (auto simp: signal_defs)
next
  case (Console c)
  then show ?thesis by (cases c) (auto simp: signal_defs)
next
  case (Support s)
  then show ?thesis by (cases s) (auto simp: signal_defs)
qed (simp_all add: signal_defs)

lemma console_mutation_marks:
  assumes "console_mutation m" and "web_query signedIn user q" and "q_enabled q"
    and "m_fn m = Asks t e" and "console_changes e \<inter> fetched console_shows (q_fn q) \<noteq> {}"
  shows "refreshes m response q"
proof -
  have "\<exists>rest. q_key q = adminKeys_all @ rest" if "q \<noteq> useActiveBroadcasts"
    using assms(2) by cases
      (use assms(3,5) that in \<open>auto simp: web_query_defs web_key_defs console_shows_def Let_def split: if_splits\<close>)
  moreover have "C_broadcasts \<in> console_changes e" if "q = useActiveBroadcasts"
    using that assms(5) by (auto simp: useActiveBroadcasts_def useQuery_def console_shows_def)
  moreover have "Invalidate adminKeys_all \<in> set (m_success m response)"
    using assms(1) by cases (simp_all add: console_mutation_defs)
  moreover have "Invalidate broadcastKeys_active \<in> set (m_success m response)" if "C_broadcasts \<in> console_changes e"
    using assms(1,4) that by cases (auto simp: console_mutation_defs console_changes_def)
  ultimately show ?thesis
    by (cases "q = useActiveBroadcasts")
      (force simp: refreshes_def list_ex_iff useActiveBroadcasts_def useQuery_def adminKeys_all_def broadcastKeys_active_def
        broadcastKeys_all_def)+
qed

section \<open>Properties\<close>



end
