(* ===== verification/WebChatSocket.thy ===== *)
theory WebChatSocket
  imports ChatSocketInv
begin

text \<open>
  The web app's client of the real-time connection, \<open>apps/web/src/lib/ws/ChatSocket.ts\<close>. It
  is the class of \<open>ChatSocket\<close> with four differences: frames are queued only while a socket
  is connecting and dropped when there is none, a listener that throws is caught and the
  others still called, \<open>disconnect\<close> tells the listeners, and there is no base URL of its own.
  The state is the same record, and \<open>baseUrl\<close> stays \<open>None\<close>; so the invariant of the shared
  class is reused, for the runs in which the first difference cannot be seen. Two runs show
  what happens in the others.
\<close>

section \<open>Operations\<close>

text \<open>Every listener is called; what one throws is logged.\<close>

definition web_emit :: "string \<Rightarrow> emission \<Rightarrow> chat_socket \<Rightarrow> chat_socket" where
  "web_emit event data s =
     (case map_of (listeners s) event of
        None \<Rightarrow> s
      | Some hs \<Rightarrow> s\<lparr>delivered := delivered s @ map (\<lambda>listener. (listener, data)) hs\<rparr>)"

text \<open>\<open>config.apiUrl || window.location.origin\<close>: a browser always has an origin.\<close>

definition web_endpoint :: "env \<Rightarrow> chat_socket \<Rightarrow> string" where
  "web_endpoint e s =
     (let base = (if getApiBaseUrl e \<noteq> [] then getApiBaseUrl e
                  else case window_origin e of Some origin \<Rightarrow> origin | None \<Rightarrow> []);
          base = (if starts_with base ''http'' then ''ws'' @ drop 4 base else base)
      in base @ ''/api/v1/ws''
           @ (case token s of
                Some t \<Rightarrow> if t \<noteq> [] then ''?token='' @ encodeURIComponent e t else []
              | None \<Rightarrow> []))"

definition web_connect :: "env \<Rightarrow> chat_socket \<Rightarrow> chat_socket" where
  "web_connect e s =
     (if ready s = Some OPEN \<or> ready s = Some CONNECTING then s
      else let s = s\<lparr>isExplicitlyClosed := False\<rparr>; url = web_endpoint e s
           in if \<not> url_ok e url then scheduleReconnect s
              else web_emit ''status'' (Status ''connecting'')
                     (s\<lparr>socket := Some (length (sockets s)),
                        sockets := sockets s @ [\<lparr>ws_url = url, readyState = CONNECTING,
                                                  ws_handlers = True, ws_sent = []\<rparr>]\<rparr>))"

definition web_send :: "frame \<Rightarrow> chat_socket \<Rightarrow> chat_socket" where
  "web_send data s =
     (if ready s = Some OPEN
      then let i = the (socket s); w = sockets s ! i
           in s\<lparr>sockets := (sockets s)[i := w\<lparr>ws_sent := ws_sent w @ [data]\<rparr>]\<rparr>
      else if ready s = Some CONNECTING then s\<lparr>messageQueue := messageQueue s @ [data]\<rparr>
      else s)"

partial_function (option) web_flush :: "chat_socket \<Rightarrow> chat_socket option" where
  "web_flush s =
     (case messageQueue s of
        [] \<Rightarrow> Some s
      | msg # queue \<Rightarrow> web_flush (web_send msg (s\<lparr>messageQueue := queue\<rparr>)))"

declare web_flush.simps [code]

definition web_handleOpen :: "chat_socket \<Rightarrow> chat_socket option" where
  "web_handleOpen s =
     (let s = web_emit ''status'' (Status ''connected'') (s\<lparr>retryCount := 0\<rparr>);
          s = fold (\<lambda>room. web_send (Subscribe_frame room)) (subscribedRooms s) s;
          s = (case focusedRoom s of None \<Rightarrow> s | Some room \<Rightarrow> web_send (Focus_frame (Some room)) s)
      in case web_flush s of None \<Rightarrow> None | Some s \<Rightarrow> Some (startPing s))"

definition web_handleMessage :: "server_event option \<Rightarrow> chat_socket \<Rightarrow> chat_socket" where
  "web_handleMessage data s =
     (case data of
        None \<Rightarrow> s
      | Some ev \<Rightarrow>
          if ev = Pong then s
          else web_emit ''*'' (Event ev) (web_emit (event_type ev) (Event ev) s))"

definition web_handleClose :: "chat_socket \<Rightarrow> chat_socket" where
  "web_handleClose s =
     (let s = stopPing (web_emit ''status'' (Status ''disconnected'') s)
      in if \<not> isExplicitlyClosed s then scheduleReconnect s else s)"

definition web_handleError :: "chat_socket \<Rightarrow> chat_socket" where
  "web_handleError s = web_emit ''status'' (Status ''error'') s"

definition web_disconnect :: "chat_socket \<Rightarrow> chat_socket" where
  "web_disconnect s =
     (let s = s\<lparr>isExplicitlyClosed := True\<rparr>;
          s = (case reconnectTimer s of
                 None \<Rightarrow> s
               | Some t \<Rightarrow> s\<lparr>timeouts := filter (\<lambda>(i, _). i \<noteq> t) (timeouts s), reconnectTimer := None\<rparr>);
          s = stopPing s;
          s = (case socket s of
                 None \<Rightarrow> s
               | Some i \<Rightarrow> s\<lparr>sockets := (sockets s)[i := close_socket ((sockets s ! i)\<lparr>ws_handlers := False\<rparr>)],
                              socket := None\<rparr>)
      in web_emit ''status'' (Status ''disconnected'') s)"

definition web_setToken :: "env \<Rightarrow> string \<Rightarrow> chat_socket \<Rightarrow> chat_socket" where
  "web_setToken e t s =
     (let live = (ready s = Some OPEN \<or> ready s = Some CONNECTING)
      in if token s = Some t \<and> live then s
         else let s = s\<lparr>token := Some t\<rparr>;
                  s = (if socket s \<noteq> None then web_disconnect s else s)
              in web_connect e s)"

definition web_subscribe :: "uuid \<Rightarrow> chat_socket \<Rightarrow> chat_socket" where
  "web_subscribe room s =
     web_send (Subscribe_frame room) (s\<lparr>subscribedRooms := jset_add room (subscribedRooms s)\<rparr>)"

definition web_unsubscribe :: "uuid \<Rightarrow> chat_socket \<Rightarrow> chat_socket" where
  "web_unsubscribe room s =
     (let s = s\<lparr>subscribedRooms := jset_delete room (subscribedRooms s)\<rparr>;
          s = (if focusedRoom s = Some room then s\<lparr>focusedRoom := None\<rparr> else s)
      in web_send (Unsubscribe_frame room) s)"

definition web_focus :: "uuid option \<Rightarrow> chat_socket \<Rightarrow> chat_socket" where
  "web_focus room s =
     (if focusedRoom s = room then s
      else web_send (Focus_frame room) (s\<lparr>focusedRoom := room\<rparr>))"

definition web_blur :: "uuid \<Rightarrow> chat_socket \<Rightarrow> chat_socket" where
  "web_blur room s = (if focusedRoom s \<noteq> Some room then s else web_focus None s)"

definition web_sendTyping :: "uuid \<Rightarrow> bool \<Rightarrow> chat_socket \<Rightarrow> chat_socket" where
  "web_sendTyping room isTyping s = web_send (Typing_frame room isTyping) s"

definition web_sendMessage :: "uuid \<Rightarrow> jstr \<Rightarrow> bool option \<Rightarrow> chat_socket \<Rightarrow> chat_socket" where
  "web_sendMessage room content isAnonymous s = web_send (Send_message_frame room content isAnonymous) s"

definition web_react :: "uuid \<Rightarrow> uuid \<Rightarrow> jstr \<Rightarrow> chat_socket \<Rightarrow> chat_socket" where
  "web_react room msg reaction s = web_send (React_frame room msg reaction) s"

definition web_unreact :: "uuid \<Rightarrow> uuid \<Rightarrow> jstr \<Rightarrow> chat_socket \<Rightarrow> chat_socket" where
  "web_unreact room msg reaction s = web_send (Unreact_frame room msg reaction) s"

definition web_on :: "string \<Rightarrow> callback \<Rightarrow> chat_socket \<Rightarrow> chat_socket" where
  "web_on event listener s =
     (let s = (if map_of (listeners s) event = None
               then s\<lparr>listeners := AList.update event [] (listeners s)\<rparr> else s)
      in s\<lparr>listeners :=
             AList.update event (jset_add listener (the (map_of (listeners s) event))) (listeners s)\<rparr>)"

text \<open>The last listener of an event takes the event's entry with it.\<close>

definition web_off :: "string \<Rightarrow> callback \<Rightarrow> chat_socket \<Rightarrow> chat_socket" where
  "web_off event listener s =
     (case map_of (listeners s) event of
        None \<Rightarrow> s
      | Some hs \<Rightarrow>
          let hs = jset_delete listener hs
          in s\<lparr>listeners := if hs = [] then AList.delete event (listeners s)
                            else AList.update event hs (listeners s)\<rparr>)"

section \<open>Steps\<close>

text \<open>
  What the app calls. \<open>connect\<close> is public too, and nothing calls it but the class itself.
\<close>

datatype web_action =
    Web_token string | Web_subscribe uuid | Web_unsubscribe uuid | Web_focus "uuid option"
  | Web_blur uuid | Web_typing uuid bool | Web_message uuid jstr "bool option"
  | Web_react uuid uuid jstr | Web_unreact uuid uuid jstr
  | Web_on string callback | Web_off string callback | Web_disconnect

fun web_call :: "env \<Rightarrow> web_action \<Rightarrow> chat_socket \<Rightarrow> chat_socket" where
  "web_call e (Web_token t) s = web_setToken e t s"
| "web_call e (Web_subscribe room) s = web_subscribe room s"
| "web_call e (Web_unsubscribe room) s = web_unsubscribe room s"
| "web_call e (Web_focus room) s = web_focus room s"
| "web_call e (Web_blur room) s = web_blur room s"
| "web_call e (Web_typing room b) s = web_sendTyping room b s"
| "web_call e (Web_message room content a) s = web_sendMessage room content a s"
| "web_call e (Web_react room msg r) s = web_react room msg r s"
| "web_call e (Web_unreact room msg r) s = web_unreact room msg r s"
| "web_call e (Web_on event cb) s = web_on event cb s"
| "web_call e (Web_off event cb) s = web_off event cb s"
| "web_call e Web_disconnect s = web_disconnect s"

datatype web_label =
    Web_call web_action
  | Web_opened nat | Web_received nat "server_event option" | Web_closing nat | Web_closed nat
  | Web_errored nat | Web_timed_out nat | Web_ticked nat

text \<open>As for the shared class: the app calls, or the host runs an event.\<close>

inductive web_step :: "env \<Rightarrow> chat_socket \<Rightarrow> web_label \<Rightarrow> chat_socket \<Rightarrow> bool" for e where
  web_step_call: "web_step e s (Web_call c) (web_call e c s)"
| web_step_open: "i < length (sockets s) \<Longrightarrow> readyState (sockets s ! i) = CONNECTING \<Longrightarrow>
     (if ws_handlers (sockets s ! i) then web_handleOpen (set_ready i OPEN s) else Some (set_ready i OPEN s))
       = Some s' \<Longrightarrow>
     web_step e s (Web_opened i) s'"
| web_step_message: "i < length (sockets s) \<Longrightarrow> readyState (sockets s ! i) = OPEN \<Longrightarrow>
     web_step e s (Web_received i data) (if ws_handlers (sockets s ! i) then web_handleMessage data s else s)"
| web_step_closing: "i < length (sockets s) \<Longrightarrow> readyState (sockets s ! i) \<in> {CONNECTING, OPEN} \<Longrightarrow>
     web_step e s (Web_closing i) (set_ready i CLOSING s)"
| web_step_close: "i < length (sockets s) \<Longrightarrow> readyState (sockets s ! i) \<noteq> CLOSED \<Longrightarrow>
     web_step e s (Web_closed i)
       (if ws_handlers (sockets s ! i) then web_handleClose (set_ready i CLOSED s) else set_ready i CLOSED s)"
| web_step_error: "i < length (sockets s) \<Longrightarrow> readyState (sockets s ! i) \<noteq> CLOSED \<Longrightarrow>
     web_step e s (Web_errored i) (if ws_handlers (sockets s ! i) then web_handleError s else s)"
| web_step_timeout: "(t, d) \<in> set (timeouts s) \<Longrightarrow>
     web_step e s (Web_timed_out t)
       (web_connect e (s\<lparr>timeouts := filter (\<lambda>(i, _). i \<noteq> t) (timeouts s), reconnectTimer := None\<rparr>))"
| web_step_tick: "t \<in> set (intervals s) \<Longrightarrow> web_step e s (Web_ticked t) (web_send Ping_frame s)"

inductive_cases web_stepE: "web_step e s l s'"

definition new_web_socket :: chat_socket where
  "new_web_socket = new_chat_socket None"

inductive web_reachable :: "env \<Rightarrow> chat_socket \<Rightarrow> bool" for e where
  web_reachable_init: "web_reachable e new_web_socket"
| web_reachable_step: "web_reachable e s \<Longrightarrow> web_step e s l s' \<Longrightarrow> web_reachable e s'"

text \<open>
  The runs in which no socket goes away with frames waiting for it: after every step the
  queue is empty or a socket is connecting.
\<close>

definition settled :: "chat_socket \<Rightarrow> bool" where
  "settled s \<longleftrightarrow> messageQueue s = [] \<or> ready s = Some CONNECTING"

inductive settled_run :: "env \<Rightarrow> chat_socket \<Rightarrow> bool" for e where
  settled_init: "settled_run e new_web_socket"
| settled_step: "settled_run e s \<Longrightarrow> web_step e s l s' \<Longrightarrow> settled s' \<Longrightarrow> settled_run e s'"

section \<open>The shared invariant\<close>

lemma web_emit_eq: "web_emit event data s = s\<lparr>delivered := delivered s @ heard s event data\<rparr>"
  by (simp add: web_emit_def heard_def split: option.split)

text \<open>The shared class behaves as this one where no listener throws.\<close>

definition deaf :: env where
  "deaf = \<lparr>getApiBaseUrl = [], window_origin = None, encodeURIComponent = id, url_ok = (\<lambda>_. True),
           throws = (\<lambda>_. False)\<rparr>"

lemma sound_deaf: "sound deaf"
  by (simp add: sound_def deaf_def)

lemmas as_shared = web_emit_eq emit_sound [OF sound_deaf]

lemma web_send_live: "ready s = Some OPEN \<or> ready s = Some CONNECTING \<Longrightarrow> web_send f s = send f s"
  by (auto simp: web_send_def send_def)

lemma web_send_dead: "ready s \<noteq> Some OPEN \<Longrightarrow> ready s \<noteq> Some CONNECTING \<Longrightarrow> web_send f s = s"
  by (simp add: web_send_def)

lemma web_handleClose_eq: "web_handleClose s = handleClose deaf s"
  by (simp add: web_handleClose_def handleClose_def as_shared Let_def)

lemma web_disconnect_eq:
  "web_disconnect s = (disconnect s)\<lparr>delivered :=
     delivered (disconnect s) @ heard (disconnect s) ''status'' (Status ''disconnected'')\<rparr>"
  by (simp add: web_disconnect_def disconnect_def Let_def web_emit_eq)

lemma web_flush_eq:
  "ready s = Some OPEN \<Longrightarrow> current_ok s \<Longrightarrow> web_flush s = flush s"
proof (induction "messageQueue s" arbitrary: s)
  case Nil
  then show ?case by (simp add: flush.simps [of s] web_flush.simps [of s])
next
  case (Cons f q)
  let ?s = "s\<lparr>messageQueue := q\<rparr>"
  have o: "ready ?s = Some OPEN" "current_ok ?s" using Cons.prems by (simp_all add: current_ok_def)
  then have "web_flush (send f ?s) = flush (send f ?s)"
    using Cons.hyps(1) by (simp add: send_open)
  then show ?case
    using o by (simp add: flush.simps [of s] web_flush.simps [of s] Cons.hyps(2) [symmetric] web_send_live)
qed

lemma fold_web_send:
  "ready s = Some OPEN \<Longrightarrow> current_ok s \<Longrightarrow>
     fold (\<lambda>r. web_send (Subscribe_frame r)) rs s = fold (\<lambda>r. send (Subscribe_frame r)) rs s"
  by (induction rs arbitrary: s) (simp_all add: web_send_live send_open)

lemma web_handleOpen_eq:
  assumes o: "ready s = Some OPEN" and c: "current_ok s"
  shows "web_handleOpen s = handleOpen deaf s"
proof -
  let ?s = "s\<lparr>retryCount := 0, delivered := delivered s @ heard (s\<lparr>retryCount := 0\<rparr>) ''status'' (Status ''connected'')\<rparr>"
  let ?t = "transmit (map Subscribe_frame (subscribedRooms s)) ?s"
  have s: "ready ?s = Some OPEN" "current_ok ?s" using o c by (simp_all add: current_ok_def)
  have "fold (\<lambda>r. send (Subscribe_frame r)) (subscribedRooms s) ?s = ?t"
    using s by (rule fold_send_open)
  then show ?thesis
    using s
    by (cases "focusedRoom s")
      (simp_all add: web_handleOpen_def handleOpen_def as_shared Let_def fold_web_send web_send_live
        send_open web_flush_eq)
qed

lemma idle_delivered [simp]: "idle (s\<lparr>delivered := d\<rparr>) = idle s"
  by (simp add: idle_def socket_ok_def timers_ok_def subs_ok_def focus_ok_def)

lemma web_connect_inv:
  assumes "\<forall>u. url_ok e u" and "idle s"
  shows "chat_inv (web_connect e s)"
proof -
  have "ready s = None \<or> ready s = Some CLOSED" using assms(2) by (simp add: idle_def)
  then show ?thesis
    using assms(1) opened_inv [OF assms(2)] by (auto simp: web_connect_def web_emit_eq Let_def)
qed

lemma web_retoken_idle:
  "chat_inv s \<Longrightarrow> idle (if socket s \<noteq> None then web_disconnect (s\<lparr>token := Some t\<rparr>) else s\<lparr>token := Some t\<rparr>)"
  using retoken_idle [of s t] by (simp add: web_disconnect_eq split: if_splits)

lemma web_setToken_inv:
  "\<forall>u. url_ok e u \<Longrightarrow> chat_inv s \<Longrightarrow> chat_inv (web_setToken e t s)"
  using web_connect_inv [OF _ web_retoken_idle [of s t], of e]
  by (cases "socket s") (auto simp: web_setToken_def Let_def)

lemma web_announce_inv:
  assumes inv: "chat_inv s" and q: "settled s"
    and subs: "set rooms = sub_step f (set (subscribedRooms s))" "distinct rooms"
    and x: "x = client_focus f (focusedRoom s)"
  shows "chat_inv (web_send f (s\<lparr>subscribedRooms := rooms, focusedRoom := x\<rparr>))"
proof (cases "ready s = Some OPEN \<or> ready s = Some CONNECTING")
  case True
  with announce_inv [OF inv subs x] show ?thesis by (simp add: web_send_live)
next
  case False
  with q have none: "messageQueue s = []" by (simp add: settled_def)
  have "chat_inv (s\<lparr>subscribedRooms := rooms, focusedRoom := x\<rparr>)"
    using inv subs(2) False none
    by (simp add: inv_defs cong: option.case_cong ready_state.case_cong)
  with False show ?thesis by (simp add: web_send_dead)
qed

lemma web_send_inv:
  "chat_inv s \<Longrightarrow> settled s \<Longrightarrow>
     \<forall>r x. f \<noteq> Subscribe_frame r \<and> f \<noteq> Unsubscribe_frame r \<and> f \<noteq> Focus_frame x \<Longrightarrow>
     chat_inv (web_send f s)"
  using web_announce_inv [of s "subscribedRooms s" f "focusedRoom s"] chat_inv_distinct [of s]
  by (cases f) simp_all

lemma web_subscribe_inv: "chat_inv s \<Longrightarrow> settled s \<Longrightarrow> chat_inv (web_subscribe r s)"
  using web_announce_inv [of s "jset_add r (subscribedRooms s)" "Subscribe_frame r" "focusedRoom s"]
    chat_inv_distinct [of s]
  by (simp add: web_subscribe_def)

lemma web_unsubscribe_eq:
  "web_unsubscribe r s = web_send (Unsubscribe_frame r)
     (s\<lparr>subscribedRooms := jset_delete r (subscribedRooms s),
       focusedRoom := client_focus (Unsubscribe_frame r) (focusedRoom s)\<rparr>)"
  by (cases "focusedRoom s = Some r") (simp_all add: web_unsubscribe_def Let_def)

lemma web_focus_inv: "chat_inv s \<Longrightarrow> settled s \<Longrightarrow> chat_inv (web_focus x s)"
  using web_announce_inv [of s "subscribedRooms s" "Focus_frame x" x] chat_inv_distinct [of s]
  by (simp add: web_focus_def)

lemma web_call_inv:
  assumes e: "\<forall>u. url_ok e u" and s: "chat_inv s" "settled s"
  shows "chat_inv (web_call e c s)"
proof (cases c)
  case (Web_unsubscribe r)
  have "chat_inv (web_unsubscribe r s)"
    unfolding web_unsubscribe_eq by (rule web_announce_inv [OF s]) (auto simp: chat_inv_distinct [OF s(1)])
  with Web_unsubscribe show ?thesis by simp
next
  case (Web_off event cb)
  then show ?thesis using s by (simp add: web_off_def Let_def split: option.split)
qed (simp_all add: e s web_setToken_inv web_subscribe_inv web_focus_inv web_blur_def web_sendTyping_def
      web_sendMessage_def web_react_def web_unreact_def web_send_inv web_on_def Let_def web_disconnect_eq
      disconnect_inv)

lemma web_step_inv:
  assumes e: "\<forall>u. url_ok e u" and st: "web_step e s l s'" and s: "chat_inv s" and q: "settled s"
  shows "chat_inv s'"
  using st
proof cases
  case (web_step_call c)
  then show ?thesis using web_call_inv [OF e s q] by simp
next
  case (web_step_open i)
  show ?thesis
  proof (cases "ws_handlers (sockets s ! i)")
    case True
    with web_step_open live_is_current [OF s] have i: "socket s = Some i" by simp
    have c: "current_ok s" using s by (simp add: chat_inv_def socket_ok_current)
    then have "ready (set_ready i OPEN s) = Some OPEN" "current_ok (set_ready i OPEN s)"
      using i by (simp_all add: ready_set_ready [OF c]) (simp add: current_ok_def)
    with web_step_open True i show ?thesis
      by (intro handleOpen_inv [OF sound_deaf s]) (auto simp: web_handleOpen_eq)
  next
    case False
    then have "socket s \<noteq> Some i" using s by (auto simp: chat_inv_def socket_ok_def)
    with False web_step_open stray_event_inv [OF s, of i OPEN] show ?thesis by auto
  qed
next
  case (web_step_message i data)
  then show ?thesis
    using s by (simp add: web_handleMessage_def web_emit_eq split: option.split)
next
  case (web_step_closing i)
  then show ?thesis using closing_inv [OF s] by simp
next
  case (web_step_close i)
  show ?thesis
  proof (cases "ws_handlers (sockets s ! i)")
    case True
    with web_step_close live_is_current [OF s] have "socket s = Some i" by simp
    with web_step_close True show ?thesis
      by (simp add: web_handleClose_eq handleClose_inv [OF sound_deaf s])
  next
    case False
    then have "socket s \<noteq> Some i" using s by (auto simp: chat_inv_def socket_ok_def)
    with False web_step_close stray_event_inv [OF s] show ?thesis by simp
  qed
next
  case (web_step_error i)
  then show ?thesis using s by (simp add: web_handleError_def web_emit_eq)
next
  case (web_step_timeout t d)
  then show ?thesis using web_connect_inv [OF e timeout_idle [OF s]] by simp
next
  case (web_step_tick t)
  then show ?thesis using web_send_inv [OF s q] by simp
qed

lemma settled_new: "settled new_web_socket"
  by (simp add: settled_def new_web_socket_def new_chat_socket_def)

lemma settled_run_inv:
  assumes "\<forall>u. url_ok e u" and "settled_run e s"
  shows "chat_inv s \<and> settled s"
  using assms(2)
  by (induction rule: settled_run.induct)
    (auto simp: settled_new init_inv [of None, folded new_web_socket_def] intro: web_step_inv [OF assms(1)])

section \<open>Runs\<close>

definition web_demo :: env where
  "web_demo = \<lparr>getApiBaseUrl = ''http://api'', window_origin = Some ''http://web'', encodeURIComponent = id,
               url_ok = (\<lambda>_. True), throws = (\<lambda>_. False)\<rparr>"

lemma web_demo_urls: "\<forall>u. url_ok web_demo u"
  by (simp add: web_demo_def)

text \<open>What the host makes of a label, where the model computes it.\<close>

fun web_host :: "web_label \<Rightarrow> chat_socket \<Rightarrow> chat_socket" where
  "web_host (Web_call c) s = web_call web_demo c s"
| "web_host (Web_opened i) s = the (web_handleOpen (set_ready i OPEN s))"
| "web_host (Web_closed i) s = web_handleClose (set_ready i CLOSED s)"
| "web_host (Web_timed_out t) s =
     web_connect web_demo (s\<lparr>timeouts := filter (\<lambda>(i, _). i \<noteq> t) (timeouts s), reconnectTimer := None\<rparr>)"
| "web_host _ s = s"

fun web_can :: "web_label \<Rightarrow> chat_socket \<Rightarrow> bool" where
  "web_can (Web_call c) s = True"
| "web_can (Web_opened i) s =
     (i < length (sockets s) \<and> readyState (sockets s ! i) = CONNECTING \<and> ws_handlers (sockets s ! i)
      \<and> web_handleOpen (set_ready i OPEN s) \<noteq> None)"
| "web_can (Web_closed i) s =
     (i < length (sockets s) \<and> readyState (sockets s ! i) \<noteq> CLOSED \<and> ws_handlers (sockets s ! i))"
| "web_can (Web_timed_out t) s = (t \<in> fst ` set (timeouts s))"
| "web_can _ s = False"

fun web_run :: "web_label list \<Rightarrow> chat_socket \<Rightarrow> chat_socket option" where
  "web_run [] s = Some s"
| "web_run (l # ls) s = (if web_can l s then web_run ls (web_host l s) else None)"

lemma web_host_step: "web_can l s \<Longrightarrow> web_step web_demo s l (web_host l s)"
proof (cases l)
  case (Web_opened i)
  moreover assume "web_can l s"
  ultimately show ?thesis by (auto intro!: web_step_open)
next
  case (Web_closed i)
  moreover assume "web_can l s"
  ultimately show ?thesis using web_step_close [of i s web_demo] by simp
next
  case (Web_timed_out t)
  moreover assume "web_can l s"
  ultimately show ?thesis by (auto intro: web_step_timeout)
qed (auto intro: web_step_call)

lemma web_run_reachable: "web_reachable web_demo s \<Longrightarrow> web_run ls s = Some s' \<Longrightarrow> web_reachable web_demo s'"
  by (induction ls arbitrary: s) (auto split: if_splits intro: web_reachable_step web_host_step)

fun stays_settled :: "web_label list \<Rightarrow> chat_socket \<Rightarrow> bool" where
  "stays_settled [] s = True"
| "stays_settled (l # ls) s = (settled (web_host l s) \<and> stays_settled ls (web_host l s))"

lemma web_run_settled:
  "settled_run web_demo s \<Longrightarrow> web_run ls s = Some s' \<Longrightarrow> stays_settled ls s \<Longrightarrow> settled_run web_demo s'"
  by (induction ls arbitrary: s) (auto split: if_splits intro: settled_step web_host_step)

text \<open>A room opened before the connection is up, another one after.\<close>

definition web_demo_open :: chat_socket where
  "web_demo_open = the (web_run
     [Web_call (Web_token ''t''), Web_call (Web_subscribe ''a''), Web_opened 0,
      Web_call (Web_subscribe ''b''), Web_call (Web_focus (Some ''b''))] new_web_socket)"

text \<open>
  A room left while a connection that fails is being tried, and entered again before the next
  one: the frame about leaving waits, the one about entering is dropped.
\<close>

definition web_demo_stale :: "web_label list" where
  "web_demo_stale =
     [Web_call (Web_token ''t''), Web_call (Web_subscribe ''a''), Web_opened 0, Web_closed 0,
      Web_timed_out 1, Web_call (Web_unsubscribe ''a''), Web_closed 1,
      Web_call (Web_subscribe ''a''), Web_timed_out 2, Web_opened 2]"

section \<open>The server at the other end\<close>


lemma web_demo_open_run: "settled_run web_demo web_demo_open"
proof -
  let ?ls = "[Web_call (Web_token ''t''), Web_call (Web_subscribe ''a''), Web_opened 0,
      Web_call (Web_subscribe ''b''), Web_call (Web_focus (Some ''b''))]"
  have "web_run ?ls new_web_socket = Some web_demo_open" by code_simp
  moreover have "stays_settled ?ls new_web_socket"
    by code_simp
  ultimately show ?thesis by (rule web_run_settled [OF settled_init])
qed


text \<open>
  In the other runs it need not: here the client shows a room, on an open connection, that
  the server will send it nothing from.
\<close>

theorem web_room_goes_quiet:
  "\<exists>s. web_reachable web_demo s \<and> ready s = Some OPEN \<and> subscribedRooms s = [''a'']
     \<and> subscribed_rooms (replay (\<lambda>_. True) (sent s) (new_session ''u'')) = []"
proof -
  let ?s = "the (web_run web_demo_stale new_web_socket)"
  have "web_run web_demo_stale new_web_socket = Some ?s" by code_simp
  then have "web_reachable web_demo ?s" by (rule web_run_reachable [OF web_reachable_init])
  moreover have "ready ?s = Some OPEN" "subscribedRooms ?s = [''a'']"
    "subscribed_rooms (replay (\<lambda>_. True) (sent ?s) (new_session ''u'')) = []"
    by code_simp+
  ultimately show ?thesis by blast
qed


definition web_demo_posting :: chat_socket where
  "web_demo_posting = the (web_run
     [Web_call (Web_token ''t''), Web_call (Web_message ''a'' (js ''mine'') None)] new_web_socket)"

lemma web_demo_posting_run: "settled_run web_demo web_demo_posting"
proof -
  let ?ls = "[Web_call (Web_token ''t''), Web_call (Web_message ''a'' (js ''mine'') None)]"
  have "web_run ?ls new_web_socket = Some web_demo_posting" by code_simp
  moreover have "stays_settled ?ls new_web_socket"
    by code_simp
  ultimately show ?thesis by (rule web_run_settled [OF settled_init])
qed


end
