(* ===== verification/CallMedia.thy ===== *)
theory CallMedia
  imports ApiTypes
begin

text \<open>
  The phone's client of a call: the shape of \<open>packages/shared/src/media/client.ts\<close> and its
  LiveKit adapter, \<open>apps/mobile/src/lib/livekit/LiveKitVoiceClient.ts\<close>. The rooms of
  the package it adapts are records of what the adapter reads off them. A method that awaits
  is one definition per stretch between two awaits: what it does when called, and what it
  does when the answer is in.
\<close>

section \<open>The shape of a client\<close>

datatype call_status = Call_idle | Call_connecting | Call_connected | Call_reconnecting | Call_failed
datatype camera_facing = Facing_user | Facing_environment

type_synonym stream = nat

text \<open>\<open>null\<close> and \<open>undefined\<close> are both \<open>None\<close>: every reader takes them alike (\<open>??\<close>).\<close>

record call_client_participant =
  cp_id :: string
  cp_userId :: uuid
  cp_displayName :: string
  cp_muted :: bool
  cp_speaking :: bool
  cp_cameraOn :: "bool option"
  cp_screenSharing :: "bool option"
  cp_handRaised :: "bool option"
  cp_stream :: "stream option"
  cp_cameraStream :: "stream option"
  cp_screenStream :: "stream option"

record call_client_state =
  cs_status :: call_status
  cs_selfId :: "string option"
  cs_participants :: "call_client_participant list"
  cs_muted :: bool
  cs_speaking :: bool
  cs_isCameraOn :: bool
  cs_cameraStream :: "stream option"
  cs_cameraFacing :: "camera_facing option"
  cs_isScreenSharing :: bool
  cs_screenStream :: "stream option"
  cs_handRaised :: bool
  cs_error :: "string option"

definition INITIAL_STATE :: call_client_state where
  "INITIAL_STATE =
     \<lparr>cs_status = Call_idle, cs_selfId = None, cs_participants = [], cs_muted = True, cs_speaking = False,
      cs_isCameraOn = False, cs_cameraStream = None, cs_cameraFacing = Some Facing_user,
      cs_isScreenSharing = False, cs_screenStream = None, cs_handRaised = False, cs_error = None\<rparr>"

section \<open>Rooms of the package\<close>

text \<open>A publication has a track or not, and a track a media stream or not.\<close>

record publication =
  pub_isMuted :: bool
  pub_track :: "stream option option"

record lk_participant =
  lk_identity :: string
  lk_name :: string
  lk_isSpeaking :: bool
  lk_mic :: "publication option"
  lk_camera :: "publication option"
  lk_screen :: "publication option"

record lk_room =
  lk_self :: string
  lk_remote :: "lk_participant list"
  lk_listening :: bool
  lk_connected :: bool

definition pub_live :: "publication option \<Rightarrow> bool" where
  "pub_live p = (case p of None \<Rightarrow> False | Some p \<Rightarrow> pub_track p \<noteq> None \<and> \<not> pub_isMuted p)"

definition pub_stream :: "publication option \<Rightarrow> stream option" where
  "pub_stream p = (case p of None \<Rightarrow> None | Some p \<Rightarrow> (case pub_track p of None \<Rightarrow> None | Some s \<Rightarrow> s))"

definition toParticipant :: "lk_participant \<Rightarrow> call_client_participant" where
  "toParticipant p =
     \<lparr>cp_id = lk_identity p, cp_userId = lk_identity p, cp_displayName = lk_name p,
      cp_muted = (case lk_mic p of None \<Rightarrow> True | Some mic \<Rightarrow> pub_isMuted mic),
      cp_speaking = lk_isSpeaking p,
      cp_cameraOn = Some (pub_live (lk_camera p)),
      cp_screenSharing = Some (pub_live (lk_screen p)),
      cp_handRaised = Some False,
      cp_stream = pub_stream (lk_mic p),
      cp_cameraStream = pub_stream (lk_camera p),
      cp_screenStream = pub_stream (lk_screen p)\<rparr>"

section \<open>The client\<close>

text \<open>
  The fields of the object, the rooms it has made (by number), whether the phone's audio
  session is open, and what its listeners have been told.
\<close>

record voice_client =
  vc_room :: "nat option"
  vc_state :: call_client_state
  vc_listeners :: "nat list"
  vc_rooms :: "lk_room list"
  vc_audio :: bool
  vc_told :: "(nat \<times> call_client_state) list"

definition new_voice_client :: voice_client where
  "new_voice_client =
     \<lparr>vc_room = None, vc_state = INITIAL_STATE, vc_listeners = [], vc_rooms = [], vc_audio = False, vc_told = []\<rparr>"

definition voice_subscribe :: "nat \<Rightarrow> voice_client \<Rightarrow> voice_client" where
  "voice_subscribe listener c =
     c\<lparr>vc_listeners := jset_add listener (vc_listeners c), vc_told := vc_told c @ [(listener, vc_state c)]\<rparr>"

definition voice_unsubscribe :: "nat \<Rightarrow> voice_client \<Rightarrow> voice_client" where
  "voice_unsubscribe listener c = c\<lparr>vc_listeners := jset_delete listener (vc_listeners c)\<rparr>"

definition voice_patch :: "(call_client_state \<Rightarrow> call_client_state) \<Rightarrow> voice_client \<Rightarrow> voice_client" where
  "voice_patch f c =
     (let s = f (vc_state c)
      in c\<lparr>vc_state := s, vc_told := vc_told c @ map (\<lambda>listener. (listener, s)) (vc_listeners c)\<rparr>)"

definition refreshParticipants :: "voice_client \<Rightarrow> voice_client" where
  "refreshParticipants c =
     (case vc_room c of
        None \<Rightarrow> c
      | Some i \<Rightarrow> voice_patch (\<lambda>s. s\<lparr>cs_participants := map toParticipant (lk_remote (vc_rooms c ! i))\<rparr>) c)"

definition on_room :: "nat \<Rightarrow> (lk_room \<Rightarrow> lk_room) \<Rightarrow> voice_client \<Rightarrow> voice_client" where
  "on_room i f c = c\<lparr>vc_rooms := (vc_rooms c)[i := f (vc_rooms c ! i)]\<rparr>"

subsection \<open>Joining\<close>

text \<open>Whether the call returned at once, or now waits for the session.\<close>

datatype join_begun = Returned_at_once | Awaits_session

definition voice_join :: "bool \<Rightarrow> voice_client \<Rightarrow> join_begun \<times> voice_client" where
  "voice_join isWebRTCAvailable c =
     (if \<not> isWebRTCAvailable
      then (Returned_at_once,
            voice_patch (\<lambda>s. s\<lparr>cs_error := Some ''WebRTC is not supported in this runtime environment.''\<rparr>) c)
      else if cs_status (vc_state c) \<noteq> Call_idle \<and> cs_status (vc_state c) \<noteq> Call_failed then (Returned_at_once, c)
      else (Awaits_session, voice_patch (\<lambda>s. s\<lparr>cs_status := Call_connecting, cs_error := None\<rparr>) c))"

text \<open>The message is \<open>None\<close> where what was thrown is not an \<open>Error\<close>.\<close>

definition session_refused :: "string option \<Rightarrow> voice_client \<Rightarrow> voice_client" where
  "session_refused message c =
     voice_patch (\<lambda>s. s\<lparr>cs_status := Call_failed,
       cs_error := Some (case message of Some m \<Rightarrow> m | None \<Rightarrow> ''Could not join media session'')\<rparr>) c"

text \<open>The session is here: the audio session opens and a room is made and listened to.\<close>

definition session_opened :: "voice_client \<Rightarrow> voice_client" where
  "session_opened c =
     c\<lparr>vc_audio := True,
       vc_rooms := vc_rooms c @ [\<lparr>lk_self = [], lk_remote = [], lk_listening = True, lk_connected = False\<rparr>]\<rparr>"

definition connect_refused :: "nat \<Rightarrow> string option \<Rightarrow> voice_client \<Rightarrow> voice_client" where
  "connect_refused i message c =
     (let c = on_room i (\<lambda>r. r\<lparr>lk_listening := False\<rparr>) (c\<lparr>vc_room := None\<rparr>)
      in voice_patch (\<lambda>s. s\<lparr>cs_status := Call_failed,
           cs_error := Some (case message of Some m \<Rightarrow> m | None \<Rightarrow> ''Could not connect to the call'')\<rparr>)
           (c\<lparr>vc_audio := False\<rparr>))"

definition connect_done :: "nat \<Rightarrow> voice_client \<Rightarrow> voice_client" where
  "connect_done i c =
     refreshParticipants (voice_patch (\<lambda>s. s\<lparr>cs_status := Call_connected,
         cs_selfId := Some (lk_self (vc_rooms c ! i)), cs_muted := True, cs_isCameraOn := False,
         cs_isScreenSharing := False, cs_cameraStream := None, cs_screenStream := None, cs_error := None\<rparr>)
       (c\<lparr>vc_room := Some i\<rparr>))"

subsection \<open>Leaving\<close>

definition voice_leave :: "voice_client \<Rightarrow> voice_client" where
  "voice_leave c =
     (case vc_room c of
        None \<Rightarrow> c
      | Some i \<Rightarrow> on_room i (\<lambda>r. r\<lparr>lk_listening := False\<rparr>) (c\<lparr>vc_room := None\<rparr>))"

definition leave_done :: "voice_client \<Rightarrow> voice_client" where
  "leave_done c = voice_patch (\<lambda>_. INITIAL_STATE) (c\<lparr>vc_audio := False\<rparr>)"

subsection \<open>Microphone, camera, screen\<close>

text \<open>What asks the room first patches nothing until the room has answered.\<close>

definition voice_setMuted :: "bool \<Rightarrow> voice_client \<Rightarrow> voice_client" where
  "voice_setMuted m c = (if vc_room c = None then voice_patch (\<lambda>s. s\<lparr>cs_muted := m\<rparr>) c else c)"

definition microphone_set :: "bool \<Rightarrow> voice_client \<Rightarrow> voice_client" where
  "microphone_set m c =
     voice_patch (\<lambda>s. s\<lparr>cs_muted := m, cs_speaking := (if m then False else cs_speaking s), cs_error := None\<rparr>) c"

definition microphone_refused :: "voice_client \<Rightarrow> voice_client" where
  "microphone_refused c = voice_patch (\<lambda>s. s\<lparr>cs_error := Some ''Could not open the microphone''\<rparr>) c"

definition camera_default :: "voice_client \<Rightarrow> camera_facing" where
  "camera_default c = (case cs_cameraFacing (vc_state c) of Some f \<Rightarrow> f | None \<Rightarrow> Facing_user)"

definition camera_started :: "camera_facing \<Rightarrow> publication option \<Rightarrow> voice_client \<Rightarrow> voice_client" where
  "camera_started facing p c =
     voice_patch (\<lambda>s. s\<lparr>cs_isCameraOn := True, cs_cameraStream := pub_stream p,
       cs_cameraFacing := Some facing, cs_error := None\<rparr>) c"

definition camera_refused :: "voice_client \<Rightarrow> voice_client" where
  "camera_refused c = voice_patch (\<lambda>s. s\<lparr>cs_error := Some ''Could not access device camera''\<rparr>) c"

definition camera_stopped :: "voice_client \<Rightarrow> voice_client" where
  "camera_stopped c = voice_patch (\<lambda>s. s\<lparr>cs_isCameraOn := False, cs_cameraStream := None\<rparr>) c"

definition next_camera :: "voice_client \<Rightarrow> camera_facing" where
  "next_camera c = (if cs_cameraFacing (vc_state c) = Some Facing_user then Facing_environment else Facing_user)"

definition camera_switched :: "camera_facing \<Rightarrow> stream option \<Rightarrow> voice_client \<Rightarrow> voice_client" where
  "camera_switched next_facing s c =
     voice_patch (\<lambda>st. st\<lparr>cs_cameraFacing := Some next_facing, cs_cameraStream := s\<rparr>) c"

definition switch_refused :: "voice_client \<Rightarrow> voice_client" where
  "switch_refused c = voice_patch (\<lambda>s. s\<lparr>cs_error := Some ''Could not switch camera''\<rparr>) c"

definition screen_started :: "publication option \<Rightarrow> voice_client \<Rightarrow> voice_client" where
  "screen_started p c =
     voice_patch (\<lambda>s. s\<lparr>cs_isScreenSharing := True, cs_screenStream := pub_stream p, cs_error := None\<rparr>) c"

definition screen_refused :: "voice_client \<Rightarrow> voice_client" where
  "screen_refused c = voice_patch (\<lambda>s. s\<lparr>cs_error := Some ''Could not start screen sharing''\<rparr>) c"

definition screen_stopped :: "voice_client \<Rightarrow> voice_client" where
  "screen_stopped c = voice_patch (\<lambda>s. s\<lparr>cs_isScreenSharing := False, cs_screenStream := None\<rparr>) c"

definition voice_toggleHandRaise :: "voice_client \<Rightarrow> voice_client" where
  "voice_toggleHandRaise c = voice_patch (\<lambda>s. s\<lparr>cs_handRaised := \<not> cs_handRaised s\<rparr>) c"

subsection \<open>What a room reports\<close>

datatype track_source = Microphone_source | Camera_source | Screen_source

datatype room_event =
    Participants_changed "lk_participant list"
  | Speakers_changed bool "lk_participant list"
  | Reconnecting
  | Reconnected
  | Unpublished track_source
  | Disconnected
  | State_connected

text \<open>The handlers \<open>attach\<close> sets on room \<open>i\<close>. An event finds the room's own list of people current.\<close>

fun room_handler :: "nat \<Rightarrow> room_event \<Rightarrow> voice_client \<Rightarrow> voice_client" where
  "room_handler i (Participants_changed people) c = refreshParticipants c"
| "room_handler i (Speakers_changed self_speaks people) c =
     refreshParticipants (voice_patch (\<lambda>s. s\<lparr>cs_speaking := self_speaks\<rparr>) c)"
| "room_handler i Reconnecting c = voice_patch (\<lambda>s. s\<lparr>cs_status := Call_reconnecting\<rparr>) c"
| "room_handler i Reconnected c =
     refreshParticipants (voice_patch (\<lambda>s. s\<lparr>cs_status := Call_connected, cs_error := None\<rparr>) c)"
| "room_handler i (Unpublished src) c =
     (if src = Screen_source then voice_patch (\<lambda>s. s\<lparr>cs_isScreenSharing := False, cs_screenStream := None\<rparr>) c
      else if src = Camera_source then voice_patch (\<lambda>s. s\<lparr>cs_isCameraOn := False, cs_cameraStream := None\<rparr>) c
      else c)"
| "room_handler i Disconnected c =
     (if vc_room c \<noteq> Some i then c
      else voice_patch (\<lambda>s. s\<lparr>cs_status := Call_idle, cs_participants := [], cs_selfId := None\<rparr>)
             (c\<lparr>vc_room := None, vc_audio := False\<rparr>))"
| "room_handler i State_connected c = voice_patch (\<lambda>s. s\<lparr>cs_status := Call_connected\<rparr>) c"

text \<open>What the event itself says of the room.\<close>

fun room_after :: "room_event \<Rightarrow> lk_room \<Rightarrow> lk_room" where
  "room_after (Participants_changed people) r = r\<lparr>lk_remote := people\<rparr>"
| "room_after (Speakers_changed _ people) r = r\<lparr>lk_remote := people\<rparr>"
| "room_after Disconnected r = r\<lparr>lk_connected := False\<rparr>"
| "room_after _ r = r"

definition room_reports :: "nat \<Rightarrow> room_event \<Rightarrow> voice_client \<Rightarrow> voice_client" where
  "room_reports i ev c =
     (let c = on_room i (room_after ev) c
      in if lk_listening (vc_rooms c ! i) then room_handler i ev c else c)"

end
