(* ===== verification/CallMembers.thy ===== *)
theory CallMembers
  imports CallMedia
begin

text \<open>
  Who is in a call: the merge of the media room with the room's roster in
  \<open>packages/shared/src/viewmodels/useCallVM.ts\<close>, and the tiles the phone lays out from it in
  \<open>apps/mobile/src/screens/call/useCallRoster.ts\<close>.
\<close>

section \<open>The merge\<close>

record call_member =
  cm_id :: uuid
  cm_displayName :: "string option"
  cm_role :: room_participant_role
  cm_anonymous :: bool
  cm_muted :: bool
  cm_speaking :: bool
  cm_cameraOn :: bool
  cm_screenSharing :: bool
  cm_handRaised :: bool
  cm_stream :: "stream option"
  cm_cameraStream :: "stream option"
  cm_screenStream :: "stream option"

definition or_else :: "'a option \<Rightarrow> 'a option \<Rightarrow> 'a option" where
  "or_else x y = (case x of Some v \<Rightarrow> Some v | None \<Rightarrow> y)"

definition given :: "bool option \<Rightarrow> bool" where
  "given x = (case x of Some b \<Rightarrow> b | None \<Rightarrow> False)"

definition nonempty :: "string \<Rightarrow> string option" where
  "nonempty s = (if s = [] then None else Some s)"

text \<open>One of the media room's people, with the roster's row for them if it has one.\<close>

definition live_member :: "call_client_participant \<Rightarrow> room_participant option \<Rightarrow> call_member" where
  "live_member p row =
     \<lparr>cm_id = cp_userId p, cm_displayName = nonempty (cp_displayName p),
      cm_role = (case row of Some r \<Rightarrow> pt_role r | None \<Rightarrow> Participant),
      cm_anonymous = (case row of Some r \<Rightarrow> pt_is_anonymous r | None \<Rightarrow> False),
      cm_muted = cp_muted p, cm_speaking = cp_speaking p,
      cm_cameraOn = given (cp_cameraOn p), cm_screenSharing = given (cp_screenSharing p),
      cm_handRaised = given (cp_handRaised p),
      cm_stream = cp_stream p, cm_cameraStream = or_else (cp_cameraStream p) (cp_stream p),
      cm_screenStream = cp_screenStream p\<rparr>"

definition listed_member :: "room_participant \<Rightarrow> call_member" where
  "listed_member row =
     \<lparr>cm_id = pt_user_id row, cm_displayName = None, cm_role = pt_role row, cm_anonymous = pt_is_anonymous row,
      cm_muted = pt_is_muted row, cm_speaking = False, cm_cameraOn = False, cm_screenSharing = False,
      cm_handRaised = False, cm_stream = None, cm_cameraStream = None, cm_screenStream = None\<rparr>"

definition byUser :: "room_participant list \<Rightarrow> (uuid \<times> room_participant) list" where
  "byUser roster = fold (\<lambda>row. AList.update (pt_user_id row) row) roster []"

fun merge_live ::
  "call_client_participant list \<Rightarrow> (uuid \<times> room_participant) list \<Rightarrow>
     call_member list \<times> (uuid \<times> room_participant) list" where
  "merge_live [] rows = ([], rows)"
| "merge_live (p # ps) rows =
     (let row = map_of rows (cp_userId p); (ms, rest) = merge_live ps (AList.delete (cp_userId p) rows)
      in (live_member p row # ms, rest))"

definition call_members ::
  "uuid option \<Rightarrow> call_client_participant list \<Rightarrow> room_participant list \<Rightarrow> call_member list" where
  "call_members selfUserId participants roster =
     (let (live, rest) = merge_live participants (byUser roster);
          listed = map listed_member (filter (\<lambda>row. Some (pt_user_id row) \<noteq> selfUserId) (map snd rest))
      in filter (\<lambda>member. Some (cm_id member) \<noteq> selfUserId) (live @ listed))"

definition screenSharer :: "uuid option \<Rightarrow> call_client_state \<Rightarrow> call_member list \<Rightarrow> call_member option" where
  "screenSharer selfUserId media members =
     (if cs_isScreenSharing media
      then Some \<lparr>cm_id = (case selfUserId of Some u \<Rightarrow> u | None \<Rightarrow> ''self''), cm_displayName = None,
                 cm_role = Participant, cm_anonymous = False, cm_muted = cs_muted media, cm_speaking = False,
                 cm_cameraOn = cs_isCameraOn media, cm_screenSharing = True, cm_handRaised = cs_handRaised media,
                 cm_stream = cs_screenStream media, cm_cameraStream = cs_cameraStream media,
                 cm_screenStream = cs_screenStream media\<rparr>
      else find cm_screenSharing members)"

section \<open>Tiles\<close>

record call_tile = call_member +
  tl_isSelf :: bool
  tl_name :: string
  tl_avatarUrl :: "string option"

definition tile_of :: "bool \<Rightarrow> string \<Rightarrow> string option \<Rightarrow> call_member \<Rightarrow> call_tile" where
  "tile_of isSelf name avatarUrl m =
     call_member.extend m \<lparr>tl_isSelf = isSelf, tl_name = name, tl_avatarUrl = avatarUrl\<rparr>"

text \<open>
  The signed-in person as the screen sees them: id, display name and picture of the profile,
  handle. \<open>lookup\<close> is the cache of profiles.
\<close>

record call_viewer =
  vw_id :: uuid
  vw_display_name :: "string option"
  vw_avatar_url :: "string option"
  vw_handle :: string

definition self_name :: "call_viewer option \<Rightarrow> string" where
  "self_name user =
     (case user of
        None \<Rightarrow> ''You''
      | Some u \<Rightarrow>
          (case vw_display_name u of
             Some n \<Rightarrow> if n \<noteq> [] then n else if vw_handle u \<noteq> [] then vw_handle u else ''You''
           | None \<Rightarrow> if vw_handle u \<noteq> [] then vw_handle u else ''You''))"

definition self_tile :: "call_viewer option \<Rightarrow> call_client_state \<Rightarrow> call_tile" where
  "self_tile user media =
     tile_of True (self_name user) (case user of Some u \<Rightarrow> vw_avatar_url u | None \<Rightarrow> None)
       \<lparr>cm_id = (case user of Some u \<Rightarrow> vw_id u | None \<Rightarrow> ''self''),
        cm_displayName = (case user of Some u \<Rightarrow> vw_display_name u | None \<Rightarrow> None),
        cm_role = Owner, cm_anonymous = False, cm_muted = cs_muted media,
        cm_speaking = (\<not> cs_muted media \<and> cs_status media = Call_connected),
        cm_cameraOn = cs_isCameraOn media, cm_screenSharing = cs_isScreenSharing media,
        cm_handRaised = cs_handRaised media, cm_stream = cs_cameraStream media,
        cm_cameraStream = cs_cameraStream media, cm_screenStream = cs_screenStream media\<rparr>"

definition other_tile :: "(uuid \<Rightarrow> (string option \<times> string option) option) \<Rightarrow> call_member \<Rightarrow> call_tile" where
  "other_tile lookup m =
     (let profile = lookup (cm_id m);
          display = (case profile of Some (n, _) \<Rightarrow> n | None \<Rightarrow> None)
      in tile_of False
           (case cm_displayName m of
              Some n \<Rightarrow> if n \<noteq> [] then n else (case display of Some d \<Rightarrow> if d \<noteq> [] then d else ''Member'' | None \<Rightarrow> ''Member'')
            | None \<Rightarrow> (case display of Some d \<Rightarrow> if d \<noteq> [] then d else ''Member'' | None \<Rightarrow> ''Member''))
           (case profile of Some (_, a) \<Rightarrow> a | None \<Rightarrow> None) m)"

definition call_tiles ::
  "call_viewer option \<Rightarrow> (uuid \<Rightarrow> (string option \<times> string option) option) \<Rightarrow>
     call_client_state \<Rightarrow> call_member list \<Rightarrow> call_tile list" where
  "call_tiles user lookup media members = self_tile user media # map (other_tile lookup) members"

definition screenShare :: "call_member option \<Rightarrow> call_tile list \<Rightarrow> call_tile option" where
  "screenShare sharer tiles =
     (case sharer of None \<Rightarrow> None | Some s \<Rightarrow> find (\<lambda>tile. cm_id tile = cm_id s) tiles)"

definition spotlight :: "string option \<Rightarrow> call_tile option \<Rightarrow> call_tile list \<Rightarrow> call_tile option" where
  "spotlight pinnedId share tiles =
     (case (case pinnedId of
              Some p \<Rightarrow> if p \<noteq> [] then find (\<lambda>tile. cm_id tile = p) tiles else None
            | None \<Rightarrow> None) of
        Some pinned \<Rightarrow> Some pinned
      | None \<Rightarrow>
          (case share of
             Some s \<Rightarrow> Some s
           | None \<Rightarrow>
               (case find (\<lambda>tile. \<not> tl_isSelf tile \<and> cm_speaking tile) tiles of
                  Some speaking \<Rightarrow> Some speaking
                | None \<Rightarrow> (case tiles of tile # _ \<Rightarrow> Some tile | [] \<Rightarrow> None))))"

section \<open>Who the members are\<close>

lemma member_ids [simp]: "cm_id (live_member p row) = cp_userId p" "cm_id (listed_member r) = pt_user_id r"
  by (simp_all add: live_member_def listed_member_def)

text \<open>The roster's word on somebody is its last row for them.\<close>

definition row_of :: "room_participant list \<Rightarrow> uuid \<Rightarrow> room_participant option" where
  "row_of roster u = find (\<lambda>row. pt_user_id row = u) (rev roster)"

lemma byUser_fold:
  "map_of (fold (\<lambda>row. AList.update (pt_user_id row) row) roster rows) u =
     (case row_of roster u of Some r \<Rightarrow> Some r | None \<Rightarrow> map_of rows u)"
proof (induction roster rule: rev_induct)
  case (snoc r rs)
  then show ?case by (simp add: row_of_def update_conv')
qed (simp add: row_of_def)

lemma set_update: "set (AList.update k v rows) \<subseteq> insert (k, v) (set rows)"
  by (induction rows) auto

lemma byUser_keyed: "(u, r) \<in> set (byUser roster) \<Longrightarrow> pt_user_id r = u"
proof -
  have "(\<forall>(u, r) \<in> set rows. pt_user_id r = u) \<Longrightarrow>
      \<forall>(u, r) \<in> set (fold (\<lambda>row. AList.update (pt_user_id row) row) roster rows). pt_user_id r = u" for rows
  proof (induction roster arbitrary: rows)
    case (Cons row roster)
    have "\<forall>(u, r) \<in> set (AList.update (pt_user_id row) row rows). pt_user_id r = u"
      using Cons.prems set_update [of "pt_user_id row" row rows] by auto
    then show ?case using Cons.IH by simp
  qed simp
  from this [of "[]"] show "(u, r) \<in> set (byUser roster) \<Longrightarrow> pt_user_id r = u"
    by (auto simp: byUser_def)
qed

lemma byUser_distinct: "distinct (map fst (byUser roster))"
proof -
  have "distinct (map fst rows) \<Longrightarrow>
      distinct (map fst (fold (\<lambda>row. AList.update (pt_user_id row) row) roster rows))" for rows
    by (induction roster arbitrary: rows) (auto simp: distinct_update)
  then show ?thesis by (simp add: byUser_def)
qed

text \<open>The two halves of the merge: the media's people in order, and the rows nobody took.\<close>

lemma merge_live_rest: "snd (merge_live ps rows) = filter (\<lambda>(u, _). u \<notin> cp_userId ` set ps) rows"
proof (induction ps arbitrary: rows)
  case (Cons p ps)
  have "filter (\<lambda>(u, _). u \<notin> cp_userId ` set ps) (AList.delete (cp_userId p) rows)
      = filter (\<lambda>(u, _). u \<notin> cp_userId ` set (p # ps)) rows"
    by (auto simp: AList.delete_eq split_def intro!: filter_cong)
  then show ?case using Cons.IH by (simp add: Let_def split_def)
qed simp

lemma merge_live_members:
  "distinct (map cp_userId ps) \<Longrightarrow>
     fst (merge_live ps rows) = map (\<lambda>p. live_member p (map_of rows (cp_userId p))) ps"
proof (induction ps arbitrary: rows)
  case (Cons p ps)
  have "map_of (AList.delete (cp_userId p) rows) (cp_userId q) = map_of rows (cp_userId q)" if "q \<in> set ps" for q
  proof -
    have "cp_userId q \<noteq> cp_userId p" using that Cons.prems by (auto simp: image_iff)
    then show ?thesis by (simp add: delete_conv')
  qed
  then show ?case using Cons by (simp add: Let_def split_def)
qed simp

definition keyed_members :: "call_member list \<Rightarrow> (uuid \<times> call_member) list" where
  "keyed_members ms = map (\<lambda>m. (cm_id m, m)) ms"

lemma find_keyed: "find (\<lambda>m. cm_id m = u) ms = map_of (keyed_members ms) u"
  by (induction ms) (auto simp: keyed_members_def)

lemma find_live:
  "find (\<lambda>m. cm_id m = u) (map (\<lambda>p. live_member p (f p)) ps) =
     map_option (\<lambda>p. live_member p (f p)) (find (\<lambda>p. cp_userId p = u) ps)"
  by (induction ps) auto

lemma find_listed:
  "(\<forall>(v, r) \<in> set rows. pt_user_id r = v) \<Longrightarrow>
     find (\<lambda>m. cm_id m = u) (map listed_member (map snd rows)) = map_option listed_member (map_of rows u)"
  by (induction rows) auto

lemma find_filter_id:
  "P u \<Longrightarrow> find (\<lambda>m. cm_id m = u) (filter (\<lambda>m. P (cm_id m)) ms) = find (\<lambda>m. cm_id m = u) ms"
  by (induction ms) auto

lemma find_append: "find P (xs @ ys) = (case find P xs of Some x \<Rightarrow> Some x | None \<Rightarrow> find P ys)"
  by (induction xs) auto

lemma find_id: "find (\<lambda>p. cp_userId p = u) ps = Some p \<Longrightarrow> cp_userId p = u \<and> p \<in> set ps"
  by (auto simp: find_Some_iff)

lemma map_of_filter_key:
  "map_of (filter (\<lambda>(u, _). P u) rows) u = (if P u then map_of rows u else None)"
  by (induction rows) auto

lemma filter_listed:
  "filter (\<lambda>m. P (cm_id m)) (map listed_member (filter (\<lambda>row. P (pt_user_id row)) rows))
     = filter (\<lambda>m. P (cm_id m)) (map listed_member rows)"
  by (induction rows) auto

text \<open>The members, without the double exclusion of oneself.\<close>

lemma call_members_eq:
  assumes "distinct (map cp_userId participants)"
  shows "call_members selfUserId participants roster =
    filter (\<lambda>m. Some (cm_id m) \<noteq> selfUserId)
      (map (\<lambda>p. live_member p (row_of roster (cp_userId p))) participants
       @ map listed_member (map snd (filter (\<lambda>(u, _). u \<notin> cp_userId ` set participants) (byUser roster))))"
proof -
  have rows: "map_of (byUser roster) = row_of roster"
    unfolding byUser_def by (rule ext) (simp add: byUser_fold split: option.split)
  show ?thesis
    using merge_live_members [OF assms, of "byUser roster"] merge_live_rest [of participants "byUser roster"]
      filter_listed [of "\<lambda>u. Some u \<noteq> selfUserId"]
    by (simp add: call_members_def split_def Let_def rows)
qed


definition demo_roster :: "room_participant list" where
  "demo_roster =
     [\<lparr>pt_room_id = ''r'', pt_user_id = ''a'', pt_role = Owner, pt_is_muted = True, pt_is_anonymous = False,
       pt_joined_at = [], pt_last_seen_at = []\<rparr>,
      \<lparr>pt_room_id = ''r'', pt_user_id = ''b'', pt_role = Moderator, pt_is_muted = True, pt_is_anonymous = True,
       pt_joined_at = [], pt_last_seen_at = []\<rparr>]"

definition demo_participant :: "string \<Rightarrow> call_client_participant" where
  "demo_participant u =
     toParticipant \<lparr>lk_identity = u, lk_name = [], lk_isSpeaking = True,
       lk_mic = Some \<lparr>pub_isMuted = False, pub_track = Some (Some 7)\<rparr>, lk_camera = None, lk_screen = None\<rparr>"


text \<open>A spotlight is one of the tiles, there is always one, and a pin outranks everything.\<close>

lemma find_mem: "find P xs = Some x \<Longrightarrow> x \<in> set xs"
  by (auto simp: find_Some_iff)

lemma spotlight_is_tile:
  assumes "tiles = call_tiles user lookup media members"
  shows "\<exists>tile \<in> set tiles. spotlight pinnedId (screenShare sharer tiles) tiles = Some tile"
  by (auto simp: spotlight_def screenShare_def assms call_tiles_def split: option.splits dest!: find_mem)

end
