(* ===== verification/CallVM.thy ===== *)
theory CallVM
  imports CallMembers Queries
begin

text \<open>
  The call as a view model, \<open>packages/shared/src/viewmodels/useCallVM.ts\<close>, over the client of
  \<open>CallMedia\<close>: which room the person is in a call in, and which room the media are in. Both
  keep their own account, joining and leaving take several answers, and the two accounts are
  brought together step by step here.
\<close>

section \<open>State\<close>

datatype join_state = Join_idle | Join_joining | Join_joined

text \<open>Where a call of \<open>join\<close> and a call of \<open>leave\<close> that have not returned are waiting.\<close>

datatype join_phase = Asking_microphone | Asking_session | Connecting_room nat
datatype leave_phase = Closing_media "nat option" "uuid option" | Telling_server uuid

record call_env =
  ce_token :: "string option"
  ce_asks_microphone :: bool
  ce_webrtc :: bool
  ce_camera :: bool
  ce_screen :: bool

record call_vm =
  vm_activeRoomId :: "uuid option"
  vm_activeRoomName :: "string option"
  vm_joinState :: join_state
  vm_joinError :: "string option"
  vm_duration :: nat
  vm_client :: voice_client
  vm_joins :: "join_phase list"
  vm_leaves :: "leave_phase list"
  vm_effects :: "effect list"

definition new_call_vm :: call_vm where
  "new_call_vm =
     \<lparr>vm_activeRoomId = None, vm_activeRoomName = None, vm_joinState = Join_idle, vm_joinError = None,
      vm_duration = 0, vm_client = new_voice_client, vm_joins = [], vm_leaves = [], vm_effects = []\<rparr>"

definition signed_in :: "call_env \<Rightarrow> bool" where
  "signed_in e = (case ce_token e of Some t \<Rightarrow> t \<noteq> [] | None \<Rightarrow> False)"

section \<open>Joining\<close>

text \<open>The message of an \<open>ApiError\<close> is shown, of anything else not.\<close>

definition vm_join_failed :: "string option \<Rightarrow> call_vm \<Rightarrow> call_vm" where
  "vm_join_failed api_message vm =
     vm\<lparr>vm_joinState := Join_idle,
        vm_joinError := Some (case api_message of Some m \<Rightarrow> m | None \<Rightarrow> ''Could not join the call'')\<rparr>"

definition vm_join_client :: "call_env \<Rightarrow> call_vm \<Rightarrow> call_vm" where
  "vm_join_client e vm =
     (case voice_join (ce_webrtc e) (vm_client vm) of
        (Returned_at_once, c) \<Rightarrow> vm\<lparr>vm_client := c, vm_joinState := Join_joined\<rparr>
      | (Awaits_session, c) \<Rightarrow> vm\<lparr>vm_client := c, vm_joins := vm_joins vm @ [Asking_session]\<rparr>)"

definition vm_join :: "call_env \<Rightarrow> uuid \<Rightarrow> string \<Rightarrow> call_vm \<Rightarrow> call_vm" where
  "vm_join e roomId name vm =
     (let vm = vm\<lparr>vm_activeRoomId := Some roomId, vm_activeRoomName := Some name,
                  vm_joinState := Join_joining, vm_joinError := None\<rparr>
      in if \<not> signed_in e then vm_join_failed None vm
         else if ce_asks_microphone e then vm\<lparr>vm_joins := vm_joins vm @ [Asking_microphone]\<rparr>
         else vm_join_client e vm)"

text \<open>Whether the microphone was granted is not looked at; the question can still throw.\<close>

definition microphone_answered :: "call_env \<Rightarrow> bool \<Rightarrow> call_vm \<Rightarrow> call_vm" where
  "microphone_answered e threw vm =
     (let vm = vm\<lparr>vm_joins := remove1 Asking_microphone (vm_joins vm)\<rparr>
      in if threw then vm_join_failed None vm else vm_join_client e vm)"

text \<open>
  The session refuses with an error whose message both show, or with one only the client
  shows (the view model shows those of the API).
\<close>

definition session_answered :: "(string option \<times> string option) option \<Rightarrow> call_vm \<Rightarrow> call_vm" where
  "session_answered refusal vm =
     (let vm = vm\<lparr>vm_joins := remove1 Asking_session (vm_joins vm)\<rparr>
      in case refusal of
           Some (message, api_message) \<Rightarrow>
             vm_join_failed api_message (vm\<lparr>vm_client := session_refused message (vm_client vm)\<rparr>)
         | None \<Rightarrow>
             vm\<lparr>vm_client := session_opened (vm_client vm),
                vm_joins := vm_joins vm @ [Connecting_room (length (vc_rooms (vm_client vm)))]\<rparr>)"

text \<open>The room is connected with this identity and these people, or refused.\<close>

definition room_answered ::
  "nat \<Rightarrow> string option + string \<times> lk_participant list \<Rightarrow> call_vm \<Rightarrow> call_vm" where
  "room_answered i result vm =
     (let vm = vm\<lparr>vm_joins := remove1 (Connecting_room i) (vm_joins vm)\<rparr>; c = vm_client vm
      in case result of
           Inl message \<Rightarrow> vm_join_failed None (vm\<lparr>vm_client := connect_refused i message c\<rparr>)
         | Inr (identity, people) \<Rightarrow>
             vm\<lparr>vm_client := connect_done i
                  (on_room i (\<lambda>r. r\<lparr>lk_self := identity, lk_remote := people, lk_connected := True\<rparr>) c),
                vm_joinState := Join_joined\<rparr>)"

section \<open>Leaving\<close>

definition vm_leave :: "call_vm \<Rightarrow> call_vm" where
  "vm_leave vm =
     vm\<lparr>vm_activeRoomId := None, vm_activeRoomName := None, vm_joinState := Join_idle, vm_joinError := None,
        vm_client := voice_leave (vm_client vm),
        vm_leaves := vm_leaves vm @ [Closing_media (vc_room (vm_client vm)) (vm_activeRoomId vm)]\<rparr>"

text \<open>The room is closed; \<open>client.leave()\<close> ends, and the server is told if there is a room to name.\<close>

definition media_closed :: "call_env \<Rightarrow> nat option \<Rightarrow> uuid option \<Rightarrow> call_vm \<Rightarrow> call_vm" where
  "media_closed e lk roomId vm =
     (let c = (case lk of None \<Rightarrow> vm_client vm
                        | Some i \<Rightarrow> on_room i (\<lambda>r. r\<lparr>lk_connected := False\<rparr>) (vm_client vm));
          vm = vm\<lparr>vm_leaves := remove1 (Closing_media lk roomId) (vm_leaves vm), vm_client := leave_done c\<rparr>
      in case roomId of
           None \<Rightarrow> vm
         | Some r \<Rightarrow> if r = [] \<or> \<not> signed_in e then vm else vm\<lparr>vm_leaves := vm_leaves vm @ [Telling_server r]\<rparr>)"

text \<open>Whether or not the server listened, the cache forgets the session.\<close>

definition server_told :: "uuid \<Rightarrow> call_vm \<Rightarrow> call_vm" where
  "server_told r vm =
     vm\<lparr>vm_leaves := remove1 (Telling_server r) (vm_leaves vm),
        vm_effects := vm_effects vm @
          [Remove (queryKeys_bff_roomSession r),
           Invalidate (queryKeys_rooms_participants r),
           Invalidate (queryKeys_rooms_mine)]\<rparr>"

section \<open>Controls\<close>

definition vm_toggleMute :: "call_vm \<Rightarrow> call_vm" where
  "vm_toggleMute vm =
     vm\<lparr>vm_client := voice_setMuted (\<not> cs_muted (vc_state (vm_client vm))) (vm_client vm)\<rparr>"

text \<open>What a press of the camera button asks of the client, the permission answered.\<close>

datatype camera_request = Camera_nothing | Camera_stop | Camera_start

definition vm_toggleCamera :: "call_env \<Rightarrow> bool option \<Rightarrow> call_vm \<Rightarrow> camera_request" where
  "vm_toggleCamera e granted vm =
     (if \<not> ce_camera e then Camera_nothing
      else if cs_isCameraOn (vc_state (vm_client vm)) then Camera_stop
      else if (case granted of Some g \<Rightarrow> g | None \<Rightarrow> True) then Camera_start else Camera_nothing)"

definition vm_switchCamera :: "call_vm \<Rightarrow> bool" where
  "vm_switchCamera vm = cs_isCameraOn (vc_state (vm_client vm))"

definition vm_toggleScreenShare :: "call_env \<Rightarrow> call_vm \<Rightarrow> camera_request" where
  "vm_toggleScreenShare e vm =
     (if \<not> ce_screen e then Camera_nothing
      else if cs_isScreenSharing (vc_state (vm_client vm)) then Camera_stop else Camera_start)"

definition vm_toggleHandRaise :: "call_vm \<Rightarrow> call_vm" where
  "vm_toggleHandRaise vm = vm\<lparr>vm_client := voice_toggleHandRaise (vm_client vm)\<rparr>"

definition vm_status :: "call_vm \<Rightarrow> call_status" where
  "vm_status vm = (if vm_joinState vm = Join_joining then Call_connecting else cs_status (vc_state (vm_client vm)))"

definition vm_inCall :: "call_vm \<Rightarrow> bool" where
  "vm_inCall vm \<longleftrightarrow> vm_activeRoomId vm \<noteq> None"

definition vm_error :: "call_vm \<Rightarrow> string option" where
  "vm_error vm = or_else (vm_joinError vm) (cs_error (vc_state (vm_client vm)))"

text \<open>The clock: it ticks while the media are connected and starts again when they are not.\<close>

definition vm_clock :: "bool \<Rightarrow> call_vm \<Rightarrow> call_vm" where
  "vm_clock ticked vm =
     (if cs_status (vc_state (vm_client vm)) \<noteq> Call_connected then vm\<lparr>vm_duration := 0\<rparr>
      else if ticked then vm\<lparr>vm_duration := vm_duration vm + 1\<rparr> else vm)"

section \<open>Steps\<close>

datatype media_answer =
    Microphone_set bool | Microphone_refused
  | Camera_started camera_facing "publication option" | Camera_refused | Camera_stopped
  | Camera_switched camera_facing "stream option" | Switch_refused
  | Screen_started "publication option" | Screen_refused | Screen_stopped

text \<open>The answers to the requests of the controls.\<close>

fun media_answered :: "media_answer \<Rightarrow> voice_client \<Rightarrow> voice_client" where
  "media_answered (Microphone_set m) c = microphone_set m c"
| "media_answered Microphone_refused c = microphone_refused c"
| "media_answered (Camera_started f p) c = camera_started f p c"
| "media_answered Camera_refused c = camera_refused c"
| "media_answered Camera_stopped c = camera_stopped c"
| "media_answered (Camera_switched f s) c = camera_switched f s c"
| "media_answered Switch_refused c = switch_refused c"
| "media_answered (Screen_started p) c = screen_started p c"
| "media_answered Screen_refused c = screen_refused c"
| "media_answered Screen_stopped c = screen_stopped c"

datatype call_label =
    Do_join uuid string | Microphone_answered bool
  | Session_answered "(string option \<times> string option) option"
  | Room_answered nat "string option + string \<times> lk_participant list"
  | Do_leave | Media_closed "nat option" "uuid option" | Server_told uuid
  | Room_event nat room_event
  | Do_mute | Do_raise_hand | Media_answer media_answer | Clock bool

text \<open>A room reports only while it is connected or being connected.\<close>

inductive call_step :: "call_env \<Rightarrow> call_vm \<Rightarrow> call_label \<Rightarrow> call_vm \<Rightarrow> bool" for e where
  step_join: "call_step e vm (Do_join r n) (vm_join e r n vm)"
| step_microphone: "Asking_microphone \<in> set (vm_joins vm) \<Longrightarrow>
     call_step e vm (Microphone_answered threw) (microphone_answered e threw vm)"
| step_session: "Asking_session \<in> set (vm_joins vm) \<Longrightarrow>
     call_step e vm (Session_answered refusal) (session_answered refusal vm)"
| step_room: "Connecting_room i \<in> set (vm_joins vm) \<Longrightarrow>
     call_step e vm (Room_answered i result) (room_answered i result vm)"
| step_leave: "call_step e vm Do_leave (vm_leave vm)"
| step_closed: "Closing_media lk r \<in> set (vm_leaves vm) \<Longrightarrow>
     call_step e vm (Media_closed lk r) (media_closed e lk r vm)"
| step_told: "Telling_server r \<in> set (vm_leaves vm) \<Longrightarrow> call_step e vm (Server_told r) (server_told r vm)"
| step_event: "i < length (vc_rooms (vm_client vm)) \<Longrightarrow>
     lk_connected (vc_rooms (vm_client vm) ! i) \<or> Connecting_room i \<in> set (vm_joins vm) \<Longrightarrow>
     call_step e vm (Room_event i ev) (vm\<lparr>vm_client := room_reports i ev (vm_client vm)\<rparr>)"
| step_mute: "call_step e vm Do_mute (vm_toggleMute vm)"
| step_answer: "call_step e vm (Media_answer a) (vm\<lparr>vm_client := media_answered a (vm_client vm)\<rparr>)"
| step_hand: "call_step e vm Do_raise_hand (vm_toggleHandRaise vm)"
| step_clock: "call_step e vm (Clock ticked) (vm_clock ticked vm)"

inductive_cases call_stepE: "call_step e vm l vm'"

inductive call_reachable :: "call_env \<Rightarrow> call_vm \<Rightarrow> bool" for e where
  call_init: "call_reachable e new_call_vm"
| call_next: "call_reachable e vm \<Longrightarrow> call_step e vm l vm' \<Longrightarrow> call_reachable e vm'"

section \<open>One thing at a time\<close>

text \<open>
  The person joins when no call is going on or ending, and leaves when none is being joined.
\<close>

fun unhurried :: "call_vm \<Rightarrow> call_label \<Rightarrow> bool" where
  "unhurried vm (Do_join r n) = (vm_joins vm = [] \<and> vm_leaves vm = [] \<and> vc_room (vm_client vm) = None)"
| "unhurried vm Do_leave = (vm_joins vm = [])"
| "unhurried vm _ = True"

inductive calm_call :: "call_env \<Rightarrow> call_vm \<Rightarrow> bool" for e where
  calm_init: "calm_call e new_call_vm"
| calm_next: "calm_call e vm \<Longrightarrow> call_step e vm l vm' \<Longrightarrow> unhurried vm l \<Longrightarrow> calm_call e vm'"

definition being_left :: "call_vm \<Rightarrow> nat \<Rightarrow> bool" where
  "being_left vm j \<longleftrightarrow> (\<exists>r. Closing_media (Some j) r \<in> set (vm_leaves vm))"

definition live_status :: "call_status \<Rightarrow> bool" where
  "live_status s \<longleftrightarrow> s = Call_connected \<or> s = Call_reconnecting"

definition joins_ok :: "call_vm \<Rightarrow> bool" where
  "joins_ok vm \<longleftrightarrow> vm_joins vm = [] \<or>
     (\<exists>p. vm_joins vm = [p] \<and> vm_activeRoomId vm \<noteq> None \<and> vm_joinState vm = Join_joining
        \<and> vm_leaves vm = [] \<and> vc_room (vm_client vm) = None
        \<and> (\<forall>i. p = Connecting_room i \<longrightarrow> i < length (vc_rooms (vm_client vm))
             \<and> lk_listening (vc_rooms (vm_client vm) ! i) \<and> \<not> lk_connected (vc_rooms (vm_client vm) ! i)))"

definition room_ok :: "call_vm \<Rightarrow> bool" where
  "room_ok vm \<longleftrightarrow> (\<forall>i. vc_room (vm_client vm) = Some i \<longrightarrow>
     i < length (vc_rooms (vm_client vm)) \<and> lk_connected (vc_rooms (vm_client vm) ! i)
     \<and> lk_listening (vc_rooms (vm_client vm) ! i) \<and> vm_activeRoomId vm \<noteq> None \<and> vm_joinState vm = Join_joined \<and> vm_leaves vm = [])"

definition rooms_ok :: "call_vm \<Rightarrow> bool" where
  "rooms_ok vm \<longleftrightarrow> (\<forall>j < length (vc_rooms (vm_client vm)).
     (lk_connected (vc_rooms (vm_client vm) ! j) \<longrightarrow> vc_room (vm_client vm) = Some j \<or> being_left vm j)
     \<and> (being_left vm j \<longrightarrow> \<not> lk_listening (vc_rooms (vm_client vm) ! j)))"

definition status_ok :: "call_vm \<Rightarrow> bool" where
  "status_ok vm \<longleftrightarrow> (live_status (cs_status (vc_state (vm_client vm))) \<longrightarrow>
     vc_room (vm_client vm) \<noteq> None \<or> (\<exists>i. vm_joins vm = [Connecting_room i])
     \<or> (\<exists>lk r. Closing_media lk r \<in> set (vm_leaves vm)))"

definition call_ok :: "call_vm \<Rightarrow> bool" where
  "call_ok vm \<longleftrightarrow> joins_ok vm \<and> room_ok vm \<and> rooms_ok vm \<and> status_ok vm"

lemmas call_ok_defs = call_ok_def joins_ok_def room_ok_def rooms_ok_def status_ok_def being_left_def live_status_def

subsection \<open>The client's operations\<close>

lemma patch_fields [simp]:
  "vc_room (voice_patch f c) = vc_room c" "vc_rooms (voice_patch f c) = vc_rooms c"
  "vc_state (voice_patch f c) = f (vc_state c)" "vc_audio (voice_patch f c) = vc_audio c"
  by (simp_all add: voice_patch_def Let_def)

lemma refresh_fields [simp]:
  "vc_room (refreshParticipants c) = vc_room c" "vc_rooms (refreshParticipants c) = vc_rooms c"
  "cs_status (vc_state (refreshParticipants c)) = cs_status (vc_state c)"
  by (simp_all add: refreshParticipants_def split: option.split)

lemma on_room_fields [simp]:
  "vc_room (on_room i f c) = vc_room c" "vc_state (on_room i f c) = vc_state c"
  "length (vc_rooms (on_room i f c)) = length (vc_rooms c)"
  "vc_rooms (on_room i f c) ! j = (if i = j \<and> i < length (vc_rooms c) then f (vc_rooms c ! j) else vc_rooms c ! j)"
  by (simp_all add: on_room_def nth_update)

text \<open>What touches only flags of the media keeps rooms and status.\<close>

lemma media_answered_fields [simp]:
  "vc_room (media_answered a c) = vc_room c" "vc_rooms (media_answered a c) = vc_rooms c"
  "cs_status (vc_state (media_answered a c)) = cs_status (vc_state c)"
  by (cases a; simp add: microphone_set_def microphone_refused_def camera_started_def camera_refused_def
      camera_stopped_def camera_switched_def switch_refused_def screen_started_def screen_refused_def
      screen_stopped_def)+

lemma call_ok_same:
  assumes "call_ok vm"
    and "vm_activeRoomId vm' = vm_activeRoomId vm" "vm_joinState vm' = vm_joinState vm"
    and "vm_joins vm' = vm_joins vm" "vm_leaves vm' = vm_leaves vm"
    and "vc_room (vm_client vm') = vc_room (vm_client vm)" "vc_rooms (vm_client vm') = vc_rooms (vm_client vm)"
    and "cs_status (vc_state (vm_client vm')) = cs_status (vc_state (vm_client vm))"
  shows "call_ok vm'"
  using assms by (simp add: call_ok_defs)

subsection \<open>Every step\<close>

lemma join_client_ok:
  assumes "call_ok vm" and "vm_joins vm = []" and "vm_leaves vm = []" and "vc_room (vm_client vm) = None"
    and "vm_activeRoomId vm \<noteq> None" and "vm_joinState vm = Join_joining"
  shows "call_ok (vm_join_client e vm)"
  using assms by (auto simp: vm_join_client_def voice_join_def call_ok_defs)

lemma join_ok:
  assumes "call_ok vm" and "vm_joins vm = []" and "vm_leaves vm = []" and "vc_room (vm_client vm) = None"
  shows "call_ok (vm_join e r n vm)"
proof -
  let ?vm = "vm\<lparr>vm_activeRoomId := Some r, vm_activeRoomName := Some n, vm_joinState := Join_joining, vm_joinError := None\<rparr>"
  have "call_ok ?vm" using assms by (simp add: call_ok_defs)
  moreover from this have "call_ok (vm_join_client e ?vm)" using assms by (intro join_client_ok) simp_all
  ultimately show ?thesis
    using assms by (auto simp: vm_join_def Let_def vm_join_failed_def call_ok_defs)
qed

lemma microphone_ok:
  assumes "call_ok vm" and "Asking_microphone \<in> set (vm_joins vm)"
  shows "call_ok (microphone_answered e threw vm)"
proof -
  have j: "vm_joins vm = [Asking_microphone]" "vm_leaves vm = []" "vc_room (vm_client vm) = None"
    "vm_activeRoomId vm \<noteq> None" "vm_joinState vm = Join_joining"
    using assms by (auto simp: call_ok_def joins_ok_def)
  let ?vm = "vm\<lparr>vm_joins := []\<rparr>"
  have "call_ok ?vm" using assms(1) j by (simp add: call_ok_defs)
  moreover from this have "call_ok (vm_join_client e ?vm)" using j by (intro join_client_ok) simp_all
  ultimately show ?thesis
    using j by (auto simp: microphone_answered_def Let_def vm_join_failed_def call_ok_defs)
qed

lemma session_ok:
  assumes "call_ok vm" and "Asking_session \<in> set (vm_joins vm)"
  shows "call_ok (session_answered refusal vm)"
proof -
  have j: "vm_joins vm = [Asking_session]" "vm_leaves vm = []" "vc_room (vm_client vm) = None"
    using assms by (auto simp: call_ok_def joins_ok_def)
  show ?thesis
  proof (cases refusal)
    case None
    then show ?thesis
      using assms(1) j
      by (auto simp: session_answered_def Let_def session_opened_def call_ok_defs nth_append less_Suc_eq)
  next
    case (Some p)
    then show ?thesis
      using assms(1) j
      by (cases p) (simp add: session_answered_def Let_def session_refused_def vm_join_failed_def call_ok_defs)
  qed
qed

lemma room_answered_ok:
  assumes "call_ok vm" and "Connecting_room i \<in> set (vm_joins vm)"
  shows "call_ok (room_answered i result vm)"
proof -
  have j: "vm_joins vm = [Connecting_room i]" "vm_leaves vm = []" "vc_room (vm_client vm) = None"
    "i < length (vc_rooms (vm_client vm))" "vm_activeRoomId vm \<noteq> None"
    using assms by (auto simp: call_ok_def joins_ok_def)
  show ?thesis
  proof (cases result)
    case (Inl m)
    then show ?thesis
      using assms(1) j
      by (simp add: room_answered_def Let_def connect_refused_def vm_join_failed_def call_ok_defs)
  next
    case (Inr p)
    then show ?thesis
      using assms(1) j
      by (cases p) (simp add: room_answered_def Let_def connect_done_def call_ok_defs)
  qed
qed

lemma leave_ok:
  assumes ok: "call_ok vm" and j: "vm_joins vm = []"
  shows "call_ok (vm_leave vm)"
proof (cases "vc_room (vm_client vm)")
  case None
  let ?l = "vm_leave vm"
  have f: "vm_client ?l = vm_client vm" "vm_joins ?l = []"
    "vm_leaves ?l = vm_leaves vm @ [Closing_media None (vm_activeRoomId vm)]"
    using None j by (simp_all add: vm_leave_def voice_leave_def)
  have "being_left ?l i = being_left vm i" for i by (simp add: being_left_def f)
  then have "rooms_ok ?l" using ok by (simp add: call_ok_def rooms_ok_def f)
  moreover have "joins_ok ?l" "room_ok ?l" "status_ok ?l"
    using f None by (auto simp: joins_ok_def room_ok_def status_ok_def)
  ultimately show ?thesis by (simp add: call_ok_def)
next
  case (Some i)
  let ?l = "vm_leave vm"
  have i: "vm_leaves vm = []" "i < length (vc_rooms (vm_client vm))"
    using ok Some by (auto simp: call_ok_def room_ok_def)
  have f: "vm_joins ?l = []" "vm_leaves ?l = [Closing_media (Some i) (vm_activeRoomId vm)]"
    "vm_client ?l = on_room i (\<lambda>r. r\<lparr>lk_listening := False\<rparr>) ((vm_client vm)\<lparr>vc_room := None\<rparr>)"
    using Some i(1) j by (simp_all add: vm_leave_def voice_leave_def)
  have l: "being_left ?l k = (k = i)" "\<not> being_left vm k" for k by (auto simp: being_left_def f i(1))
  have "vc_room (vm_client ?l) = None" "length (vc_rooms (vm_client ?l)) = length (vc_rooms (vm_client vm))"
    and nth: "vc_rooms (vm_client ?l) ! k = (if i = k
        then (vc_rooms (vm_client vm) ! k)\<lparr>lk_listening := False\<rparr> else vc_rooms (vm_client vm) ! k)" for k
    using i(2) by (simp_all add: f)
  moreover have "lk_connected (vc_rooms (vm_client vm) ! k) \<Longrightarrow> k = i" if "k < length (vc_rooms (vm_client vm))" for k
    using ok Some l(2) that by (auto simp: call_ok_def rooms_ok_def)
  ultimately have "rooms_ok ?l" by (auto simp: rooms_ok_def l)
  moreover have "joins_ok ?l" "room_ok ?l" "status_ok ?l"
    by (simp_all add: joins_ok_def room_ok_def status_ok_def f) blast?
  ultimately show ?thesis by (simp add: call_ok_def)
qed

text \<open>Ending a call touches nothing else: no room is current and none is being joined.\<close>

lemma leaving_alone:
  assumes "call_ok vm" and "vm_leaves vm \<noteq> []"
  shows "vm_joins vm = [] \<and> vc_room (vm_client vm) = None"
  using assms by (cases "vc_room (vm_client vm)") (auto simp: call_ok_def joins_ok_def room_ok_def)

lemma closed_ok:
  assumes ok: "call_ok vm" and m: "Closing_media lk r \<in> set (vm_leaves vm)"
  shows "call_ok (media_closed e lk r vm)"
proof -
  let ?l = "media_closed e lk r vm"
  have none: "vm_joins vm = []" "vc_room (vm_client vm) = None"
    using leaving_alone [OF ok] m by fastforce+
  obtain ls where ls: "vm_leaves ?l = remove1 (Closing_media lk r) (vm_leaves vm) @ ls" "\<forall>x y. Closing_media x y \<notin> set ls"
    and f: "vm_joins ?l = []" "vc_room (vm_client ?l) = None" "cs_status (vc_state (vm_client ?l)) = Call_idle"
    using none
    by (cases r; cases "the r = [] \<or> \<not> signed_in e"; cases lk)
      (auto simp: media_closed_def Let_def leave_done_def INITIAL_STATE_def)
  have rooms: "vc_rooms (vm_client ?l) = (case lk of None \<Rightarrow> vc_rooms (vm_client vm)
      | Some i \<Rightarrow> vc_rooms (on_room i (\<lambda>r. r\<lparr>lk_connected := False\<rparr>) (vm_client vm)))"
    by (simp add: media_closed_def Let_def leave_done_def split: option.split)
  have still: "being_left ?l k" if "being_left vm k" "lk \<noteq> Some k" for k
    using that ls(1) by (auto simp: being_left_def)
  have only: "being_left vm k" if "being_left ?l k" for k
    using that ls by (auto simp: being_left_def dest: notin_set_remove1 set_remove1_subset [THEN subsetD])
  have "rooms_ok ?l"
    unfolding rooms_ok_def
  proof (intro allI impI conjI)
    fix k assume k: "k < length (vc_rooms (vm_client ?l))"
    then have k': "k < length (vc_rooms (vm_client vm))" by (simp add: rooms split: option.splits)
    show "\<not> lk_listening (vc_rooms (vm_client ?l) ! k)" if "being_left ?l k"
      using ok k' only [OF that] by (auto simp: call_ok_def rooms_ok_def rooms split: option.split)
    assume "lk_connected (vc_rooms (vm_client ?l) ! k)"
    then have "lk_connected (vc_rooms (vm_client vm) ! k)" "lk \<noteq> Some k"
      using k by (auto simp: rooms split: option.splits if_splits)
    then show "vc_room (vm_client ?l) = Some k \<or> being_left ?l k"
      using ok k' none still by (auto simp: call_ok_def rooms_ok_def)
  qed
  then show ?thesis
    using f by (simp add: call_ok_def joins_ok_def room_ok_def status_ok_def live_status_def)
qed

lemma told_ok:
  assumes ok: "call_ok vm" and m: "Telling_server r \<in> set (vm_leaves vm)"
  shows "call_ok (server_told r vm)"
proof -
  let ?l = "server_told r vm"
  have none: "vm_joins vm = []" "vc_room (vm_client vm) = None"
    using leaving_alone [OF ok] m by fastforce+
  have "Closing_media x y \<in> set (vm_leaves ?l) \<longleftrightarrow> Closing_media x y \<in> set (vm_leaves vm)" for x y
    by (auto simp: server_told_def dest: set_remove1_subset [THEN subsetD])
  moreover have "vm_client ?l = vm_client vm" "vm_joins ?l = []"
    using none by (simp_all add: server_told_def)
  ultimately show ?thesis
    using ok none by (simp add: call_ok_defs)
qed

lemma room_handler_fields:
  "vc_rooms (room_handler i ev c) = vc_rooms c"
  "vc_room (room_handler i ev c) = (if ev = Disconnected \<and> vc_room c = Some i then None else vc_room c)"
  by (cases ev; simp)+

lemma room_after_fields [simp]:
  "lk_listening (room_after ev r) = lk_listening r"
  "lk_connected (room_after ev r) = (lk_connected r \<and> ev \<noteq> Disconnected)"
  by (cases ev; simp)+

lemma reports_rooms: "vc_rooms (room_reports i ev c) = vc_rooms (on_room i (room_after ev) c)"
  by (simp add: room_reports_def Let_def room_handler_fields)

lemma left_client [simp]: "being_left (vm\<lparr>vm_client := c\<rparr>) k = being_left vm k"
  by (simp add: being_left_def)

lemma event_ok:
  assumes ok: "call_ok vm" and i: "i < length (vc_rooms (vm_client vm))"
    and on: "lk_connected (vc_rooms (vm_client vm) ! i) \<or> Connecting_room i \<in> set (vm_joins vm)"
  shows "call_ok (vm\<lparr>vm_client := room_reports i ev (vm_client vm)\<rparr>)"
proof -
  let ?c = "vm_client vm" and ?d = "on_room i (room_after ev) (vm_client vm)"
  let ?l = "vm\<lparr>vm_client := room_reports i ev ?c\<rparr>"
  show ?thesis
  proof (cases "lk_listening (vc_rooms ?c ! i) \<and> ev = Disconnected \<and> vc_room ?c = Some i")
    case True
    have r: "vm_joins vm = []" "vm_leaves vm = []" using ok True by (auto simp: call_ok_def joins_ok_def room_ok_def)
    have e: "vc_room (vm_client ?l) = None" "\<not> live_status (cs_status (vc_state (vm_client ?l)))"
      using True i by (simp_all add: room_reports_def Let_def live_status_def)
    have "rooms_ok ?l"
      using ok True i r by (auto simp: call_ok_def rooms_ok_def reports_rooms)
    then show ?thesis using r e by (simp add: call_ok_def joins_ok_def room_ok_def status_ok_def)
  next
    case False
    have cur: "vc_room (room_reports i ev ?c) = vc_room ?c"
      using False i by (auto simp: room_reports_def Let_def room_handler_fields)
    have lis: "lk_listening (vc_rooms ?c ! i)" if "vc_room ?c = Some i"
      using ok that by (simp add: call_ok_def room_ok_def)
    have "rooms_ok ?l" using ok i by (auto simp: call_ok_def rooms_ok_def reports_rooms cur)
    moreover have "joins_ok ?l" using ok by (auto simp: call_ok_def joins_ok_def reports_rooms cur)
    moreover have "room_ok ?l" using ok False lis by (auto simp: call_ok_def room_ok_def reports_rooms cur)
    moreover have "status_ok ?l"
      unfolding status_ok_def
    proof
      assume live: "live_status (cs_status (vc_state (vm_client ?l)))"
      show "vc_room (vm_client ?l) \<noteq> None \<or> (\<exists>i. vm_joins ?l = [Connecting_room i])
          \<or> (\<exists>lk r. Closing_media lk r \<in> set (vm_leaves ?l))"
      proof (cases "lk_listening (vc_rooms ?c ! i)")
        case True
        have "vc_room ?c = Some i \<or> Connecting_room i \<in> set (vm_joins vm)"
          using on ok i True by (auto simp: call_ok_def rooms_ok_def)
        then show ?thesis
          using cur ok by (auto simp: call_ok_def joins_ok_def)
      next
        case False
        then have "vc_state (vm_client ?l) = vc_state ?c"
          using i by (simp add: room_reports_def Let_def)
        then show ?thesis using live ok cur by (simp add: call_ok_def status_ok_def)
      qed
    qed
    ultimately show ?thesis by (simp add: call_ok_def)
  qed
qed

lemma call_step_ok:
  assumes st: "call_step e vm l vm'" and ok: "call_ok vm" and calm: "unhurried vm l"
  shows "call_ok vm'"
  using st
proof cases
  case (step_join r n)
  then show ?thesis using calm join_ok [OF ok] by simp
next
  case step_leave
  then show ?thesis using calm leave_ok [OF ok] by simp
next
  case (step_answer a)
  then show ?thesis by (intro call_ok_same [OF ok]) simp_all
next
  case step_mute
  then show ?thesis by (intro call_ok_same [OF ok]) (simp_all add: vm_toggleMute_def voice_setMuted_def)
next
  case step_hand
  then show ?thesis by (intro call_ok_same [OF ok]) (simp_all add: vm_toggleHandRaise_def voice_toggleHandRaise_def)
next
  case (step_clock ticked)
  then show ?thesis by (intro call_ok_same [OF ok]) (simp_all add: vm_clock_def)
qed (simp_all add: ok microphone_ok session_ok room_answered_ok closed_ok told_ok event_ok)

lemma call_ok_new: "call_ok new_call_vm"
  by (simp add: new_call_vm_def new_voice_client_def INITIAL_STATE_def call_ok_defs)

lemma calm_call_ok: "calm_call e vm \<Longrightarrow> call_ok vm"
  by (induction rule: calm_call.induct) (blast intro: call_ok_new call_step_ok)+

section \<open>Runs\<close>

definition call_demo :: call_env where
  "call_demo = \<lparr>ce_token = Some ''t'', ce_asks_microphone = False, ce_webrtc = True, ce_camera = True, ce_screen = True\<rparr>"

text \<open>A label carried out, where it can be.\<close>

fun call_host :: "call_label \<Rightarrow> call_vm \<Rightarrow> call_vm option" where
  "call_host (Do_join r n) vm = Some (vm_join call_demo r n vm)"
| "call_host (Session_answered refusal) vm =
     (if Asking_session \<in> set (vm_joins vm) then Some (session_answered refusal vm) else None)"
| "call_host (Room_answered i result) vm =
     (if Connecting_room i \<in> set (vm_joins vm) then Some (room_answered i result vm) else None)"
| "call_host Do_leave vm = Some (vm_leave vm)"
| "call_host (Media_closed lk r) vm =
     (if Closing_media lk r \<in> set (vm_leaves vm) then Some (media_closed call_demo lk r vm) else None)"
| "call_host (Server_told r) vm =
     (if Telling_server r \<in> set (vm_leaves vm) then Some (server_told r vm) else None)"
| "call_host _ vm = None"

fun call_run :: "call_label list \<Rightarrow> call_vm \<Rightarrow> call_vm option" where
  "call_run [] vm = Some vm"
| "call_run (l # ls) vm = (case call_host l vm of None \<Rightarrow> None | Some vm \<Rightarrow> call_run ls vm)"

fun calm_run :: "call_label list \<Rightarrow> call_vm \<Rightarrow> bool" where
  "calm_run [] vm = True"
| "calm_run (l # ls) vm =
     (unhurried vm l \<and> (case call_host l vm of None \<Rightarrow> False | Some vm \<Rightarrow> calm_run ls vm))"

lemma call_host_step: "call_host l vm = Some vm' \<Longrightarrow> call_step call_demo vm l vm'"
  by (cases l) (auto split: if_splits intro: call_step.intros)

lemma call_run_reachable:
  "call_reachable call_demo vm \<Longrightarrow> call_run ls vm = Some vm' \<Longrightarrow> call_reachable call_demo vm'"
  by (induction ls arbitrary: vm) (auto split: option.splits intro: call_next call_host_step)

lemma calm_run_calm:
  "calm_call call_demo vm \<Longrightarrow> call_run ls vm = Some vm' \<Longrightarrow> calm_run ls vm \<Longrightarrow> calm_call call_demo vm'"
  by (induction ls arbitrary: vm) (auto split: option.splits intro: calm_next call_host_step)

lemma ran: "\<not> Option.is_none x \<Longrightarrow> x = Some (the x)"
  by (cases x) simp_all

definition demo_in_call :: call_vm where
  "demo_in_call = the (call_run
     [Do_join ''r'' ''Room'', Session_answered None, Room_answered 0 (Inr (''me'', []))] new_call_vm)"

definition demo_hurried :: call_vm where
  "demo_hurried = the (call_run
     [Do_join ''r'' ''Room'', Session_answered None, Do_leave, Media_closed None (Some ''r''),
      Server_told ''r'', Room_answered 0 (Inr (''me'', []))] new_call_vm)"

definition demo_rejoined :: call_vm where
  "demo_rejoined = the (call_run
     [Do_join ''r'' ''Room'', Session_answered None, Room_answered 0 (Inr (''me'', [])), Do_leave,
      Do_join ''q'' ''Other'', Media_closed (Some 0) (Some ''r''), Server_told ''r''] new_call_vm)"

section \<open>The media follow the call\<close>



text \<open>
  In a hurry it is otherwise. Leaving while the room is still being connected to closes
  nothing, and when the connection is up the person is in it: shown as in no call.
\<close>

theorem leaving_while_joining:
  "\<exists>vm. call_reachable call_demo vm \<and> \<not> vm_inCall vm \<and> vm_joins vm = [] \<and> vm_leaves vm = []
     \<and> vc_room (vm_client vm) = Some 0 \<and> lk_connected (vc_rooms (vm_client vm) ! 0)"
proof -
  have "call_run [Do_join ''r'' ''Room'', Session_answered None, Do_leave, Media_closed None (Some ''r''),
      Server_told ''r'', Room_answered 0 (Inr (''me'', []))] new_call_vm = Some demo_hurried"
    unfolding demo_hurried_def by (rule ran) code_simp
  then have "call_reachable call_demo demo_hurried" by (rule call_run_reachable [OF call_init])
  moreover have "\<not> vm_inCall demo_hurried" "vm_joins demo_hurried = []" "vm_leaves demo_hurried = []"
    "vc_room (vm_client demo_hurried) = Some 0" "lk_connected (vc_rooms (vm_client demo_hurried) ! 0)"
    by code_simp+
  ultimately show ?thesis by blast
qed

text \<open>And joining while the last call is being left joins nothing: shown as in a call.\<close>

theorem joining_while_leaving:
  "\<exists>vm. call_reachable call_demo vm \<and> vm_inCall vm \<and> vm_joinState vm = Join_joined
     \<and> vm_joins vm = [] \<and> vm_leaves vm = [] \<and> vc_room (vm_client vm) = None
     \<and> length (vc_rooms (vm_client vm)) = 1"
proof -
  have "call_run [Do_join ''r'' ''Room'', Session_answered None, Room_answered 0 (Inr (''me'', [])), Do_leave,
      Do_join ''q'' ''Other'', Media_closed (Some 0) (Some ''r''), Server_told ''r''] new_call_vm = Some demo_rejoined"
    unfolding demo_rejoined_def by (rule ran) code_simp
  then have "call_reachable call_demo demo_rejoined" by (rule call_run_reachable [OF call_init])
  moreover have "vm_inCall demo_rejoined" "vm_joinState demo_rejoined = Join_joined" "vm_joins demo_rejoined = []"
    "vm_leaves demo_rejoined = []" "vc_room (vm_client demo_rejoined) = None"
    "length (vc_rooms (vm_client demo_rejoined)) = 1"
    by code_simp+
  ultimately show ?thesis by blast
qed

end
