(* ===== verification/CallRing.thy ===== *)
theory CallRing
  imports ApiTypes
begin

text \<open>
  One-to-one calls on the web, \<open>apps/web/src/lib/useCall.tsx\<close>: a ring in each direction. The
  provider's state is a record with what its effects last saw of the values they depend on;
  \<open>commit\<close> runs, after every change, the effects whose values changed. The connection itself
  (\<open>useVoiceRoom\<close>) is the environment: which room it is in and how many others are there.
\<close>

section \<open>State\<close>

record incoming_call =
  ic_roomId :: uuid
  ic_fromUserId :: uuid
  ic_fromDisplayName :: string
  ic_video :: bool

record outgoing_call =
  oc_roomId :: uuid
  oc_peerId :: uuid
  oc_peerName :: string
  oc_video :: bool

text \<open>What the provider asks of the connection and of the API, in order.\<close>

datatype ring_action =
    Voice_join uuid string | Voice_leave | Voice_camera | Ring uuid bool | End_call uuid call_end_reason

text \<open>Where a call of \<open>start\<close> is waiting.\<close>

datatype start_phase = Start_joining outgoing_call | Start_camera outgoing_call | Start_ringing uuid

record ring =
  rg_incoming :: "incoming_call option"
  rg_outgoing :: "outgoing_call option"
  rg_user :: "uuid option"
  rg_active :: "uuid option"
  rg_people :: nat
  rg_starting :: "start_phase list"
  rg_in_timer :: "uuid option"
  rg_out_timer :: "uuid option"
  rg_sound :: bool
  rg_seen_signed :: bool
  rg_seen_answered :: bool
  rg_seen_active :: "uuid option"
  rg_actions :: "ring_action list"

definition new_ring :: ring where
  "new_ring =
     \<lparr>rg_incoming = None, rg_outgoing = None, rg_user = None, rg_active = None, rg_people = 0,
      rg_starting = [], rg_in_timer = None, rg_out_timer = None, rg_sound = False,
      rg_seen_signed = False, rg_seen_answered = False, rg_seen_active = None, rg_actions = []\<rparr>"

definition signedIn :: "ring \<Rightarrow> bool" where
  "signedIn s \<longleftrightarrow> rg_user s \<noteq> None"

definition answered :: "ring \<Rightarrow> bool" where
  "answered s \<longleftrightarrow> rg_people s > 0"

section \<open>Effects\<close>

text \<open>A clock runs for the room that rings, if its id is not empty.\<close>

definition ring_clock :: "uuid option \<Rightarrow> uuid option" where
  "ring_clock r = (case r of Some i \<Rightarrow> if i \<noteq> [] then Some i else None | None \<Rightarrow> None)"

definition sync_clocks :: "ring \<Rightarrow> ring" where
  "sync_clocks s =
     s\<lparr>rg_in_timer := ring_clock (map_option ic_roomId (rg_incoming s)),
       rg_out_timer := ring_clock (map_option oc_roomId (rg_outgoing s)),
       rg_sound := (rg_incoming s \<noteq> None \<or> rg_outgoing s \<noteq> None)\<rparr>"

definition commit :: "ring \<Rightarrow> ring" where
  "commit s =
     (let shown = rg_outgoing s;
          s = (if rg_seen_signed s \<noteq> signedIn s \<and> \<not> signedIn s
               then s\<lparr>rg_incoming := None, rg_outgoing := None\<rparr> else s);
          s = (if rg_seen_answered s \<noteq> answered s \<and> answered s then s\<lparr>rg_outgoing := None\<rparr> else s);
          s = (if rg_seen_active s \<noteq> rg_active s
               then (case shown of
                       Some call \<Rightarrow>
                         if rg_active s \<noteq> Some (oc_roomId call)
                         then s\<lparr>rg_outgoing := None, rg_actions := rg_actions s @ [End_call (oc_roomId call) Call_cancelled]\<rparr>
                         else s
                     | None \<Rightarrow> s)
               else s)
      in sync_clocks (s\<lparr>rg_seen_signed := signedIn s, rg_seen_answered := answered s, rg_seen_active := rg_active s\<rparr>))"

section \<open>Operations\<close>

definition act :: "ring_action list \<Rightarrow> ring \<Rightarrow> ring" where
  "act as s = s\<lparr>rg_actions := rg_actions s @ as\<rparr>"

definition start_call :: "outgoing_call \<Rightarrow> ring \<Rightarrow> ring" where
  "start_call call s =
     act [Voice_join (oc_roomId call) (oc_peerName call)] (s\<lparr>rg_starting := rg_starting s @ [Start_joining call]\<rparr>)"

definition start_ring :: "outgoing_call \<Rightarrow> ring \<Rightarrow> ring" where
  "start_ring call s =
     act [Ring (oc_roomId call) (oc_video call)]
       (s\<lparr>rg_outgoing := Some call, rg_starting := rg_starting s @ [Start_ringing (oc_roomId call)]\<rparr>)"

text \<open>A join or a camera that fails rejects \<open>start\<close>, which then does nothing more.\<close>

definition start_joined :: "outgoing_call \<Rightarrow> bool \<Rightarrow> ring \<Rightarrow> ring" where
  "start_joined call ok s =
     (let s = s\<lparr>rg_starting := remove1 (Start_joining call) (rg_starting s)\<rparr>
      in if \<not> ok then s
         else if oc_video call then act [Voice_camera] (s\<lparr>rg_starting := rg_starting s @ [Start_camera call]\<rparr>)
         else start_ring call s)"

definition start_camera_on :: "outgoing_call \<Rightarrow> bool \<Rightarrow> ring \<Rightarrow> ring" where
  "start_camera_on call ok s =
     (let s = s\<lparr>rg_starting := remove1 (Start_camera call) (rg_starting s)\<rparr>
      in if ok then start_ring call s else s)"

definition start_rang :: "uuid \<Rightarrow> bool \<Rightarrow> ring \<Rightarrow> ring" where
  "start_rang r ok s =
     (let s = s\<lparr>rg_starting := remove1 (Start_ringing r) (rg_starting s)\<rparr>
      in if ok then s else act [Voice_leave] (s\<lparr>rg_outgoing := None\<rparr>))"

definition accept_call :: "ring \<Rightarrow> ring" where
  "accept_call s =
     (case rg_incoming s of
        None \<Rightarrow> s
      | Some call \<Rightarrow> act [Voice_join (ic_roomId call) (ic_fromDisplayName call)] (s\<lparr>rg_incoming := None\<rparr>))"

definition decline_call :: "ring \<Rightarrow> ring" where
  "decline_call s =
     (case rg_incoming s of
        None \<Rightarrow> s
      | Some call \<Rightarrow> act [End_call (ic_roomId call) Call_declined] (s\<lparr>rg_incoming := None\<rparr>))"

definition cancel_call :: "ring \<Rightarrow> ring" where
  "cancel_call s =
     (case rg_outgoing s of
        None \<Rightarrow> s
      | Some call \<Rightarrow> act [Voice_leave, End_call (oc_roomId call) Call_cancelled] (s\<lparr>rg_outgoing := None\<rparr>))"

text \<open>The two frames, handled while signed in.\<close>

definition on_call_ringing :: "incoming_call \<Rightarrow> ring \<Rightarrow> ring" where
  "on_call_ringing event s =
     (if \<not> signedIn s \<or> Some (ic_fromUserId event) = rg_user s \<or> rg_incoming s \<noteq> None then s
      else s\<lparr>rg_incoming := Some event\<rparr>)"

definition on_call_ended :: "uuid \<Rightarrow> ring \<Rightarrow> ring" where
  "on_call_ended r s =
     (if \<not> signedIn s then s
      else let s = (if map_option ic_roomId (rg_incoming s) = Some r then s\<lparr>rg_incoming := None\<rparr> else s)
           in if map_option oc_roomId (rg_outgoing s) = Some r
              then act [Voice_leave] (s\<lparr>rg_outgoing := None\<rparr>) else s)"

section \<open>Steps\<close>

datatype ring_label =
    Ring_start outgoing_call | Ring_joined outgoing_call bool | Ring_camera outgoing_call bool
  | Ring_rang uuid bool | Ring_accept | Ring_decline | Ring_cancel
  | Ring_frame incoming_call | Ring_ended uuid | Ring_in_timeout | Ring_out_timeout
  | Ring_voice "uuid option" nat | Ring_user "uuid option"

fun ring_does :: "ring_label \<Rightarrow> ring \<Rightarrow> ring" where
  "ring_does (Ring_start call) s = start_call call s"
| "ring_does (Ring_joined call ok) s = start_joined call ok s"
| "ring_does (Ring_camera call ok) s = start_camera_on call ok s"
| "ring_does (Ring_rang r ok) s = start_rang r ok s"
| "ring_does Ring_accept s = accept_call s"
| "ring_does Ring_decline s = decline_call s"
| "ring_does Ring_cancel s = cancel_call s"
| "ring_does (Ring_frame event) s = on_call_ringing event s"
| "ring_does (Ring_ended r) s = on_call_ended r s"
| "ring_does Ring_in_timeout s = s\<lparr>rg_incoming := None\<rparr>"
| "ring_does Ring_out_timeout s = cancel_call s"
| "ring_does (Ring_voice active people) s = s\<lparr>rg_active := active, rg_people := people\<rparr>"
| "ring_does (Ring_user user) s = s\<lparr>rg_user := user\<rparr>"

fun ring_can :: "ring_label \<Rightarrow> ring \<Rightarrow> bool" where
  "ring_can (Ring_joined call ok) s = (Start_joining call \<in> set (rg_starting s))"
| "ring_can (Ring_camera call ok) s = (Start_camera call \<in> set (rg_starting s))"
| "ring_can (Ring_rang r ok) s = (Start_ringing r \<in> set (rg_starting s))"
| "ring_can Ring_in_timeout s = (rg_in_timer s \<noteq> None)"
| "ring_can Ring_out_timeout s = (rg_out_timer s \<noteq> None)"
| "ring_can _ s = True"

inductive ring_step :: "ring \<Rightarrow> ring_label \<Rightarrow> ring \<Rightarrow> bool" where
  ring_stepI: "ring_can l s \<Longrightarrow> ring_step s l (commit (ring_does l s))"

inductive ring_reachable :: "ring \<Rightarrow> bool" where
  ring_init: "ring_reachable (commit new_ring)"
| ring_next: "ring_reachable s \<Longrightarrow> ring_step s l s' \<Longrightarrow> ring_reachable s'"

inductive_simps ring_step_simps: "ring_step s l s'"

section \<open>What holds after every change\<close>

definition ring_ok :: "ring \<Rightarrow> bool" where
  "ring_ok s \<longleftrightarrow>
     rg_in_timer s = ring_clock (map_option ic_roomId (rg_incoming s))
     \<and> rg_out_timer s = ring_clock (map_option oc_roomId (rg_outgoing s))
     \<and> rg_sound s = (rg_incoming s \<noteq> None \<or> rg_outgoing s \<noteq> None)
     \<and> rg_seen_answered s = answered s \<and> rg_seen_active s = rg_active s \<and> rg_seen_signed s = signedIn s"

lemma act_fields [simp]:
  "rg_incoming (act as s) = rg_incoming s" "rg_outgoing (act as s) = rg_outgoing s"
  "rg_active (act as s) = rg_active s" "rg_people (act as s) = rg_people s" "rg_user (act as s) = rg_user s"
  "rg_actions (act as s) = rg_actions s @ as"
  "rg_seen_signed (act as s) = rg_seen_signed s" "rg_seen_answered (act as s) = rg_seen_answered s"
  "rg_seen_active (act as s) = rg_seen_active s"
  by (simp_all add: act_def)

lemma commit_ok: "ring_ok (commit s)"
  by (auto simp: commit_def Let_def sync_clocks_def ring_ok_def signedIn_def answered_def split: option.split)

lemma ring_reachable_ok: "ring_reachable s \<Longrightarrow> ring_ok s"
  by (induction rule: ring_reachable.induct) (auto simp: ring_step_simps commit_ok)

text \<open>Where what the effects watch has not changed, a commit only sets the clocks.\<close>

lemma commit_quiet:
  assumes "ring_ok s" and "rg_user s' = rg_user s" and "rg_active s' = rg_active s" and "rg_people s' = rg_people s"
    and "rg_seen_signed s' = rg_seen_signed s" and "rg_seen_answered s' = rg_seen_answered s"
    and "rg_seen_active s' = rg_seen_active s"
  shows "commit s' = sync_clocks s'"
proof -
  have eqs: "rg_seen_signed s' = signedIn s'" "rg_seen_answered s' = answered s'" "rg_seen_active s' = rg_active s'"
    using assms by (simp_all add: ring_ok_def signedIn_def answered_def)
  have "commit s' = sync_clocks (s'\<lparr>rg_seen_signed := signedIn s', rg_seen_answered := answered s',
      rg_seen_active := rg_active s'\<rparr>)"
    using eqs by (simp add: commit_def Let_def)
  also have "s'\<lparr>rg_seen_signed := signedIn s', rg_seen_answered := answered s',
      rg_seen_active := rg_active s'\<rparr> = s'"
    using eqs by (cases s') (simp add: signedIn_def answered_def)
  finally show ?thesis .
qed

lemma sync_fields [simp]:
  "rg_incoming (sync_clocks s) = rg_incoming s" "rg_outgoing (sync_clocks s) = rg_outgoing s"
  "rg_actions (sync_clocks s) = rg_actions s" "rg_sound (sync_clocks s) = (rg_incoming s \<noteq> None \<or> rg_outgoing s \<noteq> None)"
  by (simp_all add: sync_clocks_def)


definition demo_call :: outgoing_call where
  "demo_call = \<lparr>oc_roomId = ''r'', oc_peerId = ''p'', oc_peerName = ''Pat'', oc_video = False\<rparr>"

fun ring_run :: "ring_label list \<Rightarrow> ring \<Rightarrow> ring option" where
  "ring_run [] s = Some s"
| "ring_run (l # ls) s = (if ring_can l s then ring_run ls (commit (ring_does l s)) else None)"

lemma ring_run_reachable: "ring_reachable s \<Longrightarrow> ring_run ls s = Some s' \<Longrightarrow> ring_reachable s'"
  by (induction ls arbitrary: s) (auto split: if_splits intro: ring_next ring_stepI)

text \<open>Nobody is in the room when the ring goes out.\<close>

definition demo_ringing :: ring where
  "demo_ringing = the (ring_run
     [Ring_user (Some ''u''), Ring_start demo_call, Ring_voice (Some ''r'') 0, Ring_joined demo_call True] (commit new_ring))"

lemma demo_ringing_reachable: "ring_reachable demo_ringing"
proof -
  have "ring_run [Ring_user (Some ''u''), Ring_start demo_call, Ring_voice (Some ''r'') 0, Ring_joined demo_call True]
      (commit new_ring) = Some demo_ringing"
    by code_simp
  then show ?thesis by (rule ring_run_reachable [OF ring_init])
qed


text \<open>
  An answer stops the clock: when somebody arrives in the room of a call that is going
  out, the ring is over, its clock is stopped, nothing is left and nobody is told otherwise.
\<close>

theorem answer_stops_ringing:
  assumes "ring_reachable s" and "rg_outgoing s = Some call" and "rg_active s = Some (oc_roomId call)"
    and "rg_people s = 0" and "n > 0"
  shows "\<exists>s'. ring_step s (Ring_voice (rg_active s) n) s' \<and> rg_outgoing s' = None \<and> rg_out_timer s' = None
    \<and> rg_actions s' = rg_actions s \<and> rg_incoming s' = rg_incoming s"
proof -
  have ok: "ring_ok s" using assms(1) by (rule ring_reachable_ok)
  let ?s = "commit (s\<lparr>rg_active := rg_active s, rg_people := n\<rparr>)"
  have "ring_step s (Ring_voice (rg_active s) n) ?s" by (auto simp: ring_step_simps)
  then show ?thesis
    using ok assms(4,5)
    by (intro exI [of _ ?s], cases "rg_user s")
      (simp_all add: commit_def Let_def sync_clocks_def ring_clock_def ring_ok_def answered_def signedIn_def)
qed

theorem answer_stops_ringing_witness:
  "\<exists>s'. ring_step demo_ringing (Ring_voice (Some ''r'') 1) s' \<and> rg_out_timer s' = None"
proof -
  have f: "rg_outgoing demo_ringing = Some demo_call" "rg_active demo_ringing = Some (oc_roomId demo_call)"
    "rg_people demo_ringing = 0" "rg_active demo_ringing = Some ''r''" by code_simp+
  from answer_stops_ringing [OF demo_ringing_reachable f(1-3), of 1] f(4) show ?thesis by auto
qed

text \<open>
  Somebody who was there before the ring is no answer: the effect that looks for one runs
  when the first person arrives, and the call goes out only after that. The clock of a call
  that is being held runs, and ends it.
\<close>

theorem answered_call_is_hung_up:
  "\<exists>s s'. ring_reachable s \<and> rg_people s = 1 \<and> rg_active s = Some ''r'' \<and> ring_step s Ring_out_timeout s'
     \<and> rg_actions s' = rg_actions s @ [Voice_leave, End_call ''r'' Call_cancelled]"
proof -
  let ?ls = "[Ring_user (Some ''u''), Ring_start demo_call, Ring_voice (Some ''r'') 1, Ring_joined demo_call True,
      Ring_rang ''r'' True]"
  let ?s = "the (ring_run ?ls (commit new_ring))"
  have "ring_run ?ls (commit new_ring) = Some ?s" by code_simp
  then have r: "ring_reachable ?s" by (rule ring_run_reachable [OF ring_init])
  moreover have "rg_people ?s = 1" "rg_active ?s = Some ''r''" "rg_out_timer ?s \<noteq> None"
    "rg_actions (commit (cancel_call ?s)) = rg_actions ?s @ [Voice_leave, End_call ''r'' Call_cancelled]"
    by code_simp+
  moreover from this(3) have "ring_step ?s Ring_out_timeout (commit (cancel_call ?s))"
    by (auto simp: ring_step_simps)
  ultimately show ?thesis by blast
qed

end
