(* ===== verification/Realtime.thy ===== *)
theory Realtime
  imports WebChatSocket Transcript Notifications WebHooks
begin

text \<open>
  The web's real-time layer, \<open>apps/web/src/features/realtime\<close>: how a frame becomes cached state
  (\<open>useQueryCacheSync.ts\<close>), what a room's screen tells the socket
  (\<open>useRoomSubscription.ts\<close>), and who opens the socket (\<open>SocketProvider.tsx\<close>).
\<close>

section \<open>Frames into the cache\<close>

fun on_presence :: "(uuid list \<Rightarrow> uuid list) \<Rightarrow> query_data option \<Rightarrow> query_data option" where
  "on_presence f (Some (Presence_data ids)) = Some (Presence_data (f ids))"
| "on_presence f other = other"

definition applyPresence :: "'c setter \<Rightarrow> 'c \<Rightarrow> uuid \<Rightarrow> bool \<Rightarrow> 'c" where
  "applyPresence setQueryData queryClient userId online =
     setQueryData queryClient friendKeys_presence
       (on_presence (\<lambda>current.
          let without = filter (\<lambda>i. i \<noteq> userId) current
          in if online then without @ [userId] else without))"

text \<open>
  The cache after a frame and the keys it invalidates. What a listener throws is caught by
  the socket, so a frame that cannot be applied leaves the cache as it was.
\<close>

fun sync_frame ::
  "('c \<Rightarrow> query_key \<Rightarrow> query_data option) \<Rightarrow> 'c setter \<Rightarrow> server_event \<Rightarrow> 'c \<Rightarrow> 'c \<times> query_key list" where
  "sync_frame getQueryData setQueryData (Message_created r m reactions author) qc =
     (applyMessageCreated setQueryData qc r m reactions author, [])"
| "sync_frame getQueryData setQueryData (Message_updated r m reactions author) qc =
     (applyMessageUpdated setQueryData qc r m reactions author, [])"
| "sync_frame getQueryData setQueryData (Message_deleted r i) qc =
     (snd (applyMessageDeleted getQueryData setQueryData qc r i), [])"
| "sync_frame getQueryData setQueryData (Reactions_updated r i reactions) qc =
     (case applyReactionsUpdated getQueryData setQueryData qc r i reactions of
        Inl TypeError \<Rightarrow> (qc, []) | Inr qc \<Rightarrow> (qc, []))"
| "sync_frame getQueryData setQueryData (Presence_changed u online) qc = (applyPresence setQueryData qc u online, [])"
| "sync_frame getQueryData setQueryData (Notification_created u n is_new) qc =
     (applyNotificationCreated getQueryData setQueryData qc n is_new,
      if nt_kind n = Friend_request \<or> nt_kind n = Friend_accepted then socialGraphKeys else [])"
| "sync_frame getQueryData setQueryData (Direct_room_opened u r) qc = (qc, [roomKeys_mine])"
| "sync_frame getQueryData setQueryData _ qc = (qc, [])"

definition sync_frames ::
  "('c \<Rightarrow> query_key \<Rightarrow> query_data option) \<Rightarrow> 'c setter \<Rightarrow> server_event list \<Rightarrow> 'c \<Rightarrow> 'c" where
  "sync_frames getQueryData setQueryData evs qc =
     fold (\<lambda>ev qc. fst (sync_frame getQueryData setQueryData ev qc)) evs qc"

section \<open>What a screen tells the socket\<close>

definition given_room :: "uuid option \<Rightarrow> uuid option" where
  "given_room r = (case r of Some i \<Rightarrow> if i = [] then None else Some i | None \<Rightarrow> None)"

definition attention_report :: "uuid \<Rightarrow> bool \<Rightarrow> chat_socket \<Rightarrow> chat_socket" where
  "attention_report roomId visible s = web_focus (if visible then Some roomId else None) s"

text \<open>The effects of the two hooks, in their order, and their clean-ups.\<close>

definition room_mount :: "uuid option \<Rightarrow> bool \<Rightarrow> chat_socket \<Rightarrow> chat_socket" where
  "room_mount roomId visible s =
     (case given_room roomId of None \<Rightarrow> s | Some r \<Rightarrow> attention_report r visible (web_subscribe r s))"

definition room_unmount :: "uuid option \<Rightarrow> chat_socket \<Rightarrow> chat_socket" where
  "room_unmount roomId s =
     (case given_room roomId of None \<Rightarrow> s | Some r \<Rightarrow> web_blur r (web_unsubscribe r s))"

text \<open>Another room on the same screen: every clean-up runs before any effect.\<close>

definition room_switch :: "uuid option \<Rightarrow> uuid option \<Rightarrow> bool \<Rightarrow> chat_socket \<Rightarrow> chat_socket" where
  "room_switch old_room new_room visible s = room_mount new_room visible (room_unmount old_room s)"

definition room_typing :: "uuid option \<Rightarrow> bool \<Rightarrow> chat_socket \<Rightarrow> chat_socket" where
  "room_typing roomId isTyping s =
     (case given_room roomId of None \<Rightarrow> s | Some r \<Rightarrow> web_sendTyping r isTyping s)"

definition room_broadcast :: "uuid option \<Rightarrow> jstr \<Rightarrow> bool option \<Rightarrow> chat_socket \<Rightarrow> chat_socket" where
  "room_broadcast roomId content isAnonymous s =
     (case given_room roomId of None \<Rightarrow> s | Some r \<Rightarrow> web_sendMessage r content isAnonymous s)"

section \<open>Who opens the socket\<close>

text \<open>
  The provider: whether somebody is signed in, what its effects last saw of that, the token
  requests still out (the last one only is not cancelled), and whether the cache was cleared.
\<close>

record socket_provider =
  sp_signedIn :: bool
  sp_wasSignedIn :: bool
  sp_asking :: nat
  sp_live_request :: bool
  sp_cleared :: nat
  sp_socket :: chat_socket

definition provider_signed :: "bool \<Rightarrow> socket_provider \<Rightarrow> socket_provider" where
  "provider_signed now_in p =
     (if sp_signedIn p = now_in then p
      else let p = p\<lparr>sp_signedIn := now_in, sp_live_request := False\<rparr>;
               p = (if now_in then p\<lparr>sp_asking := sp_asking p + 1, sp_live_request := True\<rparr>
                    else p\<lparr>sp_socket := web_disconnect (sp_socket p)\<rparr>);
               p = (if sp_wasSignedIn p \<and> \<not> now_in then p\<lparr>sp_cleared := sp_cleared p + 1\<rparr> else p)
           in p\<lparr>sp_wasSignedIn := now_in\<rparr>)"

text \<open>The answer to a request for a token; one that is not the last was cancelled.\<close>

definition provider_token :: "env \<Rightarrow> bool \<Rightarrow> string option \<Rightarrow> socket_provider \<Rightarrow> socket_provider" where
  "provider_token e is_last t p =
     (let p = p\<lparr>sp_asking := sp_asking p - 1\<rparr>
      in case t of
           None \<Rightarrow> p
         | Some t \<Rightarrow>
             if is_last \<and> sp_live_request p
             then p\<lparr>sp_live_request := False, sp_socket := web_setToken e t (sp_socket p)\<rparr> else p)"

section \<open>Frames keep the cache typed\<close>

datatype data_type = Transcript_type | Feed_type | Page_type | Unread_type | Presence_type

fun type_of :: "query_data \<Rightarrow> data_type" where
  "type_of (Transcript_data _) = Transcript_type"
| "type_of (Feed_data _) = Feed_type"
| "type_of (Page_data _) = Page_type"
| "type_of (Unread_data _) = Unread_type"
| "type_of (Presence_data _) = Presence_type"

text \<open>A writer that keeps the type of what it is given, and gives nothing for nothing.\<close>

definition keeps_type :: "(query_data option \<Rightarrow> query_data option) \<Rightarrow> bool" where
  "keeps_type u \<longleftrightarrow> (\<forall>x. map_option type_of (u x) = map_option type_of x)"

lemma on_keep_type [simp]: "keeps_type (on_transcript f)" "keeps_type (on_feed g)" "keeps_type (on_presence h)"
proof -
  have "map_option type_of (on_transcript f x) = map_option type_of x
      \<and> map_option type_of (on_feed g x) = map_option type_of x
      \<and> map_option type_of (on_presence h x) = map_option type_of x" for x
  proof (cases x)
    case (Some d)
    then show ?thesis by (cases d) simp_all
  qed simp
  then show "keeps_type (on_transcript f)" "keeps_type (on_feed g)" "keeps_type (on_presence h)"
    by (simp_all add: keeps_type_def)
qed

locale live_cache = chat_cache getQueryData setQueryData
  for getQueryData :: "'c \<Rightarrow> query_key \<Rightarrow> query_data option"
    and setQueryData :: "'c \<Rightarrow> query_key \<Rightarrow> (query_data option \<Rightarrow> query_data option) \<Rightarrow> 'c"
begin

lemma type_set:
  assumes "keeps_type u"
  shows "map_option type_of (getQueryData (setQueryData qc key u) key') = map_option type_of (getQueryData qc key')"
  using assms by (auto simp: get_set keeps_type_def split: option.split dest: spec [of _ "getQueryData qc key"])

lemma type_frame:
  "map_option type_of (getQueryData (fst (sync_frame getQueryData setQueryData ev qc)) key)
     = map_option type_of (getQueryData qc key)"
  by (cases ev)
    (auto simp: applyMessageCreated_def applyMessageUpdated_def editTranscript_def applyMessageDeleted_def
      applyReactionsUpdated_def guarded_def applyPresence_def applyNotificationCreated_def editFeed_def
      Let_def type_set split: sum.split cache_error.split if_splits)

lemma get_on_presence:
  "getQueryData (setQueryData qc friendKeys_presence (on_presence f)) friendKeys_presence
     = on_presence f (getQueryData qc friendKeys_presence)"
proof (cases "getQueryData qc friendKeys_presence")
  case (Some d)
  then show ?thesis by (cases d) (simp_all add: get_set)
qed (simp add: get_set)

lemma get_elsewhere: "key' \<noteq> key \<Longrightarrow> getQueryData (setQueryData qc key u) key' = getQueryData qc key'"
  by (simp add: get_set)

end

interpretation live_store: live_cache store_get store_set
  by unfold_locales


definition presence_store :: "query_data store" where
  "presence_store = [(friendKeys_presence, Presence_data [''a'', ''b''])]"


section \<open>Presence\<close>

text \<open>The last word of a list of frames on whether somebody is online.\<close>

fun last_presence :: "server_event list \<Rightarrow> uuid \<Rightarrow> bool option" where
  "last_presence [] u = None"
| "last_presence (ev # evs) u =
     (case last_presence evs u of
        Some b \<Rightarrow> Some b
      | None \<Rightarrow> (case ev of Presence_changed v b \<Rightarrow> if v = u then Some b else None | _ \<Rightarrow> None))"

definition presence_step :: "server_event \<Rightarrow> uuid list \<Rightarrow> uuid list" where
  "presence_step ev xs =
     (case ev of
        Presence_changed u online \<Rightarrow>
          let without = filter (\<lambda>i. i \<noteq> u) xs in if online then without @ [u] else without
      | _ \<Rightarrow> xs)"

lemma presence_key_alone [simp]:
  "friendKeys_presence \<noteq> chatKeys_messages r" "friendKeys_presence \<noteq> notificationKeys_feed"
  by (simp_all add: friendKeys_presence_def chatKeys_messages_def chatKeys_room_def chatKeys_all_def
      notificationKeys_feed_def notificationKeys_all_def)

lemma presence_frame:
  assumes "live_cache getQueryData setQueryData" and "getQueryData qc friendKeys_presence = Some (Presence_data xs)"
  shows "getQueryData (fst (sync_frame getQueryData setQueryData ev qc)) friendKeys_presence
    = Some (Presence_data (presence_step ev xs))"
proof -
  note away = live_cache.get_elsewhere [OF assms(1)] and here = live_cache.get_on_presence [OF assms(1)]
  show ?thesis
    using assms(2)
    by (cases ev)
      (auto simp: applyMessageCreated_def applyMessageUpdated_def editTranscript_def applyMessageDeleted_def
        applyReactionsUpdated_def guarded_def applyPresence_def applyNotificationCreated_def editFeed_def
        Let_def away here presence_step_def split: sum.split cache_error.split if_splits)
qed

lemma presence_steps_set:
  "set (fold presence_step evs xs) = {u. case last_presence evs u of Some b \<Rightarrow> b | None \<Rightarrow> u \<in> set xs}"
proof (induction evs arbitrary: xs)
  case (Cons ev evs)
  have "set (presence_step ev xs) = {u. case (case ev of Presence_changed v b \<Rightarrow> if v = u then Some b else None | _ \<Rightarrow> None)
      of Some b \<Rightarrow> b | None \<Rightarrow> u \<in> set xs}"
    by (cases ev) (auto simp: presence_step_def Let_def)
  then show ?case
    using Cons.IH [of "presence_step ev xs"] by (auto split: option.splits)
qed simp

lemma presence_steps_distinct: "distinct xs \<Longrightarrow> distinct (fold presence_step evs xs)"
proof (induction evs arbitrary: xs)
  case (Cons ev evs)
  have "distinct (presence_step ev xs)" using Cons.prems by (cases ev) (auto simp: presence_step_def Let_def)
  then show ?case using Cons.IH by simp
qed simp

text \<open>
  C36. Presence is the last word. However many frames of every kind arrive after the list of
  who is online was fetched, the list holds exactly those the last frame about them called
  online and, of those no frame was about, those fetched; nobody is in it twice.
\<close>

theorem presence_is_last_word:
  assumes "live_cache getQueryData setQueryData"
    and "getQueryData qc friendKeys_presence = Some (Presence_data xs)" and "distinct xs"
  shows "\<exists>ys. getQueryData (sync_frames getQueryData setQueryData evs qc) friendKeys_presence = Some (Presence_data ys)
    \<and> distinct ys
    \<and> set ys = {u. case last_presence evs u of Some b \<Rightarrow> b | None \<Rightarrow> u \<in> set xs}"
proof -
  have "getQueryData qc friendKeys_presence = Some (Presence_data xs) \<Longrightarrow>
      getQueryData (sync_frames getQueryData setQueryData evs qc) friendKeys_presence
        = Some (Presence_data (fold presence_step evs xs))" for qc xs
  proof (induction evs arbitrary: qc xs)
    case (Cons ev evs)
    show ?case
      using Cons.IH [OF presence_frame [OF assms(1) Cons.prems]] by (simp add: sync_frames_def)
  qed (simp add: sync_frames_def)
  from this [OF assms(2)] show ?thesis
    using presence_steps_set [of evs xs] presence_steps_distinct [OF assms(3), of evs] by blast
qed

theorem presence_is_last_word_witness:
  "\<exists>ys. store_get (sync_frames store_get store_set
       [Presence_changed ''c'' True, Presence_changed ''a'' False, Pong] presence_store) friendKeys_presence
     = Some (Presence_data ys) \<and> set ys = {''b'', ''c''}"
proof -
  have h: "store_get presence_store friendKeys_presence = Some (Presence_data [''a'', ''b''])"
    by (simp add: presence_store_def store_get_def)
  have d: "distinct [''a'', ''b'']" by simp
  obtain ys where "store_get (sync_frames store_get store_set
       [Presence_changed ''c'' True, Presence_changed ''a'' False, Pong] presence_store) friendKeys_presence
     = Some (Presence_data ys)"
    and ys: "set ys = {u. case last_presence [Presence_changed ''c'' True, Presence_changed ''a'' False, Pong] u of
      Some b \<Rightarrow> b | None \<Rightarrow> u \<in> set [''a'', ''b'']}"
    using presence_is_last_word [OF live_store.live_cache_axioms h d] by blast
  moreover have "set ys = {''b'', ''c''}" unfolding ys by (auto split: if_splits)
  ultimately show ?thesis by blast
qed

section \<open>The room on the screen is the room being read\<close>

lemma web_send_open: "ready s = Some OPEN \<Longrightarrow> web_send f s = transmit [f] s"
  by (simp add: web_send_live send_open)

lemma sent_web_send:
  "ready s = Some OPEN \<Longrightarrow> current_ok s \<Longrightarrow> sent (web_send f s) = sent s @ [f]"
  using sent_transmit [of s "[f]"] ready_Some [of s OPEN] by (simp add: web_send_open)

lemma web_send_fields [simp]:
  "ready s = Some OPEN \<Longrightarrow> ready (web_send f s) = Some OPEN"
  "focusedRoom (web_send f s) = focusedRoom s" "subscribedRooms (web_send f s) = subscribedRooms s"
  "ready s = Some OPEN \<Longrightarrow> current_ok (web_send f s) = current_ok s"
  by (simp_all add: web_send_open) (simp_all add: web_send_def Let_def)

lemma current_ok_books [simp]:
  "current_ok (s\<lparr>subscribedRooms := a\<rparr>) = current_ok s" "current_ok (s\<lparr>focusedRoom := b\<rparr>) = current_ok s"
  by (simp_all add: current_ok_def)

text \<open>
  Moving from one room to another on a screen moves the server's attention with it: on
  an open socket, after the screen that was reading one room shows another in a visible tab,
  the server is no longer subscribed to the first and takes the second, if its user may see
  it, to be read; when the tab is then hidden it takes nothing to be read.
\<close>

theorem reading_follows_screen:
  assumes "\<forall>u. url_ok e u" and "settled_run e s" and "ready s = Some OPEN"
    and "focusedRoom s = Some a" and "a \<noteq> b" and "a \<noteq> []" and "b \<noteq> []" and "visible b"
  shows "(let s' = room_switch (Some a) (Some b) True s; server = replay visible (sent s') (new_session user)
     in focused_room server = Some b \<and> b \<in> set (subscribed_rooms server) \<and> a \<notin> set (subscribed_rooms server)
        \<and> focusedRoom s' = Some b
        \<and> focused_room (replay visible (sent (attention_report b False s')) (new_session user)) = None)"
proof -
  have inv: "chat_inv s" using settled_run_inv [OF assms(1,2)] by blast
  then have c: "current_ok s" by (simp add: chat_inv_def socket_ok_current)
  let ?s' = "room_switch (Some a) (Some b) True s"
  let ?u = "web_send (Unsubscribe_frame a) (s\<lparr>subscribedRooms := jset_delete a (subscribedRooms s), focusedRoom := None\<rparr>)"
  let ?m = "web_send (Subscribe_frame b) (?u\<lparr>subscribedRooms := jset_add b (subscribedRooms ?u)\<rparr>)"
  have u: "ready ?u = Some OPEN" "current_ok ?u" "focusedRoom ?u = None" "sent ?u = sent s @ [Unsubscribe_frame a]"
    using assms(3) c by (simp_all add: sent_web_send)
  have m: "ready ?m = Some OPEN" "current_ok ?m" "focusedRoom ?m = None"
    "sent ?m = sent s @ [Unsubscribe_frame a, Subscribe_frame b]"
    using u by (simp_all add: sent_web_send)
  have s': "?s' = web_send (Focus_frame (Some b)) (?m\<lparr>focusedRoom := Some b\<rparr>)"
    using assms(4-7) u(3) m(3)
    by (simp add: room_switch_def room_unmount_def room_mount_def given_room_def web_unsubscribe_def web_blur_def
        web_subscribe_def attention_report_def web_focus_def Let_def)
  have f: "ready ?s' = Some OPEN" "current_ok ?s'" "focusedRoom ?s' = Some b"
    "sent ?s' = sent s @ [Unsubscribe_frame a, Subscribe_frame b, Focus_frame (Some b)]"
    unfolding s' using m by (simp_all add: sent_web_send)
  have h: "sent (attention_report b False ?s') = sent ?s' @ [Focus_frame None]"
    using f by (simp add: attention_report_def web_focus_def sent_web_send)
  let ?ss = "replay visible (sent s) (new_session user)"
  have id: "current_user_id ?ss \<noteq> None" by simp
  let ?ss1 = "attend None (session_unsubscribe a ?ss)"
  let ?ss2 = "session_subscribe b ?ss1"
  let ?ss3 = "attend (Some b) ?ss2"
  have r: "replay visible (sent ?s') (new_session user) = ?ss3"
    using id assms(8) by (simp add: f(4) replay_append replay_Cons session_unsubscribe_def)
  have subs: "set (subscribed_rooms ?ss3) = insert b (set (subscribed_rooms ?ss) - {a})"
    by (simp add: session_unsubscribe_def)
  have "focused_room ?ss3 = Some b"
    using id by (simp add: attend_def option_filter_def is_subscribed_def session_unsubscribe_def split: option.split)
  moreover have "focused_room (attend None ?ss3) = None"
    using id by (simp add: attend_def option_filter_def session_unsubscribe_def split: option.split)
  ultimately show ?thesis
    using subs assms(5) f(3) by (simp add: Let_def r h replay_append replay_Cons)
qed

theorem reading_follows_screen_witness:
  "focused_room (replay (\<lambda>_. True) (sent (room_switch (Some ''b'') (Some ''c'') True web_demo_open)) (new_session ''u''))
     = Some ''c''"
proof -
  have f: "ready web_demo_open = Some OPEN" "focusedRoom web_demo_open = Some ''b''" by code_simp+
  from reading_follows_screen [OF web_demo_urls web_demo_open_run f, of "''c''" "\<lambda>_. True" "''u''"]
  show ?thesis by (simp add: Let_def)
qed

end
