(* ===== verification/MessageHistory.thy ===== *)
theory MessageHistory
  imports Transcript
begin

text \<open>
  A room's messages on the phone, \<open>apps/mobile/src/features/chat/useMessageHistory.ts\<close>: the
  latest page first, older ones as the reader goes back. The hook's state and refs are one
  record, with the requests that are under way.
\<close>

section \<open>The hook\<close>

record cursor =
  cu_before :: timestamp
  cu_beforeId :: "uuid option"

record history =
  mh_room :: uuid
  mh_items :: "message list"
  mh_loading :: bool
  mh_loadingOlder :: bool
  mh_error :: "string option"
  mh_cursor :: "cursor option"
  mh_fetchingOlder :: bool
  mh_exhausted :: bool
  mh_asking :: bool
  mh_older :: "(uuid \<times> cursor) list"

definition next_cursor :: "message_page \<Rightarrow> cursor option" where
  "next_cursor page =
     (case mp_next_before page of
        None \<Rightarrow> None
      | Some b \<Rightarrow> if b = [] then None else Some \<lparr>cu_before = b, cu_beforeId = mp_next_before_id page\<rparr>)"

text \<open>
  The effect of the room: on mount, and when the room changes. The request for the last
  room's first page is cancelled; what is held stays until the new page is there.
\<close>

definition open_room :: "uuid \<Rightarrow> history \<Rightarrow> history" where
  "open_room r h =
     h\<lparr>mh_room := r, mh_loading := True, mh_error := None, mh_exhausted := False, mh_asking := True\<rparr>"

definition new_history :: "uuid \<Rightarrow> history" where
  "new_history r =
     open_room r \<lparr>mh_room = r, mh_items = [], mh_loading = True, mh_loadingOlder = False, mh_error = None,
       mh_cursor = None, mh_fetchingOlder = False, mh_exhausted = False, mh_asking = False, mh_older = []\<rparr>"

definition first_page :: "message_page \<Rightarrow> history \<Rightarrow> history" where
  "first_page page h =
     h\<lparr>mh_items := rev (mp_messages page), mh_cursor := next_cursor page,
       mh_exhausted := (next_cursor page = None), mh_loading := False, mh_asking := False\<rparr>"

text \<open>The message of an \<open>ApiError\<close> is shown.\<close>

definition first_failed :: "string option \<Rightarrow> history \<Rightarrow> history" where
  "first_failed api_message h =
     h\<lparr>mh_error := Some (case api_message of Some m \<Rightarrow> m | None \<Rightarrow> ''Could not load messages''),
       mh_loading := False, mh_asking := False\<rparr>"

definition loadOlder :: "history \<Rightarrow> history" where
  "loadOlder h =
     (if mh_fetchingOlder h \<or> mh_exhausted h then h
      else case mh_cursor h of
             None \<Rightarrow> h
           | Some current \<Rightarrow>
               h\<lparr>mh_fetchingOlder := True, mh_loadingOlder := True, mh_older := mh_older h @ [(mh_room h, current)]\<rparr>)"

text \<open>The phone's merge is the web's, line for line.\<close>

definition phone_mergeMessages ::
  "(string \<Rightarrow> string \<Rightarrow> int) \<Rightarrow> message list \<Rightarrow> message list \<Rightarrow> message list" where
  "phone_mergeMessages localeCompare existing incoming = mergeMessages localeCompare existing incoming"

definition older_page ::
  "(string \<Rightarrow> string \<Rightarrow> int) \<Rightarrow> uuid \<times> cursor \<Rightarrow> message_page \<Rightarrow> history \<Rightarrow> history" where
  "older_page localeCompare request page h =
     h\<lparr>mh_items := phone_mergeMessages localeCompare (mh_items h) (rev (mp_messages page)),
       mh_cursor := next_cursor page, mh_exhausted := (next_cursor page = None),
       mh_fetchingOlder := False, mh_loadingOlder := False, mh_older := remove1 request (mh_older h)\<rparr>"

definition older_failed :: "uuid \<times> cursor \<Rightarrow> history \<Rightarrow> history" where
  "older_failed request h =
     h\<lparr>mh_fetchingOlder := False, mh_loadingOlder := False, mh_older := remove1 request (mh_older h)\<rparr>"

definition hasMore :: "history \<Rightarrow> bool" where
  "hasMore h \<longleftrightarrow> mh_cursor h \<noteq> None"

section \<open>An honest server\<close>

text \<open>
  The history of a room, oldest first, in the order of the merge. A cursor names the message
  at a position; a page for a position is a stretch of messages that ends just before it,
  newest first, with the cursor of its own first message, or with none if it goes back to the
  beginning.
\<close>

definition cursor_at :: "message list \<Rightarrow> nat \<Rightarrow> cursor" where
  "cursor_at L k = \<lparr>cu_before = ms_created_at (L ! k), cu_beforeId = Some (ms_id (L ! k))\<rparr>"

definition is_page :: "message list \<Rightarrow> nat \<Rightarrow> message_page \<Rightarrow> bool" where
  "is_page L k page \<longleftrightarrow> (\<exists>i \<le> k. mp_messages page = rev (drop i (take k L))
     \<and> (case next_cursor page of None \<Rightarrow> i = 0 | Some c \<Rightarrow> i < length L \<and> c = cursor_at L i))"

definition well_kept :: "(string \<Rightarrow> string \<Rightarrow> int) \<Rightarrow> message list \<Rightarrow> bool" where
  "well_kept lc L \<longleftrightarrow> sorted_wrt (\<lambda>a b. message_cmp lc a b < 0) L \<and> distinct (map ms_id L)
     \<and> (\<forall>m \<in> set L. ms_reactions m \<noteq> None)"

text \<open>A stay in one room: pages are asked for and come or fail, in any order.\<close>

inductive stay ::
  "(string \<Rightarrow> string \<Rightarrow> int) \<Rightarrow> uuid \<Rightarrow> message list \<Rightarrow> history \<Rightarrow> bool" for lc r L where
  stay_open: "stay lc r L (new_history r)"
| stay_first: "stay lc r L h \<Longrightarrow> mh_asking h \<Longrightarrow> is_page L (length L) page \<Longrightarrow> stay lc r L (first_page page h)"
| stay_first_failed: "stay lc r L h \<Longrightarrow> mh_asking h \<Longrightarrow> stay lc r L (first_failed m h)"
| stay_load: "stay lc r L h \<Longrightarrow> stay lc r L (loadOlder h)"
| stay_older: "stay lc r L h \<Longrightarrow> (r', cursor_at L k) \<in> set (mh_older h) \<Longrightarrow> k < length L \<Longrightarrow> is_page L k page \<Longrightarrow>
     stay lc r L (older_page lc (r', cursor_at L k) page h)"
| stay_older_failed: "stay lc r L h \<Longrightarrow> request \<in> set (mh_older h) \<Longrightarrow> stay lc r L (older_failed request h)"

section \<open>No gaps, no repeats\<close>

lemma keep_reactions_same: "ms_reactions m \<noteq> None \<Longrightarrow> keep_reactions m p = m"
  by (cases "ms_reactions m") (simp_all add: keep_reactions_def)

text \<open>Messages nobody held, merged in: nothing is lost and nothing is changed.\<close>

lemma merge_map_disjoint:
  assumes "distinct (map ms_id (b @ a))" and "\<forall>m \<in> set b. ms_reactions m \<noteq> None"
  shows "mset (map snd (merge_map a b)) = mset (b @ a)"
proof -
  have k: "keyed (merge_map a b)" by (rule keyed_merge)
  have held: "map_of (index_messages a) i = Some m \<longleftrightarrow> m \<in> set a \<and> ms_id m = i" for i m
    using assms(1) by (intro map_of_index_distinct) simp
  have one: "filter (\<lambda>x. ms_id x = ms_id m) b = [m]" if "m \<in> set b" for m
  proof -
    have "distinct (map ms_id b)" using assms(1) by simp
    then show ?thesis using that by (induction b) (auto simp: filter_empty_conv image_iff)
  qed
  have same: "map_of (merge_map a b) i = Some m \<longleftrightarrow> m \<in> set (b @ a) \<and> ms_id m = i" for i m
  proof (cases "i \<in> ms_id ` set b")
    case True
    then obtain x where x: "x \<in> set b" "i = ms_id x" by auto
    have "map_of (merge_map a b) i = Some x"
      using one [OF x(1)] assms(2) x by (simp add: map_of_merge keep_reactions_same)
    moreover have "inj_on ms_id (set (b @ a))" using assms(1) by (simp only: distinct_map)
    then have "m \<in> set (b @ a) \<Longrightarrow> ms_id m = ms_id x \<Longrightarrow> m = x"
      by (rule inj_onD) (simp_all add: x(1))
    ultimately show ?thesis using x by (metis UnI1 option.inject set_append)
  next
    case False
    then have "filter (\<lambda>m. ms_id m = i) b = []" by (auto simp: filter_empty_conv)
    then show ?thesis using False by (auto simp: map_of_merge held)
  qed
  have vals: "set (map snd (merge_map a b)) = set (b @ a)"
  proof (intro set_eqI iffI)
    fix m assume "m \<in> set (map snd (merge_map a b))"
    then show "m \<in> set (b @ a)" using keyed_value [OF k] same by blast
  next
    fix m assume "m \<in> set (b @ a)"
    then have "(ms_id m, m) \<in> set (merge_map a b)" using same by (blast intro: map_of_SomeD)
    then show "m \<in> set (map snd (merge_map a b))" by (metis image_eqI list.set_map snd_conv)
  qed
  have "distinct (map ms_id (map snd (merge_map a b)))" unfolding keyed_ids [OF k] using k by (simp add: keyed_def)
  then have "distinct (map snd (merge_map a b))" by (simp only: distinct_map)
  moreover have "distinct (b @ a)" using assms(1) by (simp only: distinct_map)
  ultimately show ?thesis using vals by (simp only: set_eq_iff_mset_eq_distinct)
qed

text \<open>The page before what is held, merged in, is what is held and the page before it.\<close>

lemma merge_older:
  assumes lc: "comparator lc" and L: "well_kept lc L" and "i \<le> k"
  shows "mergeMessages lc (drop k L) (drop i (take k L)) = drop i L"
proof -
  have split: "drop i L = drop i (take k L) @ drop k L"
    using assms(3) by (metis append_take_drop_id drop_append drop_drop le_add_diff_inverse2 length_take min_def
        drop_take take_drop take_add)
  have d: "distinct (map ms_id (drop i (take k L) @ drop k L))"
    using L unfolding well_kept_def split [symmetric] drop_map [symmetric] by (simp add: distinct_drop)
  have ms: "mset (map snd (merge_map (drop k L) (drop i (take k L)))) = mset (drop i L)"
    unfolding split
    by (rule merge_map_disjoint [OF d]) (use L in \<open>auto simp: well_kept_def dest: in_set_dropD in_set_takeD\<close>)
  have strict: "sorted_wrt (\<lambda>a b. message_cmp lc a b < 0) (drop i L)"
    using L by (simp add: well_kept_def sorted_wrt_drop)
  then have sorted: "sorted_wrt (\<lambda>a b. message_cmp lc a b \<le> 0) (drop i L)"
    by (rule sorted_wrt_mono_rel [rotated]) simp
  have apart: "a = b" if "a \<in> set (drop i L)" "b \<in> set (drop i L)" "message_cmp lc a b = 0" for a b
  proof -
    have swap: "message_cmp lc b a = 0"
      using that(3) comparator.eq_swap [OF message_cmp_comparator [OF lc]] by blast
    from that strict show ?thesis
    proof (induction "drop i L" arbitrary: i)
      case (Cons x xs)
      have xs: "xs = drop (Suc i) L" using Cons.hyps(2) by (metis drop_Suc list.sel(3) tl_drop)
      show ?case
        using Cons.hyps(1) [OF xs] Cons.prems swap unfolding Cons.hyps(2) [symmetric] xs [symmetric] by auto
    qed simp
  qed
  let ?s = "js_sort (message_cmp lc) (map snd (merge_map (drop k L) (drop i (take k L))))"
  have m: "mset ?s = mset (drop i L)" using ms by simp
  then have sets: "set ?s = set (drop i L)" by (metis set_mset_mset)
  have "?s = drop i L"
    using m comparator.sorted_sort [OF message_cmp_comparator [OF lc]] sorted apart unfolding sets [symmetric]
    by (rule comparator.sorted_unique [OF message_cmp_comparator [OF lc]])
  then show ?thesis by (simp only: mergeMessages_eq)
qed

definition stay_ok :: "message list \<Rightarrow> history \<Rightarrow> bool" where
  "stay_ok L h \<longleftrightarrow>
     ((mh_items h = [] \<and> mh_cursor h = None \<and> \<not> mh_exhausted h)
      \<or> (\<exists>i. mh_items h = drop i L \<and> \<not> mh_asking h \<and> mh_exhausted h = (mh_cursor h = None)
           \<and> (case mh_cursor h of None \<Rightarrow> i = 0 | Some c \<Rightarrow> i < length L \<and> c = cursor_at L i)))
     \<and> (if mh_fetchingOlder h
        then \<exists>c. mh_older h = [(mh_room h, c)] \<and> mh_cursor h = Some c else mh_older h = [])"

lemma cursor_at_inj:
  assumes "distinct (map ms_id L)" and "i < length L" and "k < length L" and "cursor_at L i = cursor_at L k"
  shows "i = k"
  using assms nth_eq_iff_index_eq [of "map ms_id L" i k] by (simp add: cursor_at_def)

lemma stay_ok_stay:
  assumes lc: "comparator lc" and L: "well_kept lc L" and "stay lc r L h"
  shows "stay_ok L h"
  using assms(3)
proof (induction rule: stay.induct)
  case (stay_first h page)
  then obtain i where i: "i \<le> length L" "mp_messages page = rev (drop i (take (length L) L))"
    "case next_cursor page of None \<Rightarrow> i = 0 | Some c \<Rightarrow> i < length L \<and> c = cursor_at L i"
    by (auto simp: is_page_def)
  have "mh_items h = [] \<and> mh_cursor h = None" using stay_first by (auto simp: stay_ok_def)
  then have "mh_older h = []" "\<not> mh_fetchingOlder h" using stay_first by (auto simp: stay_ok_def split: if_splits)
  with i show ?case by (auto simp: stay_ok_def first_page_def)
next
  case (stay_older h r' k page)
  then have h: "mh_older h = [(r', cursor_at L k)]" "mh_cursor h = Some (cursor_at L k)"
    by (auto simp: stay_ok_def split: if_splits)
  then obtain i where i: "mh_items h = drop i L" "\<not> mh_asking h" "i < length L" "cursor_at L k = cursor_at L i"
    using stay_older.IH by (auto simp: stay_ok_def)
  then have ik: "i = k" using cursor_at_inj [of L k i] L stay_older.hyps(3) by (simp add: well_kept_def)
  obtain j where j: "j \<le> k" "mp_messages page = rev (drop j (take k L))"
    "case next_cursor page of None \<Rightarrow> j = 0 | Some c \<Rightarrow> j < length L \<and> c = cursor_at L j"
    using stay_older.hyps(4) by (auto simp: is_page_def)
  have "mergeMessages lc (mh_items h) (rev (mp_messages page)) = drop j L"
    using merge_older [OF lc L j(1)] by (simp add: i(1) ik j(2))
  with j(3) i(2) h(1) show ?case by (auto simp: stay_ok_def older_page_def phone_mergeMessages_def)
next
  case (stay_older_failed h request)
  then show ?case by (auto simp: stay_ok_def older_failed_def split: if_splits)
qed (auto simp: stay_ok_def new_history_def open_room_def first_failed_def loadOlder_def split: option.splits if_splits)

text \<open>
  C38. A stay in a room shows an unbroken end of its history. With a server that pages
  honestly through the room's messages, while none is written, whatever fails and however often the reader scrolls:
  what is held is the newest messages up to some point, in order, none missing and none
  twice; it is all of them once the history counts as exhausted; and at most one request for
  an older page is under way, none after that.
\<close>

theorem history_unbroken:
  assumes "comparator lc" and "well_kept lc L" and "stay lc r L h"
  shows "(mh_items h = [] \<or> (\<exists>i. mh_items h = drop i L))
    \<and> (mh_exhausted h \<longrightarrow> mh_items h = L \<and> mh_older h = [])
    \<and> length (mh_older h) \<le> 1"
proof -
  have ok: "stay_ok L h" by (rule stay_ok_stay [OF assms])
  then show ?thesis by (auto simp: stay_ok_def split: option.splits if_splits)
qed

definition demo_history :: "message list" where
  "demo_history = [demo_message ''a'' ''1'' (Some []), demo_message ''b'' ''2'' (Some []), demo_message ''c'' ''3'' (Some [])]"

definition demo_newest :: message_page where
  "demo_newest =
     \<lparr>mp_messages = [demo_message ''c'' ''3'' (Some []), demo_message ''b'' ''2'' (Some [])],
      mp_next_before = Some ''2'', mp_next_before_id = Some ''b''\<rparr>"

definition demo_oldest :: message_page where
  "demo_oldest = \<lparr>mp_messages = [demo_message ''a'' ''1'' (Some [])], mp_next_before = None, mp_next_before_id = None\<rparr>"

definition demo_all :: history where
  "demo_all = older_page str_compare (''r'', cursor_at demo_history 1) demo_oldest
     (loadOlder (first_page demo_newest (new_history ''r'')))"

lemma demo_stay: "stay str_compare ''r'' demo_history demo_all"
  unfolding demo_all_def
proof (rule stay_older)
  have "is_page demo_history (length demo_history) demo_newest"
    unfolding is_page_def by (rule exI [of _ 1]) code_simp
  then show "stay str_compare ''r'' demo_history (loadOlder (first_page demo_newest (new_history ''r'')))"
    by (intro stay_load stay_first stay_open) (simp_all add: new_history_def open_room_def)
  show "is_page demo_history 1 demo_oldest"
    unfolding is_page_def by (rule exI [of _ 0]) code_simp
  show "(''r'', cursor_at demo_history 1) \<in> set (mh_older (loadOlder (first_page demo_newest (new_history ''r''))))"
    by code_simp
  show "1 < length demo_history" by code_simp
qed

theorem history_unbroken_witness: "mh_items demo_all = demo_history \<and> mh_older demo_all = []"
proof -
  have "well_kept str_compare demo_history" by code_simp
  moreover have "mh_exhausted demo_all" by code_simp
  ultimately show ?thesis using history_unbroken [OF strs.comparator_axioms _ demo_stay] by blast
qed

text \<open>
  Between rooms it is otherwise: an older page of the last room that arrives late is merged
  into the new room's messages, and its cursor is the one the new room goes on from.
\<close>

definition room_message :: "uuid \<Rightarrow> uuid \<Rightarrow> timestamp \<Rightarrow> message" where
  "room_message r i at = (demo_message i at (Some []))\<lparr>ms_room_id := r\<rparr>"

theorem pages_cross_rooms:
  "(let c = \<lparr>cu_before = ''2'', cu_beforeId = Some ''b''\<rparr>;
        a = loadOlder (first_page \<lparr>mp_messages = [room_message ''A'' ''b'' ''2''], mp_next_before = Some ''2'',
                                   mp_next_before_id = Some ''b''\<rparr> (new_history ''A''));
        b = first_page \<lparr>mp_messages = [room_message ''B'' ''x'' ''9''], mp_next_before = None,
                        mp_next_before_id = None\<rparr> (open_room ''B'' a);
        late = older_page str_compare (''A'', c) \<lparr>mp_messages = [room_message ''A'' ''a'' ''1''],
                        mp_next_before = Some ''1'', mp_next_before_id = Some ''a''\<rparr> b
    in (''A'', c) \<in> set (mh_older b) \<and> mh_room late = ''B''
       \<and> map ms_room_id (mh_items late) = [''A'', ''B'']
       \<and> map_option cu_beforeId (mh_cursor late) = Some (Some ''a''))"
  by code_simp

end
