(* ===== verification/Polls.thy ===== *)
theory Polls
  imports JsonText
begin

text \<open>
  The polls, debates and confession walls of a room, on the web
  (\<open>apps/web/src/features/experiences\<close>) and on the phone
  (\<open>apps/mobile/src/features/experiences\<close>): each is a state of its screen, which the reader's
  presses change. Texts and ids are UTF-16 units; \<open>Date.now()\<close> is an argument.
\<close>

section \<open>Polls\<close>

record poll_option =
  po_id :: jstr
  po_text :: jstr
  po_votes :: int

record poll =
  pl_id :: jstr
  pl_question :: jstr
  pl_options :: "poll_option list"
  pl_totalVotes :: int
  pl_creatorName :: jstr
  pl_userVotedOptionId :: "jstr option"
  pl_isClosed :: bool

definition INITIAL_POLLS :: "poll list" where
  "INITIAL_POLLS =
     [\<lparr>pl_id = js ''poll-1'',
       pl_question = js ''What is the greatest programming language for high performance?'',
       pl_options =
         [\<lparr>po_id = js ''opt-1'', po_text = [55358, 56704] @ js '' Rust (Zero-cost abstractions & fearless concurrency)'', po_votes = 19\<rparr>,
          \<lparr>po_id = js ''opt-2'', po_text = [9889] @ js '' C++ (Classic speed & fine control)'', po_votes = 7\<rparr>,
          \<lparr>po_id = js ''opt-3'', po_text = [55356, 57294, 65039] @ js '' Zig (Clean simplicity)'', po_votes = 4\<rparr>,
          \<lparr>po_id = js ''opt-4'', po_text = [55357, 56377] @ js '' Go (Fast build & goroutines)'', po_votes = 2\<rparr>],
       pl_totalVotes = 32, pl_creatorName = js ''Rustacean42'', pl_userVotedOptionId = None, pl_isClosed = False\<rparr>,
      \<lparr>pl_id = js ''poll-2'',
       pl_question = js ''Best time to code without interruptions?'',
       pl_options =
         [\<lparr>po_id = js ''opt-2-1'', po_text = [55356, 57113] @ js '' 1:00 AM - 4:00 AM (Absolute tranquility)'', po_votes = 12\<rparr>,
          \<lparr>po_id = js ''opt-2-2'', po_text = [9728, 65039] @ js '' 6:00 AM - 9:00 AM (Early bird focus)'', po_votes = 4\<rparr>,
          \<lparr>po_id = js ''opt-2-3'', po_text = [9749] @ js '' 2:00 PM - 5:00 PM (Midday grind)'', po_votes = 2\<rparr>],
       pl_totalVotes = 18, pl_creatorName = js ''NightOwl'', pl_userVotedOptionId = None, pl_isClosed = False\<rparr>]"

text \<open>The vote on one option: the earlier one is taken back, never below nought.\<close>

definition recount :: "jstr option \<Rightarrow> jstr \<Rightarrow> poll_option \<Rightarrow> poll_option" where
  "recount previous optionId opt =
     (let v = po_votes opt;
          v = (if Some (po_id opt) = previous then max 0 (v - 1) else v);
          v = (if po_id opt = optionId then v + 1 else v)
      in opt\<lparr>po_votes := v\<rparr>)"

definition handleVote :: "jstr \<Rightarrow> jstr \<Rightarrow> poll list \<Rightarrow> poll list" where
  "handleVote pollId optionId polls =
     map (\<lambda>poll.
       if pl_id poll \<noteq> pollId then poll
       else if pl_userVotedOptionId poll = Some optionId then poll
       else poll\<lparr>pl_options := map (recount (pl_userVotedOptionId poll) optionId) (pl_options poll),
                 pl_totalVotes := pl_totalVotes poll
                   + (case pl_userVotedOptionId poll of None \<Rightarrow> 1 | Some o' \<Rightarrow> if o' = [] then 1 else 0),
                 pl_userVotedOptionId := Some optionId\<rparr>) polls"

text \<open>The phone's: a closed poll takes no votes.\<close>

definition phone_vote :: "jstr \<Rightarrow> jstr \<Rightarrow> poll list \<Rightarrow> poll list" where
  "phone_vote pollId optionId polls =
     map (\<lambda>entry.
       if pl_id entry \<noteq> pollId \<or> pl_isClosed entry then entry
       else if pl_userVotedOptionId entry = Some optionId then entry
       else entry\<lparr>pl_options := map (recount (pl_userVotedOptionId entry) optionId) (pl_options entry),
                  pl_totalVotes := pl_totalVotes entry
                    + (case pl_userVotedOptionId entry of None \<Rightarrow> 1 | Some o' \<Rightarrow> if o' = [] then 1 else 0),
                  pl_userVotedOptionId := Some optionId\<rparr>) polls"

record poll_screen =
  ps_polls :: "poll list"
  ps_activePollIndex :: nat
  ps_showCreate :: bool
  ps_newQuestion :: jstr
  ps_newOptions :: "jstr list"

definition web_polls :: poll_screen where
  "web_polls = \<lparr>ps_polls = INITIAL_POLLS, ps_activePollIndex = 0, ps_showCreate = False, ps_newQuestion = [],
                ps_newOptions = [[], []]\<rparr>"

definition phone_polls :: poll_screen where
  "phone_polls = \<lparr>ps_polls = [], ps_activePollIndex = 0, ps_showCreate = False, ps_newQuestion = [],
                  ps_newOptions = [[], []]\<rparr>"

text \<open>\<open>polls[activePollIndex] ?? polls[0]\<close>\<close>

definition activePoll :: "poll_screen \<Rightarrow> poll option" where
  "activePoll s =
     (case js_at (ps_polls s) (ps_activePollIndex s) of
        Some p \<Rightarrow> Some p
      | None \<Rightarrow> js_at (ps_polls s) 0)"

definition handleAddOptionField :: "poll_screen \<Rightarrow> poll_screen" where
  "handleAddOptionField s =
     (if length (ps_newOptions s) < 5 then s\<lparr>ps_newOptions := ps_newOptions s @ [[]]\<rparr> else s)"

text \<open>The form's fields: typing into one, and dropping one of those after the second.\<close>

definition typeOption :: "nat \<Rightarrow> jstr \<Rightarrow> poll_screen \<Rightarrow> poll_screen" where
  "typeOption idx t s = s\<lparr>ps_newOptions := (ps_newOptions s)[idx := t]\<rparr>"

definition removeOption :: "nat \<Rightarrow> poll_screen \<Rightarrow> poll_screen" where
  "removeOption idx s = s\<lparr>ps_newOptions := take idx (ps_newOptions s) @ drop (Suc idx) (ps_newOptions s)\<rparr>"

definition valid_options :: "jstr list \<Rightarrow> jstr list" where
  "valid_options opts = filter (\<lambda>o'. o' \<noteq> []) (map js_trim opts)"

definition handleCreatePoll :: "nat \<Rightarrow> poll_screen \<Rightarrow> poll_screen" where
  "handleCreatePoll now s =
     (let validOptions = valid_options (ps_newOptions s) in
      if js_trim (ps_newQuestion s) = [] \<or> length validOptions < 2 then s
      else s\<lparr>ps_polls :=
               \<lparr>pl_id = js ''poll-'' @ decimal now, pl_question = js_trim (ps_newQuestion s),
                pl_options = map (\<lambda>(idx, text). \<lparr>po_id = js ''opt-'' @ decimal now @ js ''-'' @ decimal idx,
                                                  po_text = text, po_votes = 0\<rparr>)
                               (enumerate 0 validOptions),
                pl_totalVotes = 0, pl_creatorName = js ''You'', pl_userVotedOptionId = None, pl_isClosed = False\<rparr>
               # ps_polls s,
             ps_activePollIndex := 0, ps_newQuestion := [], ps_newOptions := [[], []], ps_showCreate := False\<rparr>)"

definition phone_createPoll :: "nat \<Rightarrow> poll_screen \<Rightarrow> poll_screen" where
  "phone_createPoll now s =
     (let cleaned = valid_options (ps_newOptions s) in
      if js_trim (ps_newQuestion s) = [] \<or> length cleaned < 2 then s
      else s\<lparr>ps_polls :=
               \<lparr>pl_id = js ''poll-'' @ decimal now, pl_question = js_trim (ps_newQuestion s),
                pl_options = map (\<lambda>(index, text). \<lparr>po_id = js ''o-'' @ decimal index @ js ''-'' @ decimal now,
                                                    po_text = text, po_votes = 0\<rparr>)
                               (enumerate 0 cleaned),
                pl_totalVotes = 0, pl_creatorName = js ''You'', pl_userVotedOptionId = None, pl_isClosed = False\<rparr>
               # ps_polls s,
             ps_activePollIndex := 0, ps_newQuestion := [], ps_newOptions := [[], []], ps_showCreate := False\<rparr>)"

section \<open>One person, one vote\<close>

text \<open>
  What a poll should say to somebody who has pressed options of several polls: each counts
  the last of its own options pressed, once.
\<close>

definition last_pressed :: "jstr \<Rightarrow> (jstr \<times> jstr) list \<Rightarrow> jstr option" where
  "last_pressed pollId presses =
     fold (\<lambda>(p, o') choice. if p = pollId then Some o' else choice) presses None"

definition counting :: "jstr option \<Rightarrow> poll \<Rightarrow> poll" where
  "counting choice poll =
     (case choice of
        None \<Rightarrow> poll
      | Some o' \<Rightarrow>
          poll\<lparr>pl_options := map (\<lambda>opt. if po_id opt = o' then opt\<lparr>po_votes := po_votes opt + 1\<rparr> else opt) (pl_options poll),
               pl_totalVotes := pl_totalVotes poll + 1, pl_userVotedOptionId := Some o'\<rparr>)"

definition tally :: "poll \<Rightarrow> int" where
  "tally poll = sum_list (map po_votes (pl_options poll))"

text \<open>A poll nobody here has voted in: its options apart, its total their sum, and open.\<close>

definition fresh_poll :: "poll \<Rightarrow> bool" where
  "fresh_poll poll \<longleftrightarrow>
     pl_userVotedOptionId poll = None \<and> \<not> pl_isClosed poll \<and> pl_totalVotes poll = tally poll
     \<and> distinct (map po_id (pl_options poll)) \<and> list_all (\<lambda>opt. po_id opt \<noteq> [] \<and> 0 \<le> po_votes opt) (pl_options poll)"

definition on_the_card :: "poll list \<Rightarrow> jstr \<times> jstr \<Rightarrow> bool" where
  "on_the_card polls = (\<lambda>(p, o'). list_all (\<lambda>poll. pl_id poll = p \<longrightarrow> o' \<in> po_id ` set (pl_options poll)) polls)"

lemma counting_simps [simp]:
  "pl_id (counting c p) = pl_id p" "pl_isClosed (counting c p) = pl_isClosed p"
  "map po_id (pl_options (counting c p)) = map po_id (pl_options p)"
  by (simp_all add: counting_def comp_def split: option.split)

lemma last_pressed_snoc:
  "last_pressed i (vs @ [(p, o')]) = (if p = i then Some o' else last_pressed i vs)"
  by (simp add: last_pressed_def)

lemma last_pressed_mem: "last_pressed i vs = Some x \<Longrightarrow> (i, x) \<in> set vs"
  by (induction vs rule: rev_induct) (auto simp: last_pressed_snoc last_pressed_def split: if_splits)

lemma voted_counting: "fresh_poll p \<Longrightarrow> pl_userVotedOptionId (counting c p) = c"
  by (simp add: counting_def fresh_poll_def split: option.split)

text \<open>Whatever counted before, a vote makes its own option the one that counts.\<close>

lemma recount_counting:
  assumes "fresh_poll p" and "\<And>x. c = Some x \<Longrightarrow> x \<noteq> o'"
  shows "map (recount c o') (pl_options (counting c p)) = pl_options (counting (Some o') p)"
  using assms by (auto simp: counting_def recount_def fresh_poll_def list_all_iff Let_def split: option.splits)

lemma total_counting:
  assumes "fresh_poll p" and "\<And>x. c = Some x \<Longrightarrow> x \<noteq> []"
  shows "pl_totalVotes (counting c p) + (case c of None \<Rightarrow> 1 | Some x \<Rightarrow> if x = [] then 1 else 0)
         = pl_totalVotes (counting (Some o') p)"
  using assms(2) by (simp add: counting_def split: option.split)

lemma revote:
  assumes "fresh_poll p" and "\<And>x. c = Some x \<Longrightarrow> x \<in> po_id ` set (pl_options p)"
  shows "handleVote i o' [counting c p] = [if pl_id p = i then counting (Some o') p else counting c p]"
proof -
  have ne: "x \<noteq> []" if "c = Some x" for x
    using assms(2) [OF that] assms(1) by (auto simp: fresh_poll_def list_all_iff)
  have "counting c p\<lparr>pl_options := pl_options (counting (Some o') p),
          pl_totalVotes := pl_totalVotes (counting (Some o') p), pl_userVotedOptionId := Some o'\<rparr> = counting (Some o') p"
    by (simp add: counting_def split: option.split)
  moreover have "map (recount c o') (pl_options (counting c p)) = pl_options (counting (Some o') p)" if "c \<noteq> Some o'"
    using that by (intro recount_counting [OF assms(1)]) auto
  ultimately show ?thesis
    using total_counting [OF assms(1) ne, of c o'] voted_counting [OF assms(1), of c] by (auto simp: handleVote_def)
qed

lemma handleVote_Cons: "handleVote i o' (p # ps) = handleVote i o' [p] @ handleVote i o' ps"
  by (simp add: handleVote_def)

lemma pressed_on_card:
  assumes "list_all (on_the_card polls) vs" and "p \<in> set polls" and "last_pressed (pl_id p) vs = Some x"
  shows "x \<in> po_id ` set (pl_options p)"
proof -
  have "on_the_card polls (pl_id p, x)" using assms(1) last_pressed_mem [OF assms(3)] by (simp add: list_all_iff)
  then show ?thesis using assms(2) by (simp add: on_the_card_def list_all_iff)
qed

lemma votes_counting:
  assumes "list_all fresh_poll polls" and "list_all (on_the_card polls) vs"
  shows "fold (\<lambda>(p, o'). handleVote p o') vs polls = map (\<lambda>poll. counting (last_pressed (pl_id poll) vs) poll) polls"
  using assms(2)
proof (induction vs rule: rev_induct)
  case Nil
  then show ?case by (simp add: last_pressed_def counting_def)
next
  case (snoc v vs)
  obtain i o' where v: "v = (i, o')" by force
  have on: "list_all (on_the_card polls) vs" using snoc.prems by simp
  have step: "handleVote i o' (map (\<lambda>p. counting (last_pressed (pl_id p) vs) p) ps)
      = map (\<lambda>p. counting (last_pressed (pl_id p) (vs @ [(i, o')])) p) ps" if "set ps \<subseteq> set polls" for ps
    using that
  proof (induction ps)
    case (Cons p ps)
    then have p: "fresh_poll p" "p \<in> set polls" using assms(1) by (auto simp: list_all_iff)
    have one: "handleVote i o' [counting (last_pressed (pl_id p) vs) p]
        = [if pl_id p = i then counting (Some o') p else counting (last_pressed (pl_id p) vs) p]"
      by (rule revote [OF p(1)]) (rule pressed_on_card [OF on p(2)])
    show ?case
      unfolding list.map(2) handleVote_Cons [of i o' _ "map _ ps"] one using Cons by (simp add: last_pressed_snoc)
  qed (simp add: handleVote_def)
  from snoc step [OF subset_refl] show ?case by (simp add: v)
qed

lemma counting_total:
  assumes "fresh_poll p" and "\<And>x. c = Some x \<Longrightarrow> x \<in> po_id ` set (pl_options p)"
  shows "pl_totalVotes (counting c p) = tally (counting c p)"
proof -
  have sum: "sum_list (map (\<lambda>opt. po_votes (if po_id opt = x then opt\<lparr>po_votes := po_votes opt + 1\<rparr> else opt)) opts)
      = sum_list (map po_votes opts) + of_bool (x \<in> po_id ` set opts)" if "distinct (map po_id opts)" for opts x
    using that by (induction opts) auto
  have p: "distinct (map po_id (pl_options p))" "pl_totalVotes p = tally p" using assms(1) by (simp_all add: fresh_poll_def)
  then show ?thesis
    using assms(2) sum [OF p(1)] by (cases c) (simp_all add: counting_def tally_def comp_def)
qed

text \<open>No poll is ever closed, and on open polls the two clients count alike.\<close>

lemma phone_counts_alike: "list_all (\<lambda>p. \<not> pl_isClosed p) polls \<Longrightarrow> phone_vote i o' polls = handleVote i o' polls"
  by (auto simp: phone_vote_def handleVote_def list_all_iff)

lemma votes_open:
  "list_all (\<lambda>p. \<not> pl_isClosed p) polls \<Longrightarrow>
     fold (\<lambda>(p, o'). phone_vote p o') vs polls = fold (\<lambda>(p, o'). handleVote p o') vs polls
     \<and> list_all (\<lambda>p. \<not> pl_isClosed p) (fold (\<lambda>(p, o'). handleVote p o') vs polls)"
proof (induction vs rule: rev_induct)
  case (snoc v vs)
  have "list_all (\<lambda>p. \<not> pl_isClosed p) ps \<Longrightarrow> list_all (\<lambda>p. \<not> pl_isClosed p) (handleVote i o' ps)" for ps i o'
    by (auto simp: handleVote_def list_all_iff)
  with snoc show ?case by (cases v) (simp add: phone_counts_alike)
qed simp

text \<open>The polls the screens start with and the ones they make are fresh.\<close>

lemma js_eq_Nil: "js s = [] \<longleftrightarrow> s = []"
  by (simp add: js_def)

lemma fresh_initial: "list_all fresh_poll INITIAL_POLLS"
  by (simp add: INITIAL_POLLS_def fresh_poll_def tally_def js_inj js_eq_Nil)

lemma decimal_eq_iff: "decimal m = decimal n \<longleftrightarrow> m = n"
  using decimal_value by metis

lemma fresh_created:
  assumes "list_all fresh_poll (ps_polls s)"
  shows "list_all fresh_poll (ps_polls (handleCreatePoll now s)) \<and> list_all fresh_poll (ps_polls (phone_createPoll now s))"
proof -
  have zero: "sum_list (map (\<lambda>x. 0 :: int) xs) = 0" for xs :: "(nat \<times> jstr) list" by (induction xs) auto
  have d: "distinct (map (\<lambda>x. f (fst x)) (enumerate 0 opts))" if "inj f" for f :: "nat \<Rightarrow> jstr" and opts :: "jstr list"
    using that by (simp add: distinct_map inj_on_def inj_def flip: map_map [of f fst, unfolded comp_def])
  have "inj (\<lambda>i. js ''opt-'' @ decimal now @ js ''-'' @ decimal i)" by (rule injI) (simp add: decimal_eq_iff)
  moreover have "inj (\<lambda>i. js ''o-'' @ decimal i @ js ''-'' @ decimal now)" by (rule injI) (simp add: decimal_eq_iff)
  ultimately show ?thesis
    using assms
    by (simp add: handleCreatePoll_def phone_createPoll_def Let_def fresh_poll_def tally_def comp_def case_prod_beta
        list_all_iff zero js_eq_Nil d [of "\<lambda>i. js ''opt-'' @ decimal now @ js ''-'' @ decimal i"]
        d [of "\<lambda>i. js ''o-'' @ decimal i @ js ''-'' @ decimal now"])
qed

text \<open>
  C37. A poll counts one vote a person. From polls nobody here has voted in, however often
  the reader presses options of whichever polls: every poll shows its own counts with one
  added to the option pressed last, and to its total, and nothing else; so the total stays
  the sum of the options. The phone's polls count the same.
\<close>

theorem poll_counts_last_vote:
  assumes "list_all fresh_poll polls" and "list_all (on_the_card polls) presses"
  shows "fold (\<lambda>(p, o'). handleVote p o') presses polls
      = map (\<lambda>poll. counting (last_pressed (pl_id poll) presses) poll) polls
    \<and> fold (\<lambda>(p, o'). phone_vote p o') presses polls = fold (\<lambda>(p, o'). handleVote p o') presses polls
    \<and> list_all (\<lambda>poll. pl_totalVotes poll = tally poll) (fold (\<lambda>(p, o'). handleVote p o') presses polls)"
proof (intro conjI)
  show run: "fold (\<lambda>(p, o'). handleVote p o') presses polls
      = map (\<lambda>poll. counting (last_pressed (pl_id poll) presses) poll) polls"
    by (rule votes_counting [OF assms])
  show "fold (\<lambda>(p, o'). phone_vote p o') presses polls = fold (\<lambda>(p, o'). handleVote p o') presses polls"
    using assms(1) by (intro votes_open [THEN conjunct1]) (auto simp: list_all_iff fresh_poll_def)
  show "list_all (\<lambda>poll. pl_totalVotes poll = tally poll) (fold (\<lambda>(p, o'). handleVote p o') presses polls)"
    unfolding run list_all_iff
  proof clarsimp
    fix p assume p: "p \<in> set polls"
    show "pl_totalVotes (counting (last_pressed (pl_id p) presses) p) = tally (counting (last_pressed (pl_id p) presses) p)"
      using assms(1) p by (intro counting_total pressed_on_card [OF assms(2)]) (auto simp: list_all_iff)
  qed
qed

definition demo_presses :: "(jstr \<times> jstr) list" where
  "demo_presses = [(js ''poll-1'', js ''opt-2''), (js ''poll-2'', js ''opt-2-3''), (js ''poll-1'', js ''opt-1'')]"

theorem poll_counts_last_vote_witness:
  "map (\<lambda>p. (pl_totalVotes p, map po_votes (pl_options p))) (fold (\<lambda>(p, o'). handleVote p o') demo_presses INITIAL_POLLS)
   = [(33, [20, 7, 4, 2]), (19, [12, 4, 3])]"
proof -
  have on: "list_all (on_the_card INITIAL_POLLS) demo_presses"
    by (simp add: on_the_card_def INITIAL_POLLS_def demo_presses_def js_inj js_eq_Nil)
  show ?thesis
    unfolding poll_counts_last_vote [OF fresh_initial on, THEN conjunct1]
    by (simp add: INITIAL_POLLS_def demo_presses_def last_pressed_def counting_def js_inj js_eq_Nil)
qed

section \<open>Debates\<close>

datatype side = Pro | Con

record debate_point =
  dp_id :: jstr
  dp_side :: side
  dp_authorName :: jstr
  dp_text :: jstr
  dp_votes :: int

record debate =
  db_proVotes :: int
  db_conVotes :: int
  db_userVote :: "side option"
  db_timerSeconds :: int
  db_timerActive :: bool
  db_activeSide :: side
  db_points :: "debate_point list"
  db_newPointText :: jstr
  db_pointSide :: side

definition DEFAULT_POINTS :: "debate_point list" where
  "DEFAULT_POINTS =
     [\<lparr>dp_id = js ''1'', dp_side = Pro, dp_authorName = js ''NeonRider'',
       dp_text = js ''AI speeds up coding and removes boilerplate drudgery, letting devs focus on architecture.'', dp_votes = 8\<rparr>,
      \<lparr>dp_id = js ''2'', dp_side = Con, dp_authorName = js ''ShadowDev'',
       dp_text = js ''Over-reliance degrades fundamentals and creates subtle security vulnerabilities.'', dp_votes = 5\<rparr>]"

definition new_debate :: "debate_point list \<Rightarrow> debate" where
  "new_debate points =
     \<lparr>db_proVotes = 14, db_conVotes = 9, db_userVote = None, db_timerSeconds = 60, db_timerActive = False,
      db_activeSide = Pro, db_points = points, db_newPointText = [], db_pointSide = Pro\<rparr>"

definition vote_side :: "side \<Rightarrow> debate \<Rightarrow> debate" where
  "vote_side side d =
     (if db_userVote d = Some side then d
      else let d = (if db_userVote d = Some Pro then d\<lparr>db_proVotes := max 0 (db_proVotes d - 1)\<rparr> else d);
               d = (if db_userVote d = Some Con then d\<lparr>db_conVotes := max 0 (db_conVotes d - 1)\<rparr> else d);
               d = (if side = Pro then d\<lparr>db_proVotes := db_proVotes d + 1\<rparr> else d);
               d = (if side = Con then d\<lparr>db_conVotes := db_conVotes d + 1\<rparr> else d)
           in d\<lparr>db_userVote := Some side\<rparr>)"

text \<open>
  The web's clock: the effect arms it while it is active and above nought, and stops it at
  nought. \<open>web_tick\<close> is one second of it.
\<close>

definition clock_effect :: "debate \<Rightarrow> debate" where
  "clock_effect d =
     (if db_timerActive d \<and> db_timerSeconds d > 0 then d
      else if db_timerSeconds d = 0 then d\<lparr>db_timerActive := False\<rparr> else d)"

definition web_tick :: "debate \<Rightarrow> debate" where
  "web_tick d =
     (if db_timerActive d \<and> db_timerSeconds d > 0 then d\<lparr>db_timerSeconds := db_timerSeconds d - 1\<rparr> else d)"

definition phone_tick :: "debate \<Rightarrow> debate" where
  "phone_tick d =
     (if \<not> db_timerActive d then d
      else if db_timerSeconds d \<le> 1 then d\<lparr>db_timerActive := False, db_timerSeconds := 0\<rparr>
      else d\<lparr>db_timerSeconds := db_timerSeconds d - 1\<rparr>)"

definition toggle_clock :: "debate \<Rightarrow> debate" where
  "toggle_clock d = d\<lparr>db_timerActive := \<not> db_timerActive d\<rparr>"

definition reset_clock :: "debate \<Rightarrow> debate" where
  "reset_clock d = d\<lparr>db_timerActive := False, db_timerSeconds := 60\<rparr>"

definition switch_turn :: "debate \<Rightarrow> debate" where
  "switch_turn d = d\<lparr>db_activeSide := (if db_activeSide d = Pro then Con else Pro), db_timerSeconds := 60\<rparr>"

definition handleAddPoint :: "nat \<Rightarrow> jstr option \<Rightarrow> debate \<Rightarrow> debate" where
  "handleAddPoint now display_name d =
     (if js_trim (db_newPointText d) = [] then d
      else d\<lparr>db_points :=
               \<lparr>dp_id = decimal now, dp_side = db_pointSide d,
                dp_authorName = (case display_name of Some n \<Rightarrow> n | None \<Rightarrow> js ''Anonymous''),
                dp_text = js_trim (db_newPointText d), dp_votes = 1\<rparr> # db_points d,
             db_newPointText := []\<rparr>)"

definition handleUpvotePoint :: "jstr \<Rightarrow> debate \<Rightarrow> debate" where
  "handleUpvotePoint i d =
     d\<lparr>db_points := map (\<lambda>p. if dp_id p = i then p\<lparr>dp_votes := dp_votes p + 1\<rparr> else p) (db_points d)\<rparr>"

text \<open>The two things the reader of a debate does to its meter and its clock.\<close>

datatype debate_act = Vote_side side | Second | Toggle_clock | Reset_clock | Switch_turn | Add_point nat "jstr option" | Upvote jstr

text \<open>On the web the effect runs after every change.\<close>

fun web_debate :: "debate_act \<Rightarrow> debate \<Rightarrow> debate" where
  "web_debate (Vote_side s) d = clock_effect (vote_side s d)"
| "web_debate Second d = clock_effect (web_tick d)"
| "web_debate Toggle_clock d = clock_effect (toggle_clock d)"
| "web_debate Reset_clock d = clock_effect (reset_clock d)"
| "web_debate Switch_turn d = clock_effect (switch_turn d)"
| "web_debate (Add_point now n) d = clock_effect (handleAddPoint now n d)"
| "web_debate (Upvote i) d = clock_effect (handleUpvotePoint i d)"

fun phone_debate :: "debate_act \<Rightarrow> debate \<Rightarrow> debate" where
  "phone_debate (Vote_side s) d = vote_side s d"
| "phone_debate Second d = phone_tick d"
| "phone_debate Toggle_clock d = toggle_clock d"
| "phone_debate Reset_clock d = reset_clock d"
| "phone_debate Switch_turn d = switch_turn d"
| "phone_debate (Add_point now n) d = handleAddPoint now n d"
| "phone_debate (Upvote i) d = handleUpvotePoint i d"

definition debate_ok :: "debate \<Rightarrow> bool" where
  "debate_ok d \<longleftrightarrow>
     0 \<le> db_timerSeconds d \<and> db_timerSeconds d \<le> 60
     \<and> db_proVotes d = 14 + of_bool (db_userVote d = Some Pro)
     \<and> db_conVotes d = 9 + of_bool (db_userVote d = Some Con)"

lemmas debate_defs = vote_side_def web_tick_def phone_tick_def toggle_clock_def reset_clock_def switch_turn_def
  handleAddPoint_def handleUpvotePoint_def clock_effect_def Let_def

lemma debate_step:
  assumes "debate_ok d"
  shows "debate_ok (web_debate a d) \<and> debate_ok (phone_debate a d)"
proof (cases a)
  case (Vote_side s)
  then show ?thesis using assms by (cases s; cases "db_userVote d") (auto simp: debate_ok_def debate_defs)
qed (use assms in \<open>auto simp: debate_ok_def debate_defs\<close>)

text \<open>A debate's meter counts the reader once, on the side pressed last, and its clock stays within its minute.\<close>

lemma debate_counts_one_vote:
  "debate_ok (fold web_debate acts (new_debate points)) \<and> debate_ok (fold phone_debate acts (new_debate points))"
  by (induction acts rule: rev_induct) (simp_all add: debate_step, simp add: debate_ok_def new_debate_def)

text \<open>A claim can be agreed with without end.\<close>

lemma upvotes_count_presses:
  "db_points ((handleUpvotePoint i ^^ n) d)
   = map (\<lambda>p. if dp_id p = i then p\<lparr>dp_votes := dp_votes p + int n\<rparr> else p) (db_points d)"
  by (induction n) (auto simp: handleUpvotePoint_def intro!: map_idI [symmetric])

section \<open>Confession walls\<close>

datatype theme = Midnight | Sunset | Cyber | Rose | Emerald

record confession =
  cf_id :: jstr
  cf_alias :: jstr
  cf_text :: jstr
  cf_tag :: jstr
  cf_theme :: theme
  cf_createdAt :: jstr
  cf_reactions :: "jstr \<rightharpoonup> int"

record web_wall =
  ww_confessions :: "confession list"
  ww_showCompose :: bool
  ww_text :: jstr
  ww_tag :: jstr
  ww_theme :: theme
  ww_spotlightIndex :: "nat option"

record phone_wall =
  pw_confessions :: "confession list"
  pw_composeOpen :: bool
  pw_text :: jstr
  pw_tag :: jstr
  pw_theme :: theme
  pw_spotlight :: "confession option"

text \<open>
  \<open>drawn\<close> is the number \<open>Math.floor(1000 + Math.random() * 9000)\<close> comes to. The web's \<open>||\<close>
  takes it for an empty alias too, the phone's \<open>??\<close> does not.
\<close>

definition handleAddConfession :: "nat \<Rightarrow> nat \<Rightarrow> jstr option \<Rightarrow> web_wall \<Rightarrow> web_wall" where
  "handleAddConfession now drawn alias w =
     (if js_trim (ww_text w) = [] then w
      else w\<lparr>ww_confessions :=
               \<lparr>cf_id = js ''conf-'' @ decimal now,
                cf_alias = (case alias of
                              Some a \<Rightarrow> if a = [] then js ''AnonUser#'' @ decimal drawn else a
                            | None \<Rightarrow> js ''AnonUser#'' @ decimal drawn),
                cf_text = js_trim (ww_text w), cf_tag = ww_tag w, cf_theme = ww_theme w,
                cf_createdAt = js ''Just now'', cf_reactions = [[55357, 56613] \<mapsto> 1]\<rparr>
               # ww_confessions w,
             ww_text := [], ww_showCompose := False\<rparr>)"

definition phone_addConfession :: "nat \<Rightarrow> nat \<Rightarrow> jstr option \<Rightarrow> phone_wall \<Rightarrow> phone_wall" where
  "phone_addConfession now drawn alias w =
     (if js_trim (pw_text w) = [] then w
      else w\<lparr>pw_confessions :=
               \<lparr>cf_id = js ''conf-'' @ decimal now,
                cf_alias = (case alias of Some a \<Rightarrow> a | None \<Rightarrow> js ''AnonUser#'' @ decimal drawn),
                cf_text = js_trim (pw_text w), cf_tag = pw_tag w, cf_theme = pw_theme w,
                cf_createdAt = js ''Just now'', cf_reactions = [[55357, 56613] \<mapsto> 1]\<rparr>
               # pw_confessions w,
             pw_text := [], pw_composeOpen := False\<rparr>)"

definition react_to :: "jstr \<Rightarrow> jstr \<Rightarrow> confession \<Rightarrow> confession" where
  "react_to confId emoji c =
     (if cf_id c \<noteq> confId then c
      else c\<lparr>cf_reactions := (cf_reactions c)(emoji \<mapsto> (case cf_reactions c emoji of Some n \<Rightarrow> n | None \<Rightarrow> 0) + 1)\<rparr>)"

definition handleReact :: "jstr \<Rightarrow> jstr \<Rightarrow> web_wall \<Rightarrow> web_wall" where
  "handleReact confId emoji w = w\<lparr>ww_confessions := map (react_to confId emoji) (ww_confessions w)\<rparr>"

definition phone_react :: "jstr \<Rightarrow> jstr \<Rightarrow> phone_wall \<Rightarrow> phone_wall" where
  "phone_react confId emoji w =
     w\<lparr>pw_confessions := map (react_to confId emoji) (pw_confessions w),
       pw_spotlight := map_option (react_to confId emoji) (pw_spotlight w)\<rparr>"

text \<open>The web remembers the place of the confession it shows, the phone the confession.\<close>

definition handleRandomSpotlight :: "nat \<Rightarrow> web_wall \<Rightarrow> web_wall" where
  "handleRandomSpotlight randomIdx w =
     (if ww_confessions w = [] then w else w\<lparr>ww_spotlightIndex := Some randomIdx\<rparr>)"

definition spotlightConfession :: "web_wall \<Rightarrow> confession option" where
  "spotlightConfession w =
     (case ww_spotlightIndex w of None \<Rightarrow> None | Some i \<Rightarrow> js_at (ww_confessions w) i)"

definition phone_randomSpotlight :: "nat \<Rightarrow> phone_wall \<Rightarrow> phone_wall" where
  "phone_randomSpotlight randomIdx w =
     (if pw_confessions w = [] then w else w\<lparr>pw_spotlight := js_at (pw_confessions w) randomIdx\<rparr>)"

text \<open>On the phone the confession in the spotlight and the one on the wall never differ.\<close>

definition wall_ok :: "phone_wall \<Rightarrow> bool" where
  "wall_ok w \<longleftrightarrow> (case pw_spotlight w of None \<Rightarrow> True | Some c \<Rightarrow> c \<in> set (pw_confessions w))"

lemma phone_spotlight_is_on_the_wall:
  assumes "wall_ok w"
  shows "wall_ok (phone_addConfession now drawn alias w)"
    and "wall_ok (phone_react i emoji w)"
    and "wall_ok (phone_randomSpotlight n w)"
  using assms
  by (auto simp: wall_ok_def phone_addConfession_def phone_react_def phone_randomSpotlight_def js_at_def
      split: option.splits)

text \<open>
  On the web a new confession moves every other down one, and the spotlight, which holds a
  place, goes to its neighbour.
\<close>

lemma web_spotlight_slips:
  assumes "ww_spotlightIndex w = Some (Suc i)" and "js_trim (ww_text w) \<noteq> []"
  shows "spotlightConfession (handleAddConfession now drawn alias w) = js_at (ww_confessions w) i"
  using assms by (simp add: spotlightConfession_def handleAddConfession_def js_at_def)

end
