(* ===== verification/PartyGames.thy ===== *)
theory PartyGames
  imports Polls ApiTypes
begin

text \<open>
  The party games of a room: \<open>GameExperience.tsx\<close> of the web
  (\<open>apps/web/src/features/experiences\<close>) and of the phone
  (\<open>apps/mobile/src/features/experiences\<close>). Trivia against the clock, the dilemmas, truth or
  dare, the word chain, and the decks a host adds to.
\<close>

section \<open>Decks\<close>

datatype game_mode = Trivia_mode | Would_you_rather_mode | Truth_or_dare_mode | Word_chain_mode

record trivia_question =
  tq_category :: jstr
  tq_question :: jstr
  tq_options :: "jstr list"
  tq_answer :: int
  tq_explanation :: jstr

record would_you_rather =
  wy_optionA :: jstr
  wy_optionB :: jstr
  wy_votesA :: int
  wy_votesB :: int

datatype tod_type = Truth | Dare

record truth_or_dare =
  td_type :: tod_type
  td_text :: jstr

definition initialMode :: "room_type \<Rightarrow> game_mode" where
  "initialMode type =
     (if type = Would_you_rather then Would_you_rather_mode
      else if type = Truth_or_dare \<or> type = Hot_takes then Truth_or_dare_mode
      else Trivia_mode)"

text \<open>
  What the browser holds of a room's decks, or the phone: what \<open>JSON.stringify\<close> wrote there
  and \<open>JSON.parse\<close> reads back.
\<close>

record deck_store =
  ds_trivia :: "uuid \<rightharpoonup> trivia_question list"
  ds_wyr :: "uuid \<rightharpoonup> would_you_rather list"
  ds_tod :: "uuid \<rightharpoonup> truth_or_dare list"

definition saved_or :: "'a list \<Rightarrow> 'a list option \<Rightarrow> 'a list" where
  "saved_or builtin saved = (case saved of Some d \<Rightarrow> d | None \<Rightarrow> builtin)"

section \<open>The built-in decks\<close>

text \<open>The web's, then the phone's.\<close>

definition DEFAULT_TRIVIA_DECK :: "trivia_question list" where
  "DEFAULT_TRIVIA_DECK =
     [\<lparr>tq_category = [55357, 56507] @ js '' Tech & Internet'',
       tq_question = js ''What was the original name of JavaScript when Brendan Eich created it in 10 days?'',
       tq_options = [js ''Mocha'', js ''LiveScript'', js ''ECMAScript'', js ''Oak''],
       tq_answer = 0,
       tq_explanation = js ''JavaScript was initially named Mocha in May 1995, then renamed to LiveScript, and finally JavaScript!''\<rparr>,
      \<lparr>tq_category = [55356, 57262] @ js '' Gaming'',
       tq_question = js ''Which legendary game coined the phrase '' @ [34] @ js ''The cake is a lie'' @ [34] @ js ''?'',
       tq_options = [js ''Half-Life 2'', js ''Portal'', js ''BioShock'', js ''Fallout 3''],
       tq_answer = 1,
       tq_explanation = js ''Portal (2007) featured graffiti in hidden dens warning players that '' @ [34] @ js ''the cake is a lie'' @ [34] @ js ''.''\<rparr>,
      \<lparr>tq_category = [55358, 56976] @ js '' Science & Universe'',
       tq_question = js ''How long does light from the Sun take to reach Earth on average?'',
       tq_options = [js ''8 minutes and 20 seconds'', js ''12 minutes and 4 seconds'', js ''1 minute and 30 seconds'', js ''Instantaneous''],
       tq_answer = 0,
       tq_explanation = js ''At 300,000 km/s across ~150 million km, sunlight travels for roughly 8 minutes and 20 seconds.''\<rparr>,
      \<lparr>tq_category = [55356, 57269] @ js '' Pop Culture'',
       tq_question = js ''Which song was the first YouTube video to hit 1 billion views?'',
       tq_options = [js ''Despacito'', js ''Baby - Justin Bieber'', js ''Gangnam Style - PSY'', js ''See You Again''],
       tq_answer = 2,
       tq_explanation = js ''PSY'' @ [8217] @ js ''s Gangnam Style broke the YouTube counter in December 2012 by surpassing 1 billion views!''\<rparr>]"

definition DEFAULT_WOULD_YOU_RATHER_DECK :: "would_you_rather list" where
  "DEFAULT_WOULD_YOU_RATHER_DECK =
     [\<lparr>wy_optionA = js ''Have infinite free flight travel anywhere in the world'',
       wy_optionB = js ''Never need to sleep again with 100% full energy 24/7'',
       wy_votesA = 28, wy_votesB = 35\<rparr>,
      \<lparr>wy_optionA = js ''Speak and understand every human language fluently'',
       wy_optionB = js ''Talk to animals and understand their thoughts'',
       wy_votesA = 42, wy_votesB = 31\<rparr>,
      \<lparr>wy_optionA = js ''Live 100 years into the future with zero memories of the past'',
       wy_optionB = js ''Live 100 years in the past with all your modern knowledge'',
       wy_votesA = 19, wy_votesB = 38\<rparr>]"

definition DEFAULT_TRUTH_OR_DARE_DECK :: "truth_or_dare list" where
  "DEFAULT_TRUTH_OR_DARE_DECK =
     [\<lparr>td_type = Truth, td_text = js ''What is the most unhinged Google search in your history in the past 7 days?''\<rparr>,
      \<lparr>td_type = Dare, td_text = js ''Send a voice message saying '' @ [34] @ js ''beep boop beep'' @ [34] @ js '' with a completely serious robot accent.''\<rparr>,
      \<lparr>td_type = Truth, td_text = js ''What is a hot take you believe that would get you cancelled in 5 minutes?''\<rparr>,
      \<lparr>td_type = Dare, td_text = js ''Type a full sentence using only auto-complete predictions on your keyboard and post it.''\<rparr>]"

definition phone_TRIVIA_DECK :: "trivia_question list" where
  "phone_TRIVIA_DECK =
     [\<lparr>tq_category = [55357, 56507] @ js '' Tech & internet'',
       tq_question = js ''What was JavaScript originally called when Brendan Eich created it in ten days?'',
       tq_options = [js ''Mocha'', js ''LiveScript'', js ''ECMAScript'', js ''Oak''],
       tq_answer = 0,
       tq_explanation = js ''It was Mocha in May 1995, then LiveScript, and finally JavaScript.''\<rparr>,
      \<lparr>tq_category = [55356, 57262] @ js '' Gaming'',
       tq_question = js ''Which game coined the phrase '' @ [8220] @ js ''the cake is a lie'' @ [8221] @ js ''?'',
       tq_options = [js ''Half-Life 2'', js ''Portal'', js ''BioShock'', js ''Fallout 3''],
       tq_answer = 1,
       tq_explanation = js ''Portal (2007) hid it as graffiti in the dens behind the test chambers.''\<rparr>,
      \<lparr>tq_category = [55358, 56976] @ js '' Science'',
       tq_question = js ''How long does sunlight take to reach Earth on average?'',
       tq_options = [js ''8 minutes 20 seconds'', js ''12 minutes 4 seconds'', js ''1 minute 30 seconds'', js ''Instantly''],
       tq_answer = 0,
       tq_explanation = js ''300,000 km/s across ~150 million km is roughly eight minutes and twenty seconds.''\<rparr>,
      \<lparr>tq_category = [55356, 57269] @ js '' Pop culture'',
       tq_question = js ''Which video was the first on YouTube to pass a billion views?'',
       tq_options = [js ''Despacito'', js ''Baby'', js ''Gangnam Style'', js ''See You Again''],
       tq_answer = 2,
       tq_explanation = js ''Gangnam Style broke YouTube'' @ [8217] @ js ''s view counter in December 2012.''\<rparr>]"

definition phone_WYR_DECK :: "would_you_rather list" where
  "phone_WYR_DECK =
     [\<lparr>wy_optionA = js ''Have infinite free flights anywhere in the world'',
       wy_optionB = js ''Never need to sleep again, at full energy'',
       wy_votesA = 28, wy_votesB = 35\<rparr>,
      \<lparr>wy_optionA = js ''Speak and understand every human language'',
       wy_optionB = js ''Talk to animals and understand their thoughts'',
       wy_votesA = 42, wy_votesB = 31\<rparr>,
      \<lparr>wy_optionA = js ''Live a century into the future with no memories'',
       wy_optionB = js ''Live a century in the past with everything you know now'',
       wy_votesA = 19, wy_votesB = 38\<rparr>]"

definition phone_TOD_DECK :: "truth_or_dare list" where
  "phone_TOD_DECK =
     [\<lparr>td_type = Truth, td_text = js ''What is the most unhinged search in your history this week?''\<rparr>,
      \<lparr>td_type = Dare, td_text = js ''Send a voice message saying '' @ [8220] @ js ''beep boop beep'' @ [8221] @ js '' in a serious robot accent.''\<rparr>,
      \<lparr>td_type = Truth, td_text = js ''What is a hot take you hold that would get you cancelled in five minutes?''\<rparr>,
      \<lparr>td_type = Dare, td_text = js ''Type a whole sentence using only autocomplete predictions, and post it.''\<rparr>]"

section \<open>Trivia\<close>

record trivia =
  tr_mode :: game_mode
  tr_deck :: "trivia_question list"
  tr_index :: nat
  tr_selected :: "int option"
  tr_score :: int
  tr_streak :: int
  tr_timeLeft :: int
  tr_done :: bool
  tr_shared :: bool

definition TRIVIA_SECONDS :: int where "TRIVIA_SECONDS = 15"

definition new_trivia :: "game_mode \<Rightarrow> trivia_question list \<Rightarrow> trivia" where
  "new_trivia mode deck =
     \<lparr>tr_mode = mode, tr_deck = deck, tr_index = 0, tr_selected = None, tr_score = 0, tr_streak = 0,
      tr_timeLeft = TRIVIA_SECONDS, tr_done = False, tr_shared = False\<rparr>"

text \<open>
  One run of the countdown effect: the second that its timer takes off, or, at nought, the
  answer \<open>-1\<close>.
\<close>

definition countdown :: "trivia \<Rightarrow> trivia" where
  "countdown g =
     (if tr_mode g \<noteq> Trivia_mode \<or> tr_done g \<or> tr_selected g \<noteq> None then g
      else if tr_timeLeft g > 0 then g\<lparr>tr_timeLeft := tr_timeLeft g - 1\<rparr>
      else g\<lparr>tr_selected := Some (- 1)\<rparr>)"

definition phone_countdown :: "trivia \<Rightarrow> trivia" where
  "phone_countdown g =
     (if tr_mode g \<noteq> Trivia_mode \<or> tr_done g \<or> tr_selected g \<noteq> None then g
      else if tr_timeLeft g \<le> 0 then g\<lparr>tr_selected := Some (- 1)\<rparr>
      else g\<lparr>tr_timeLeft := tr_timeLeft g - 1\<rparr>)"

definition handleSelectTriviaOption :: "int \<Rightarrow> trivia \<Rightarrow> trivia" where
  "handleSelectTriviaOption index g =
     (if tr_selected g \<noteq> None then g
      else let g = g\<lparr>tr_selected := Some index\<rparr> in
           case js_at (tr_deck g) (tr_index g) of
             Some currentQ \<Rightarrow>
               if index = tq_answer currentQ
               then g\<lparr>tr_score := tr_score g + 100 + tr_timeLeft g * 10, tr_streak := tr_streak g + 1\<rparr>
               else g\<lparr>tr_streak := 0\<rparr>
           | None \<Rightarrow> g\<lparr>tr_streak := 0\<rparr>)"

text \<open>The phone falls back on the first question, \<open>triviaDeck[triviaIndex] ?? triviaDeck[0]\<close>.\<close>

definition phone_answer :: "int \<Rightarrow> trivia \<Rightarrow> trivia" where
  "phone_answer index g =
     (case (case js_at (tr_deck g) (tr_index g) of Some q \<Rightarrow> Some q | None \<Rightarrow> js_at (tr_deck g) 0) of
        None \<Rightarrow> g
      | Some trivia \<Rightarrow>
          if tr_selected g \<noteq> None then g
          else let g = g\<lparr>tr_selected := Some index\<rparr> in
               if index = tq_answer trivia
               then g\<lparr>tr_score := tr_score g + 100 + tr_timeLeft g * 10, tr_streak := tr_streak g + 1\<rparr>
               else g\<lparr>tr_streak := 0\<rparr>)"

definition handleNextTrivia :: "trivia \<Rightarrow> trivia" where
  "handleNextTrivia g =
     (if tr_index g + 1 < length (tr_deck g)
      then g\<lparr>tr_index := tr_index g + 1, tr_selected := None, tr_timeLeft := TRIVIA_SECONDS\<rparr>
      else g\<lparr>tr_done := True\<rparr>)"

definition handleResetTrivia :: "trivia \<Rightarrow> trivia" where
  "handleResetTrivia g =
     g\<lparr>tr_index := 0, tr_selected := None, tr_score := 0, tr_streak := 0, tr_timeLeft := TRIVIA_SECONDS,
       tr_done := False, tr_shared := False\<rparr>"

definition phone_resetTrivia :: "trivia \<Rightarrow> trivia" where
  "phone_resetTrivia g =
     g\<lparr>tr_index := 0, tr_selected := None, tr_score := 0, tr_streak := 0, tr_timeLeft := TRIVIA_SECONDS,
       tr_done := False\<rparr>"

section \<open>The host's builder\<close>

record trivia_form =
  qf_question :: jstr
  qf_category :: jstr
  qf_options :: "jstr list"
  qf_answer :: int
  qf_explanation :: jstr

definition or_text :: "jstr \<Rightarrow> jstr \<Rightarrow> jstr" where
  "or_text s t = (if s = [] then t else s)"

text \<open>\<open>None\<close> is a form the builder does not take.\<close>

definition custom_question :: "jstr \<Rightarrow> jstr \<Rightarrow> trivia_form \<Rightarrow> trivia_question option" where
  "custom_question category explanation f =
     (let validOpts = map js_trim (qf_options f) in
      if js_trim (qf_question f) = [] \<or> [] \<in> set validOpts then None
      else Some \<lparr>tq_category = or_text (js_trim (qf_category f)) category, tq_question = js_trim (qf_question f),
                 tq_options = validOpts, tq_answer = qf_answer f,
                 tq_explanation = or_text (js_trim (qf_explanation f)) explanation\<rparr>)"

text \<open>\<open>stores\<close> says whether the write comes off; when it does not, the deck still grows.\<close>

definition save_trivia ::
  "jstr \<Rightarrow> jstr \<Rightarrow> bool \<Rightarrow> uuid \<Rightarrow> trivia_form \<Rightarrow> trivia \<times> deck_store \<Rightarrow> trivia \<times> deck_store" where
  "save_trivia category explanation stores r f = (\<lambda>(g, m).
     case custom_question category explanation f of
       None \<Rightarrow> (g, m)
     | Some q \<Rightarrow>
         (g\<lparr>tr_deck := q # tr_deck g\<rparr>,
          if stores then m\<lparr>ds_trivia := (ds_trivia m)(r \<mapsto> q # tr_deck g)\<rparr> else m))"

definition handleSaveCustomTrivia ::
  "bool \<Rightarrow> uuid \<Rightarrow> trivia_form \<Rightarrow> trivia \<times> deck_store \<Rightarrow> trivia \<times> deck_store" where
  "handleSaveCustomTrivia = save_trivia (js ''Custom Trivia'') (js ''Created by the room host!'')"

definition phone_saveTrivia ::
  "bool \<Rightarrow> uuid \<Rightarrow> trivia_form \<Rightarrow> trivia \<times> deck_store \<Rightarrow> trivia \<times> deck_store" where
  "phone_saveTrivia = save_trivia (js ''Custom trivia'') (js ''Created by the room host.'')"

definition handleSaveCustomWyr ::
  "bool \<Rightarrow> uuid \<Rightarrow> jstr \<Rightarrow> jstr \<Rightarrow> would_you_rather list \<times> deck_store \<Rightarrow> would_you_rather list \<times> deck_store" where
  "handleSaveCustomWyr stores r a b = (\<lambda>(deck, m).
     if js_trim a = [] \<or> js_trim b = [] then (deck, m)
     else let updated = \<lparr>wy_optionA = js_trim a, wy_optionB = js_trim b, wy_votesA = 1, wy_votesB = 1\<rparr> # deck
          in (updated, if stores then m\<lparr>ds_wyr := (ds_wyr m)(r \<mapsto> updated)\<rparr> else m))"

definition handleSaveCustomTod ::
  "bool \<Rightarrow> uuid \<Rightarrow> tod_type \<Rightarrow> jstr \<Rightarrow> truth_or_dare list \<times> deck_store \<Rightarrow> truth_or_dare list \<times> deck_store" where
  "handleSaveCustomTod stores r type text = (\<lambda>(deck, m).
     if js_trim text = [] then (deck, m)
     else let updated = \<lparr>td_type = type, td_text = js_trim text\<rparr> # deck
          in (updated, if stores then m\<lparr>ds_tod := (ds_tod m)(r \<mapsto> updated)\<rparr> else m))"

text \<open>What the browser opens a room's decks with.\<close>

definition open_trivia :: "room_type \<Rightarrow> uuid \<Rightarrow> deck_store \<Rightarrow> trivia" where
  "open_trivia type r m = new_trivia (initialMode type) (saved_or DEFAULT_TRIVIA_DECK (ds_trivia m r))"

text \<open>The phone starts with the built-in deck and takes the saved one when it has been read.\<close>

definition phone_load :: "uuid \<Rightarrow> deck_store \<Rightarrow> trivia \<Rightarrow> trivia" where
  "phone_load r m g = (case ds_trivia m r of None \<Rightarrow> g | Some d \<Rightarrow> g\<lparr>tr_deck := d\<rparr>)"

text \<open>What the host adds is what the room opens with the next time, on either client.\<close>

lemma saved_deck_returns:
  assumes "custom_question category explanation f = Some q"
  shows "let (g', m') = save_trivia category explanation True r f (g, m)
         in tr_deck (open_trivia type r m') = q # tr_deck g
            \<and> tr_deck (phone_load r m' g'') = q # tr_deck g"
  using assms by (simp add: save_trivia_def open_trivia_def saved_or_def new_trivia_def phone_load_def)

section \<open>Would you rather, truth or dare\<close>

datatype choice = Choice_A | Choice_B

record dilemmas =
  wr_deck :: "would_you_rather list"
  wr_index :: nat
  wr_voted :: "choice option"

text \<open>The web marks the choice and counts nothing; the phone counts it.\<close>

definition web_voteWyr :: "choice \<Rightarrow> dilemmas \<Rightarrow> dilemmas" where
  "web_voteWyr side d = d\<lparr>wr_voted := Some side\<rparr>"

definition phone_voteWyr :: "choice \<Rightarrow> dilemmas \<Rightarrow> dilemmas" where
  "phone_voteWyr side d =
     (if wr_voted d \<noteq> None \<or> (js_at (wr_deck d) (wr_index d) = None \<and> js_at (wr_deck d) 0 = None) then d
      else d\<lparr>wr_voted := Some side,
             wr_deck := map (\<lambda>(index, item).
                 if index = wr_index d
                 then item\<lparr>wy_votesA := wy_votesA item + (if side = Choice_A then 1 else 0),
                           wy_votesB := wy_votesB item + (if side = Choice_B then 1 else 0)\<rparr>
                 else item) (enumerate 0 (wr_deck d))\<rparr>)"

definition nextWyr :: "dilemmas \<Rightarrow> dilemmas" where
  "nextWyr d = d\<lparr>wr_index := (wr_index d + 1) mod length (wr_deck d), wr_voted := None\<rparr>"

definition nextTod :: "truth_or_dare list \<Rightarrow> nat \<Rightarrow> nat" where
  "nextTod deck i = (i + 1) mod length deck"

text \<open>Going on brings every card of a deck round again.\<close>

lemma cards_come_round: "i < length deck \<Longrightarrow> (nextTod deck ^^ length deck) i = i"
proof -
  have "(nextTod deck ^^ n) i = (i + n) mod length deck" if "i < length deck" for n i
    using that by (induction n) (auto simp: nextTod_def mod_Suc_eq)
  then show "i < length deck \<Longrightarrow> ?thesis" by simp
qed

text \<open>
  So the phone counts one person as often as the dilemma comes round, and the web never.
\<close>

lemma dilemma_votes:
  "(let d = \<lparr>wr_deck = [\<lparr>wy_optionA = [], wy_optionB = [], wy_votesA = 1, wy_votesB = 1\<rparr>], wr_index = 0, wr_voted = None\<rparr>
    in map wy_votesA (wr_deck (phone_voteWyr Choice_A (nextWyr (phone_voteWyr Choice_A d)))) = [3]
       \<and> map wy_votesA (wr_deck (web_voteWyr Choice_A (nextWyr (web_voteWyr Choice_A d)))) = [1])"
  by code_simp

section \<open>The word chain\<close>

record chain =
  wc_words :: "jstr list"
  wc_input :: jstr

definition new_chain :: chain where
  "new_chain = \<lparr>wc_words = [js ''GENZH'', js ''HYPER'', js ''REACT'', js ''TURBO''], wc_input = []\<rparr>"

definition lastLetter :: "jstr list \<Rightarrow> nat" where
  "lastLetter words =
     (let lastWord = (if words = [] then js ''GENZH'' else last words)
      in if lastWord = [] then of_char CHR ''H'' else last lastWord)"

text \<open>
  \<open>upper\<close> is \<open>toUpperCase\<close> with the tables of Unicode. The second result is the message of a
  milestone, which the web posts.
\<close>

definition handleAddWord :: "(jstr \<Rightarrow> jstr) \<Rightarrow> chain \<Rightarrow> chain \<times> jstr option" where
  "handleAddWord upper c =
     (let word = upper (js_trim (wc_input c)) in
      if word = [] then (c, None)
      else if hd word \<noteq> lastLetter (wc_words c) then (c, None)
      else let nextChain = wc_words c @ [word] in
           (c\<lparr>wc_words := nextChain, wc_input := []\<rparr>,
            if length nextChain mod 5 = 0
            then Some ([9889] @ js '' **WORD CHAIN MILESTONE!** Chain reached **'' @ decimal (length nextChain)
                   @ js '' words**! Last word: **'' @ word @ js ''** (Next starts with: **'' @ [last word] @ js ''**)'')
            else None))"

definition phone_addWord :: "(jstr \<Rightarrow> jstr) \<Rightarrow> chain \<Rightarrow> chain \<times> jstr option" where
  "phone_addWord upper c =
     (let word = upper (js_trim (wc_input c)) in
      if word = [] then (c, None)
      else if hd word \<noteq> lastLetter (wc_words c) then (c, None)
      else let nextChain = wc_words c @ [word] in
           (c\<lparr>wc_words := nextChain, wc_input := []\<rparr>,
            if length nextChain mod 5 = 0
            then Some ([9889] @ js '' WORD CHAIN MILESTONE '' @ [8212] @ js '' '' @ decimal (length nextChain)
                   @ js '' words! Last: '' @ word @ js '' (next starts with '' @ [last word] @ js '')'')
            else None))"

text \<open>Words in a chain: none empty, each starting as the one before it ends.\<close>

definition linked :: "jstr list \<Rightarrow> bool" where
  "linked words \<longleftrightarrow> [] \<notin> set words \<and> successively (\<lambda>a b. last a = hd b) words"

lemma linked_snoc: "linked words \<Longrightarrow> w \<noteq> [] \<Longrightarrow> hd w = lastLetter words \<Longrightarrow> linked (words @ [w])"
  by (auto simp: linked_def lastLetter_def successively_append_iff Let_def dest: last_in_set)

lemma chain_stays_linked:
  assumes "linked (wc_words c)"
  shows "linked (wc_words (fst (handleAddWord upper c))) \<and> linked (wc_words (fst (phone_addWord upper c)))"
  using assms linked_snoc [OF assms] by (simp add: handleAddWord_def phone_addWord_def Let_def)

lemma chain_starts_linked: "linked (wc_words new_chain)"
  by code_simp

section \<open>A game of trivia\<close>

datatype trivia_act =
    Second_passes
  | Pick int
  | Next_question
  | Play_again
  | Switch_mode game_mode
  | Add_question bool trivia_form
  | Results_posted

fun web_play :: "uuid \<Rightarrow> trivia_act \<Rightarrow> trivia \<times> deck_store \<Rightarrow> trivia \<times> deck_store" where
  "web_play r Second_passes (g, m) = (countdown g, m)"
| "web_play r (Pick i) (g, m) = (handleSelectTriviaOption i g, m)"
| "web_play r Next_question (g, m) = (handleNextTrivia g, m)"
| "web_play r Play_again (g, m) = (handleResetTrivia g, m)"
| "web_play r (Switch_mode mode) (g, m) = (g\<lparr>tr_mode := mode\<rparr>, m)"
| "web_play r (Add_question stores f) (g, m) = handleSaveCustomTrivia stores r f (g, m)"
| "web_play r Results_posted (g, m) = (g\<lparr>tr_shared := True\<rparr>, m)"

fun phone_play :: "uuid \<Rightarrow> trivia_act \<Rightarrow> trivia \<times> deck_store \<Rightarrow> trivia \<times> deck_store" where
  "phone_play r Second_passes (g, m) = (phone_countdown g, m)"
| "phone_play r (Pick i) (g, m) = (phone_answer i g, m)"
| "phone_play r Next_question (g, m) = (handleNextTrivia g, m)"
| "phone_play r Play_again (g, m) = (phone_resetTrivia g, m)"
| "phone_play r (Switch_mode mode) (g, m) = (g\<lparr>tr_mode := mode\<rparr>, m)"
| "phone_play r (Add_question stores f) (g, m) = phone_saveTrivia stores r f (g, m)"
| "phone_play r Results_posted (g, m) = (g, m)"

text \<open>
  A question is worth 100 and ten a second that is left of its fifteen, so 250 at the most,
  and each of the answers a streak counts brought in 100 at least.
\<close>

definition within_bounds :: "trivia \<Rightarrow> bool" where
  "within_bounds g \<longleftrightarrow>
     0 \<le> tr_timeLeft g \<and> tr_timeLeft g \<le> 15
     \<and> 0 \<le> tr_streak g \<and> 100 * tr_streak g \<le> tr_score g
     \<and> tr_score g \<le> 250 * (int (tr_index g) + of_bool (tr_selected g \<noteq> None))
     \<and> tr_index g < length (tr_deck g)"

lemmas trivia_defs = countdown_def phone_countdown_def handleSelectTriviaOption_def phone_answer_def
  handleNextTrivia_def handleResetTrivia_def phone_resetTrivia_def handleSaveCustomTrivia_def phone_saveTrivia_def
  save_trivia_def TRIVIA_SECONDS_def Let_def

lemma play_within:
  assumes "within_bounds g" and "ds_trivia m r \<noteq> Some []"
  shows "within_bounds (fst (web_play r a (g, m))) \<and> within_bounds (fst (phone_play r a (g, m)))
    \<and> ds_trivia (snd (web_play r a (g, m))) r \<noteq> Some [] \<and> ds_trivia (snd (phone_play r a (g, m))) r \<noteq> Some []"
  using assms by (cases a) (auto simp: within_bounds_def trivia_defs js_at_def of_bool_def split: option.split if_splits)

lemma web_plays_within:
  assumes "within_bounds (fst s)" and "ds_trivia (snd s) r \<noteq> Some []"
  shows "within_bounds (fst (fold (web_play r) acts s)) \<and> ds_trivia (snd (fold (web_play r) acts s)) r \<noteq> Some []"
proof (induction acts rule: rev_induct)
  case (snoc a acts)
  then show ?case using play_within by (cases "fold (web_play r) acts s") simp
qed (simp add: assms)

lemma phone_plays_within:
  assumes "within_bounds (fst s)" and "ds_trivia (snd s) r \<noteq> Some []"
  shows "within_bounds (fst (fold (phone_play r) acts s)) \<and> ds_trivia (snd (fold (phone_play r) acts s)) r \<noteq> Some []"
proof (induction acts rule: rev_induct)
  case (snoc a acts)
  then show ?case using play_within by (cases "fold (phone_play r) acts s") simp
qed (simp add: assms)

text \<open>
  C39. Trivia keeps its clock and its score within bounds. Whatever is pressed and however the
  host adds to the deck, from the deck the room opens with: the clock stays between nought
  and fifteen, the question asked is one of the deck, the streak stands for answers that each
  brought 100, and the score is at most 250 for every question that was answered or left
  behind, so at most 250 for every question of the deck; and no deck is ever saved empty.
\<close>

theorem trivia_within_bounds:
  assumes "ds_trivia m r \<noteq> Some []"
  shows "(let (g, m') = fold (web_play r) acts (open_trivia type r m, m)
          in within_bounds g \<and> tr_score g \<le> 250 * int (length (tr_deck g)) \<and> ds_trivia m' r \<noteq> Some [])
    \<and> (let (g, m') = fold (phone_play r) acts (phone_load r m (new_trivia (initialMode type) phone_TRIVIA_DECK), m)
       in within_bounds g \<and> tr_score g \<le> 250 * int (length (tr_deck g)) \<and> ds_trivia m' r \<noteq> Some [])"
proof -
  have all: "tr_score g \<le> 250 * int (length (tr_deck g))" if "within_bounds g" for g
    using that by (auto simp: within_bounds_def of_bool_def split: if_splits)
  have "within_bounds (open_trivia type r m)"
    "within_bounds (phone_load r m (new_trivia (initialMode type) phone_TRIVIA_DECK))"
    using assms
    by (auto simp: within_bounds_def open_trivia_def phone_load_def new_trivia_def saved_or_def TRIVIA_SECONDS_def
        DEFAULT_TRIVIA_DECK_def phone_TRIVIA_DECK_def split: option.split)
  with assms web_plays_within [of "(open_trivia type r m, m)" r acts]
    phone_plays_within [of "(phone_load r m (new_trivia (initialMode type) phone_TRIVIA_DECK), m)" r acts]
  show ?thesis by (simp add: all case_prod_beta Let_def)
qed

definition demo_question :: "int \<Rightarrow> trivia_question" where
  "demo_question a =
     \<lparr>tq_category = [], tq_question = js ''?'', tq_options = [js ''x'', js ''y''], tq_answer = a, tq_explanation = []\<rparr>"

definition demo_decks :: deck_store where
  "demo_decks = \<lparr>ds_trivia = [''r'' \<mapsto> [demo_question 0, demo_question 1]], ds_wyr = Map.empty, ds_tod = Map.empty\<rparr>"

definition demo_acts :: "trivia_act list" where
  "demo_acts = [Second_passes, Pick 0, Next_question, Pick 1]"

definition demo_game :: "trivia \<times> deck_store" where
  "demo_game = fold (web_play ''r'') demo_acts (new_trivia Trivia_mode [demo_question 0, demo_question 1], demo_decks)"

theorem trivia_within_bounds_witness:
  "within_bounds (fst demo_game) \<and> tr_score (fst demo_game) = 490 \<and> tr_streak (fst demo_game) = 2"
proof -
  have "ds_trivia demo_decks ''r'' \<noteq> Some []" by (simp add: demo_decks_def)
  moreover have "open_trivia Trivia ''r'' demo_decks = new_trivia Trivia_mode [demo_question 0, demo_question 1]"
    by (simp add: open_trivia_def saved_or_def initialMode_def demo_decks_def)
  ultimately have "within_bounds (fst demo_game)"
    using trivia_within_bounds [of demo_decks "''r''" demo_acts Trivia]
    unfolding demo_game_def by (simp add: case_prod_beta Let_def)
  moreover have "tr_score (fst demo_game) = 490 \<and> tr_streak (fst demo_game) = 2" by code_simp
  ultimately show ?thesis by simp
qed

text \<open>
  What is posted as the best streak is the last one, and a question that ran out does not end it.
\<close>

lemma streak_is_not_best:
  "(let start = (new_trivia Trivia_mode [demo_question 0, demo_question 1, demo_question 0], demo_decks);
        missed = fold (web_play ''r'') ([Pick 0, Next_question] @ replicate 16 Second_passes @ [Next_question, Pick 0]) start;
        wrong = fold (web_play ''r'') [Pick 0, Next_question, Pick 1, Next_question, Pick 1] start
    in tr_streak (fst missed) = 2 \<and> tr_streak (fst wrong) = 0)"
  by code_simp

text \<open>
  A question added in the middle of a game takes the place of the first: the one on show moves
  down and the last one, answered already, is asked again.
\<close>

lemma added_question_shifts:
  assumes "custom_question (js ''Custom Trivia'') (js ''Created by the room host!'') f = Some q" and "tr_index g = Suc i"
  shows "js_at (tr_deck (fst (web_play r (Add_question stores f) (g, m)))) (tr_index (fst (web_play r (Add_question stores f) (g, m))))
         = js_at (tr_deck g) i"
  using assms by (simp add: handleSaveCustomTrivia_def save_trivia_def js_at_def)

end
