(* ===== verification/WebVoice.thy ===== *)
theory WebVoice
  imports CallMedia
begin

text \<open>
  The web's voice rooms, \<open>apps/web/src/lib/media/useVoiceRoom.tsx\<close>: the state of the provider
  and of the rooms of the package it has made. A callback that awaits is one definition per
  stretch between two awaits. Switching devices changes nothing that is kept here.
\<close>

section \<open>Participants\<close>

datatype track_source = Microphone_source | Camera_source | Screen_source

text \<open>A publication has a track or not; a track is a number and has a media stream or not.\<close>

record track_publication =
  tp_source :: track_source
  tp_isMuted :: bool
  tp_isEnabled :: bool
  tp_trackSid :: string
  tp_track :: "(nat \<times> stream option) option"

record web_participant =
  wp_identity :: string
  wp_name :: string
  wp_isSpeaking :: bool
  wp_audioTracks :: "track_publication list"
  wp_videoTracks :: "track_publication list"

datatype stage_role = Stage_host | Stage_speaker | Stage_audience

record remote_participant =
  rp_id :: string
  rp_userId :: string
  rp_displayName :: string
  rp_muted :: bool
  rp_speaking :: bool
  rp_cameraOn :: bool
  rp_screenSharing :: bool
  rp_handRaised :: bool
  rp_stageRole :: stage_role
  rp_audioTrack :: "nat option"
  rp_cameraStream :: "stream option"
  rp_screenStream :: "stream option"
  rp_cameraTrackId :: "string option"
  rp_screenTrackId :: "string option"

definition findTrack :: "track_publication list \<Rightarrow> track_source \<Rightarrow> track_publication option" where
  "findTrack tracks source = List.find (\<lambda>p. tp_source p = source) tracks"

definition track_stream :: "track_publication option \<Rightarrow> stream option" where
  "track_stream p = Option.bind p (\<lambda>p. Option.bind (tp_track p) snd)"

definition participantToRemote :: "web_participant \<Rightarrow> remote_participant" where
  "participantToRemote p =
     (let micTrack = findTrack (wp_audioTracks p) Microphone_source;
          cameraTrack = findTrack (wp_videoTracks p) Camera_source;
          screenTrack = findTrack (wp_videoTracks p) Screen_source
      in \<lparr>rp_id = wp_identity p, rp_userId = wp_identity p,
          rp_displayName = (if wp_name p = [] then ''Unknown'' else wp_name p),
          rp_muted = (case micTrack of None \<Rightarrow> True | Some t \<Rightarrow> tp_isMuted t),
          rp_speaking = wp_isSpeaking p,
          rp_cameraOn = (case cameraTrack of None \<Rightarrow> False | Some t \<Rightarrow> tp_isEnabled t),
          rp_screenSharing = (case screenTrack of None \<Rightarrow> False | Some t \<Rightarrow> tp_isEnabled t),
          rp_handRaised = False, rp_stageRole = Stage_speaker,
          rp_audioTrack = Option.bind micTrack (\<lambda>t. map_option fst (tp_track t)),
          rp_cameraStream = track_stream cameraTrack,
          rp_screenStream = track_stream screenTrack,
          rp_cameraTrackId = map_option tp_trackSid cameraTrack,
          rp_screenTrackId = map_option tp_trackSid screenTrack\<rparr>)"

section \<open>What went wrong with a device\<close>

datatype device = Microphone | Camera | Screen_device

fun kind_text :: "device \<Rightarrow> string" where
  "kind_text Microphone = ''microphone''"
| "kind_text Camera = ''camera''"
| "kind_text Screen_device = ''screen share''"

fun Kind_text :: "device \<Rightarrow> string" where
  "Kind_text Microphone = ''Microphone''"
| "Kind_text Camera = ''Camera''"
| "Kind_text Screen_device = ''Screen share''"

text \<open>What was thrown: its name, if it is a \<open>DOMException\<close>, and its message.\<close>

record thrown =
  th_dom :: "string option"
  th_message :: string

definition mediaErrorMessage :: "thrown \<Rightarrow> device \<Rightarrow> string" where
  "mediaErrorMessage err kind =
     (let rest =
        if js_includes (ascii_lower (js (th_message err))) (js ''permission'')
        then ''You don't have permission to use your '' @ kind_text kind @ '' in this room.''
        else ''Could not start '' @ kind_text kind @ '': '' @ th_message err
      in case th_dom err of
           None \<Rightarrow> rest
         | Some name \<Rightarrow>
             if name = ''NotAllowedError'' \<or> name = ''SecurityError''
             then Kind_text kind @ '' access was denied. Check your browser's site permissions and try again.''
             else if name = ''NotFoundError'' then ''No '' @ kind_text kind @ '' device was found.''
             else if name = ''NotReadableError''
             then ''The '' @ kind_text kind @ '' is already in use by another application.''
             else if name = ''OverconstrainedError''
             then ''The selected '' @ kind_text kind @ '' device is not available.''
             else rest)"

section \<open>The provider\<close>

text \<open>
  A room of the package: the room of the app it was made for, who else is there, whether it
  is connected, and what of the person's it is sending.
\<close>

record web_room =
  wr_roomId :: uuid
  wr_remote :: "web_participant list"
  wr_connected :: bool
  wr_microphone :: bool
  wr_camera :: bool
  wr_screen :: bool

record stored_voice_session =
  vs_roomId :: uuid
  vs_roomName :: "string option"
  vs_communityId :: "uuid option"

text \<open>Where a \<open>join\<close> that is under way waits; its flag says whether the page began it itself.\<close>

datatype join_stage = Asking_media uuid | Connecting nat | Silencing nat | Starting_audio nat | Entering nat

text \<open>The requests for devices that are under way, with the room they were made of.\<close>

datatype device_call = Set_muted bool | Start_camera | Stop_camera | Start_screen | Stop_screen

record web_voice =
  wv_activeSession :: "stored_voice_session option"
  wv_stored :: "stored_voice_session option"
  wv_muted :: bool
  wv_cameraOn :: bool
  wv_screenSharing :: bool
  wv_handRaised :: bool
  wv_stageRole :: stage_role
  wv_status :: call_status
  wv_error :: "string option"
  wv_participants :: "remote_participant list"
  wv_speaking :: bool
  wv_audioBlocked :: bool
  wv_cameraStream :: "stream option"
  wv_screenStream :: "stream option"
  wv_room :: "nat option"
  wv_rejoined :: bool
  wv_rooms :: "web_room list"
  wv_joins :: "(join_stage \<times> bool) list"
  wv_leaving :: "nat list"
  wv_calls :: "(nat \<times> device_call) list"

definition new_web_voice :: "stored_voice_session option \<Rightarrow> web_voice" where
  "new_web_voice stored =
     \<lparr>wv_activeSession = stored, wv_stored = stored, wv_muted = True, wv_cameraOn = False, wv_screenSharing = False,
      wv_handRaised = False, wv_stageRole = Stage_speaker, wv_status = Call_idle, wv_error = None,
      wv_participants = [], wv_speaking = False, wv_audioBlocked = False, wv_cameraStream = None,
      wv_screenStream = None, wv_room = None, wv_rejoined = False, wv_rooms = [], wv_joins = [], wv_leaving = [],
      wv_calls = []\<rparr>"

definition on_web_room :: "nat \<Rightarrow> (web_room \<Rightarrow> web_room) \<Rightarrow> web_voice \<Rightarrow> web_voice" where
  "on_web_room i f v = v\<lparr>wv_rooms := (wv_rooms v)[i := f (wv_rooms v ! i)]\<rparr>"

definition refreshParticipants :: "web_voice \<Rightarrow> web_voice" where
  "refreshParticipants v =
     (case wv_room v of
        None \<Rightarrow> v
      | Some i \<Rightarrow> v\<lparr>wv_participants := map participantToRemote (wr_remote (wv_rooms v ! i))\<rparr>)"

text \<open>
  \<open>removeItem\<close> throws only where storage is closed to the page, and there nothing was stored.
\<close>

definition clearStoredSession :: "web_voice \<Rightarrow> web_voice" where
  "clearStoredSession v = v\<lparr>wv_activeSession := None, wv_stored := None\<rparr>"

subsection \<open>\<open>join\<close>\<close>

definition join_begun ::
  "bool \<Rightarrow> bool \<Rightarrow> uuid \<Rightarrow> string option \<Rightarrow> uuid option \<Rightarrow> web_voice \<Rightarrow> web_voice" where
  "join_begun auto stores roomId roomName communityId v =
     (let session = \<lparr>vs_roomId = roomId, vs_roomName = roomName, vs_communityId = communityId\<rparr>
      in v\<lparr>wv_status := Call_connecting, wv_error := None, wv_activeSession := Some session,
           wv_stored := (if stores then Some session else wv_stored v),
           wv_joins := wv_joins v @ [(Asking_media roomId, auto)]\<rparr>)"

text \<open>\<open>media.join\<close> has answered: the room is made and listened to.\<close>

definition media_joined :: "uuid \<Rightarrow> bool \<Rightarrow> web_voice \<Rightarrow> web_voice" where
  "media_joined roomId auto v =
     v\<lparr>wv_rooms := wv_rooms v @
         [\<lparr>wr_roomId = roomId, wr_remote = [], wr_connected = False, wr_microphone = False, wr_camera = False,
           wr_screen = False\<rparr>],
       wv_joins := remove1 (Asking_media roomId, auto) (wv_joins v) @ [(Connecting (length (wv_rooms v)), auto)]\<rparr>"

definition room_connected :: "nat \<Rightarrow> bool \<Rightarrow> web_participant list \<Rightarrow> web_voice \<Rightarrow> web_voice" where
  "room_connected i auto others v =
     (on_web_room i (\<lambda>r. r\<lparr>wr_connected := True, wr_remote := others\<rparr>) v)
       \<lparr>wv_joins := remove1 (Connecting i, auto) (wv_joins v) @ [(Silencing i, auto)]\<rparr>"

definition microphone_off :: "nat \<Rightarrow> bool \<Rightarrow> bool \<Rightarrow> web_voice \<Rightarrow> web_voice" where
  "microphone_off i auto canPlaybackAudio v =
     (let v = on_web_room i (\<lambda>r. r\<lparr>wr_microphone := False\<rparr>) v;
          v = v\<lparr>wv_joins := remove1 (Silencing i, auto) (wv_joins v)\<rparr>
      in if canPlaybackAudio then v\<lparr>wv_audioBlocked := False, wv_joins := wv_joins v @ [(Entering i, auto)]\<rparr>
         else v\<lparr>wv_joins := wv_joins v @ [(Starting_audio i, auto)]\<rparr>)"

definition audio_asked :: "nat \<Rightarrow> bool \<Rightarrow> bool \<Rightarrow> web_voice \<Rightarrow> web_voice" where
  "audio_asked i auto canPlaybackAudio v =
     v\<lparr>wv_audioBlocked := \<not> canPlaybackAudio,
       wv_joins := remove1 (Starting_audio i, auto) (wv_joins v) @ [(Entering i, auto)]\<rparr>"

definition entered :: "nat \<Rightarrow> bool \<Rightarrow> web_voice \<Rightarrow> web_voice" where
  "entered i auto v =
     (refreshParticipants (v\<lparr>wv_room := Some i, wv_joins := remove1 (Entering i, auto) (wv_joins v)\<rparr>))
       \<lparr>wv_status := Call_connected, wv_muted := True, wv_cameraOn := False, wv_screenSharing := False\<rparr>"

text \<open>A join that throws; the page's own join forgets the stored session then.\<close>

definition join_failed :: "join_stage \<Rightarrow> bool \<Rightarrow> string option \<Rightarrow> web_voice \<Rightarrow> web_voice" where
  "join_failed stage auto message v =
     (let v = v\<lparr>wv_joins := remove1 (stage, auto) (wv_joins v),
                wv_error := Some (case message of Some m \<Rightarrow> m | None \<Rightarrow> ''Failed to join room''),
                wv_status := Call_failed\<rparr>
      in if auto then clearStoredSession v else v)"

text \<open>The effect that joins again what a reload left, once.\<close>

definition auto_rejoin :: "bool \<Rightarrow> bool \<Rightarrow> web_voice \<Rightarrow> web_voice" where
  "auto_rejoin signedIn stores v =
     (if \<not> signedIn \<or> wv_rejoined v then v
      else let v = v\<lparr>wv_rejoined := True\<rparr> in
           case wv_activeSession v of
             None \<Rightarrow> v
           | Some s \<Rightarrow>
               if vs_roomId s = [] then v
               else join_begun True stores (vs_roomId s) (vs_roomName s) (vs_communityId s) v)"

subsection \<open>\<open>leave\<close>, and rooms that go away\<close>

definition room_gone :: "nat \<Rightarrow> web_voice \<Rightarrow> web_voice" where
  "room_gone i v =
     (on_web_room i (\<lambda>r. r\<lparr>wr_connected := False, wr_microphone := False, wr_camera := False, wr_screen := False\<rparr>) v)
       \<lparr>wv_room := None, wv_status := Call_idle, wv_participants := [], wv_audioBlocked := False\<rparr>"

definition leave_done :: "web_voice \<Rightarrow> web_voice" where
  "leave_done v =
     (clearStoredSession v)
       \<lparr>wv_status := Call_idle, wv_error := None, wv_audioBlocked := False, wv_muted := True, wv_cameraOn := False,
        wv_screenSharing := False, wv_cameraStream := None, wv_screenStream := None, wv_participants := []\<rparr>"

definition leave_voice :: "web_voice \<Rightarrow> web_voice" where
  "leave_voice v =
     (case wv_room v of
        None \<Rightarrow> leave_done v
      | Some i \<Rightarrow> v\<lparr>wv_room := None, wv_leaving := wv_leaving v @ [i]\<rparr>)"

text \<open>The package says a room is gone before \<open>disconnect\<close> returns.\<close>

definition room_left :: "nat \<Rightarrow> web_voice \<Rightarrow> web_voice" where
  "room_left i v = leave_done (room_gone i (v\<lparr>wv_leaving := remove1 i (wv_leaving v)\<rparr>))"

subsection \<open>What a room reports\<close>

datatype voice_event =
    Participants_changed "web_participant list"
  | Speakers_changed bool "web_participant list"
  | Lost_connection | Found_connection
  | Playback_changed bool
  | Went_away

fun room_event :: "nat \<Rightarrow> voice_event \<Rightarrow> web_voice \<Rightarrow> web_voice" where
  "room_event i (Participants_changed ps) v = refreshParticipants (on_web_room i (\<lambda>r. r\<lparr>wr_remote := ps\<rparr>) v)"
| "room_event i (Speakers_changed me ps) v =
     (refreshParticipants (on_web_room i (\<lambda>r. r\<lparr>wr_remote := ps\<rparr>) v))\<lparr>wv_speaking := me\<rparr>"
| "room_event i Lost_connection v = v\<lparr>wv_status := Call_reconnecting\<rparr>"
| "room_event i Found_connection v = v\<lparr>wv_status := Call_connected\<rparr>"
| "room_event i (Playback_changed canPlaybackAudio) v = v\<lparr>wv_audioBlocked := \<not> canPlaybackAudio\<rparr>"
| "room_event i Went_away v = room_gone i v"

subsection \<open>Devices\<close>

definition setMuted :: "bool \<Rightarrow> web_voice \<Rightarrow> web_voice" where
  "setMuted next v =
     (case wv_room v of
        None \<Rightarrow> v\<lparr>wv_muted := next\<rparr>
      | Some i \<Rightarrow> v\<lparr>wv_calls := wv_calls v @ [(i, Set_muted next)]\<rparr>)"

definition toggleMute :: "web_voice \<Rightarrow> web_voice" where
  "toggleMute v = setMuted (\<not> wv_muted v) v"

definition ask_device :: "device_call \<Rightarrow> web_voice \<Rightarrow> web_voice" where
  "ask_device c v = (case wv_room v of None \<Rightarrow> v | Some i \<Rightarrow> v\<lparr>wv_calls := wv_calls v @ [(i, c)]\<rparr>)"

definition startCamera :: "web_voice \<Rightarrow> web_voice" where
  "startCamera v = ask_device Start_camera v"

definition stopCamera :: "web_voice \<Rightarrow> web_voice" where
  "stopCamera v = ask_device Stop_camera v"

definition toggleCamera :: "web_voice \<Rightarrow> web_voice" where
  "toggleCamera v = (if wv_cameraOn v then stopCamera v else startCamera v)"

definition startScreenShare :: "web_voice \<Rightarrow> web_voice" where
  "startScreenShare v = ask_device Start_screen v"

definition stopScreenShare :: "web_voice \<Rightarrow> web_voice" where
  "stopScreenShare v = ask_device Stop_screen v"

definition toggleScreenShare :: "web_voice \<Rightarrow> web_voice" where
  "toggleScreenShare v = (if wv_screenSharing v then stopScreenShare v else startScreenShare v)"

text \<open>
  The answers. A room that is gone sends nothing; \<open>stream\<close> is that of the new publication.
\<close>

fun device_answered :: "nat \<Rightarrow> device_call \<Rightarrow> stream option \<Rightarrow> web_voice \<Rightarrow> web_voice" where
  "device_answered i (Set_muted next) stream v =
     (on_web_room i (\<lambda>r. r\<lparr>wr_microphone := \<not> next \<and> wr_connected r\<rparr>) v)\<lparr>wv_muted := next, wv_error := None\<rparr>"
| "device_answered i Start_camera stream v =
     (on_web_room i (\<lambda>r. r\<lparr>wr_camera := wr_connected r\<rparr>) v)
       \<lparr>wv_cameraOn := True, wv_cameraStream := stream, wv_error := None\<rparr>"
| "device_answered i Stop_camera stream v =
     (on_web_room i (\<lambda>r. r\<lparr>wr_camera := False\<rparr>) v)\<lparr>wv_cameraOn := False, wv_cameraStream := None\<rparr>"
| "device_answered i Start_screen stream v =
     (on_web_room i (\<lambda>r. r\<lparr>wr_screen := wr_connected r\<rparr>) v)
       \<lparr>wv_screenSharing := True, wv_screenStream := stream, wv_error := None\<rparr>"
| "device_answered i Stop_screen stream v =
     (on_web_room i (\<lambda>r. r\<lparr>wr_screen := False\<rparr>) v)\<lparr>wv_screenSharing := False, wv_screenStream := None\<rparr>"

fun device_refused :: "device_call \<Rightarrow> thrown \<Rightarrow> web_voice \<Rightarrow> web_voice" where
  "device_refused (Set_muted next) err v = v\<lparr>wv_error := Some (mediaErrorMessage err Microphone)\<rparr>"
| "device_refused Start_camera err v = v\<lparr>wv_error := Some (mediaErrorMessage err Camera)\<rparr>"
| "device_refused Start_screen err v = v\<lparr>wv_error := Some (mediaErrorMessage err Screen_device)\<rparr>"
| "device_refused Stop_camera err v = v"
| "device_refused Stop_screen err v = v"

text \<open>A device may stop by itself, unplugged or by the browser's own button.\<close>

fun device_ended :: "nat \<Rightarrow> device \<Rightarrow> web_voice \<Rightarrow> web_voice" where
  "device_ended i Microphone v = on_web_room i (\<lambda>r. r\<lparr>wr_microphone := False\<rparr>) v"
| "device_ended i Camera v = on_web_room i (\<lambda>r. r\<lparr>wr_camera := False\<rparr>) v"
| "device_ended i Screen_device v = on_web_room i (\<lambda>r. r\<lparr>wr_screen := False\<rparr>) v"

text \<open>\<open>enableAudio\<close>: \<open>None\<close> is a \<open>startAudio\<close> that throws.\<close>

definition enableAudio :: "bool option \<Rightarrow> web_voice \<Rightarrow> web_voice" where
  "enableAudio canPlaybackAudio v =
     (if wv_room v = None then v
      else v\<lparr>wv_audioBlocked := (case canPlaybackAudio of None \<Rightarrow> True | Some c \<Rightarrow> \<not> c)\<rparr>)"

definition raiseHand :: "bool \<Rightarrow> web_voice \<Rightarrow> web_voice" where
  "raiseHand raised v = v\<lparr>wv_handRaised := raised\<rparr>"

definition setStageRole :: "stage_role \<Rightarrow> web_voice \<Rightarrow> web_voice" where
  "setStageRole role v = v\<lparr>wv_stageRole := role\<rparr>"

text \<open>The provider goes: the room held is disconnected.\<close>

definition voice_unmounted :: "web_voice \<Rightarrow> web_voice" where
  "voice_unmounted v = (case wv_room v of None \<Rightarrow> v | Some i \<Rightarrow> room_gone i v)"

section \<open>Steps\<close>

datatype voice_label =
    Join uuid "string option" "uuid option" bool | Rejoin bool bool
  | Media_joined uuid bool | Room_connected nat bool "web_participant list" | Microphone_off nat bool bool
  | Audio_asked nat bool bool | Entered nat bool | Join_failed join_stage bool "string option"
  | Leave | Room_left nat | Room_reports nat voice_event
  | Press_mute | Press_camera | Press_screen | Device_answered nat device_call "stream option"
  | Device_refused nat device_call thrown | Device_ended nat device
  | Raise_hand bool | Set_role stage_role | Enable_audio "bool option" | Unmount

inductive voice_step :: "web_voice \<Rightarrow> voice_label \<Rightarrow> web_voice \<Rightarrow> bool" where
  v_join: "voice_step v (Join r n c stores) (join_begun False stores r n c v)"
| v_rejoin: "voice_step v (Rejoin signedIn stores) (auto_rejoin signedIn stores v)"
| v_media: "(Asking_media r, a) \<in> set (wv_joins v) \<Longrightarrow> voice_step v (Media_joined r a) (media_joined r a v)"
| v_connected: "(Connecting i, a) \<in> set (wv_joins v) \<Longrightarrow>
     voice_step v (Room_connected i a ps) (room_connected i a ps v)"
| v_silenced: "(Silencing i, a) \<in> set (wv_joins v) \<Longrightarrow> voice_step v (Microphone_off i a plays) (microphone_off i a plays v)"
| v_audio: "(Starting_audio i, a) \<in> set (wv_joins v) \<Longrightarrow> voice_step v (Audio_asked i a plays) (audio_asked i a plays v)"
| v_entered: "(Entering i, a) \<in> set (wv_joins v) \<Longrightarrow> voice_step v (Entered i a) (entered i a v)"
| v_failed: "(p, a) \<in> set (wv_joins v) \<Longrightarrow> voice_step v (Join_failed p a m) (join_failed p a m v)"
| v_leave: "voice_step v Leave (leave_voice v)"
| v_left: "i \<in> set (wv_leaving v) \<Longrightarrow> voice_step v (Room_left i) (room_left i v)"
| v_event: "i < length (wv_rooms v) \<Longrightarrow> wr_connected (wv_rooms v ! i) \<Longrightarrow>
     voice_step v (Room_reports i ev) (room_event i ev v)"
| v_mute: "voice_step v Press_mute (toggleMute v)"
| v_camera: "voice_step v Press_camera (toggleCamera v)"
| v_screen: "voice_step v Press_screen (toggleScreenShare v)"
| v_answered: "(i, c) \<in> set (wv_calls v) \<Longrightarrow>
     voice_step v (Device_answered i c s) (device_answered i c s (v\<lparr>wv_calls := remove1 (i, c) (wv_calls v)\<rparr>))"
| v_refused: "(i, c) \<in> set (wv_calls v) \<Longrightarrow>
     voice_step v (Device_refused i c err) (device_refused c err (v\<lparr>wv_calls := remove1 (i, c) (wv_calls v)\<rparr>))"
| v_ended: "i < length (wv_rooms v) \<Longrightarrow> voice_step v (Device_ended i d) (device_ended i d v)"
| v_hand: "voice_step v (Raise_hand h) (raiseHand h v)"
| v_role: "voice_step v (Set_role r) (setStageRole r v)"
| v_enable: "voice_step v (Enable_audio plays) (enableAudio plays v)"
| v_unmount: "voice_step v Unmount (voice_unmounted v)"

inductive_cases voice_stepE: "voice_step v l v'"

text \<open>
  One thing at a time: a room is joined when none is held, joined or left and no device is
  being asked for; none is left while one is joined; and silencing a microphone that was
  never opened does not fail.
\<close>

fun in_order :: "web_voice \<Rightarrow> voice_label \<Rightarrow> bool" where
  "in_order v (Join r n c stores) = (wv_joins v = [] \<and> wv_leaving v = [] \<and> wv_room v = None \<and> wv_calls v = [])"
| "in_order v (Rejoin signedIn stores) = (wv_joins v = [] \<and> wv_leaving v = [] \<and> wv_room v = None \<and> wv_calls v = [])"
| "in_order v Leave = (wv_joins v = [])"
| "in_order v (Join_failed p a m) = (\<exists>r i. p = Asking_media r \<or> p = Connecting i)"
| "in_order v _ = True"

inductive orderly :: "stored_voice_session option \<Rightarrow> web_voice \<Rightarrow> bool" for stored where
  orderly_init: "orderly stored (new_web_voice stored)"
| orderly_step: "orderly stored v \<Longrightarrow> voice_step v l v' \<Longrightarrow> in_order v l \<Longrightarrow> orderly stored v'"

section \<open>What is kept\<close>

definition sends :: "web_room \<Rightarrow> bool" where
  "sends r \<longleftrightarrow> wr_microphone r \<or> wr_camera r \<or> wr_screen r"

definition shown :: "web_voice \<Rightarrow> web_room \<Rightarrow> bool" where
  "shown v r \<longleftrightarrow> (wr_microphone r \<longrightarrow> \<not> wv_muted v) \<and> (wr_camera r \<longrightarrow> wv_cameraOn v) \<and> (wr_screen r \<longrightarrow> wv_screenSharing v)"

fun stage_room :: "join_stage \<Rightarrow> nat option" where
  "stage_room (Asking_media r) = None"
| "stage_room (Connecting i) = Some i"
| "stage_room (Silencing i) = Some i"
| "stage_room (Starting_audio i) = Some i"
| "stage_room (Entering i) = Some i"

definition stage_ok :: "web_room list \<Rightarrow> join_stage \<Rightarrow> uuid \<Rightarrow> bool" where
  "stage_ok rooms p x \<longleftrightarrow>
     (case stage_room p of
        None \<Rightarrow> p = Asking_media x
      | Some i \<Rightarrow> i < length rooms \<and> wr_roomId (rooms ! i) = x \<and> \<not> sends (rooms ! i)
          \<and> (p = Connecting i \<longrightarrow> \<not> wr_connected (rooms ! i)))"

definition joining_ok :: "web_voice \<Rightarrow> bool" where
  "joining_ok v \<longleftrightarrow> wv_joins v = [] \<or>
     (\<exists>p a s. wv_joins v = [(p, a)] \<and> wv_room v = None \<and> wv_leaving v = [] \<and> wv_calls v = []
        \<and> wv_activeSession v = Some s \<and> stage_ok (wv_rooms v) p (vs_roomId s))"

definition held_ok :: "web_voice \<Rightarrow> bool" where
  "held_ok v \<longleftrightarrow> (\<forall>i. wv_room v = Some i \<longrightarrow>
     i < length (wv_rooms v) \<and> wv_joins v = [] \<and> wv_leaving v = []
     \<and> map_option vs_roomId (wv_activeSession v) = Some (wr_roomId (wv_rooms v ! i))
     \<and> shown v (wv_rooms v ! i) \<and> fst ` set (wv_calls v) \<subseteq> {i})"

definition web_rooms_ok :: "web_voice \<Rightarrow> bool" where
  "web_rooms_ok v \<longleftrightarrow> (\<forall>k < length (wv_rooms v).
     (wr_connected (wv_rooms v ! k) \<longrightarrow>
        wv_room v = Some k \<or> k \<in> set (wv_leaving v) \<or> Some k \<in> (stage_room \<circ> fst) ` set (wv_joins v))
     \<and> (sends (wv_rooms v ! k) \<longrightarrow> wr_connected (wv_rooms v ! k)))"

definition voice_ok :: "web_voice \<Rightarrow> bool" where
  "voice_ok v \<longleftrightarrow> joining_ok v \<and> held_ok v \<and> web_rooms_ok v"

lemma web_rooms_okD:
  "web_rooms_ok v \<Longrightarrow> k < length (wv_rooms v) \<Longrightarrow>
     (wr_connected (wv_rooms v ! k) \<longrightarrow>
        wv_room v = Some k \<or> k \<in> set (wv_leaving v) \<or> Some k \<in> (stage_room \<circ> fst) ` set (wv_joins v))
     \<and> (sends (wv_rooms v ! k) \<longrightarrow> wr_connected (wv_rooms v ! k))"
  unfolding web_rooms_ok_def by blast

lemma held_okD:
  "held_ok v \<Longrightarrow> wv_room v = Some i \<Longrightarrow>
     i < length (wv_rooms v) \<and> wv_joins v = [] \<and> wv_leaving v = []
     \<and> map_option vs_roomId (wv_activeSession v) = Some (wr_roomId (wv_rooms v ! i))
     \<and> shown v (wv_rooms v ! i) \<and> fst ` set (wv_calls v) \<subseteq> {i}"
  unfolding held_ok_def by blast

lemma on_web_room_fields [simp]:
  "wv_room (on_web_room i f v) = wv_room v" "wv_joins (on_web_room i f v) = wv_joins v"
  "wv_leaving (on_web_room i f v) = wv_leaving v" "wv_calls (on_web_room i f v) = wv_calls v"
  "wv_activeSession (on_web_room i f v) = wv_activeSession v"
  "wv_muted (on_web_room i f v) = wv_muted v" "wv_cameraOn (on_web_room i f v) = wv_cameraOn v"
  "wv_screenSharing (on_web_room i f v) = wv_screenSharing v"
  "wv_rooms (on_web_room i f v) = (wv_rooms v)[i := f (wv_rooms v ! i)]"
  by (simp_all add: on_web_room_def)

lemma refresh_web_fields [simp]:
  "wv_room (refreshParticipants v) = wv_room v" "wv_joins (refreshParticipants v) = wv_joins v"
  "wv_leaving (refreshParticipants v) = wv_leaving v" "wv_calls (refreshParticipants v) = wv_calls v"
  "wv_activeSession (refreshParticipants v) = wv_activeSession v"
  "wv_muted (refreshParticipants v) = wv_muted v" "wv_cameraOn (refreshParticipants v) = wv_cameraOn v"
  "wv_screenSharing (refreshParticipants v) = wv_screenSharing v" "wv_rooms (refreshParticipants v) = wv_rooms v"
  by (simp_all add: refreshParticipants_def split: option.split)

lemmas voice_ok_defs = voice_ok_def joining_ok_def held_ok_def web_rooms_ok_def

text \<open>Only these fields matter.\<close>

lemma voice_ok_same:
  assumes "voice_ok v" and "wv_room v' = wv_room v" "wv_joins v' = wv_joins v" "wv_leaving v' = wv_leaving v"
    "wv_calls v' = wv_calls v" "wv_activeSession v' = wv_activeSession v" "wv_muted v' = wv_muted v"
    "wv_cameraOn v' = wv_cameraOn v" "wv_screenSharing v' = wv_screenSharing v" "wv_rooms v' = wv_rooms v"
  shows "voice_ok v'"
  using assms by (simp add: voice_ok_defs shown_def)

text \<open>Rooms that have gone quieter keep everything.\<close>

definition quieter :: "web_room \<Rightarrow> web_room \<Rightarrow> bool" where
  "quieter r r' \<longleftrightarrow> wr_roomId r' = wr_roomId r \<and> (wr_connected r' \<longrightarrow> wr_connected r)
     \<and> (wr_microphone r' \<longrightarrow> wr_microphone r \<and> wr_connected r') \<and> (wr_camera r' \<longrightarrow> wr_camera r \<and> wr_connected r')
     \<and> (wr_screen r' \<longrightarrow> wr_screen r \<and> wr_connected r')"

lemma quieter_sends: "quieter r r' \<Longrightarrow> sends r' \<Longrightarrow> sends r \<and> wr_connected r'"
  by (auto simp: quieter_def sends_def)

lemma quieter_stage:
  assumes "stage_ok rooms p x" and "i < length rooms" and "quieter (rooms ! i) r"
  shows "stage_ok (rooms[i := r]) p x"
  using assms quieter_sends [OF assms(3)]
  by (cases "stage_room p") (auto simp: stage_ok_def nth_list_update quieter_def)

lemma quieter_room_ok:
  assumes "voice_ok v" and i: "i < length (wv_rooms v)" and q: "quieter (wv_rooms v ! i) (f (wv_rooms v ! i))"
  shows "voice_ok (on_web_room i f v)"
  unfolding voice_ok_def
proof (intro conjI)
  show "joining_ok (on_web_room i f v)"
    using assms(1) quieter_stage [OF _ i q] by (auto simp: voice_ok_def joining_ok_def)
  show "held_ok (on_web_room i f v)"
    using assms by (auto simp: voice_ok_def held_ok_def nth_list_update quieter_def shown_def)
  have old: "web_rooms_ok v" using assms(1) by (simp add: voice_ok_def)
  show "web_rooms_ok (on_web_room i f v)"
    unfolding web_rooms_ok_def
  proof (intro allI impI)
    fix k assume "k < length (wv_rooms (on_web_room i f v))"
    then show "(wr_connected (wv_rooms (on_web_room i f v) ! k) \<longrightarrow>
        wv_room (on_web_room i f v) = Some k \<or> k \<in> set (wv_leaving (on_web_room i f v))
        \<or> Some k \<in> (stage_room \<circ> fst) ` set (wv_joins (on_web_room i f v)))
      \<and> (sends (wv_rooms (on_web_room i f v) ! k) \<longrightarrow> wr_connected (wv_rooms (on_web_room i f v) ! k))"
      using old i q quieter_sends [OF q] by (cases "k = i") (auto simp: web_rooms_ok_def quieter_def)
  qed
qed

lemma voice_ok_new: "voice_ok (new_web_voice stored)"
  by (simp add: voice_ok_defs new_web_voice_def)

lemma join_begun_ok:
  assumes "voice_ok v" and "wv_joins v = []" "wv_leaving v = []" "wv_room v = None" "wv_calls v = []"
  shows "voice_ok (join_begun auto stores r n c v)"
  using assms by (auto simp: voice_ok_defs join_begun_def Let_def stage_ok_def)

text \<open>A join that is under way is the only one.\<close>

lemma only_join:
  assumes "voice_ok v" and "(p, a) \<in> set (wv_joins v)"
  shows "\<exists>s. wv_joins v = [(p, a)] \<and> wv_room v = None \<and> wv_leaving v = [] \<and> wv_calls v = []
    \<and> wv_activeSession v = Some s \<and> stage_ok (wv_rooms v) p (vs_roomId s)"
  using assms by (auto simp: voice_ok_def joining_ok_def)

lemma media_joined_ok:
  assumes "voice_ok v" and "(Asking_media r, a) \<in> set (wv_joins v)"
  shows "voice_ok (media_joined r a v)"
  using only_join [OF assms] assms(1)
  by (auto simp: voice_ok_defs media_joined_def stage_ok_def nth_append sends_def less_Suc_eq)

lemma room_connected_ok:
  assumes "voice_ok v" and "(Connecting i, a) \<in> set (wv_joins v)"
  shows "voice_ok (room_connected i a ps v)"
proof -
  obtain s where w: "wv_joins v = [(Connecting i, a)]" "wv_room v = None" "wv_leaving v = []" "wv_calls v = []"
    "wv_activeSession v = Some s" and "stage_ok (wv_rooms v) (Connecting i) (vs_roomId s)"
    using only_join [OF assms] by (elim exE conjE) (rule that)
  then have st: "i < length (wv_rooms v)" "wr_roomId (wv_rooms v ! i) = vs_roomId s" "\<not> sends (wv_rooms v ! i)"
    by (simp_all add: stage_ok_def)
  note j = w st
  have others: "\<not> wr_connected (wv_rooms v ! k) \<and> \<not> sends (wv_rooms v ! k)" if "k < length (wv_rooms v)" "k \<noteq> i" for k
    using that w web_rooms_okD [of v k] assms(1) by (auto simp: voice_ok_def)
  have own: "sends (wv_rooms v ! i) \<longrightarrow> wr_connected (wv_rooms v ! i)" using j(8) by simp
  let ?v = "room_connected i a ps v"
  have "joining_ok (?v)" using j by (simp add: room_connected_def joining_ok_def stage_ok_def sends_def)
  moreover have "held_ok (?v)" using j by (simp add: room_connected_def held_ok_def shown_def sends_def)
  moreover have "web_rooms_ok (?v)" unfolding web_rooms_ok_def
  proof (intro allI impI)
    fix k assume "k < length (wv_rooms (?v))"
    then show "(wr_connected (wv_rooms (?v) ! k) \<longrightarrow> wv_room (?v) = Some k \<or> k \<in> set (wv_leaving (?v))
        \<or> Some k \<in> (stage_room \<circ> fst) ` set (wv_joins (?v)))
      \<and> (sends (wv_rooms (?v) ! k) \<longrightarrow> wr_connected (wv_rooms (?v) ! k))"
      using j others [of k] own by (cases "k = i") (simp_all add: room_connected_def sends_def)
  qed
  ultimately show ?thesis by (simp add: voice_ok_def)
qed

lemma microphone_off_ok:
  assumes "voice_ok v" and "(Silencing i, a) \<in> set (wv_joins v)"
  shows "voice_ok (microphone_off i a plays v)"
proof -
  obtain s where w: "wv_joins v = [(Silencing i, a)]" "wv_room v = None" "wv_leaving v = []" "wv_calls v = []"
    "wv_activeSession v = Some s" and "stage_ok (wv_rooms v) (Silencing i) (vs_roomId s)"
    using only_join [OF assms] by (elim exE conjE) (rule that)
  then have st: "i < length (wv_rooms v)" "wr_roomId (wv_rooms v ! i) = vs_roomId s" "\<not> sends (wv_rooms v ! i)"
    by (simp_all add: stage_ok_def)
  note j = w st
  have others: "\<not> wr_connected (wv_rooms v ! k) \<and> \<not> sends (wv_rooms v ! k)" if "k < length (wv_rooms v)" "k \<noteq> i" for k
    using that w web_rooms_okD [of v k] assms(1) by (auto simp: voice_ok_def)
  have own: "sends (wv_rooms v ! i) \<longrightarrow> wr_connected (wv_rooms v ! i)" using j(8) by simp
  let ?v = "microphone_off i a plays v"
  have "joining_ok (?v)" using j by (simp add: microphone_off_def Let_def joining_ok_def stage_ok_def sends_def)
  moreover have "held_ok (?v)" using j by (simp add: microphone_off_def Let_def held_ok_def shown_def sends_def)
  moreover have "web_rooms_ok (?v)" unfolding web_rooms_ok_def
  proof (intro allI impI)
    fix k assume "k < length (wv_rooms (?v))"
    then show "(wr_connected (wv_rooms (?v) ! k) \<longrightarrow> wv_room (?v) = Some k \<or> k \<in> set (wv_leaving (?v))
        \<or> Some k \<in> (stage_room \<circ> fst) ` set (wv_joins (?v)))
      \<and> (sends (wv_rooms (?v) ! k) \<longrightarrow> wr_connected (wv_rooms (?v) ! k))"
      using j others [of k] own by (cases "k = i"; cases plays) (simp_all add: microphone_off_def Let_def sends_def)
  qed
  ultimately show ?thesis by (simp add: voice_ok_def)
qed

lemma audio_asked_ok:
  assumes "voice_ok v" and "(Starting_audio i, a) \<in> set (wv_joins v)"
  shows "voice_ok (audio_asked i a plays v)"
  using only_join [OF assms] assms(1)
  by (auto simp: voice_ok_defs audio_asked_def stage_ok_def)

lemma entered_ok:
  assumes "voice_ok v" and "(Entering i, a) \<in> set (wv_joins v)"
  shows "voice_ok (entered i a v)"
proof -
  obtain s where w: "wv_joins v = [(Entering i, a)]" "wv_room v = None" "wv_leaving v = []" "wv_calls v = []"
    "wv_activeSession v = Some s" and "stage_ok (wv_rooms v) (Entering i) (vs_roomId s)"
    using only_join [OF assms] by (elim exE conjE) (rule that)
  then have st: "i < length (wv_rooms v)" "wr_roomId (wv_rooms v ! i) = vs_roomId s" "\<not> sends (wv_rooms v ! i)"
    by (simp_all add: stage_ok_def)
  note j = w st
  have others: "\<not> wr_connected (wv_rooms v ! k) \<and> \<not> sends (wv_rooms v ! k)" if "k < length (wv_rooms v)" "k \<noteq> i" for k
    using that w web_rooms_okD [of v k] assms(1) by (auto simp: voice_ok_def)
  have own: "sends (wv_rooms v ! i) \<longrightarrow> wr_connected (wv_rooms v ! i)" using j(8) by simp
  let ?v = "entered i a v"
  have "joining_ok (?v)" using j by (simp add: entered_def joining_ok_def stage_ok_def sends_def)
  moreover have "held_ok (?v)" using j by (simp add: entered_def held_ok_def shown_def sends_def)
  moreover have "web_rooms_ok (?v)" unfolding web_rooms_ok_def
  proof (intro allI impI)
    fix k assume "k < length (wv_rooms (?v))"
    then show "(wr_connected (wv_rooms (?v) ! k) \<longrightarrow> wv_room (?v) = Some k \<or> k \<in> set (wv_leaving (?v))
        \<or> Some k \<in> (stage_room \<circ> fst) ` set (wv_joins (?v)))
      \<and> (sends (wv_rooms (?v) ! k) \<longrightarrow> wr_connected (wv_rooms (?v) ! k))"
      using j others [of k] own by (cases "k = i") (simp_all add: entered_def sends_def)
  qed
  ultimately show ?thesis by (simp add: voice_ok_def)
qed

lemma join_failed_ok:
  assumes "voice_ok v" and "(p, a) \<in> set (wv_joins v)" and "p = Asking_media r \<or> p = Connecting i"
  shows "voice_ok (join_failed p a m v)"
  using only_join [OF assms(1,2)] assms(1,3)
  by (auto simp: voice_ok_defs join_failed_def clearStoredSession_def Let_def stage_ok_def)

lemma room_gone_ok:
  assumes "voice_ok v" and "i < length (wv_rooms v)" and "wv_room v = None \<or> wv_room v = Some i"
  shows "voice_ok (room_gone i v)"
proof -
  have "voice_ok (on_web_room i (\<lambda>r. r\<lparr>wr_connected := False, wr_microphone := False, wr_camera := False, wr_screen := False\<rparr>) v)"
    by (rule quieter_room_ok [OF assms(1,2)]) (simp add: quieter_def)
  then show ?thesis
    using assms(2,3) unfolding voice_ok_def
    by (auto simp: room_gone_def joining_ok_def held_ok_def web_rooms_ok_def nth_list_update split: if_splits)
qed

lemma leave_voice_ok:
  assumes "voice_ok v" and "wv_joins v = []"
  shows "voice_ok (leave_voice v)"
proof (cases "wv_room v")
  case None
  then show ?thesis
    using assms by (simp add: voice_ok_def joining_ok_def held_ok_def web_rooms_ok_def leave_voice_def leave_done_def clearStoredSession_def)
next
  case (Some i)
  have "web_rooms_ok (leave_voice v)"
    unfolding web_rooms_ok_def
  proof (intro allI impI)
    fix k assume "k < length (wv_rooms (leave_voice v))"
    then show "(wr_connected (wv_rooms (leave_voice v) ! k) \<longrightarrow>
        wv_room (leave_voice v) = Some k \<or> k \<in> set (wv_leaving (leave_voice v))
        \<or> Some k \<in> (stage_room \<circ> fst) ` set (wv_joins (leave_voice v)))
      \<and> (sends (wv_rooms (leave_voice v) ! k) \<longrightarrow> wr_connected (wv_rooms (leave_voice v) ! k))"
      using Some assms web_rooms_okD [of v k] by (auto simp: voice_ok_def leave_voice_def)
  qed
  then show ?thesis using Some assms(2) by (simp add: voice_ok_def joining_ok_def held_ok_def leave_voice_def)
qed

lemma leave_done_fields [simp]:
  "wv_room (leave_done v) = wv_room v" "wv_joins (leave_done v) = wv_joins v" "wv_leaving (leave_done v) = wv_leaving v"
  "wv_rooms (leave_done v) = wv_rooms v" "wv_calls (leave_done v) = wv_calls v"
  by (simp_all add: leave_done_def clearStoredSession_def)

lemma room_gone_fields [simp]:
  "wv_room (room_gone i v) = None" "wv_joins (room_gone i v) = wv_joins v" "wv_leaving (room_gone i v) = wv_leaving v"
  "wv_calls (room_gone i v) = wv_calls v"
  by (simp_all add: room_gone_def)

lemma room_left_ok:
  assumes "voice_ok v" and "i \<in> set (wv_leaving v)"
  shows "voice_ok (room_left i v)"
proof -
  have ne: "wv_leaving v \<noteq> []" using assms(2) by auto
  have j: "wv_joins v = []" "wv_room v = None"
    using assms(1) ne held_okD [of v] by (auto simp: voice_ok_def joining_ok_def simp del: not_None_eq)
      (cases "wv_room v"; simp)
  let ?g = "\<lambda>r. r\<lparr>wr_connected := False, wr_microphone := False, wr_camera := False, wr_screen := False\<rparr>"
  have rooms: "wv_rooms (room_left i v) = (wv_rooms v)[i := ?g (wv_rooms v ! i)]"
    by (simp add: room_left_def room_gone_def)
  have "web_rooms_ok (room_left i v)"
    unfolding web_rooms_ok_def rooms
  proof (intro allI impI)
    fix k assume "k < length ((wv_rooms v)[i := ?g (wv_rooms v ! i)])"
    then show "(wr_connected ((wv_rooms v)[i := ?g (wv_rooms v ! i)] ! k) \<longrightarrow>
        wv_room (room_left i v) = Some k \<or> k \<in> set (wv_leaving (room_left i v))
        \<or> Some k \<in> (stage_room \<circ> fst) ` set (wv_joins (room_left i v)))
      \<and> (sends ((wv_rooms v)[i := ?g (wv_rooms v ! i)] ! k) \<longrightarrow> wr_connected ((wv_rooms v)[i := ?g (wv_rooms v ! i)] ! k))"
      using assms(1) web_rooms_okD [of v k] j
      by (cases "k = i") (auto simp: voice_ok_def room_left_def sends_def in_set_remove1)
  qed
  then show ?thesis using j by (simp add: voice_ok_def joining_ok_def held_ok_def room_left_def)
qed

text \<open>Asking for a device, and what the answer changes.\<close>

lemma ask_ok:
  assumes "voice_ok v" and "wv_room v = Some i"
  shows "voice_ok (v\<lparr>wv_calls := wv_calls v @ [(i, c)]\<rparr>)"
  unfolding voice_ok_def
proof (intro conjI)
  note h = held_okD [OF _ assms(2)]
  show "joining_ok (v\<lparr>wv_calls := wv_calls v @ [(i, c)]\<rparr>)"
    using assms(1) h by (simp add: voice_ok_def joining_ok_def)
  show "held_ok (v\<lparr>wv_calls := wv_calls v @ [(i, c)]\<rparr>)"
    using assms h by (subst held_ok_def) (simp add: voice_ok_def shown_def)
  show "web_rooms_ok (v\<lparr>wv_calls := wv_calls v @ [(i, c)]\<rparr>)"
    using assms(1) by (simp add: voice_ok_def web_rooms_ok_def)
qed

lemma setMuted_ok: "voice_ok v \<Longrightarrow> voice_ok (setMuted next v)"
  by (cases "wv_room v")
    (simp_all add: setMuted_def ask_ok, simp add: voice_ok_def joining_ok_def held_ok_def web_rooms_ok_def)

lemma ask_device_ok: "voice_ok v \<Longrightarrow> voice_ok (ask_device c v)"
  by (cases "wv_room v") (simp_all add: ask_device_def ask_ok)

lemma fewer_calls_ok:
  assumes "voice_ok v"
  shows "voice_ok (v\<lparr>wv_calls := remove1 x (wv_calls v)\<rparr>)"
proof -
  have fewer: "fst ` set (remove1 x (wv_calls v)) \<subseteq> fst ` set (wv_calls v)" by (intro image_mono set_remove1_subset)
  have "joining_ok (v\<lparr>wv_calls := remove1 x (wv_calls v)\<rparr>)"
    using assms unfolding voice_ok_def joining_ok_def by (elim conjE disjE exE) simp_all
  moreover have "held_ok (v\<lparr>wv_calls := remove1 x (wv_calls v)\<rparr>)"
    unfolding held_ok_def
  proof (intro allI impI)
    fix i assume "wv_room (v\<lparr>wv_calls := remove1 x (wv_calls v)\<rparr>) = Some i"
    then have h: "i < length (wv_rooms v) \<and> wv_joins v = [] \<and> wv_leaving v = []
       \<and> map_option vs_roomId (wv_activeSession v) = Some (wr_roomId (wv_rooms v ! i))
       \<and> shown v (wv_rooms v ! i) \<and> fst ` set (wv_calls v) \<subseteq> {i}"
      using assms by (intro held_okD) (simp_all add: voice_ok_def)
    with fewer have "fst ` set (remove1 x (wv_calls v)) \<subseteq> {i}" by (elim conjE) (rule subset_trans)
    with h show "i < length (wv_rooms (v\<lparr>wv_calls := remove1 x (wv_calls v)\<rparr>))
       \<and> wv_joins (v\<lparr>wv_calls := remove1 x (wv_calls v)\<rparr>) = [] \<and> wv_leaving (v\<lparr>wv_calls := remove1 x (wv_calls v)\<rparr>) = []
       \<and> map_option vs_roomId (wv_activeSession (v\<lparr>wv_calls := remove1 x (wv_calls v)\<rparr>))
          = Some (wr_roomId (wv_rooms (v\<lparr>wv_calls := remove1 x (wv_calls v)\<rparr>) ! i))
       \<and> shown (v\<lparr>wv_calls := remove1 x (wv_calls v)\<rparr>) (wv_rooms (v\<lparr>wv_calls := remove1 x (wv_calls v)\<rparr>) ! i)
       \<and> fst ` set (wv_calls (v\<lparr>wv_calls := remove1 x (wv_calls v)\<rparr>)) \<subseteq> {i}"
      by (simp add: shown_def)
  qed
  moreover have "web_rooms_ok (v\<lparr>wv_calls := remove1 x (wv_calls v)\<rparr>)"
    using assms by (simp add: voice_ok_def web_rooms_ok_def)
  ultimately show ?thesis by (simp add: voice_ok_def)
qed

text \<open>
  An answer may open a device in the room it was asked for, and then it is shown; or close
  one.
\<close>

lemma device_answered_ok:
  assumes "voice_ok v" and "wv_joins v = []" and "\<And>j. wv_room v = Some j \<Longrightarrow> j = i"
  shows "voice_ok (device_answered i c s v)"
proof -
  let ?v = "device_answered i c s v"
  have f: "wv_room ?v = wv_room v" "wv_joins ?v = []" "wv_leaving ?v = wv_leaving v" "wv_calls ?v = wv_calls v"
    "wv_activeSession ?v = wv_activeSession v" "length (wv_rooms ?v) = length (wv_rooms v)"
    using assms(2) by (cases c; simp)+
  have other: "wv_rooms ?v ! k = wv_rooms v ! k" if "k \<noteq> i" for k using that by (cases c) simp_all
  have same: "wr_roomId (wv_rooms ?v ! k) = wr_roomId (wv_rooms v ! k)"
    "wr_connected (wv_rooms ?v ! k) = wr_connected (wv_rooms v ! k)" if "k < length (wv_rooms v)" for k
    using that by (cases c; cases "k = i"; simp)+
  have live: "sends (wv_rooms ?v ! i) \<longrightarrow> wr_connected (wv_rooms v ! i)"
    if "i < length (wv_rooms v)" "sends (wv_rooms v ! i) \<longrightarrow> wr_connected (wv_rooms v ! i)"
    using that by (cases c) (auto simp: sends_def)
  have seen: "shown ?v (wv_rooms ?v ! i)" if "i < length (wv_rooms v)" "shown v (wv_rooms v ! i)"
    using that by (cases c) (auto simp: shown_def)
  have "held_ok ?v"
    unfolding held_ok_def
  proof (intro allI impI)
    fix j assume "wv_room ?v = Some j"
    then have j: "wv_room v = Some i" "j = i" using assms(3) f by auto
    then show "j < length (wv_rooms ?v) \<and> wv_joins ?v = [] \<and> wv_leaving ?v = []
       \<and> map_option vs_roomId (wv_activeSession ?v) = Some (wr_roomId (wv_rooms ?v ! j))
       \<and> shown ?v (wv_rooms ?v ! j) \<and> fst ` set (wv_calls ?v) \<subseteq> {j}"
      using held_okD [OF _ j(1)] assms(1) f same seen unfolding voice_ok_def j(2) by metis
  qed
  moreover have "web_rooms_ok ?v"
    unfolding web_rooms_ok_def
  proof (intro allI impI)
    fix k assume "k < length (wv_rooms ?v)"
    then have k: "k < length (wv_rooms v)" using f by simp
    have old: "web_rooms_ok v" using assms(1) by (simp add: voice_ok_def)
    have "sends (wv_rooms ?v ! k) \<longrightarrow> wr_connected (wv_rooms v ! k)"
      using web_rooms_okD [OF old k] live other [of k] k by (cases "k = i") auto
    then show "(wr_connected (wv_rooms ?v ! k) \<longrightarrow>
        wv_room ?v = Some k \<or> k \<in> set (wv_leaving ?v) \<or> Some k \<in> (stage_room \<circ> fst) ` set (wv_joins ?v))
      \<and> (sends (wv_rooms ?v ! k) \<longrightarrow> wr_connected (wv_rooms ?v ! k))"
      using web_rooms_okD [OF old k] same [OF k] f assms(2) by simp
  qed
  ultimately show ?thesis using f(2) by (simp add: voice_ok_def joining_ok_def)
qed

lemma device_refused_ok: "voice_ok v \<Longrightarrow> voice_ok (device_refused c err v)"
  by (erule voice_ok_same) (cases c; simp)+

lemma device_ended_ok:
  assumes "voice_ok v" and "i < length (wv_rooms v)"
  shows "voice_ok (device_ended i d v)"
proof -
  have "sends (wv_rooms v ! i) \<longrightarrow> wr_connected (wv_rooms v ! i)"
    using web_rooms_okD [of v i] assms by (simp add: voice_ok_def)
  then show ?thesis
    by (cases d; simp only: device_ended.simps; intro quieter_room_ok [OF assms]) (auto simp: quieter_def sends_def)
qed

text \<open>A room that reports is held, being left or being joined.\<close>

lemma room_event_ok:
  assumes "voice_ok v" and i: "i < length (wv_rooms v)" and con: "wr_connected (wv_rooms v ! i)"
  shows "voice_ok (room_event i ev v)"
proof (cases ev)
  case (Participants_changed ps)
  have "voice_ok (on_web_room i (\<lambda>r. r\<lparr>wr_remote := ps\<rparr>) v)"
    by (rule quieter_room_ok [OF assms(1) i]) (simp add: quieter_def con)
  then show ?thesis unfolding Participants_changed room_event.simps by (rule voice_ok_same) simp_all
next
  case (Speakers_changed me ps)
  have "voice_ok (on_web_room i (\<lambda>r. r\<lparr>wr_remote := ps\<rparr>) v)"
    by (rule quieter_room_ok [OF assms(1) i]) (simp add: quieter_def con)
  then show ?thesis unfolding Speakers_changed room_event.simps by (rule voice_ok_same) simp_all
next
  case Went_away
  have "wv_room v = None \<or> wv_room v = Some i"
  proof (cases "wv_room v")
    case (Some k)
    then show ?thesis
      using held_okD [of v k] web_rooms_okD [of v i] assms unfolding voice_ok_def by auto
  qed simp
  then show ?thesis unfolding Went_away room_event.simps by (rule room_gone_ok [OF assms(1) i])
qed (simp_all, (rule voice_ok_same [OF assms(1)], simp_all)+)

lemma toggle_ok:
  assumes "voice_ok v"
  shows "voice_ok (toggleMute v)" "voice_ok (toggleCamera v)" "voice_ok (toggleScreenShare v)"
  using assms
  by (simp_all add: toggleMute_def setMuted_ok toggleCamera_def stopCamera_def startCamera_def toggleScreenShare_def
      stopScreenShare_def startScreenShare_def ask_device_ok)

text \<open>Only the room held, or one that is past, answers.\<close>

lemma answer_ok:
  assumes "voice_ok v" and c: "(i, c) \<in> set (wv_calls v)"
  shows "voice_ok (device_answered i c s (v\<lparr>wv_calls := remove1 (i, c) (wv_calls v)\<rparr>))"
proof (rule device_answered_ok [OF fewer_calls_ok [OF assms(1)]])
  have ne: "wv_calls v \<noteq> []" using c by auto
  show "wv_joins (v\<lparr>wv_calls := remove1 (i, c) (wv_calls v)\<rparr>) = []"
    using assms(1) ne unfolding voice_ok_def joining_ok_def by auto
  fix j assume "wv_room (v\<lparr>wv_calls := remove1 (i, c) (wv_calls v)\<rparr>) = Some j"
  then have "fst ` set (wv_calls v) \<subseteq> {j}" using held_okD [of v j] assms(1) by (simp add: voice_ok_def)
  then show "j = i" using c by force
qed

lemma voice_step_ok:
  assumes "voice_step v l v'" and "voice_ok v" and "in_order v l"
  shows "voice_ok v'"
  using assms(1)
proof cases
  case (v_rejoin signedIn stores)
  have r: "voice_ok (v\<lparr>wv_rejoined := True\<rparr>)" by (rule voice_ok_same [OF assms(2)]) simp_all
  show ?thesis
    using assms(2,3) r join_begun_ok [OF r] v_rejoin by (simp add: auto_rejoin_def Let_def split: option.split)
next
  case (v_failed p a m)
  then show ?thesis using assms(2,3) join_failed_ok by auto
next
  case (v_enable plays)
  have "voice_ok (v\<lparr>wv_audioBlocked := b\<rparr>)" for b by (rule voice_ok_same [OF assms(2)]) simp_all
  then show ?thesis using v_enable assms(2) by (simp add: enableAudio_def)
next
  case (v_hand h)
  show ?thesis unfolding v_hand raiseHand_def by (rule voice_ok_same [OF assms(2)]) simp_all
next
  case (v_role r)
  show ?thesis unfolding v_role setStageRole_def by (rule voice_ok_same [OF assms(2)]) simp_all
next
  case v_unmount
  then show ?thesis
    using assms(2) held_okD [of v] room_gone_ok [OF assms(2)]
    by (cases "wv_room v") (simp_all add: voice_unmounted_def voice_ok_def)
next
  case (v_refused i c err)
  then show ?thesis using device_refused_ok [OF fewer_calls_ok [OF assms(2)]] by simp
qed (use assms(2,3) in \<open>simp_all add: join_begun_ok media_joined_ok room_connected_ok microphone_off_ok audio_asked_ok
    entered_ok leave_voice_ok room_left_ok room_event_ok toggle_ok answer_ok device_ended_ok\<close>)

lemma orderly_ok: "orderly stored v \<Longrightarrow> voice_ok v"
  by (induction rule: orderly.induct) (simp_all add: voice_ok_new voice_step_ok)

section \<open>Nothing is sent unseen\<close>

text \<open>
  C40. Nothing of the person's is sent unseen. As long as one thing is done at a time, a
  microphone, a camera or a screen that is open is open in the room on show, and shown as on
  there, or in a room that is being left; and when nothing is being joined or left, no room is
  connected but the one on show.
\<close>

theorem nothing_sent_unseen:
  assumes "orderly stored v"
  shows "(\<forall>k < length (wv_rooms v). sends (wv_rooms v ! k) \<longrightarrow>
      k \<in> set (wv_leaving v)
      \<or> (wv_room v = Some k \<and> map_option vs_roomId (wv_activeSession v) = Some (wr_roomId (wv_rooms v ! k))
         \<and> shown v (wv_rooms v ! k)))
    \<and> (wv_joins v = [] \<and> wv_leaving v = [] \<longrightarrow>
       (\<forall>k < length (wv_rooms v). wr_connected (wv_rooms v ! k) \<longrightarrow> wv_room v = Some k))"
proof -
  have ok: "joining_ok v" "held_ok v" "web_rooms_ok v" using orderly_ok [OF assms] by (simp_all add: voice_ok_def)
  have quiet: "\<not> sends (wv_rooms v ! k)" if "Some k \<in> (stage_room \<circ> fst) ` set (wv_joins v)" for k
    using that ok(1) unfolding joining_ok_def stage_ok_def by (auto split: option.splits)
  show ?thesis
  proof (intro conjI allI impI)
    fix k assume k: "k < length (wv_rooms v)" "sends (wv_rooms v ! k)"
    then show "k \<in> set (wv_leaving v)
      \<or> (wv_room v = Some k \<and> map_option vs_roomId (wv_activeSession v) = Some (wr_roomId (wv_rooms v ! k))
         \<and> shown v (wv_rooms v ! k))"
      using web_rooms_okD [OF ok(3) k(1)] quiet [of k] held_okD [OF ok(2), of k] by blast
  next
    fix k assume "wv_joins v = [] \<and> wv_leaving v = []" "k < length (wv_rooms v)" "wr_connected (wv_rooms v ! k)"
    then show "wv_room v = Some k" using web_rooms_okD [OF ok(3), of k] by simp
  qed
qed

text \<open>Into a room, and the microphone on.\<close>

definition demo_inside :: web_voice where
  "demo_inside = entered 0 False (microphone_off 0 False True (room_connected 0 False []
     (media_joined ''r'' False (join_begun False True ''r'' None None (new_web_voice None)))))"

definition demo_speaking :: web_voice where
  "demo_speaking =
     (let v = toggleMute demo_inside
      in device_answered 0 (Set_muted False) None (v\<lparr>wv_calls := remove1 (0, Set_muted False) (wv_calls v)\<rparr>))"

lemma demo_inside_orderly: "orderly None demo_inside"
proof -
  let ?a = "join_begun False True ''r'' None None (new_web_voice None)"
  have a: "orderly None ?a" by (rule orderly_step [OF orderly_init v_join]) (simp add: new_web_voice_def)
  have b: "orderly None (media_joined ''r'' False ?a)"
    by (rule orderly_step [OF a v_media]) (simp_all add: join_begun_def new_web_voice_def Let_def)
  let ?c = "room_connected 0 False [] (media_joined ''r'' False ?a)"
  have c: "orderly None ?c"
    by (rule orderly_step [OF b v_connected]) (simp_all add: media_joined_def join_begun_def new_web_voice_def Let_def)
  have d: "orderly None (microphone_off 0 False True ?c)"
    by (rule orderly_step [OF c v_silenced]) (simp_all add: room_connected_def)
  show ?thesis
    unfolding demo_inside_def
    by (rule orderly_step [OF d v_entered]) (simp_all add: microphone_off_def Let_def)
qed

lemma demo_speaking_orderly: "orderly None demo_speaking"
proof -
  have m: "orderly None (toggleMute demo_inside)" by (rule orderly_step [OF demo_inside_orderly v_mute]) simp
  have "(0, Set_muted False) \<in> set (wv_calls (toggleMute demo_inside))" by code_simp
  from orderly_step [OF m v_answered [OF this]] show ?thesis by (simp add: demo_speaking_def Let_def)
qed

theorem nothing_sent_unseen_witness: "shown demo_speaking (wv_rooms demo_speaking ! 0) \<and> sends (wv_rooms demo_speaking ! 0)"
proof -
  have "0 < length (wv_rooms demo_speaking)" "sends (wv_rooms demo_speaking ! 0)" "wv_leaving demo_speaking = []"
    by code_simp+
  with nothing_sent_unseen [OF demo_speaking_orderly] show ?thesis by auto
qed

lemma then_step: "(\<lambda>a b. \<exists>l. voice_step a l b)\<^sup>*\<^sup>* u v \<Longrightarrow> voice_step v l w \<Longrightarrow> (\<lambda>a b. \<exists>l. voice_step a l b)\<^sup>*\<^sup>* u w"
  by (erule rtranclp.rtrancl_into_rtrancl) blast

text \<open>
  Joining a room from another does not leave the first, which the page says it does: the
  microphone that was open there stays open, the page shows the new room and a microphone
  that is off, and leaving the new room changes nothing of it.
\<close>

lemma moving_leaves_microphone_open:
  assumes "wv_joins v = []" and i: "i < length (wv_rooms v)" and "wr_connected (wv_rooms v ! i)" "wr_microphone (wv_rooms v ! i)"
    and j_def: "j = length (wv_rooms v)"
    and v'_def: "v' = entered j False (microphone_off j False True (room_connected j False ps
                   (media_joined r False (join_begun False stores r n c v))))"
  shows "(\<lambda>a b. \<exists>l. voice_step a l b)\<^sup>*\<^sup>* v v'"
    and "wv_room v' = Some j \<and> wv_muted v' \<and> wv_status v' = Call_connected"
    and "wr_connected (wv_rooms v' ! i) \<and> wr_microphone (wv_rooms v' ! i)"
    and "wr_microphone (wv_rooms (room_left j (leave_voice v')) ! i)"
proof -
  let ?a = "join_begun False stores r n c v"
  let ?b = "media_joined r False ?a"
  let ?c = "room_connected j False ps ?b"
  let ?d = "microphone_off j False True ?c"
  have s1: "voice_step v (Join r n c stores) ?a" by (rule v_join)
  have s2: "voice_step ?a (Media_joined r False) ?b" by (rule v_media) (simp add: join_begun_def Let_def)
  have s3: "voice_step ?b (Room_connected j False ps) ?c"
    by (rule v_connected) (simp add: media_joined_def join_begun_def Let_def j_def)
  have s4: "voice_step ?c (Microphone_off j False True) ?d" by (rule v_silenced) (simp add: room_connected_def)
  have s5: "voice_step ?d (Entered j False) v'"
    unfolding v'_def by (rule v_entered) (simp add: microphone_off_def Let_def)
  show "(\<lambda>a b. \<exists>l. voice_step a l b)\<^sup>*\<^sup>* v v'"
    by (rule then_step [OF then_step [OF then_step [OF then_step [OF then_step [OF rtranclp.rtrancl_refl s1] s2] s3] s4] s5])
  show "wv_room v' = Some j \<and> wv_muted v' \<and> wv_status v' = Call_connected" by (simp add: v'_def entered_def)
  have rooms: "wv_rooms v' ! i = wv_rooms v ! i"
    using i by (simp add: v'_def entered_def microphone_off_def room_connected_def media_joined_def join_begun_def
        Let_def j_def nth_append)
  with assms(3,4) show "wr_connected (wv_rooms v' ! i) \<and> wr_microphone (wv_rooms v' ! i)" by simp
  have "wv_rooms (room_left j (leave_voice v')) ! i = wv_rooms v' ! i"
    using i by (simp add: room_left_def room_gone_def leave_voice_def j_def split: option.split)
  with rooms assms(4) show "wr_microphone (wv_rooms (room_left j (leave_voice v')) ! i)" by simp
qed

text \<open>
  Leaving while a join is under way forgets the room, and the join goes on: the page ends up
  connected to a room it does not show.
\<close>

lemma left_while_joining:
  "let v = entered 0 False (leave_voice (microphone_off 0 False True (room_connected 0 False []
             (media_joined ''r'' False (join_begun False True ''r'' None None (new_web_voice None))))))
   in wv_activeSession v = None \<and> wv_status v = Call_connected \<and> wv_room v = Some 0 \<and> wr_connected (wv_rooms v ! 0)"
  by code_simp

end
