(* ===== verification/Spec2Isabelle.thy ===== *)
theory Spec2Isabelle
  imports Prelude Ordering Mentions CustomEmoji ChatRules ApiTypes Permissions ServerSession
    ChatSocket ChatSocketInv ChatSocketProps QueryClient Transcript Notifications AuthSession ApiClient
    Endpoints Router Calls Queries SharedHooks Freshness JsonText WebHooks ConsoleHooks WebFreshness ConsoleFreshness WebChatSocket
    CallMedia CallMembers CallVM CallRing Realtime MessageHistory Polls PartyGames WebVoice
begin

text \<open>
  A verification library for the clients of genzh and the rules they share with its server.

  The program. \<open>packages/shared\<close> holds what the web app (\<open>apps/web\<close>) and the phone app
  (\<open>apps/mobile\<close>) have in common: the types of the API, the HTTP client and its endpoint
  functions, the query layer over the cache, the text rules of the chat, and the client of the
  real-time connection. The apps add their own caches, sessions and screens. The server
  (\<open>apps/api\<close>, \<open>crates\<close>) is modelled only where a client rule mirrors it or speaks to it.

  The parts, and the theories that model them:

    \<^item> Text. \<open>Mentions\<close> (\<open>chat/mentions.ts\<close> and the server's parser, \<open>crates/domain/src/mention.rs\<close>),
      \<open>CustomEmoji\<close> (\<open>chat/customEmoji.ts\<close>, \<open>crates/domain/src/emoji.rs\<close>), \<open>ChatRules\<close>
      (\<open>chat/limits.ts\<close>, \<open>chat/gif.ts\<close>, \<open>crates/domain/src/spam.rs\<close>). A string is a list of UTF-16
      code units. Shown: composer and server find the same mentions, shortcodes and problems in
      every text; completing a mention is recognised; splitting a message loses nothing.
    \<^item> Authority. \<open>ApiTypes\<close> (the records of \<open>api/types.ts\<close> the other theories use, \<open>can\<close>),
      \<open>Permissions\<close> (masks as 64-bit words, \<open>crates/domain/src/permission.rs\<close>). Shown: the client
      decides as the server does, and overrides combine as documented.
    \<^item> The connection. \<open>ChatSocket\<close> is the class of \<open>ws/ChatSocket.ts\<close> as a record of its fields,
      one definition per method, and a step relation that interleaves calls with the events of
      its sockets and timers; \<open>ServerSession\<close> is the server's side of one connection
      (\<open>routes/ws/session.rs\<close>, \<open>commands.rs\<close>). \<open>ChatSocketInv\<close> has the invariant and
      \<open>ChatSocketProps\<close> what it gives: at most one live socket, the queue sent in order when a
      socket opens, reconnection until told otherwise, silence after \<open>disconnect\<close>, and a server
      that agrees with the client about subscriptions and about what is being read.
    \<^item> Calls. \<open>ApiClient\<close> (\<open>api/client.ts\<close>: interceptors, errors), \<open>Endpoints\<close>
      (\<open>api/endpoints.ts\<close>: every function as the request it makes), \<open>Router\<close> (the table of
      \<open>apps/api/src/router.rs\<close>), \<open>Calls\<close> (their composition). Shown: every call finds its route,
      two excepted.
    \<^item> The query layer. \<open>QueryClient\<close> is the interface to the cache (a package, so a locale),
      \<open>Queries\<close> the keys and the shape of a query and a mutation, \<open>SharedHooks\<close> every hook of
      \<open>packages/shared/src/queries\<close>, \<open>Freshness\<close> what holds across them: a key names one answer, an
      enabled query asks only what the server serves, and a mutation marks every query that
      shows what it changed, with the exceptions written out.
    \<^item> The hooks of the apps. \<open>WebHooks\<close> (the web's feature hooks, \<open>apps/web/src/features\<close>) and
      \<open>ConsoleHooks\<close> (the rewards and the platform console) are every query and mutation as a
      record of its key, its request and what it invalidates; \<open>JsonText\<close> is \<open>JSON.stringify\<close>, which
      their keys are made with. \<open>WebFreshness\<close> shows for the web what \<open>Freshness\<close> shows for the shared
      hooks; \<open>ConsoleFreshness\<close> follows the \<open>console_changed\<close> signals of the server to the lists the
      console refetches.
    \<^item> Caches. \<open>Transcript\<close> (the web's message cache, \<open>features/chat/api/cache.ts\<close>) and
      \<open>Notifications\<close> (\<open>useNotificationsApi.ts\<close>, \<open>useNotifications.tsx\<close>): what each event does to
      what the person sees. \<open>MessageHistory\<close> is the phone's paging through a room
      (\<open>useMessageHistory.ts\<close>): an unbroken end of the history, whatever fails.
    \<^item> The web's live connection. \<open>WebChatSocket\<close> (\<open>apps/web/src/lib/ws/ChatSocket.ts\<close>, on the state
      of \<open>ChatSocket\<close>): when the server follows the client, and how the queue outlives a token.
      \<open>Realtime\<close> (\<open>features/realtime\<close>) writes the frames into the cache, each entry keeping its type,
      and tells the socket what is on screen.
    \<^item> Voice and calls. \<open>CallMedia\<close> (\<open>LiveKitVoiceClient.ts\<close>, cut at every \<open>await\<close>), \<open>CallMembers\<close>
      (the roster and the media room merged, \<open>useCallVM.ts\<close>, \<open>useCallRoster.ts\<close>), \<open>CallVM\<close> (joining and
      leaving as a step relation over both: the media follow the call), \<open>CallRing\<close>
      (\<open>lib/useCall.tsx\<close>: ringing, answering, hanging up; a ring always ends). \<open>WebVoice\<close> is the
      web's voice room (\<open>lib/media/useVoiceRoom.tsx\<close>): when nothing is sent unseen, and how joining
      from another room leaves its microphone open.
    \<^item> The room experiences, web and phone. \<open>Polls\<close> (polls, debates, confession walls: one vote a
      person) and \<open>PartyGames\<close> (trivia within its bounds, dilemmas, the word chain, the host's
      decks), each the state of its screen and one definition per press.
    \<^item> The session. \<open>AuthSession\<close> (\<open>lib/auth\<close> of the web): token storage, the single refresh in
      flight, signing in and out, as a step relation.

  \<open>Prelude\<close> holds JavaScript strings, sets, maps and searches, \<open>Ordering\<close> the stable sort and the
  interface of a comparison (locale \<open>comparator\<close>, interpreted wherever the code sorts).

  State and errors. An object with fields is a record, passed and returned; a throw, a
  rejection or an early return is a value. Asynchrony is a step relation whose labels are the
  calls and events; properties of all runs are invariants by rule induction over it.

  Bounds and fuel. Loops are structural recursion or \<open>fun\<close> with a termination proof. The one loop
  that may run forever, the flush of the socket's queue, is a partial function into \<open>option\<close>; it
  is shown to return on an open socket. Message and name limits are the constants of the
  source; permission masks have the server's 64 bits.

  Hypotheses on code that is not in the repository: URL parsing, \<open>localeCompare\<close>, Unicode's upper
  case, the media and the cache packages are parameters, with what the code relies on as assumptions of the locales
  \<open>comparator\<close> and \<open>query_client\<close> or of the theorems that use them; each is interpreted or
  instantiated on a concrete one.

  Not modelled: rendering (screens, components, animations, styles, translations), navigation,
  device and media libraries, the console's screens, the texts the room experiences post (their
  percentages are rounded floats), the whiteboard and its sounds, and the server's services,
  repositories and handlers beyond the rules above. They hold no rule that is not either in the
  modelled parts or in SQL.
\<close>

end
